(* ===== verification/Prelude.thy ===== *)
theory Prelude
  imports Complex_Main "HOL-Library.Sublist" "HOL-Library.AList"
begin

section \<open>Prelude: Python values, results and effects\<close>

text \<open>
  Shared vocabulary of the development.
  \<^item> Python strings are \<^typ>\<open>string\<close>, lists of Latin-1 code points; the string methods the
    sources call (\<open>strip\<close>, \<open>split\<close>, \<open>rfind\<close>, \<open>replace\<close>, \<open>join\<close>, slices, \<open>str(int)\<close>)
    are defined here with the semantics of the Python language reference, negative
    indices included.
  \<^item> A computation that may raise is a sum \<open>'e + 'a\<close> (\<open>Inl\<close> the exception); a computation
    that also changes state is a function \<open>'s \<Rightarrow> ('e + 'a) \<times> 's\<close>, so that effects done
    before an exception is raised stay visible.
  \<^item> The binding of call arguments to a function's parameters, which raises
    \<open>TypeError\<close> in Python, is \<open>py_bind_call\<close>.
\<close>

named_theorems res_simps \<open>unfolding of the result and effect combinators\<close>
named_theorems py_str \<open>facts on the Python string functions\<close>

subsection \<open>Results\<close>

fun bindE :: "'e + 'a \<Rightarrow> ('a \<Rightarrow> 'e + 'b) \<Rightarrow> 'e + 'b" where
  "bindE (Inl e) f = Inl e"
| "bindE (Inr x) f = f x"

fun mapE :: "('a \<Rightarrow> 'e + 'b) \<Rightarrow> 'a list \<Rightarrow> 'e + 'b list" where
  "mapE f [] = Inr []"
| "mapE f (x # xs) = bindE (f x) (\<lambda>y. bindE (mapE f xs) (\<lambda>ys. Inr (y # ys)))"

fun is_ok :: "'e + 'a \<Rightarrow> bool" where
  "is_ok (Inl _) = False"
| "is_ok (Inr _) = True"

subsection \<open>Effects: state with exceptions\<close>

type_synonym ('s, 'e, 'a) eff = "'s \<Rightarrow> ('e + 'a) \<times> 's"

definition returnM :: "'a \<Rightarrow> ('s, 'e, 'a) eff" where
  "returnM x = (\<lambda>s. (Inr x, s))"

definition raiseM :: "'e \<Rightarrow> ('s, 'e, 'a) eff" where
  "raiseM e = (\<lambda>s. (Inl e, s))"

definition bindM :: "('s, 'e, 'a) eff \<Rightarrow> ('a \<Rightarrow> ('s, 'e, 'b) eff) \<Rightarrow> ('s, 'e, 'b) eff" where
  "bindM m f = (\<lambda>s. case m s of (Inl e, s') \<Rightarrow> (Inl e, s') | (Inr x, s') \<Rightarrow> f x s')"

definition catchM :: "('s, 'e, 'a) eff \<Rightarrow> ('e \<Rightarrow> ('s, 'e, 'a) eff) \<Rightarrow> ('s, 'e, 'a) eff" where
  \<comment> \<open>\<open>try: m except Exception as e: h\<close>; the handler starts in the state the raise left\<close>
  "catchM m h = (\<lambda>s. case m s of (Inl e, s') \<Rightarrow> h e s' | (Inr x, s') \<Rightarrow> (Inr x, s'))"

definition liftM :: "'e + 'a \<Rightarrow> ('s, 'e, 'a) eff" where
  "liftM r = (\<lambda>s. (r, s))"

definition getM :: "('s \<Rightarrow> 'a) \<Rightarrow> ('s, 'e, 'a) eff" where
  "getM f = (\<lambda>s. (Inr (f s), s))"

definition modifyM :: "('s \<Rightarrow> 's) \<Rightarrow> ('s, 'e, unit) eff" where
  "modifyM f = (\<lambda>s. (Inr (), f s))"

definition thenM :: "('s, 'e, 'a) eff \<Rightarrow> ('s, 'e, 'b) eff \<Rightarrow> ('s, 'e, 'b) eff" where
  "thenM m n = bindM m (\<lambda>_. n)"

text \<open>An effect on one part of a pair of states.\<close>

definition onL :: "('s, 'e, 'a) eff \<Rightarrow> ('s \<times> 't, 'e, 'a) eff" where
  "onL m = (\<lambda>(s, t). case m s of (r, s') \<Rightarrow> (r, (s', t)))"

definition onR :: "('t, 'e, 'a) eff \<Rightarrow> ('s \<times> 't, 'e, 'a) eff" where
  "onR m = (\<lambda>(s, t). case m t of (r, t') \<Rightarrow> (r, (s, t')))"

lemmas eff_defs = returnM_def raiseM_def bindM_def catchM_def liftM_def getM_def
  modifyM_def thenM_def

subsection \<open>Binding call arguments\<close>

text \<open>
  A Python function with parameters \<open>ps\<close> (name, has a default; \<open>self\<close> left out) called with
  \<open>npos\<close> positional arguments and the keywords \<open>kws\<close>. \<open>None\<close> is a successful binding.
  \<open>BadOperand\<close> is the \<open>TypeError\<close> of an operation on a value of the wrong type.
\<close>

datatype call_error =
    UnexpectedKeyword string string
  | MultipleValues string string
  | TooManyPositional string
  | MissingArguments string "string list"
  | BadOperand string

definition py_bind_call ::
  "string \<Rightarrow> (string \<times> bool) list \<Rightarrow> nat \<Rightarrow> string list \<Rightarrow> call_error option" where
  "py_bind_call fname ps npos kws =
     (let names = map fst ps; filled = take npos names;
          unknown = filter (\<lambda>k. k \<notin> set names) kws;
          twice = filter (\<lambda>k. k \<in> set filled) kws;
          missing = map fst (filter (\<lambda>(p, dflt). \<not> dflt \<and> p \<notin> set kws) (drop npos ps))
      in if unknown \<noteq> [] then Some (UnexpectedKeyword fname (hd unknown))
         else if twice \<noteq> [] then Some (MultipleValues fname (hd twice))
         else if npos > length ps then Some (TooManyPositional fname)
         else if missing \<noteq> [] then Some (MissingArguments fname missing)
         else None)"

subsection \<open>Python strings\<close>

definition newline :: char where
  "newline = CHR 0x0A"

definition py_isspace :: "char \<Rightarrow> bool" where
  "py_isspace c = (let n = (of_char c :: nat)
     in 9 \<le> n \<and> n \<le> 13 \<or> 28 \<le> n \<and> n \<le> 32 \<or> n = 133 \<or> n = 160)"

definition py_strip :: "string \<Rightarrow> string" where
  "py_strip s = rev (dropWhile py_isspace (rev (dropWhile py_isspace s)))"

definition py_strip_chars :: "string \<Rightarrow> string \<Rightarrow> string" where
  "py_strip_chars cs s =
     rev (dropWhile (\<lambda>c. c \<in> set cs) (rev (dropWhile (\<lambda>c. c \<in> set cs) s)))"

function py_split :: "string \<Rightarrow> string list" where
  "py_split s = (case dropWhile py_isspace s of
       [] \<Rightarrow> []
     | c # cs \<Rightarrow> takeWhile (\<lambda>x. \<not> py_isspace x) (c # cs) #
                 py_split (dropWhile (\<lambda>x. \<not> py_isspace x) (c # cs)))"
  by pat_completeness auto
termination
proof (relation "measure length")
  show "wf (measure length)" by simp
next
  fix s :: string and c cs
  assume eq: "dropWhile py_isspace s = c # cs"
  then have "\<not> py_isspace c" by (metis dropWhile_eq_Cons_conv)
  then have "length (dropWhile (\<lambda>x. \<not> py_isspace x) (c # cs)) \<le> length cs"
    by (simp add: length_dropWhile_le)
  also have "length cs < length (dropWhile py_isspace s)" using eq by simp
  also have "\<dots> \<le> length s" by (rule length_dropWhile_le)
  finally show "(dropWhile (\<lambda>x. \<not> py_isspace x) (c # cs), s) \<in> measure length" by simp
qed

declare py_split.simps [simp del]

fun py_join :: "string \<Rightarrow> string list \<Rightarrow> string" where
  "py_join sep [] = []"
| "py_join sep [x] = x"
| "py_join sep (x # y # ys) = x @ sep @ py_join sep (y # ys)"

text \<open>\<open>s.replace(old, new)\<close> for a non-empty \<open>old\<close>: left to right, not overlapping.\<close>

function py_replace :: "string \<Rightarrow> string \<Rightarrow> string \<Rightarrow> string" where
  "py_replace old new [] = []"
| "py_replace old new (c # cs) =
     (if old \<noteq> [] \<and> prefix old (c # cs)
      then new @ py_replace old new (drop (length old) (c # cs))
      else c # py_replace old new cs)"
  by pat_completeness auto
termination
  by (relation "measure (\<lambda>(old, new, s). length s)") auto

fun py_lower_char :: "char \<Rightarrow> char" where
  "py_lower_char c = (let n = (of_char c :: nat)
     in if 65 \<le> n \<and> n \<le> 90 \<or> 192 \<le> n \<and> n \<le> 222 \<and> n \<noteq> 215 then char_of (n + 32) else c)"

definition py_lower :: "string \<Rightarrow> string" where
  "py_lower s = map py_lower_char s"

definition py_contains :: "string \<Rightarrow> string \<Rightarrow> bool" where
  "py_contains needle s = list_ex (prefix needle) (suffixes s)"

text \<open>Index normalisation of slices and of \<open>rfind\<close>'s bounds.\<close>

definition py_index :: "nat \<Rightarrow> int \<Rightarrow> nat" where
  "py_index n i = (if i < 0 then nat (max 0 (i + int n)) else min (nat i) n)"

definition py_slice :: "'a list \<Rightarrow> int \<Rightarrow> int \<Rightarrow> 'a list" where
  "py_slice xs i j =
     (let a = py_index (length xs) i; b = py_index (length xs) j in take (b - a) (drop a xs))"

fun rfind_below :: "'a \<Rightarrow> 'a list \<Rightarrow> nat \<Rightarrow> nat \<Rightarrow> int" where
  "rfind_below c xs lo 0 = -1"
| "rfind_below c xs lo (Suc k) =
     (if k < lo then -1 else if xs ! k = c then int k else rfind_below c xs lo k)"

definition py_rfind :: "'a \<Rightarrow> 'a list \<Rightarrow> int \<Rightarrow> int \<Rightarrow> int" where
  "py_rfind c xs i j = rfind_below c xs (py_index (length xs) i) (py_index (length xs) j)"

fun digit_char :: "nat \<Rightarrow> char" where
  "digit_char d = char_of (48 + d)"

fun nat_str :: "nat \<Rightarrow> string" where
  "nat_str n = (if n < 10 then [digit_char n] else nat_str (n div 10) @ [digit_char (n mod 10)])"

declare nat_str.simps [simp del]

definition py_str_int :: "int \<Rightarrow> string" where
  "py_str_int i = (if i < 0 then CHR ''-'' # nat_str (nat (- i)) else nat_str (nat i))"

text \<open>\<open>x or y\<close> on strings, and truthiness of an optional string.\<close>

definition str_or :: "string \<Rightarrow> string \<Rightarrow> string" where
  "str_or x y = (if x = [] then y else x)"

definition opt_truthy :: "string option \<Rightarrow> bool" where
  "opt_truthy x = (case x of None \<Rightarrow> False | Some s \<Rightarrow> s \<noteq> [])"

subsection \<open>Facts on results and effects\<close>

lemma bindE_Inr_iff [simp]: "bindE r f = Inr y \<longleftrightarrow> (\<exists>x. r = Inr x \<and> f x = Inr y)"
  by (cases r) auto

lemma bindE_Inl_iff: "bindE r f = Inl e \<longleftrightarrow> r = Inl e \<or> (\<exists>x. r = Inr x \<and> f x = Inl e)"
  by (cases r) auto

lemma is_ok_iff: "is_ok r \<longleftrightarrow> (\<exists>x. r = Inr x)"
  by (cases r) auto

lemma mapE_Inr_length: "mapE f xs = Inr ys \<Longrightarrow> length ys = length xs"
  by (induction xs arbitrary: ys) auto

lemma mapE_Inr_list_all2: "mapE f xs = Inr ys \<longleftrightarrow> list_all2 (\<lambda>x y. f x = Inr y) xs ys"
  by (induction xs arbitrary: ys) (auto simp: list_all2_Cons1)

lemma mapE_map: "(\<And>x. x \<in> set xs \<Longrightarrow> f x = Inr (g x)) \<Longrightarrow> mapE f xs = Inr (map g xs)"
  by (induction xs) auto

lemma mapE_Inl_Cons: "f x = Inl e \<Longrightarrow> mapE f (x # xs) = Inl e"
  by simp

lemma returnM_apply [res_simps]: "returnM x s = (Inr x, s)"
  and raiseM_apply [res_simps]: "raiseM e s = (Inl e, s)"
  and liftM_apply [res_simps]: "liftM r s = (r, s)"
  and getM_apply [res_simps]: "getM f s = (Inr (f s), s)"
  and modifyM_apply [res_simps]: "modifyM g s = (Inr (), g s)"
  by (simp_all add: eff_defs)

lemma bindM_Inl [res_simps]: "m s = (Inl e, s') \<Longrightarrow> bindM m f s = (Inl e, s')"
  and bindM_Inr [res_simps]: "m s = (Inr x, s') \<Longrightarrow> bindM m f s = f x s'"
  by (simp_all add: bindM_def)

lemma catchM_Inl [res_simps]: "m s = (Inl e, s') \<Longrightarrow> catchM m h s = h e s'"
  and catchM_Inr [res_simps]: "m s = (Inr x, s') \<Longrightarrow> catchM m h s = (Inr x, s')"
  by (simp_all add: catchM_def)

lemma thenM_Inl [res_simps]: "m s = (Inl e, s') \<Longrightarrow> thenM m n s = (Inl e, s')"
  and thenM_Inr [res_simps]: "m s = (Inr x, s') \<Longrightarrow> thenM m n s = n s'"
  by (simp_all add: thenM_def bindM_def)

subsection \<open>Facts on association lists\<close>

lemma bindM_Inr_iff:
  "bindM m f s = (Inr y, s') \<longleftrightarrow> (\<exists>x s1. m s = (Inr x, s1) \<and> f x s1 = (Inr y, s'))"
  by (auto simp: bindM_def split: prod.splits sum.splits)

lemma thenM_Inr_iff:
  "thenM m n s = (Inr y, s') \<longleftrightarrow> (\<exists>x s1. m s = (Inr x, s1) \<and> n s1 = (Inr y, s'))"
  by (simp add: thenM_def bindM_Inr_iff)

lemma onR_iff: "onR m (a, b) = (r, (a', b')) \<longleftrightarrow> a' = a \<and> m b = (r, b')"
  by (auto simp: onR_def split: prod.splits)

lemma onL_iff: "onL m (a, b) = (r, (a', b')) \<longleftrightarrow> b' = b \<and> m a = (r, a')"
  by (auto simp: onL_def split: prod.splits)

lemma update_fresh: "k \<notin> fst ` set al \<Longrightarrow> AList.update k v al = al @ [(k, v)]"
  by (induction al) auto

lemma key_in_filter_iff:
  assumes "distinct (map fst al)" "p \<in> set al"
  shows "fst p \<in> set (map fst (filter P al)) \<longleftrightarrow> P p"
proof
  assume "fst p \<in> set (map fst (filter P al))"
  then obtain q where q: "q \<in> set al" "P q" "fst q = fst p" by auto
  have "inj_on fst (set al)" using assms(1) by (simp add: distinct_map)
  from inj_onD [OF this q(3) q(1) assms(2)] q(2) show "P p" by simp
qed (use assms(2) in auto)

lemma snd_thenM_returnM: "snd (thenM m (returnM x) s) = snd (m s)"
  by (cases "m s"; cases "fst (m s)") (simp_all add: thenM_def bindM_def returnM_def)

lemma in_set_alist_update: "p \<in> set (AList.update k v al) \<Longrightarrow> p = (k, v) \<or> p \<in> set al"
  by (induction al) (auto split: if_splits)

lemma map_of_alist_update [simp]: "map_of (AList.update k v al) = (map_of al)(k \<mapsto> v)"
  by (rule update_conv')

lemma map_of_alist_delete [simp]: "map_of (AList.delete k al) = (map_of al)(k := None)"
  by (rule AList.delete_conv')

subsection \<open>Facts on searching lists\<close>

lemma filter_Nil_find: "filter P xs = [] \<longleftrightarrow> find P xs = None"
  by (induction xs) auto

lemma filter_Cons_find: "filter P xs = y # ys \<Longrightarrow> find P xs = Some y"
  by (induction xs) (auto split: if_splits)

lemma find_append: "find P (xs @ ys) = (case find P xs of None \<Rightarrow> find P ys | Some x \<Rightarrow> Some x)"
  by (induction xs) auto

lemma find_map_key:
  "(\<And>x. P (f x) = P x) \<Longrightarrow> find P (map f xs) = map_option f (find P xs)"
  by (induction xs) auto

lemma find_filter_other: "(\<And>x. P x \<Longrightarrow> Q x) \<Longrightarrow> find P (filter Q xs) = find P xs"
  by (induction xs) auto

lemma find_None_iff_key: "find (\<lambda>x. f x = k) xs = None \<longleftrightarrow> k \<notin> f ` set xs"
  by (induction xs) auto

lemma find_Some_mem: "find P xs = Some x \<Longrightarrow> x \<in> set xs \<and> P x"
  by (induction xs) (auto split: if_splits)

lemma length_filter_distinct_key:
  "distinct (map f xs) \<Longrightarrow> length (filter (\<lambda>x. f x = k) xs) = (if k \<in> f ` set xs then 1 else 0)"
  by (induction xs) (auto simp: filter_empty_conv)

subsection \<open>Facts on strings\<close>

lemma py_strip_Nil_iff [py_str]: "py_strip s = [] \<longleftrightarrow> (\<forall>c \<in> set s. py_isspace c)"
proof
  assume "py_strip s = []"
  then have all: "\<forall>c \<in> set (dropWhile py_isspace s). py_isspace c"
    by (simp add: py_strip_def)
  then have "dropWhile py_isspace s = []"
    by (metis hd_dropWhile list.set_sel(1))
  then show "\<forall>c \<in> set s. py_isspace c" by simp
qed (auto simp: py_strip_def dest: set_dropWhileD)

lemma py_strip_Nil [simp]: "py_strip [] = []"
  by (simp add: py_strip_def)

lemma dropWhile_none: "(\<And>x. x \<in> set xs \<Longrightarrow> \<not> P x) \<Longrightarrow> dropWhile P xs = xs"
  by (cases xs) auto

lemma py_strip_none [py_str]: "(\<And>c. c \<in> set s \<Longrightarrow> \<not> py_isspace c) \<Longrightarrow> py_strip s = s"
  using dropWhile_none [of s py_isspace] dropWhile_none [of "rev s" py_isspace]
  by (simp add: py_strip_def)

lemma py_strip_chars_none [py_str]:
  "(\<And>c. c \<in> set s \<Longrightarrow> c \<notin> set cs) \<Longrightarrow> py_strip_chars cs s = s"
  using dropWhile_none [of s "\<lambda>c. c \<in> set cs"] dropWhile_none [of "rev s" "\<lambda>c. c \<in> set cs"]
  by (simp add: py_strip_chars_def)

lemma take_drop_step: "take k (drop n xs) @ drop (n + k) xs = drop n xs"
  by (metis append_take_drop_id drop_drop add.commute)

lemma concat_pages: "concat (map (\<lambda>i. take k (drop (i * k) xs)) [0..<n]) = take (n * k) xs"
proof (induction n)
  case (Suc n)
  then show ?case by (simp add: take_add add.commute [of k])
qed simp

lemma set_py_strip: "set (py_strip s) \<subseteq> set s"
  by (auto simp: py_strip_def dest!: set_dropWhileD)

lemma length_py_strip: "length (py_strip s) \<le> length s"
  unfolding py_strip_def by (metis length_dropWhile_le length_rev order_trans)

lemma py_replace_absent [py_str]:
  "old \<noteq> [] \<Longrightarrow> hd old \<notin> set s \<Longrightarrow> py_replace old new s = s"
  by (induction old new s rule: py_replace.induct) (auto simp: prefix_def neq_Nil_conv)

lemma py_replace_append_absent [py_str]:
  "old \<noteq> [] \<Longrightarrow> hd old \<notin> set p \<Longrightarrow> py_replace old new (p @ s) = p @ py_replace old new s"
  by (induction p) (auto simp: prefix_def neq_Nil_conv)

lemma py_replace_hit [py_str]:
  "old \<noteq> [] \<Longrightarrow> py_replace old new (old @ s) = new @ py_replace old new s"
  by (cases old) (simp_all add: prefix_def)

lemma py_slice_nat:
  "a \<le> b \<Longrightarrow> b \<le> length xs \<Longrightarrow> py_slice xs (int a) (int b) = take (b - a) (drop a xs)"
  by (simp add: py_slice_def py_index_def)

lemma py_slice_range: "py_slice xs (int a) (int a + int k) = take k (drop a xs)"
proof -
  have "take (min (length xs) (a + k) - min (length xs) a) (drop (min (length xs) a) xs) =
      take k (drop a xs)"
    by (cases "a \<le> length xs") (auto simp: min_def)
  then show ?thesis by (simp add: py_slice_def py_index_def min.commute flip: of_nat_add)
qed

lemma length_py_slice_nat:
  "a \<le> b \<Longrightarrow> b \<le> length xs \<Longrightarrow> length (py_slice xs (int a) (int b)) = b - a"
  by (simp add: py_slice_nat)

lemma rfind_below_bounds:
  "rfind_below c xs lo hi = -1 \<or> int lo \<le> rfind_below c xs lo hi \<and> rfind_below c xs lo hi < int hi"
  by (induction hi) auto

lemma rfind_below_hit:
  "rfind_below c xs lo hi = int k \<Longrightarrow> xs ! k = c"
  by (induction hi) (auto split: if_splits)

lemma rfind_below_miss:
  "rfind_below c xs lo hi = -1 \<longleftrightarrow> (\<forall>k. lo \<le> k \<and> k < hi \<longrightarrow> xs ! k \<noteq> c)"
proof (induction hi)
  case (Suc hi)
  show ?case
  proof (cases "hi < lo \<or> xs ! hi = c")
    case True
    then show ?thesis by (cases "hi < lo") (auto intro: exI [of _ hi])
  next
    case False
    with Suc show ?thesis by (auto simp: less_Suc_eq)
  qed
qed simp

end
