(* ===== verification/Exceptions.thy ===== *)
theory Exceptions
  imports Prelude
begin

section \<open>Exceptions\<close>

text \<open>
  The exception classes of \<open>src/app/domain/exceptions/\<close>, their constructors, and the other
  exceptions the code raises or catches (Python built-ins, pydantic's \<open>ValidationError\<close>,
  FastAPI's \<open>HTTPException\<close>, the client libraries' errors). Classes form the tree of the
  source's class statements; \<open>mro\<close> lists a class and its ancestors, which is the method
  resolution order of a single-inheritance class.
\<close>

datatype exc_class =
    ExceptionC | ValueErrorC | ValidationErrorC | JSONDecodeErrorC | TypeErrorC | KeyErrorC
  | IndexErrorC | AttributeErrorC | RuntimeErrorC | HTTPExceptionC | RequestValidationErrorC | ClientErrorC
  | OpenAIErrorC | RateLimitErrorC | APIConnectionErrorC | BadRequestErrorC
  | DomainExceptionC | EntityNotFoundExceptionC | ValidationExceptionC | BusinessRuleViolationC
  | DocumentNotFoundExceptionC | DocumentAlreadyExistsExceptionC
  | InvalidDocumentContentExceptionC | ChunkingExceptionC
  | LLMExceptionC | LLMConnectionExceptionC | LLMRateLimitExceptionC
  | TokenLimitExceededExceptionC | EmbeddingExceptionC
  | SearchExceptionC | EmptyQueryExceptionC | CollectionNotFoundExceptionC

fun parent :: "exc_class \<Rightarrow> exc_class option" where
  "parent ExceptionC = None"
| "parent ValidationErrorC = Some ValueErrorC"
| "parent JSONDecodeErrorC = Some ValueErrorC"
| "parent RateLimitErrorC = Some OpenAIErrorC"
| "parent APIConnectionErrorC = Some OpenAIErrorC"
| "parent BadRequestErrorC = Some OpenAIErrorC"
| "parent EntityNotFoundExceptionC = Some DomainExceptionC"
| "parent ValidationExceptionC = Some DomainExceptionC"
| "parent BusinessRuleViolationC = Some DomainExceptionC"
| "parent DocumentNotFoundExceptionC = Some EntityNotFoundExceptionC"
| "parent DocumentAlreadyExistsExceptionC = Some DomainExceptionC"
| "parent InvalidDocumentContentExceptionC = Some ValidationExceptionC"
| "parent ChunkingExceptionC = Some DomainExceptionC"
| "parent LLMExceptionC = Some DomainExceptionC"
| "parent LLMConnectionExceptionC = Some LLMExceptionC"
| "parent LLMRateLimitExceptionC = Some LLMExceptionC"
| "parent TokenLimitExceededExceptionC = Some LLMExceptionC"
| "parent EmbeddingExceptionC = Some LLMExceptionC"
| "parent SearchExceptionC = Some DomainExceptionC"
| "parent EmptyQueryExceptionC = Some ValidationExceptionC"
| "parent CollectionNotFoundExceptionC = Some EntityNotFoundExceptionC"
| "parent _ = Some ExceptionC"

text \<open>The depth of a class bounds the length of its ancestor chain.\<close>

fun mro_upto :: "nat \<Rightarrow> exc_class \<Rightarrow> exc_class list" where
  "mro_upto 0 c = [c]"
| "mro_upto (Suc n) c = (case parent c of None \<Rightarrow> [c] | Some p \<Rightarrow> c # mro_upto n p)"

definition mro :: "exc_class \<Rightarrow> exc_class list" where
  "mro c = mro_upto 3 c"

definition is_subclass :: "exc_class \<Rightarrow> exc_class \<Rightarrow> bool" where
  "is_subclass c d = (d \<in> set (mro c))"

text \<open>A domain exception object: its class and the attributes the constructors set.\<close>

record domain_exception =
  exc_cls :: exc_class
  exc_message :: string
  exc_code :: string
  exc_field :: "string option"
  exc_retry_after :: "real option"

definition quoted :: "string \<Rightarrow> string" where
  "quoted s = CHR 0x27 # s @ [CHR 0x27]"

subsection \<open>Constructors: base\<close>

definition DomainException :: "string \<Rightarrow> string \<Rightarrow> domain_exception" where
  "DomainException message code =
     \<lparr>exc_cls = DomainExceptionC, exc_message = message, exc_code = code,
      exc_field = None, exc_retry_after = None\<rparr>"

definition EntityNotFoundException :: "string \<Rightarrow> string \<Rightarrow> domain_exception" where
  "EntityNotFoundException entity_type entity_id =
     (DomainException (entity_type @ '' with id '' @ quoted entity_id @ '' not found'')
        ''ENTITY_NOT_FOUND'')\<lparr>exc_cls := EntityNotFoundExceptionC\<rparr>"

definition ValidationException :: "string \<Rightarrow> string \<Rightarrow> domain_exception" where
  "ValidationException fld detail =
     (DomainException (''Validation failed for '' @ quoted fld @ '': '' @ detail)
        ''VALIDATION_ERROR'')\<lparr>exc_cls := ValidationExceptionC, exc_field := Some fld\<rparr>"

definition BusinessRuleViolation :: "string \<Rightarrow> domain_exception" where
  "BusinessRuleViolation rule =
     (DomainException (''Business rule violated: '' @ rule) ''BUSINESS_RULE_VIOLATION'')
       \<lparr>exc_cls := BusinessRuleViolationC\<rparr>"

subsection \<open>Constructors: documents\<close>

definition DocumentNotFoundException :: "string \<Rightarrow> domain_exception" where
  "DocumentNotFoundException document_id =
     (EntityNotFoundException ''Document'' document_id)\<lparr>exc_cls := DocumentNotFoundExceptionC\<rparr>"

definition DocumentAlreadyExistsException :: "string \<Rightarrow> domain_exception" where
  "DocumentAlreadyExistsException document_id =
     (DomainException (''Document '' @ quoted document_id @ '' already exists'')
        ''DOCUMENT_ALREADY_EXISTS'')\<lparr>exc_cls := DocumentAlreadyExistsExceptionC\<rparr>"

definition InvalidDocumentContentException :: "string \<Rightarrow> domain_exception" where
  "InvalidDocumentContentException detail =
     (ValidationException ''content'' detail)\<lparr>exc_cls := InvalidDocumentContentExceptionC\<rparr>"

definition ChunkingException :: "string \<Rightarrow> string \<Rightarrow> domain_exception" where
  "ChunkingException document_id detail =
     (DomainException (''Chunking failed for document '' @ quoted document_id @ '': '' @ detail)
        ''CHUNKING_ERROR'')\<lparr>exc_cls := ChunkingExceptionC\<rparr>"

subsection \<open>Constructors: language models\<close>

definition LLMException :: "string \<Rightarrow> string \<Rightarrow> domain_exception" where
  "LLMException message code = (DomainException message code)\<lparr>exc_cls := LLMExceptionC\<rparr>"

definition LLMConnectionException :: "string \<Rightarrow> domain_exception" where
  "LLMConnectionException detail =
     (LLMException (''LLM connection failed: '' @ detail) ''LLM_CONNECTION_ERROR'')
       \<lparr>exc_cls := LLMConnectionExceptionC\<rparr>"

text \<open>\<open>show_float\<close> stands for Python's rendering of a float inside an f-string.\<close>

definition LLMRateLimitException ::
  "(real \<Rightarrow> string) \<Rightarrow> real option \<Rightarrow> domain_exception" where
  "LLMRateLimitException show_float retry_after =
     (LLMException
        (''LLM rate limit exceeded'' @
           (case retry_after of None \<Rightarrow> [] | Some t \<Rightarrow> '', retry after '' @ show_float t @ ''s''))
        ''LLM_RATE_LIMIT'')
       \<lparr>exc_cls := LLMRateLimitExceptionC, exc_retry_after := retry_after\<rparr>"

definition TokenLimitExceededException :: "int \<Rightarrow> int \<Rightarrow> domain_exception" where
  "TokenLimitExceededException token_count max_tokens =
     (LLMException
        (''Token limit exceeded: '' @ py_str_int token_count @ '' > '' @ py_str_int max_tokens)
        ''TOKEN_LIMIT_EXCEEDED'')\<lparr>exc_cls := TokenLimitExceededExceptionC\<rparr>"

definition EmbeddingException :: "string \<Rightarrow> domain_exception" where
  "EmbeddingException detail =
     (LLMException (''Embedding generation failed: '' @ detail) ''EMBEDDING_ERROR'')
       \<lparr>exc_cls := EmbeddingExceptionC\<rparr>"

subsection \<open>Constructors: search\<close>

definition SearchException :: "string \<Rightarrow> domain_exception" where
  "SearchException message =
     (DomainException message ''SEARCH_ERROR'')\<lparr>exc_cls := SearchExceptionC\<rparr>"

definition EmptyQueryException :: domain_exception where
  "EmptyQueryException =
     (ValidationException ''query'' ''Search query cannot be empty'')
       \<lparr>exc_cls := EmptyQueryExceptionC\<rparr>"

definition CollectionNotFoundException :: "string \<Rightarrow> domain_exception" where
  "CollectionNotFoundException collection_id =
     (EntityNotFoundException ''Collection'' collection_id)
       \<lparr>exc_cls := CollectionNotFoundExceptionC\<rparr>"

subsection \<open>Exception values\<close>

text \<open>
  Every exception the model raises. \<open>InvalidTransition\<close> is the \<open>ValueError\<close> of
  \<open>IngestionJob.advance_status\<close>; \<open>ValidationError\<close> is pydantic's, with the model and the
  offending fields; \<open>ClientError\<close> is any exception of a database, cache or vector store
  client; the \<open>OpenAI\<close> values carry \<open>str(exc)\<close> and, for a rate limit, the
  \<open>retry-after\<close> header.
\<close>

datatype exn =
    Domain domain_exception
  | ValueError string
  | InvalidTransition string string
  | ValidationError string "string list"
  | JSONDecodeError
  | TypeError call_error
  | KeyError string
  | IndexError
  | AttributeError string
  | RuntimeError string
  | HTTPException nat string
  | RequestValidationError "(string list \<times> string) list"
  | ClientError string
  | RateLimitError string "string option"
  | APIConnectionError string
  | BadRequestError string
  | OpenAIError string

fun class_of :: "exn \<Rightarrow> exc_class" where
  "class_of (Domain d) = exc_cls d"
| "class_of (ValueError _) = ValueErrorC"
| "class_of (InvalidTransition _ _) = ValueErrorC"
| "class_of (ValidationError _ _) = ValidationErrorC"
| "class_of JSONDecodeError = JSONDecodeErrorC"
| "class_of (TypeError _) = TypeErrorC"
| "class_of (KeyError _) = KeyErrorC"
| "class_of IndexError = IndexErrorC"
| "class_of (AttributeError _) = AttributeErrorC"
| "class_of (RuntimeError _) = RuntimeErrorC"
| "class_of (HTTPException _ _) = HTTPExceptionC"
| "class_of (RequestValidationError _) = RequestValidationErrorC"
| "class_of (ClientError _) = ClientErrorC"
| "class_of (RateLimitError _ _) = RateLimitErrorC"
| "class_of (APIConnectionError _) = APIConnectionErrorC"
| "class_of (BadRequestError _) = BadRequestErrorC"
| "class_of (OpenAIError _) = OpenAIErrorC"

definition isinstance :: "exn \<Rightarrow> exc_class \<Rightarrow> bool" where
  "isinstance e c = is_subclass (class_of e) c"

type_synonym 'a result = "exn + 'a"

lemmas exception_defs =
  DomainException_def EntityNotFoundException_def ValidationException_def
  BusinessRuleViolation_def DocumentNotFoundException_def DocumentAlreadyExistsException_def
  InvalidDocumentContentException_def ChunkingException_def LLMException_def
  LLMConnectionException_def LLMRateLimitException_def TokenLimitExceededException_def
  EmbeddingException_def SearchException_def EmptyQueryException_def
  CollectionNotFoundException_def

lemma mro_Cons: "\<exists>ds. mro c = c # ds"
  by (cases c) (simp_all add: mro_def eval_nat_numeral)

lemma mro_ends_in_Exception: "last (mro c) = ExceptionC"
  by (cases c) (simp_all add: mro_def eval_nat_numeral)

lemma mro_closed: "d \<in> set (mro c) \<Longrightarrow> parent d = Some p \<Longrightarrow> p \<in> set (mro c)"
  by (cases c) (auto simp: mro_def eval_nat_numeral)

end
