(* ===== verification/Value_Objects.thy ===== *)
theory Value_Objects
  imports Exceptions "HOL-Library.Word"
begin

section \<open>Value objects\<close>

text \<open>
  \<open>src/app/domain/value_objects/\<close>: the UUID identifiers, the embedding vector and the
  pagination parameters. A UUID is a 128-bit word; \<open>UUID(str)\<close> and \<open>str(UUID)\<close> of Python's
  \<open>uuid\<close> module are \<open>uuid_parse\<close> and \<open>uuid_str\<close>, with the leniencies of \<open>int(hex, 16)\<close>
  (blanks, sign, \<open>0x\<close>, single underscores). Pydantic's field validators become
  constructors that return \<open>ValidationError\<close>.
\<close>

type_synonym uuid = "128 word"

subsection \<open>Python's uuid module\<close>

definition hex_alphabet :: string where
  "hex_alphabet = ''0123456789abcdef''"

definition hex_digit :: "nat \<Rightarrow> char" where
  "hex_digit d = hex_alphabet ! d"

fun hex_digits :: "nat \<Rightarrow> nat \<Rightarrow> string" where
  "hex_digits 0 n = []"
| "hex_digits (Suc w) n = hex_digits w (n div 16) @ [hex_digit (n mod 16)]"

definition uuid_str :: "uuid \<Rightarrow> string" where
  "uuid_str u = (let h = hex_digits 32 (unat u)
     in take 8 h @ ''-'' @ take 4 (drop 8 h) @ ''-'' @ take 4 (drop 12 h) @ ''-'' @
        take 4 (drop 16 h) @ ''-'' @ drop 20 h)"

fun hex_val :: "char \<Rightarrow> nat option" where
  "hex_val c = (let n = (of_char c :: nat)
     in if 48 \<le> n \<and> n \<le> 57 then Some (n - 48)
        else if 97 \<le> n \<and> n \<le> 102 then Some (n - 87)
        else if 65 \<le> n \<and> n \<le> 70 then Some (n - 55) else None)"

text \<open>The digits of \<open>int(s, 16)\<close>; the flag says that an underscore may come next.\<close>

fun int16_digits :: "bool \<Rightarrow> nat \<Rightarrow> string \<Rightarrow> nat option" where
  "int16_digits ok acc [] = (if ok then Some acc else None)"
| "int16_digits ok acc (c # cs) =
     (if c = CHR ''_'' then (if ok then int16_digits False acc cs else None)
      else case hex_val c of None \<Rightarrow> None | Some v \<Rightarrow> int16_digits True (16 * acc + v) cs)"

definition int16_unsigned :: "string \<Rightarrow> nat option" where
  "int16_unsigned s =
     (if take 2 s = ''0x'' \<or> take 2 s = ''0X''
      then (if length s = 2 then None else int16_digits True 0 (drop 2 s))
      else int16_digits False 0 s)"

definition py_int16 :: "string \<Rightarrow> int option" where
  "py_int16 s = (case py_strip s of
       [] \<Rightarrow> None
     | c # cs \<Rightarrow>
         if c = CHR ''-'' then map_option (\<lambda>n. - int n) (int16_unsigned cs)
         else if c = CHR ''+'' then map_option int (int16_unsigned cs)
         else map_option int (int16_unsigned (c # cs)))"

definition uuid_parse :: "string \<Rightarrow> uuid result" where
  "uuid_parse s =
     (let h = filter (\<lambda>c. c \<noteq> CHR ''-'')
                (py_strip_chars ''{}'' (py_replace ''uuid:'' [] (py_replace ''urn:'' [] s)))
      in if length h \<noteq> 32 then Inl (ValueError ''badly formed hexadecimal UUID string'')
         else case py_int16 h of
             None \<Rightarrow> Inl (ValueError ''invalid literal for int() with base 16'')
           | Some n \<Rightarrow> if 0 \<le> n \<and> n < 2 ^ 128 then Inr (word_of_int n)
                      else Inl (ValueError ''int is out of range (need a 128-bit value)''))"

subsection \<open>Identifiers\<close>

datatype document_id = DocumentId (document_id_value: uuid)
datatype chunk_id = ChunkId (chunk_id_value: uuid)
datatype collection_id = CollectionId (collection_id_value: uuid)
datatype user_id = UserId (user_id_value: uuid)
datatype ingestion_job_id = IngestionJobId (ingestion_job_id_value: uuid)
datatype tenant_id = TenantId (tenant_id_value: uuid)

definition DocumentId_from_str :: "string \<Rightarrow> document_id result" where
  "DocumentId_from_str v = bindE (uuid_parse v) (\<lambda>u. Inr (DocumentId u))"

definition ChunkId_from_str :: "string \<Rightarrow> chunk_id result" where
  "ChunkId_from_str v = bindE (uuid_parse v) (\<lambda>u. Inr (ChunkId u))"

definition CollectionId_from_str :: "string \<Rightarrow> collection_id result" where
  "CollectionId_from_str v = bindE (uuid_parse v) (\<lambda>u. Inr (CollectionId u))"

definition UserId_from_str :: "string \<Rightarrow> user_id result" where
  "UserId_from_str v = bindE (uuid_parse v) (\<lambda>u. Inr (UserId u))"

definition IngestionJobId_from_str :: "string \<Rightarrow> ingestion_job_id result" where
  "IngestionJobId_from_str v = bindE (uuid_parse v) (\<lambda>u. Inr (IngestionJobId u))"

definition TenantId_from_str :: "string \<Rightarrow> tenant_id result" where
  "TenantId_from_str v = bindE (uuid_parse v) (\<lambda>u. Inr (TenantId u))"

fun DocumentId_str :: "document_id \<Rightarrow> string" where
  "DocumentId_str (DocumentId u) = uuid_str u"

fun ChunkId_str :: "chunk_id \<Rightarrow> string" where
  "ChunkId_str (ChunkId u) = uuid_str u"

fun CollectionId_str :: "collection_id \<Rightarrow> string" where
  "CollectionId_str (CollectionId u) = uuid_str u"

fun UserId_str :: "user_id \<Rightarrow> string" where
  "UserId_str (UserId u) = uuid_str u"

fun IngestionJobId_str :: "ingestion_job_id \<Rightarrow> string" where
  "IngestionJobId_str (IngestionJobId u) = uuid_str u"

fun TenantId_str :: "tenant_id \<Rightarrow> string" where
  "TenantId_str (TenantId u) = uuid_str u"

subsection \<open>Embedding vector\<close>

record embedding_vector =
  ev_values :: "real list"
  ev_model :: string
  ev_dimensions :: int

definition EmbeddingVector :: "real list \<Rightarrow> string \<Rightarrow> int \<Rightarrow> embedding_vector result" where
  "EmbeddingVector vals model dims =
     (if int (length vals) \<noteq> dims then Inl (ValidationError ''EmbeddingVector'' [])
      else Inr \<lparr>ev_values = vals, ev_model = model, ev_dimensions = dims\<rparr>)"

definition embedding_wf :: "embedding_vector \<Rightarrow> bool" where
  "embedding_wf e = (int (length (ev_values e)) = ev_dimensions e)"

subsection \<open>Pagination\<close>

record pagination_params =
  pg_offset :: int
  pg_limit :: int

definition PaginationParams :: "int \<Rightarrow> int \<Rightarrow> pagination_params result" where
  "PaginationParams off lmt =
     (let bad = (if off < 0 then [''offset''] else []) @
                (if lmt < 1 \<or> lmt > 100 then [''limit''] else [])
      in if bad \<noteq> [] then Inl (ValidationError ''PaginationParams'' bad)
         else Inr \<lparr>pg_offset = off, pg_limit = lmt\<rparr>)"

subsection \<open>Round trip of identifiers\<close>

lemma hex_digits_length [simp]: "length (hex_digits w n) = w"
  by (induction w arbitrary: n) auto

lemma length_hex_alphabet: "length hex_alphabet = 16"
  by (simp add: hex_alphabet_def)

lemma hex_digit_in: "d < 16 \<Longrightarrow> hex_digit d \<in> set hex_alphabet"
  unfolding hex_digit_def by (rule nth_mem) (simp add: length_hex_alphabet)

lemma hex_alphabet_vals: "map hex_val hex_alphabet = map Some [0..<16]"
  unfolding hex_alphabet_def by (simp add: upt_conv_Cons)

lemma hex_val_hex_digit: "hex_val (hex_digit d) = Some d" if "d < 16"
proof -
  have "hex_val (hex_digit d) = map hex_val hex_alphabet ! d"
    using that by (simp add: hex_digit_def length_hex_alphabet del: hex_val.simps)
  then show ?thesis using that by (simp add: hex_alphabet_vals del: hex_val.simps)
qed

lemma hex_digits_alphabet: "set (hex_digits w n) \<subseteq> set hex_alphabet"
  by (induction w arbitrary: n) (auto intro: hex_digit_in)

lemma hex_alphabet_plain:
  "c \<in> set hex_alphabet \<Longrightarrow>
     \<not> py_isspace c \<and> c \<noteq> CHR ''-'' \<and> c \<noteq> CHR ''_'' \<and> c \<noteq> CHR ''+'' \<and> c \<noteq> CHR ''{'' \<and>
     c \<noteq> CHR ''}'' \<and> c \<noteq> CHR ''u'' \<and> c \<noteq> CHR ''x'' \<and> c \<noteq> CHR ''X''"
  by (auto simp: hex_alphabet_def py_isspace_def)

lemma int16_digits_append:
  "set cs \<subseteq> set hex_alphabet \<Longrightarrow> d < 16 \<Longrightarrow>
   int16_digits ok acc (cs @ [hex_digit d]) =
     map_option (\<lambda>n. 16 * n + d) (int16_digits True acc cs)"
proof (induction cs arbitrary: ok acc)
  case Nil
  then show ?case
    using hex_alphabet_plain [OF hex_digit_in] by (simp add: hex_val_hex_digit del: hex_val.simps)
next
  case (Cons c cs)
  then show ?case
    using hex_alphabet_plain [of c] by (auto simp del: hex_val.simps split: option.splits)
qed

lemma int16_digits_hex_digits:
  "int16_digits True acc (hex_digits w n) = Some (acc * 16 ^ w + n mod 16 ^ w)"
proof (induction w arbitrary: n)
  case (Suc w)
  have "n mod 16 ^ Suc w = 16 * (n div 16 mod 16 ^ w) + n mod 16"
    by (metis mod_mult2_eq mult.commute add.commute power_Suc)
  then show ?case
    by (simp add: int16_digits_append hex_digits_alphabet Suc algebra_simps)
qed simp

lemma int16_unsigned_hex_digits:
  "0 < w \<Longrightarrow> int16_unsigned (hex_digits w n) = Some (n mod 16 ^ w)"
proof -
  assume w: "0 < w"
  have in_alpha: "set (take 2 (hex_digits w n)) \<subseteq> set hex_alphabet"
    using hex_digits_alphabet set_take_subset by fastforce
  then have no_x: "take 2 (hex_digits w n) \<noteq> ''0x'' \<and> take 2 (hex_digits w n) \<noteq> ''0X''"
    by (auto simp: hex_alphabet_def)
  from w obtain c cs where h: "hex_digits w n = c # cs"
    by (metis hex_digits_length length_greater_0_conv neq_Nil_conv)
  then have "c \<in> set hex_alphabet" using hex_digits_alphabet [of w n] by auto
  then have "int16_digits False 0 (hex_digits w n) = int16_digits True 0 (hex_digits w n)"
    using hex_alphabet_plain [of c] h by (simp del: hex_val.simps)
  with no_x show ?thesis by (simp add: int16_unsigned_def int16_digits_hex_digits)
qed

lemma py_int16_hex_digits: "0 < w \<Longrightarrow> py_int16 (hex_digits w n) = Some (int (n mod 16 ^ w))"
proof -
  assume w: "0 < w"
  have plain: "\<And>c. c \<in> set (hex_digits w n) \<Longrightarrow> c \<in> set hex_alphabet"
    using hex_digits_alphabet by blast
  then have st: "py_strip (hex_digits w n) = hex_digits w n"
    using hex_alphabet_plain by (intro py_strip_none) blast
  from w obtain c cs where h: "hex_digits w n = c # cs"
    by (metis hex_digits_length length_greater_0_conv neq_Nil_conv)
  with plain have "c \<noteq> CHR ''-'' \<and> c \<noteq> CHR ''+''" using hex_alphabet_plain [of c] by auto
  with st h show ?thesis
    using int16_unsigned_hex_digits [OF w, of n] by (simp add: py_int16_def)
qed

lemma uuid_str_chars: "c \<in> set (uuid_str u) \<Longrightarrow> c \<in> set hex_alphabet \<or> c = CHR ''-''"
  using hex_digits_alphabet [of 32 "unat u"]
  by (auto simp: uuid_str_def Let_def dest!: in_set_takeD in_set_dropD)

lemma uuid_str_without_dashes:
  "filter (\<lambda>c. c \<noteq> CHR ''-'') (uuid_str u) = hex_digits 32 (unat u)"
proof -
  let ?h = "hex_digits 32 (unat u)"
  have keep: "set xs \<subseteq> set ?h \<Longrightarrow> filter (\<lambda>c. c \<noteq> CHR ''-'') xs = xs" for xs
    using hex_digits_alphabet [of 32 "unat u"] hex_alphabet_plain
    by (intro filter_True) blast
  have "filter (\<lambda>c. c \<noteq> CHR ''-'') (uuid_str u) =
          take 8 ?h @ take 4 (drop 8 ?h) @ take 4 (drop 12 ?h) @ take 4 (drop 16 ?h) @ drop 20 ?h"
    by (simp add: uuid_str_def Let_def keep set_take_subset set_drop_subset
        subset_trans [OF set_take_subset set_drop_subset])
  also have "\<dots> = ?h"
    using take_drop_step [of 4 16 ?h] take_drop_step [of 4 12 ?h] take_drop_step [of 4 8 ?h]
    by simp
  finally show ?thesis .
qed

lemma uuid_roundtrip [simp]: "uuid_parse (uuid_str u) = Inr u"
proof -
  have no_u: "CHR ''u'' \<notin> set (uuid_str u)"
    using uuid_str_chars [of "CHR ''u''" u] hex_alphabet_plain by blast
  then have r: "py_replace ''uuid:'' [] (py_replace ''urn:'' [] (uuid_str u)) = uuid_str u"
    by (simp add: py_replace_absent)
  have s: "py_strip_chars ''{}'' (uuid_str u) = uuid_str u"
    using uuid_str_chars [of _ u] hex_alphabet_plain by (intro py_strip_chars_none) fastforce
  have lt: "unat u < 16 ^ 32" using unsigned_less [of u] by simp
  have ult: "uint u < 2 ^ 128" using unsigned_less [of u] by simp
  show ?thesis
    unfolding uuid_parse_def r s Let_def uuid_str_without_dashes
    using lt ult by (simp add: py_int16_hex_digits)
qed

end
