(* ===== verification/Entities.thy ===== *)
theory Entities
  imports Value_Objects
begin

section \<open>Domain entities\<close>

text \<open>
  \<open>src/app/domain/entities/\<close>. \<open>Entity\<close> is the base record and every entity extends it, as
  the classes inherit from it. The clock (\<open>datetime.now(UTC)\<close>, in microseconds) and the
  identifiers drawn by \<open>uuid4()\<close> are arguments of the operations that read them. A method
  that mutates \<open>self\<close> returns the updated record.
\<close>

subsection \<open>JSON-like values and dictionaries\<close>

text \<open>The values of \<open>dict[str, Any]\<close> fields; a dictionary keeps its insertion order.\<close>

datatype pyval =
    PNone
  | PBool bool
  | PInt int
  | PFloat real
  | PStr string
  | PList "pyval list"
  | PDict "(string \<times> pyval) list"

type_synonym dict = "(string \<times> pyval) list"

definition dict_get :: "dict \<Rightarrow> string \<Rightarrow> pyval \<Rightarrow> pyval" where
  "dict_get d k dflt = (case map_of d k of None \<Rightarrow> dflt | Some v \<Rightarrow> v)"

definition dict_set :: "dict \<Rightarrow> string \<Rightarrow> pyval \<Rightarrow> dict" where
  "dict_set d k v = AList.update k v d"

subsection \<open>Entity\<close>

type_synonym timestamp = int

record entity =
  ent_id :: uuid
  created_at :: timestamp
  updated_at :: timestamp

definition update :: "timestamp \<Rightarrow> 'a entity_scheme \<Rightarrow> 'a entity_scheme" where
  "update now e = e\<lparr>updated_at := now\<rparr>"

definition entity_eq :: "'a entity_scheme \<Rightarrow> 'b entity_scheme \<Rightarrow> bool" where
  "entity_eq a b = (ent_id a = ent_id b)"

subsection \<open>Document\<close>

datatype document_status = DPending | DProcessing | DCompleted | DFailed

fun document_status_value :: "document_status \<Rightarrow> string" where
  "document_status_value DPending = ''pending''"
| "document_status_value DProcessing = ''processing''"
| "document_status_value DCompleted = ''completed''"
| "document_status_value DFailed = ''failed''"

record document = entity +
  d_tenant_id :: tenant_id
  d_document_id :: document_id
  d_collection_id :: collection_id
  d_title :: string
  d_content :: string
  d_content_type :: string
  d_metadata :: dict
  d_status :: document_status
  d_chunk_count :: int
  d_token_count :: int
  d_error_message :: "string option"

definition new_document ::
  "timestamp \<Rightarrow> uuid \<Rightarrow> uuid \<Rightarrow> tenant_id \<Rightarrow> collection_id \<Rightarrow> string \<Rightarrow> string \<Rightarrow> string \<Rightarrow> dict
   \<Rightarrow> document" where
  "new_document now eid did tenant coll title content ctype meta =
     \<lparr>ent_id = eid, created_at = now, updated_at = now, d_tenant_id = tenant,
      d_document_id = DocumentId did, d_collection_id = coll, d_title = title,
      d_content = content, d_content_type = ctype, d_metadata = meta, d_status = DPending,
      d_chunk_count = 0, d_token_count = 0, d_error_message = None\<rparr>"

definition mark_processing :: "timestamp \<Rightarrow> document \<Rightarrow> document" where
  "mark_processing now d = update now (d\<lparr>d_status := DProcessing, d_error_message := None\<rparr>)"

definition mark_completed :: "timestamp \<Rightarrow> int \<Rightarrow> int \<Rightarrow> document \<Rightarrow> document" where
  "mark_completed now chunk_count token_count d =
     update now (d\<lparr>d_status := DCompleted, d_chunk_count := chunk_count,
                   d_token_count := token_count, d_error_message := None\<rparr>)"

definition mark_failed :: "timestamp \<Rightarrow> string \<Rightarrow> document \<Rightarrow> document" where
  "mark_failed now err d = update now (d\<lparr>d_status := DFailed, d_error_message := Some err\<rparr>)"

definition is_processable :: "document \<Rightarrow> bool" where
  "is_processable d = (d_status d \<in> {DPending, DFailed})"

subsection \<open>Chunk\<close>

record chunk = entity +
  c_tenant_id :: tenant_id
  c_chunk_id :: chunk_id
  c_document_id :: document_id
  c_collection_id :: collection_id
  c_content :: string
  c_chunk_index :: int
  c_start_char :: int
  c_end_char :: int
  c_token_count :: int
  c_embedding :: "embedding_vector option"
  c_metadata :: dict

definition set_embedding :: "timestamp \<Rightarrow> embedding_vector \<Rightarrow> chunk \<Rightarrow> chunk" where
  "set_embedding now e c = update now (c\<lparr>c_embedding := Some e\<rparr>)"

definition has_embedding :: "chunk \<Rightarrow> bool" where
  "has_embedding c = (c_embedding c \<noteq> None)"

subsection \<open>Collection and user\<close>

record collection = entity +
  col_collection_id :: collection_id
  col_name :: string
  col_description :: string
  col_document_count :: int
  col_metadata :: dict

definition increment_document_count :: "timestamp \<Rightarrow> collection \<Rightarrow> collection" where
  "increment_document_count now c =
     update now (c\<lparr>col_document_count := col_document_count c + 1\<rparr>)"

definition decrement_document_count :: "timestamp \<Rightarrow> collection \<Rightarrow> collection" where
  "decrement_document_count now c =
     update now (c\<lparr>col_document_count := max 0 (col_document_count c - 1)\<rparr>)"

record user = entity +
  u_user_id :: user_id
  u_name :: string
  u_email :: "string option"
  u_total_tokens_used :: int
  u_total_requests :: int
  u_metadata :: dict

definition track_usage :: "timestamp \<Rightarrow> int \<Rightarrow> user \<Rightarrow> user" where
  "track_usage now tokens u =
     update now (u\<lparr>u_total_tokens_used := u_total_tokens_used u + tokens,
                   u_total_requests := u_total_requests u + 1\<rparr>)"

subsection \<open>Search results and chat messages\<close>

record search_result =
  sr_chunk_id :: chunk_id
  sr_document_id :: document_id
  sr_collection_id :: collection_id
  sr_content :: string
  sr_score :: real
  sr_metadata :: dict
  sr_document_title :: string
  sr_chunk_index :: int

definition SearchResult ::
  "chunk_id \<Rightarrow> document_id \<Rightarrow> collection_id \<Rightarrow> string \<Rightarrow> real \<Rightarrow> dict \<Rightarrow> string \<Rightarrow> int
   \<Rightarrow> search_result result" where
  "SearchResult cid did col content score meta title idx =
     (if score < 0 \<or> score > 1 then Inl (ValidationError ''SearchResult'' [''score''])
      else Inr \<lparr>sr_chunk_id = cid, sr_document_id = did, sr_collection_id = col,
                sr_content = content, sr_score = score, sr_metadata = meta,
                sr_document_title = title, sr_chunk_index = idx\<rparr>)"

datatype message_role = SYSTEM | USER | ASSISTANT

fun role_value :: "message_role \<Rightarrow> string" where
  "role_value SYSTEM = ''system''"
| "role_value USER = ''user''"
| "role_value ASSISTANT = ''assistant''"

definition MessageRole :: "string \<Rightarrow> message_role result" where
  "MessageRole v = (if v = ''system'' then Inr SYSTEM else if v = ''user'' then Inr USER
     else if v = ''assistant'' then Inr ASSISTANT
     else Inl (ValueError (quoted v @ '' is not a valid MessageRole'')))"

record chat_message =
  m_role :: message_role
  m_content :: string
  m_metadata :: dict

definition ChatMessage :: "message_role \<Rightarrow> string \<Rightarrow> chat_message" where
  "ChatMessage role content = \<lparr>m_role = role, m_content = content, m_metadata = []\<rparr>"

record token_usage =
  tu_prompt_tokens :: int
  tu_completion_tokens :: int
  tu_total_tokens :: int
  tu_estimated_cost :: real

record chat_response =
  cr_message :: chat_message
  cr_sources :: "search_result list"
  cr_token_usage :: "token_usage option"

subsection \<open>Document lifecycle\<close>

text \<open>
  The status and the error message of a document agree: a document carries an error message
  exactly when it has failed. Every operation on documents keeps this.
\<close>

definition document_ok :: "document \<Rightarrow> bool" where
  "document_ok d = (d_status d = DFailed \<longleftrightarrow> d_error_message d \<noteq> None)"

datatype document_op = MarkProcessing | MarkCompleted int int | MarkFailed string

fun run_document_op :: "timestamp \<times> document_op \<Rightarrow> document \<Rightarrow> document" where
  "run_document_op (t, MarkProcessing) d = mark_processing t d"
| "run_document_op (t, MarkCompleted n k) d = mark_completed t n k d"
| "run_document_op (t, MarkFailed e) d = mark_failed t e d"

lemmas document_op_defs = mark_processing_def mark_completed_def mark_failed_def update_def

lemma document_ok_new: "document_ok (new_document now eid did t c ti co ct m)"
  by (simp add: document_ok_def new_document_def)

lemma document_ok_op: "document_ok (run_document_op op d)"
  by (cases "(op, d)" rule: run_document_op.cases) (simp_all add: document_ok_def document_op_defs)

lemma document_op_identity:
  "d_document_id (run_document_op op d) = d_document_id d \<and>
   d_tenant_id (run_document_op op d) = d_tenant_id d \<and>
   d_content (run_document_op op d) = d_content d \<and>
   entity_eq (run_document_op op d) d"
  by (cases "(op, d)" rule: run_document_op.cases) (simp_all add: document_op_defs entity_eq_def)

lemma MessageRole_value [simp]: "MessageRole (role_value r) = Inr r"
  by (cases r) (simp_all add: MessageRole_def)

lemma SearchResult_Inr_iff:
  "SearchResult cid did col content score meta title idx = Inr r \<longleftrightarrow>
     0 \<le> score \<and> score \<le> 1 \<and>
     r = \<lparr>sr_chunk_id = cid, sr_document_id = did, sr_collection_id = col,
          sr_content = content, sr_score = score, sr_metadata = meta,
          sr_document_title = title, sr_chunk_index = idx\<rparr>"
  by (auto simp: SearchResult_def)

end
