(* ===== verification/Ingestion_Job.thy ===== *)
theory Ingestion_Job
  imports Entities
begin

section \<open>The ingestion job state machine\<close>

text \<open>
  \<open>src/app/domain/entities/ingestion_job.py\<close>: the status enumeration, the transition table
  \<open>_VALID_TRANSITIONS\<close>, and the methods of \<open>IngestionJob\<close>. \<open>advance_status\<close> checks the table;
  \<open>fail\<close> and \<open>complete\<close> write the status directly. \<open>job_step\<close> is one call of any method, and
  \<open>job_reach\<close> the states a fresh job can get into.
\<close>

datatype ingestion_status =
  QUEUED | EXTRACTING | CHUNKING | EMBEDDING | STORING | COMPLETED | FAILED

fun status_value :: "ingestion_status \<Rightarrow> string" where
  "status_value QUEUED = ''queued''"
| "status_value EXTRACTING = ''extracting''"
| "status_value CHUNKING = ''chunking''"
| "status_value EMBEDDING = ''embedding''"
| "status_value STORING = ''storing''"
| "status_value COMPLETED = ''completed''"
| "status_value FAILED = ''failed''"

fun VALID_TRANSITIONS :: "ingestion_status \<Rightarrow> ingestion_status list" where
  "VALID_TRANSITIONS QUEUED = [EXTRACTING, FAILED]"
| "VALID_TRANSITIONS EXTRACTING = [CHUNKING, FAILED]"
| "VALID_TRANSITIONS CHUNKING = [EMBEDDING, FAILED]"
| "VALID_TRANSITIONS EMBEDDING = [STORING, FAILED]"
| "VALID_TRANSITIONS STORING = [COMPLETED, FAILED]"
| "VALID_TRANSITIONS COMPLETED = []"
| "VALID_TRANSITIONS FAILED = [QUEUED]"

record ingestion_job = entity +
  j_job_id :: ingestion_job_id
  j_document_id :: document_id
  j_status :: ingestion_status
  j_total_chunks :: int
  j_processed_chunks :: int
  j_error_message :: "string option"
  j_started_at :: "timestamp option"
  j_completed_at :: "timestamp option"

definition new_job :: "timestamp \<Rightarrow> uuid \<Rightarrow> ingestion_job_id \<Rightarrow> document_id \<Rightarrow> ingestion_job" where
  "new_job now eid jid did =
     \<lparr>ent_id = eid, created_at = now, updated_at = now, j_job_id = jid, j_document_id = did,
      j_status = QUEUED, j_total_chunks = 0, j_processed_chunks = 0, j_error_message = None,
      j_started_at = None, j_completed_at = None\<rparr>"

definition advance_status ::
  "timestamp \<Rightarrow> ingestion_status \<Rightarrow> ingestion_job \<Rightarrow> ingestion_job result" where
  "advance_status now new_status job =
     (if new_status \<notin> set (VALID_TRANSITIONS (j_status job))
      then Inl (InvalidTransition (status_value (j_status job)) (status_value new_status))
      else let job1 = job\<lparr>j_status := new_status\<rparr>;
               job2 = (if new_status = EXTRACTING \<and> j_started_at job1 = None
                       then job1\<lparr>j_started_at := Some now\<rparr> else job1)
           in Inr (update now job2))"

definition record_progress :: "timestamp \<Rightarrow> int \<Rightarrow> int \<Rightarrow> ingestion_job \<Rightarrow> ingestion_job" where
  "record_progress now processed tot job =
     update now (job\<lparr>j_processed_chunks := processed, j_total_chunks := tot\<rparr>)"

definition fail_job :: "timestamp \<Rightarrow> string \<Rightarrow> ingestion_job \<Rightarrow> ingestion_job" where
  "fail_job now err job = update now (job\<lparr>j_status := FAILED, j_error_message := Some err\<rparr>)"

definition complete_job :: "timestamp \<Rightarrow> ingestion_job \<Rightarrow> ingestion_job" where
  "complete_job now job =
     update now (job\<lparr>j_status := COMPLETED, j_completed_at := Some now, j_error_message := None\<rparr>)"

definition progress :: "ingestion_job \<Rightarrow> real" where
  "progress job = (if j_total_chunks job = 0 then 0
     else of_int (j_processed_chunks job) / of_int (j_total_chunks job))"

subsection \<open>Runs\<close>

text \<open>A run of checked transitions stops at the first rejected one.\<close>

fun advances :: "(timestamp \<times> ingestion_status) list \<Rightarrow> ingestion_job \<Rightarrow> ingestion_job result" where
  "advances [] job = Inr job"
| "advances ((now, s) # ss) job = bindE (advance_status now s job) (advances ss)"

inductive job_step :: "ingestion_job \<Rightarrow> ingestion_job \<Rightarrow> bool" where
  advance: "advance_status now s job = Inr job' \<Longrightarrow> job_step job job'"
| progress: "job_step job (record_progress now p t job)"
| fail: "job_step job (fail_job now err job)"
| complete: "job_step job (complete_job now job)"

inductive job_reach :: "ingestion_job \<Rightarrow> bool" where
  fresh: "job_reach (new_job now eid jid did)"
| step: "job_reach job \<Longrightarrow> job_step job job' \<Longrightarrow> job_reach job'"

inductive_cases job_stepE: "job_step job job'"

subsection \<open>Stages in pipeline order\<close>

fun stage :: "ingestion_status \<Rightarrow> nat" where
  "stage QUEUED = 0"
| "stage EXTRACTING = 1"
| "stage CHUNKING = 2"
| "stage EMBEDDING = 3"
| "stage STORING = 4"
| "stage COMPLETED = 5"
| "stage FAILED = 6"

lemma stage_inj: "stage a = stage b \<Longrightarrow> a = b"
  by (cases a; cases b) simp_all

instantiation ingestion_status :: linorder
begin

definition less_eq_ingestion_status :: "ingestion_status \<Rightarrow> ingestion_status \<Rightarrow> bool" where
  "less_eq_ingestion_status a b = (stage a \<le> stage b)"

definition less_ingestion_status :: "ingestion_status \<Rightarrow> ingestion_status \<Rightarrow> bool" where
  "less_ingestion_status a b = (stage a < stage b)"

instance
  by standard (auto simp: less_eq_ingestion_status_def less_ingestion_status_def intro: stage_inj)

end

lemmas status_order = less_eq_ingestion_status_def less_ingestion_status_def
lemmas job_defs = advance_status_def record_progress_def fail_job_def complete_job_def update_def

lemma valid_transition_cases:
  "t \<in> set (VALID_TRANSITIONS s) \<longleftrightarrow>
     (s = FAILED \<and> t = QUEUED) \<or> (s \<noteq> FAILED \<and> s \<noteq> COMPLETED \<and> (t = FAILED \<or> stage t = Suc (stage s)))"
  by (cases s; cases t) simp_all

lemma advance_status_Inr_iff:
  "advance_status now t job = Inr job' \<longleftrightarrow>
     t \<in> set (VALID_TRANSITIONS (j_status job)) \<and>
     job' = job\<lparr>j_status := t, updated_at := now,
       j_started_at := (if t = EXTRACTING \<and> j_started_at job = None then Some now
                        else j_started_at job)\<rparr>"
  by (auto simp: advance_status_def update_def Let_def)

lemma advance_status_status: "advance_status now t job = Inr job' \<Longrightarrow> j_status job' = t"
  by (simp add: advance_status_Inr_iff)

lemma advances_append:
  "advances (xs @ ys) job = bindE (advances xs job) (advances ys)"
proof (induction xs arbitrary: job)
  case (Cons x xs)
  then show ?case by (cases x; cases "advance_status (fst x) (snd x) job") auto
qed simp

subsection \<open>Only complete runs complete\<close>

text \<open>
  A checked transition into a stage comes from the stage just before it. Followed backwards
  from \<open>COMPLETED\<close>, this spells out the last five transitions of a run.
\<close>

fun stages_upto :: "ingestion_status \<Rightarrow> ingestion_status list" where
  "stages_upto QUEUED = []"
| "stages_upto EXTRACTING = [EXTRACTING]"
| "stages_upto CHUNKING = [EXTRACTING, CHUNKING]"
| "stages_upto EMBEDDING = [EXTRACTING, CHUNKING, EMBEDDING]"
| "stages_upto STORING = [EXTRACTING, CHUNKING, EMBEDDING, STORING]"
| "stages_upto COMPLETED = [EXTRACTING, CHUNKING, EMBEDDING, STORING, COMPLETED]"
| "stages_upto FAILED = []"

lemma stages_upto_step:
  "t \<in> set (VALID_TRANSITIONS s) \<Longrightarrow> t \<noteq> FAILED \<Longrightarrow> t \<noteq> QUEUED \<Longrightarrow> stages_upto t = stages_upto s @ [t]"
  by (cases s; cases t) simp_all

lemma advances_suffix:
  "advances ss job = Inr job' \<Longrightarrow> j_status job = QUEUED \<Longrightarrow>
     suffix (stages_upto (j_status job')) (map snd ss)"
proof (induction ss arbitrary: job' rule: rev_induct)
  case (snoc x xs)
  obtain now t where x: "x = (now, t)" by (cases x)
  from snoc.prems(1) obtain mid where mid: "advances xs job = Inr mid"
    and adv: "advance_status now t mid = Inr job'"
    by (auto simp: advances_append x)
  then have st: "j_status job' = t" and ok: "t \<in> set (VALID_TRANSITIONS (j_status mid))"
    by (auto simp: advance_status_Inr_iff)
  show ?case
  proof (cases "t = FAILED \<or> t = QUEUED")
    case True
    then show ?thesis using st by auto
  next
    case False
    then have "stages_upto t = stages_upto (j_status mid) @ [t]"
      using ok by (intro stages_upto_step) auto
    with snoc.IH [OF mid snoc.prems(2)] show ?thesis by (simp add: st x)
  qed
qed simp

subsection \<open>Invariant of reachable jobs\<close>

definition job_ok :: "ingestion_job \<Rightarrow> bool" where
  "job_ok j \<longleftrightarrow>
     (j_status j \<in> {EXTRACTING, CHUNKING, EMBEDDING, STORING} \<longrightarrow> j_started_at j \<noteq> None)"

lemma job_ok_advance: "advance_status now t j = Inr j' \<Longrightarrow> job_ok j \<Longrightarrow> job_ok j'"
  by (cases "j_status j"; cases t) (auto simp: job_ok_def advance_status_Inr_iff)

lemma job_ok_step: "job_step j j' \<Longrightarrow> job_ok j \<Longrightarrow> job_ok j'"
  by (erule job_stepE)
    (auto simp: job_ok_def record_progress_def fail_job_def complete_job_def update_def
      dest: job_ok_advance [unfolded job_ok_def])

lemma job_reach_ok: "job_reach j \<Longrightarrow> job_ok j"
  by (induction rule: job_reach.induct) (auto simp: job_ok_def new_job_def dest: job_ok_step)

lemma job_step_identity:
  "job_step j j' \<Longrightarrow> j_job_id j' = j_job_id j \<and> j_document_id j' = j_document_id j \<and>
     created_at j' = created_at j \<and> entity_eq j' j"
  by (erule job_stepE)
    (auto simp: advance_status_Inr_iff record_progress_def fail_job_def complete_job_def
      update_def entity_eq_def)

subsection \<open>Properties\<close>

text \<open>
  \<open>advance_status\<close> accepts exactly the transitions of the table: from a working stage only
  the next stage of the pipeline order or \<open>FAILED\<close>, from \<open>FAILED\<close> only the retry to
  \<open>QUEUED\<close>, from \<open>COMPLETED\<close> nothing. A rejected transition raises \<open>ValueError\<close>; an accepted
  one changes the status and the time stamps and keeps every other field.
\<close>

theorem advance_status_spec:
  "advance_status now t job =
     (if (j_status job = FAILED \<and> t = QUEUED) \<or>
         (j_status job \<notin> {FAILED, COMPLETED} \<and> (t = FAILED \<or> stage t = Suc (stage (j_status job))))
      then Inr (job\<lparr>j_status := t, updated_at := now,
             j_started_at := (if t = EXTRACTING \<and> j_started_at job = None then Some now
                              else j_started_at job)\<rparr>)
      else Inl (InvalidTransition (status_value (j_status job)) (status_value t)))"
proof (cases "t \<in> set (VALID_TRANSITIONS (j_status job))")
  case True
  then have "advance_status now t job = Inr (job\<lparr>j_status := t, updated_at := now,
             j_started_at := (if t = EXTRACTING \<and> j_started_at job = None then Some now
                              else j_started_at job)\<rparr>)"
    by (simp add: advance_status_Inr_iff)
  with True show ?thesis by (auto simp: valid_transition_cases)
next
  case False
  then have "advance_status now t job =
      Inl (InvalidTransition (status_value (j_status job)) (status_value t))"
    by (simp add: advance_status_def)
  with False show ?thesis by (auto simp: valid_transition_cases)
qed

text \<open>
  C27. A run of checked transitions that takes a queued job to \<open>COMPLETED\<close> ends with all five
  stages in order: extracting, chunking, embedding, storing, completed. No shortcut and no
  reordering of the pipeline is possible through \<open>advance_status\<close>, however many failed
  attempts and retries come before.
\<close>

theorem completed_only_after_all_stages:
  assumes "advances ss job = Inr job'" and "j_status job = QUEUED" and "j_status job' = COMPLETED"
  shows "suffix [EXTRACTING, CHUNKING, EMBEDDING, STORING, COMPLETED] (map snd ss)"
  using advances_suffix [OF assms(1,2)] assms(3) by simp

theorem completed_only_after_all_stages_witness:
  "suffix [EXTRACTING, CHUNKING, EMBEDDING, STORING, COMPLETED]
     (map snd [(1, EXTRACTING), (2, FAILED), (3, QUEUED), (4, EXTRACTING), (5, CHUNKING),
               (6, EMBEDDING), (7, STORING), (8 :: int, COMPLETED)])"
  by (rule completed_only_after_all_stages
        [where job = "new_job 0 0 (IngestionJobId 1) (DocumentId 2)"
         and job' = "(new_job 0 0 (IngestionJobId 1) (DocumentId 2))
            \<lparr>j_status := COMPLETED, updated_at := 8, j_started_at := Some 1\<rparr>"])
    (simp_all add: advance_status_def update_def new_job_def)

text \<open>
  In every state a job can get into by any sequence of its methods, a job in a working
  stage has its start time recorded.
\<close>

theorem working_job_has_start_time:
  assumes "job_reach j" and "j_status j \<in> {EXTRACTING, CHUNKING, EMBEDDING, STORING}"
  shows "j_started_at j \<noteq> None"
  using job_reach_ok [OF assms(1)] assms(2) unfolding job_ok_def by blast

theorem working_job_has_start_time_witness:
  "j_started_at (record_progress 2 0 7 ((new_job 0 0 (IngestionJobId 1) (DocumentId 2))
      \<lparr>j_status := EXTRACTING, updated_at := 1, j_started_at := Some 1\<rparr>)) \<noteq> None"
proof (rule working_job_has_start_time)
  let ?j = "new_job 0 0 (IngestionJobId 1) (DocumentId 2)"
  let ?j1 = "?j\<lparr>j_status := EXTRACTING, updated_at := 1, j_started_at := Some 1\<rparr>"
  have "advance_status 1 EXTRACTING ?j = Inr ?j1"
    by (simp add: advance_status_def update_def new_job_def)
  then have "job_reach ?j1"
    by (blast intro: job_reach.intros job_step.intros)
  then show "job_reach (record_progress 2 0 7 ?j1)"
    by (blast intro: job_reach.intros job_step.intros)
qed (simp add: record_progress_def update_def)

text \<open>
  \<open>fail\<close> and \<open>complete\<close> do not consult the transition table: a finished job can still be
  marked failed (keeping its completion time), and a queued job completed, although
  \<open>advance_status\<close> rejects both transitions.
\<close>

theorem fail_and_complete_bypass_table:
  "j_status (fail_job t2 err (complete_job t1 j)) = FAILED \<and>
   j_completed_at (fail_job t2 err (complete_job t1 j)) = Some t1 \<and>
   \<not> is_ok (advance_status t2 FAILED (complete_job t1 j)) \<and>
   j_status (complete_job t1 (new_job t0 eid jid did)) = COMPLETED \<and>
   \<not> is_ok (advance_status t1 COMPLETED (new_job t0 eid jid did))"
  by (simp add: fail_job_def complete_job_def update_def advance_status_def new_job_def)

end
