(* ===== verification/Tenant.thy ===== *)
theory Tenant
  imports Entities
begin

section \<open>Tenants: plans, quotas and API keys\<close>

text \<open>
  \<open>src/app/domain/entities/tenant.py\<close>. The SHA-256 digest (\<open>hashlib\<close>) is the parameter
  \<open>sha256\<close>, the random hex string of \<open>secrets.token_hex(32)\<close> an argument of
  \<open>generate_api_key\<close>.
\<close>

datatype tenant_plan = FREE | STARTER | PRO | ENTERPRISE

fun plan_value :: "tenant_plan \<Rightarrow> string" where
  "plan_value FREE = ''free''"
| "plan_value STARTER = ''starter''"
| "plan_value PRO = ''pro''"
| "plan_value ENTERPRISE = ''enterprise''"

definition TenantPlan :: "string \<Rightarrow> tenant_plan result" where
  "TenantPlan v = (if v = ''free'' then Inr FREE else if v = ''starter'' then Inr STARTER
     else if v = ''pro'' then Inr PRO else if v = ''enterprise'' then Inr ENTERPRISE
     else Inl (ValueError (quoted v @ '' is not a valid TenantPlan'')))"

fun PLAN_QUOTAS :: "tenant_plan \<Rightarrow> int" where
  "PLAN_QUOTAS FREE = 100000"
| "PLAN_QUOTAS STARTER = 1000000"
| "PLAN_QUOTAS PRO = 10000000"
| "PLAN_QUOTAS ENTERPRISE = 1000000000"

record tenant = entity +
  t_tenant_id :: tenant_id
  t_name :: string
  t_api_key_hash :: string
  t_plan :: tenant_plan
  t_is_active :: bool
  t_tokens_used_this_month :: int
  t_total_tokens_used :: int
  t_metadata :: dict

definition generate_api_key :: "string \<Rightarrow> string" where
  "generate_api_key token_hex = ''sk-'' @ token_hex"

definition hash_api_key :: "(string \<Rightarrow> string) \<Rightarrow> string \<Rightarrow> string" where
  "hash_api_key sha256 raw_key = sha256 raw_key"

definition create_tenant ::
  "(string \<Rightarrow> string) \<Rightarrow> timestamp \<Rightarrow> uuid \<Rightarrow> tenant_id \<Rightarrow> string \<Rightarrow> string \<Rightarrow> tenant_plan
   \<Rightarrow> tenant \<times> string" where
  "create_tenant sha256 now eid tid token_hex name plan =
     (let raw_key = generate_api_key token_hex; key_hash = hash_api_key sha256 raw_key
      in (\<lparr>ent_id = eid, created_at = now, updated_at = now, t_tenant_id = tid, t_name = name,
           t_api_key_hash = key_hash, t_plan = plan, t_is_active = True,
           t_tokens_used_this_month = 0, t_total_tokens_used = 0, t_metadata = []\<rparr>, raw_key))"

definition token_quota :: "tenant \<Rightarrow> int" where
  "token_quota t = PLAN_QUOTAS (t_plan t)"

definition can_accept_request :: "tenant \<Rightarrow> bool" where
  "can_accept_request t = (t_is_active t \<and> t_tokens_used_this_month t < token_quota t)"

definition deduct_quota :: "timestamp \<Rightarrow> int \<Rightarrow> tenant \<Rightarrow> tenant" where
  "deduct_quota now tokens t =
     update now (t\<lparr>t_tokens_used_this_month := t_tokens_used_this_month t + tokens,
                   t_total_tokens_used := t_total_tokens_used t + tokens\<rparr>)"

definition reset_monthly_quota :: "timestamp \<Rightarrow> tenant \<Rightarrow> tenant" where
  "reset_monthly_quota now t = update now (t\<lparr>t_tokens_used_this_month := 0\<rparr>)"

definition verify_tenant_api_key :: "(string \<Rightarrow> string) \<Rightarrow> string \<Rightarrow> tenant \<Rightarrow> bool" where
  "verify_tenant_api_key sha256 raw_key t = (t_api_key_hash t = hash_api_key sha256 raw_key)"

definition deactivate :: "timestamp \<Rightarrow> tenant \<Rightarrow> tenant" where
  "deactivate now t = update now (t\<lparr>t_is_active := False\<rparr>)"

subsection \<open>Metered use of a tenant\<close>

text \<open>
  A client that honours the quota: each request of \<open>n\<close> tokens is served, and deducted, only
  when \<open>can_accept_request\<close> holds before it.
\<close>

fun metered :: "(timestamp \<times> int) list \<Rightarrow> tenant \<Rightarrow> tenant" where
  "metered [] t = t"
| "metered ((now, n) # rs) t =
     metered rs (if can_accept_request t then deduct_quota now n t else t)"

lemma deduct_quota_simps [simp]:
  "t_tokens_used_this_month (deduct_quota now n t) = t_tokens_used_this_month t + n"
  "t_total_tokens_used (deduct_quota now n t) = t_total_tokens_used t + n"
  "t_is_active (deduct_quota now n t) = t_is_active t"
  "token_quota (deduct_quota now n t) = token_quota t"
  by (simp_all add: deduct_quota_def update_def token_quota_def)

lemma metered_quota: "token_quota (metered rs t) = token_quota t"
  by (induction rs t rule: metered.induct) auto

lemma TenantPlan_value [simp]: "TenantPlan (plan_value p) = Inr p"
  by (cases p) (simp_all add: TenantPlan_def)

text \<open>The monthly counter never passes the quota by more than one request.\<close>

lemma metered_bound:
  assumes "\<forall>(now, n) \<in> set rs. 0 \<le> n \<and> n \<le> m"
    and "t_tokens_used_this_month t < token_quota t + m" and "0 < m"
  shows "t_tokens_used_this_month (metered rs t) < token_quota t + m"
  using assms
proof (induction rs t rule: metered.induct)
  case (2 now n rs t)
  show ?case
  proof (cases "can_accept_request t")
    case True
    then have "t_tokens_used_this_month (deduct_quota now n t) < token_quota (deduct_quota now n t) + m"
      using "2.prems"(1) by (auto simp: can_accept_request_def)
    with True "2.prems" "2.IH" show ?thesis by simp
  next
    case False
    with "2.prems" "2.IH" show ?thesis by simp
  qed
qed simp

lemma metered_inactive: "\<not> t_is_active t \<Longrightarrow> metered rs t = t"
  by (induction rs t rule: metered.induct) (auto simp: can_accept_request_def)

lemma metered_usage:
  "t_total_tokens_used (metered rs t) - t_total_tokens_used t =
     t_tokens_used_this_month (metered rs t) - t_tokens_used_this_month t"
  by (induction rs t rule: metered.induct) auto

subsection \<open>Properties\<close>

text \<open>
  C32. Quota enforcement: when every request is checked with \<open>can_accept_request\<close> before its
  tokens are deducted, and no request takes more than \<open>m\<close> tokens, a fresh tenant's monthly
  usage stays below its plan's quota plus one request, the life-time total equals the
  monthly usage, and a deactivated tenant is charged nothing more.
\<close>

theorem quota_enforced:
  assumes "\<forall>(now, n) \<in> set rs. 0 \<le> n \<and> n \<le> m" and "0 < m"
    and "t = fst (create_tenant sha256 now0 eid tid hex name plan)"
  shows "t_tokens_used_this_month (metered rs t) < PLAN_QUOTAS plan + m \<and>
    t_total_tokens_used (metered rs t) = t_tokens_used_this_month (metered rs t) \<and>
    metered rs (deactivate now1 t) = deactivate now1 t"
proof (intro conjI)
  have q: "token_quota t = PLAN_QUOTAS plan" and z: "t_tokens_used_this_month t = 0"
    "t_total_tokens_used t = 0"
    unfolding assms(3) by (simp_all add: create_tenant_def token_quota_def Let_def)
  have pos: "0 < PLAN_QUOTAS plan" by (cases plan) simp_all
  show "t_tokens_used_this_month (metered rs t) < PLAN_QUOTAS plan + m"
    using metered_bound [OF assms(1) _ assms(2), of t] q z pos assms(2) by simp
  show "t_total_tokens_used (metered rs t) = t_tokens_used_this_month (metered rs t)"
    using metered_usage [of rs t] z by simp
  show "metered rs (deactivate now1 t) = deactivate now1 t"
    by (rule metered_inactive) (simp add: deactivate_def update_def)
qed

theorem quota_enforced_witness:
  "t_tokens_used_this_month (metered [(1, 60000), (2, 60000), (3, 60000)]
     (fst (create_tenant (\<lambda>s. s) 0 0 (TenantId 0) ''ab'' ''acme'' FREE))) < 160000"
  using quota_enforced [of "[(1, 60000), (2, 60000), (3, 60000)]" 60000,
      OF _ _ refl, of "\<lambda>s. s" 0 0 "TenantId 0" "''ab''" "''acme''" FREE]
  by simp

text \<open>
  API keys: the raw key returned when a tenant is created is accepted for that tenant,
  another key is accepted only when its SHA-256 digest is the same one; what is stored is
  the digest, and the new tenant may make requests at once.
\<close>

theorem created_key_verifies:
  "(let (t, raw) = create_tenant sha256 now eid tid hex name plan in
      raw = ''sk-'' @ hex \<and> t_api_key_hash t = sha256 raw \<and> can_accept_request t \<and>
      (\<forall>k. verify_tenant_api_key sha256 k t = (sha256 k = sha256 raw)))"
  by (cases plan) (auto simp: create_tenant_def verify_tenant_api_key_def hash_api_key_def Let_def
      generate_api_key_def can_accept_request_def token_quota_def)

end
