(* ===== verification/Chunking.thy ===== *)
theory Chunking
  imports Exceptions
begin

section \<open>Chunking strategies\<close>

text \<open>
  \<open>src/app/domain/services/chunking_service.py\<close> (\<open>SimpleChunkingStrategy\<close>, by characters) and
  \<open>token_aware_chunking.py\<close> (\<open>TokenAwareChunkingStrategy\<close>, by tokens). The loops advance a
  start index that need not grow, so they are partial: \<open>None\<close> is a loop that never returns.
  Positions are Python integers and slices follow Python's rules, since the character
  strategy can move its start below zero. The tokenizer (tiktoken) is a pair of parameters
  \<open>encode\<close>, \<open>decode\<close>; \<open>encode\<close> may raise.
\<close>

record chunk_data =
  cd_content :: string
  cd_start_char :: int
  cd_end_char :: int
  cd_chunk_index :: int
  cd_token_count :: int

subsection \<open>SimpleChunkingStrategy\<close>

text \<open>One iteration: the chunks appended (none or one), the next start and index.\<close>

definition simple_end :: "string \<Rightarrow> int \<Rightarrow> int \<Rightarrow> int" where
  "simple_end content chunk_size start =
     (let end0 = min (start + chunk_size) (int (length content));
          newline_pos = py_rfind newline content start end0
      in if end0 < int (length content) \<and> newline_pos > start then newline_pos + 1 else end0)"

definition simple_body ::
  "string \<Rightarrow> int \<Rightarrow> int \<Rightarrow> int \<Rightarrow> int \<Rightarrow> chunk_data list \<times> int \<times> int" where
  "simple_body content chunk_size chunk_overlap start chunk_index =
     (let end1 = simple_end content chunk_size start;
          chunk_content = py_strip (py_slice content start end1);
          start1 = (if end1 < int (length content) then end1 - chunk_overlap else end1);
          start2 = (if start1 \<ge> end1 then end1 else start1)
      in if chunk_content \<noteq> []
         then ([\<lparr>cd_content = chunk_content, cd_start_char = start, cd_end_char = end1,
                 cd_chunk_index = chunk_index,
                 cd_token_count = int (length (py_split chunk_content))\<rparr>],
               start2, chunk_index + 1)
         else ([], start2, chunk_index))"

partial_function (option) simple_loop ::
  "string \<Rightarrow> int \<Rightarrow> int \<Rightarrow> int \<Rightarrow> int \<Rightarrow> chunk_data list option" where
  "simple_loop content chunk_size chunk_overlap start chunk_index =
     (if start < int (length content)
      then (case simple_body content chunk_size chunk_overlap start chunk_index of
          (here, start', index') \<Rightarrow>
            Option.bind (simple_loop content chunk_size chunk_overlap start' index')
              (\<lambda>rest. Some (here @ rest)))
      else Some [])"

definition simple_chunk :: "string \<Rightarrow> int \<Rightarrow> int \<Rightarrow> chunk_data list option" where
  "simple_chunk content chunk_size chunk_overlap =
     (if py_strip content = [] then Some []
      else simple_loop content chunk_size chunk_overlap 0 0)"

subsection \<open>TokenAwareChunkingStrategy\<close>

definition MAX_TOKENS :: int where
  "MAX_TOKENS = 8000"

definition effective_chunk_size :: "int \<Rightarrow> int" where
  "effective_chunk_size chunk_size = min chunk_size MAX_TOKENS"

definition effective_overlap :: "int \<Rightarrow> int \<Rightarrow> int" where
  "effective_overlap chunk_size chunk_overlap =
     min chunk_overlap (effective_chunk_size chunk_size div 2)"

definition token_here ::
  "(int list \<Rightarrow> string) \<Rightarrow> int list \<Rightarrow> int \<Rightarrow> int \<Rightarrow> int \<Rightarrow> chunk_data list" where
  "token_here decode token_ids start end1 chunk_index =
     (let chunk_token_ids = py_slice token_ids start end1;
          chunk_text = decode chunk_token_ids
      in if py_strip chunk_text \<noteq> []
         then let start_char = int (length (decode (py_slice token_ids 0 start)))
              in [\<lparr>cd_content = py_strip chunk_text, cd_start_char = start_char,
                   cd_end_char = start_char + int (length chunk_text),
                   cd_chunk_index = chunk_index,
                   cd_token_count = int (length chunk_token_ids)\<rparr>]
         else [])"

partial_function (option) token_loop ::
  "(int list \<Rightarrow> string) \<Rightarrow> int list \<Rightarrow> int \<Rightarrow> int \<Rightarrow> int \<Rightarrow> int \<Rightarrow> chunk_data list option" where
  "token_loop decode token_ids csize ovl start chunk_index =
     (if start < int (length token_ids)
      then (let end1 = min (start + csize) (int (length token_ids));
                here = token_here decode token_ids start end1 chunk_index
            in if end1 \<ge> int (length token_ids) then Some here
               else let start1 = end1 - ovl; start2 = (if start1 \<ge> end1 then end1 else start1)
                    in Option.bind
                         (token_loop decode token_ids csize ovl start2
                            (chunk_index + int (length here)))
                         (\<lambda>rest. Some (here @ rest)))
      else Some [])"

definition token_chunk ::
  "(string \<Rightarrow> int list result) \<Rightarrow> (int list \<Rightarrow> string) \<Rightarrow> string \<Rightarrow> int \<Rightarrow> int
   \<Rightarrow> chunk_data list result option" where
  "token_chunk encode decode content chunk_size chunk_overlap =
     (if py_strip content = [] then Some (Inr [])
      else case encode content of
          Inl e \<Rightarrow> Some (Inl e)
        | Inr token_ids \<Rightarrow>
            if token_ids = [] then Some (Inr [])
            else map_option Inr
                   (token_loop decode token_ids (effective_chunk_size chunk_size)
                      (effective_overlap chunk_size chunk_overlap) 0 0))"

declare simple_loop.simps [code] token_loop.simps [code]

subsection \<open>Reference: the list of windows\<close>

text \<open>
  The intended result of the token loop: half-open windows of at most \<open>csize\<close> positions, each
  starting \<open>ovl\<close> before the end of the last, until the end is reached.
\<close>

function windows :: "nat \<Rightarrow> nat \<Rightarrow> nat \<Rightarrow> nat \<Rightarrow> (nat \<times> nat) list" where
  "windows n csize ovl start =
     (if start < n \<and> ovl < csize
      then (start, min (start + csize) n) #
           (if start + csize < n then windows n csize ovl (start + csize - ovl) else [])
      else [])"
  by pat_completeness auto
termination
  by (relation "measure (\<lambda>(n, csize, ovl, start). n - start)") auto

declare windows.simps [simp del]

fun chunks_of ::
  "(int list \<Rightarrow> string) \<Rightarrow> int list \<Rightarrow> int \<Rightarrow> (nat \<times> nat) list \<Rightarrow> chunk_data list" where
  "chunks_of decode ids i [] = []"
| "chunks_of decode ids i ((a, b) # ws) =
     (let here = token_here decode ids (int a) (int b) i
      in here @ chunks_of decode ids (i + int (length here)) ws)"

lemma length_token_here: "length (token_here decode ids a b i) \<le> 1"
  by (simp add: token_here_def Let_def)

lemma windows_bounds:
  "(a, b) \<in> set (windows n csize ovl s) \<Longrightarrow> s \<le> a \<and> a < b \<and> b \<le> n \<and> b - a \<le> csize"
proof (induction n csize ovl s rule: windows.induct)
  case (1 n csize ovl s)
  from "1.prems" have g: "s < n \<and> ovl < csize"
    by (subst (asm) windows.simps) (auto split: if_splits)
  with "1.prems" consider "(a, b) = (s, min (s + csize) n)"
    | "s + csize < n" "(a, b) \<in> set (windows n csize ovl (s + csize - ovl))"
    by (subst (asm) windows.simps) (auto split: if_splits)
  then show ?case
  proof cases
    case 2
    with "1.IH" g have "s + csize - ovl \<le> a \<and> a < b \<and> b \<le> n \<and> b - a \<le> csize" by blast
    with g show ?thesis by linarith
  qed (use g in auto)
qed

lemma windows_cover:
  "ovl < csize \<Longrightarrow> s \<le> k \<Longrightarrow> k < n \<Longrightarrow> \<exists>(a, b) \<in> set (windows n csize ovl s). a \<le> k \<and> k < b"
proof (induction n csize ovl s rule: windows.induct)
  case (1 n csize ovl s)
  show ?case
  proof (cases "k < min (s + csize) n")
    case True
    with "1.prems" show ?thesis by (subst windows.simps) auto
  next
    case False
    with "1.prems" have "s + csize < n" "s + csize - ovl \<le> k" by auto
    with "1.IH" "1.prems" have "\<exists>(a, b) \<in> set (windows n csize ovl (s + csize - ovl)). a \<le> k \<and> k < b"
      by auto
    with "1.prems" \<open>s + csize < n\<close> show ?thesis by (subst windows.simps) auto
  qed
qed

lemma token_loop_windows:
  assumes "0 < csize" and "nat ovl < nat csize"
  shows "token_loop decode ids csize ovl (int s) i =
     Some (chunks_of decode ids i (windows (length ids) (nat csize) (nat ovl) s))"
proof -
  have "token_loop decode ids csize ovl (int s) i =
     Some (chunks_of decode ids i (windows n k v s))"
    if "n = length ids" "k = nat csize" "v = nat ovl" for n k v
    using that assms
  proof (induction n k v s arbitrary: i rule: windows.induct)
    case (1 n k v s)
    show ?case
    proof (cases "s < n")
      case False
      with "1.prems" show ?thesis
        by (simp add: token_loop.simps windows.simps [of "length ids" "nat csize" "nat ovl" s])
    next
      case True
      let ?e = "min (s + k) n"
      have e: "min (int s + csize) (int (length ids)) = int ?e"
        using "1.prems" by (simp add: min_def) arith
      show ?thesis
      proof (cases "s + k < n")
        case False
        with True "1.prems" e show ?thesis
          by (simp add: token_loop.simps [of _ _ _ _ "int s"] windows.simps [of "length ids" "nat csize" "nat ovl" s])
      next
        case more: True
        let ?H = "token_here decode ids (int s) (int ?e) i"
        have nxt: "ovl \<le> 0 \<Longrightarrow> int s + int k = int (s + k - v)"
          "\<not> ovl \<le> 0 \<Longrightarrow> int s + int k - ovl = int (s + k - v)"
          using "1.prems" by auto
        have "token_loop decode ids csize ovl (int s) i =
            Option.bind (token_loop decode ids csize ovl (int (s + k - v)) (i + int (length ?H)))
              (\<lambda>rest. Some (?H @ rest))"
          using True more "1.prems"(1)
          by (subst token_loop.simps) (simp only: Let_def e, simp add: nxt)
        moreover have "token_loop decode ids csize ovl (int (s + k - v)) (i + int (length ?H)) =
            Some (chunks_of decode ids (i + int (length ?H)) (windows n k v (s + k - v)))"
          using "1.IH" [OF conjI] True more "1.prems" by simp
        moreover have "windows n k v s = (s, ?e) # windows n k v (s + k - v)"
          using True more "1.prems" by (subst windows.simps) simp
        ultimately show ?thesis by (simp add: Let_def)
      qed
    qed
  qed
  then show ?thesis by simp
qed

text \<open>Facts on the chunks of a list of windows.\<close>

lemma chunks_of_indices:
  "map cd_chunk_index (chunks_of decode ids i ws) =
     map (\<lambda>k. i + int k) [0..<length (chunks_of decode ids i ws)]"
proof (induction decode ids i ws rule: chunks_of.induct)
  case (2 decode ids i a b ws)
  have one: "token_here decode ids (int a) (int b) i = [] \<or>
      (\<exists>c. token_here decode ids (int a) (int b) i = [c] \<and> cd_chunk_index c = i)"
    by (auto simp: token_here_def Let_def)
  have shift: "map (\<lambda>k. i + 1 + int k) [0..<m] = map (\<lambda>k. i + int k) [1..<Suc m]" for m
    by (simp add: map_Suc_upt [symmetric] del: upt_Suc)
  from one show ?case
  proof
    assume "\<exists>c. token_here decode ids (int a) (int b) i = [c] \<and> cd_chunk_index c = i"
    then obtain c where c: "token_here decode ids (int a) (int b) i = [c]" "cd_chunk_index c = i"
      by blast
    with "2.IH" [OF refl] show ?case
      by (simp add: shift upt_conv_Cons del: upt_Suc)
  qed (use "2.IH" [OF refl] in simp)
qed simp

lemma chunks_of_elem:
  "c \<in> set (chunks_of decode ids i ws) \<Longrightarrow>
     \<exists>(a, b) \<in> set ws. \<exists>j. token_here decode ids (int a) (int b) j = [c]"
proof (induction decode ids i ws rule: chunks_of.induct)
  case (2 decode ids i a b ws)
  from "2.prems" consider "c \<in> set (token_here decode ids (int a) (int b) i)"
    | "c \<in> set (chunks_of decode ids (i + int (length (token_here decode ids (int a) (int b) i))) ws)"
    by (auto simp: Let_def)
  then show ?case
  proof cases
    case 1
    then have "token_here decode ids (int a) (int b) i = [c]"
      by (auto simp: token_here_def Let_def split: if_splits)
    then show ?thesis by auto
  next
    case 2
    with "2.IH" [OF refl] show ?thesis by fastforce
  qed
qed simp

lemma chunks_of_window:
  "(a, b) \<in> set ws \<Longrightarrow> py_strip (decode (py_slice ids (int a) (int b))) \<noteq> [] \<Longrightarrow>
     \<exists>c \<in> set (chunks_of decode ids i ws). \<exists>j. token_here decode ids (int a) (int b) j = [c]"
proof (induction decode ids i ws rule: chunks_of.induct)
  case (2 decode ids i a' b' ws)
  show ?case
  proof (cases "(a, b) = (a', b')")
    case True
    then obtain c where "token_here decode ids (int a') (int b') i = [c]"
      using "2.prems"(2) by (auto simp: token_here_def Let_def)
    with True show ?thesis by (auto simp: Let_def)
  next
    case False
    with "2.prems" "2.IH" [OF refl] show ?thesis by (fastforce simp: Let_def)
  qed
qed simp

lemma token_here_fields:
  assumes "token_here decode ids (int a) (int b) j = [c]" and "a \<le> b" and "b \<le> length ids"
  shows "cd_content c = py_strip (decode (take (b - a) (drop a ids))) \<and> cd_content c \<noteq> [] \<and>
    cd_token_count c = int (b - a) \<and> cd_start_char c = int (length (decode (take a ids))) \<and>
    cd_end_char c = cd_start_char c + int (length (decode (take (b - a) (drop a ids))))"
proof -
  have "py_slice ids 0 (int a) = take a ids"
    using assms(2,3) py_slice_nat [of 0 a ids] by simp
  with assms show ?thesis
    by (auto simp: token_here_def Let_def py_slice_nat split: if_splits)
qed

subsection \<open>The token strategy on valid settings\<close>

abbreviation size_of :: "int \<Rightarrow> nat" where
  "size_of chunk_size \<equiv> nat (effective_chunk_size chunk_size)"

abbreviation overlap_of :: "int \<Rightarrow> int \<Rightarrow> nat" where
  "overlap_of chunk_size chunk_overlap \<equiv> nat (effective_overlap chunk_size chunk_overlap)"

lemma effective_ok:
  "1 \<le> chunk_size \<Longrightarrow> 0 < effective_chunk_size chunk_size \<and>
     overlap_of chunk_size chunk_overlap < size_of chunk_size \<and>
     effective_chunk_size chunk_size \<le> MAX_TOKENS"
  by (auto simp: effective_chunk_size_def effective_overlap_def MAX_TOKENS_def min_def)

lemma token_chunk_windows:
  assumes "1 \<le> chunk_size" and "encode content = Inr ids"
  shows "token_chunk encode decode content chunk_size chunk_overlap = Some (Inr
     (if py_strip content = [] then []
      else chunks_of decode ids 0
             (windows (length ids) (size_of chunk_size) (overlap_of chunk_size chunk_overlap) 0)))"
proof -
  have "token_loop decode ids (effective_chunk_size chunk_size)
          (effective_overlap chunk_size chunk_overlap) (int 0) 0 =
        Some (chunks_of decode ids 0
          (windows (length ids) (size_of chunk_size) (overlap_of chunk_size chunk_overlap) 0))"
    using effective_ok [OF assms(1)] by (intro token_loop_windows) auto
  then show ?thesis
    using assms(2) by (simp add: token_chunk_def windows.simps [of 0])
qed

lemma token_chunk_elem:
  assumes "1 \<le> chunk_size" and "encode content = Inr ids"
    and "token_chunk encode decode content chunk_size chunk_overlap = Some (Inr cs)"
    and "c \<in> set cs"
  obtains a b j where "a < b" "b \<le> length ids" "b - a \<le> size_of chunk_size"
    "token_here decode ids (int a) (int b) j = [c]"
    "(a, b) \<in> set (windows (length ids) (size_of chunk_size) (overlap_of chunk_size chunk_overlap) 0)"
proof -
  let ?ws = "windows (length ids) (size_of chunk_size) (overlap_of chunk_size chunk_overlap) 0"
  have "c \<in> set (chunks_of decode ids 0 ?ws)"
    using token_chunk_windows [where encode = encode and content = content, OF assms(1,2), of decode chunk_overlap] assms(3,4)
    by (auto split: if_splits)
  then obtain a b j where "(a, b) \<in> set ?ws" "token_here decode ids (int a) (int b) j = [c]"
    using chunks_of_elem by blast
  then show thesis using that windows_bounds by blast
qed

text \<open>
  C25. Token chunking returns for every chunk size of at least one and every overlap, whatever
  the document: no chunk has more tokens than the chunk size or than the cap of 8000, none
  is empty or blank, and the chunk indices count 0, 1, 2, \<open>\<dots>\<close> without gaps.
\<close>

theorem token_chunk_returns_bounded:
  assumes "1 \<le> chunk_size" and "encode content = Inr ids"
  shows "\<exists>cs. token_chunk encode decode content chunk_size chunk_overlap = Some (Inr cs) \<and>
    (\<forall>c \<in> set cs. 1 \<le> cd_token_count c \<and> cd_token_count c \<le> min chunk_size 8000 \<and>
        cd_content c \<noteq> []) \<and>
    map cd_chunk_index cs = map int [0..<length cs]"
proof -
  obtain cs where cs: "token_chunk encode decode content chunk_size chunk_overlap = Some (Inr cs)"
    using token_chunk_windows [where encode = encode and content = content, OF assms] by blast
  have "map cd_chunk_index cs = map int [0..<length cs]"
    using cs token_chunk_windows [where encode = encode and content = content, OF assms, of decode chunk_overlap] chunks_of_indices [of decode ids 0]
    by (auto split: if_splits)
  moreover have "1 \<le> cd_token_count c \<and> cd_token_count c \<le> min chunk_size 8000 \<and> cd_content c \<noteq> []"
    if c: "c \<in> set cs" for c
  proof (rule token_chunk_elem [where encode = encode and content = content, OF assms cs c])
    fix a b j
    assume w: "a < b" "b \<le> length ids" "b - a \<le> size_of chunk_size"
      and h: "token_here decode ids (int a) (int b) j = [c]"
    have "int (b - a) \<le> min chunk_size 8000"
      using w(3) assms(1) by (simp add: effective_chunk_size_def MAX_TOKENS_def) arith
    with token_here_fields [OF h] w show ?thesis by auto
  qed
  ultimately show ?thesis using cs by blast
qed

theorem token_chunk_returns_bounded_witness:
  "\<exists>cs. token_chunk (\<lambda>s. Inr (map of_char s)) (map char_of) ''abcde'' 2 1 = Some (Inr cs) \<and>
    (\<forall>c \<in> set cs. 1 \<le> cd_token_count c \<and> cd_token_count c \<le> min 2 8000 \<and> cd_content c \<noteq> []) \<and>
    map cd_chunk_index cs = map int [0..<length cs]"
  by (rule token_chunk_returns_bounded [OF _ refl]) simp

text \<open>
  C4. Token chunking loses nothing: every token of the document lies in a window of at most
  the effective chunk size whose text is blank or is the content of one of the chunks, with
  the token count and the start offset of that window.
\<close>

theorem token_chunk_covers_document:
  assumes "1 \<le> chunk_size" and "encode content = Inr ids" and "py_strip content \<noteq> []"
    and "token_chunk encode decode content chunk_size chunk_overlap = Some (Inr cs)"
    and "k < length ids"
  shows "\<exists>a b. a \<le> k \<and> k < b \<and> b \<le> length ids \<and> int (b - a) \<le> effective_chunk_size chunk_size \<and>
    (py_strip (decode (take (b - a) (drop a ids))) = [] \<or>
     (\<exists>c \<in> set cs. cd_content c = py_strip (decode (take (b - a) (drop a ids))) \<and>
        cd_token_count c = int (b - a) \<and> cd_start_char c = int (length (decode (take a ids)))))"
proof -
  let ?ws = "windows (length ids) (size_of chunk_size) (overlap_of chunk_size chunk_overlap) 0"
  have ok: "overlap_of chunk_size chunk_overlap < size_of chunk_size"
    using effective_ok [OF assms(1)] by blast
  obtain a b where w: "(a, b) \<in> set ?ws" "a \<le> k" "k < b"
    using windows_cover [OF ok, of 0 k "length ids"] assms(5) by auto
  have bd: "b \<le> length ids" "b - a \<le> size_of chunk_size"
    using windows_bounds [OF w(1)] by auto
  have cs: "cs = chunks_of decode ids 0 ?ws"
    using token_chunk_windows [where encode = encode and content = content, OF assms(1,2), of decode chunk_overlap] assms(3,4) by simp
  have "0 < effective_chunk_size chunk_size" using effective_ok [OF assms(1)] by blast
  then have "int (b - a) \<le> effective_chunk_size chunk_size"
    using bd(2) by arith
  moreover have "\<exists>c \<in> set cs. cd_content c = py_strip (decode (take (b - a) (drop a ids))) \<and>
        cd_token_count c = int (b - a) \<and> cd_start_char c = int (length (decode (take a ids)))"
    if "py_strip (decode (take (b - a) (drop a ids))) \<noteq> []"
  proof -
    have "py_strip (decode (py_slice ids (int a) (int b))) \<noteq> []"
      using that w bd by (simp add: py_slice_nat)
    then obtain c j where c: "c \<in> set cs" "token_here decode ids (int a) (int b) j = [c]"
      using chunks_of_window [OF w(1), of decode ids 0] cs by blast
    with token_here_fields [OF c(2)] w bd show ?thesis by auto
  qed
  ultimately show ?thesis using w bd by blast
qed

theorem token_chunk_covers_document_witness:
  "\<exists>a b. a \<le> (3 :: nat) \<and> 3 < b \<and> b \<le> length (map of_char ''ab cd'' :: int list) \<and>
    int (b - a) \<le> effective_chunk_size 2 \<and>
    (py_strip (map char_of (take (b - a) (drop a (map of_char ''ab cd'' :: int list)))) = [] \<or>
     (\<exists>c \<in> set [\<lparr>cd_content = ''ab'', cd_start_char = 0, cd_end_char = 2, cd_chunk_index = 0, cd_token_count = 2\<rparr>,
          \<lparr>cd_content = ''c'', cd_start_char = 2, cd_end_char = 4, cd_chunk_index = 1, cd_token_count = 2\<rparr>,
          \<lparr>cd_content = ''d'', cd_start_char = 4, cd_end_char = 5, cd_chunk_index = 2, cd_token_count = 1\<rparr>].
        cd_content c = py_strip (map char_of (take (b - a) (drop a (map of_char ''ab cd'' :: int list)))) \<and>
        cd_token_count c = int (b - a) \<and>
        cd_start_char c = int (length (map char_of (take a (map of_char ''ab cd'' :: int list)) :: string))))"
proof (rule token_chunk_covers_document
    [where encode = "\<lambda>s. Inr (map of_char s)" and chunk_overlap = 0, OF _ refl])
  show "token_chunk (\<lambda>s. Inr (map of_char s)) (map char_of) ''ab cd'' 2 0 = Some (Inr
    [\<lparr>cd_content = ''ab'', cd_start_char = 0, cd_end_char = 2, cd_chunk_index = 0, cd_token_count = 2\<rparr>,
     \<lparr>cd_content = ''c'', cd_start_char = 2, cd_end_char = 4, cd_chunk_index = 1, cd_token_count = 2\<rparr>,
     \<lparr>cd_content = ''d'', cd_start_char = 4, cd_end_char = 5, cd_chunk_index = 2, cd_token_count = 1\<rparr>])"
    by code_simp
qed (simp_all add: py_strip_def py_isspace_def)

text \<open>
  Windows that are cut between characters: the text decoded before, in and after each is the document. The
  tokens are byte sequences, so a window can also begin or end inside a character; such a window decodes to
  replacement characters at its ends.
\<close>

definition cut_between_characters :: "(int list \<Rightarrow> string) \<Rightarrow> string \<Rightarrow> int list \<Rightarrow> (nat \<times> nat) list \<Rightarrow> bool" where
  "cut_between_characters decode content ids ws \<longleftrightarrow> (\<forall>(a, b) \<in> set ws.
     content = decode (take a ids) @ decode (take (b - a) (drop a ids)) @ decode (drop b ids))"

text \<open>
  C31. The recorded offsets are exact for a document whose windows are cut between characters (as in a document
  of one-byte characters): the characters of the document between \<open>start_char\<close> and \<open>end_char\<close>, stripped, are
  the chunk's content. (Otherwise they are approximate, as the source says.)
\<close>

theorem token_chunk_offsets_exact:
  assumes "1 \<le> chunk_size" and "encode content = Inr ids"
    and cuts: "cut_between_characters decode content ids
      (windows (length ids) (size_of chunk_size) (overlap_of chunk_size chunk_overlap) 0)"
    and "token_chunk encode decode content chunk_size chunk_overlap = Some (Inr cs)"
    and "c \<in> set cs"
  shows "py_strip (py_slice content (cd_start_char c) (cd_end_char c)) = cd_content c"
proof (rule token_chunk_elem [where encode = encode and content = content, OF assms(1,2,4,5)])
  fix a b j
  assume w: "a < b" "b \<le> length ids"
    and h: "token_here decode ids (int a) (int b) j = [c]"
    and ws: "(a, b) \<in> set (windows (length ids) (size_of chunk_size) (overlap_of chunk_size chunk_overlap) 0)"
  let ?mid = "take (b - a) (drop a ids)"
  have f: "cd_content c = py_strip (decode ?mid)"
    "cd_start_char c = int (length (decode (take a ids)))"
    "cd_end_char c = int (length (decode (take a ids)) + length (decode ?mid))"
    using token_here_fields [OF h] w by auto
  have "content = decode (take a ids) @ decode ?mid @ decode (drop b ids)"
    using cuts ws by (auto simp: cut_between_characters_def)
  then have "py_slice content (int (length (decode (take a ids))))
      (int (length (decode (take a ids)) + length (decode ?mid))) = decode ?mid"
    by (subst py_slice_nat) auto
  then show ?thesis using f by simp
qed

text \<open>A tokenizer on bytes: 195 and 169 together are one character, other bytes above 127 are replaced.\<close>

fun demo_decode :: "int list \<Rightarrow> string" where
  "demo_decode [] = []"
| "demo_decode [i] = (if i < 128 then [char_of i] else ''?'')"
| "demo_decode (i # j # js) = (if i = 195 \<and> j = 169 then CHR 0xE9 # demo_decode js
     else (if i < 128 then [char_of i] else ''?'') @ demo_decode (j # js))"

theorem token_chunk_offsets_exact_witness:
  "py_strip (py_slice [CHR ''a'', CHR 0xE9, CHR ''b''] 0 2) = [CHR ''a'', CHR 0xE9]"
proof -
  let ?s = "[CHR ''a'', CHR 0xE9, CHR ''b'']" and ?ids = "[97, 195, 169, 98] :: int list"
  let ?c = "\<lparr>cd_content = [CHR ''a'', CHR 0xE9], cd_start_char = 0, cd_end_char = 2, cd_chunk_index = 0, cd_token_count = 3\<rparr>"
  let ?d = "\<lparr>cd_content = ''b'', cd_start_char = 2, cd_end_char = 3, cd_chunk_index = 1, cd_token_count = 1\<rparr>"
  have "token_chunk (\<lambda>s. Inr ?ids) demo_decode ?s 3 0 = Some (Inr [?c, ?d])" by code_simp
  moreover have "cut_between_characters demo_decode ?s ?ids (windows (length ?ids) (size_of 3) (overlap_of 3 0) 0)"
    unfolding cut_between_characters_def by code_simp
  ultimately show ?thesis
    using token_chunk_offsets_exact [of 3 "\<lambda>s. Inr ?ids" ?s ?ids demo_decode 0 "[?c, ?d]" ?c] by simp
qed

subsection \<open>The character strategy: progress and divergence\<close>

definition simple_next :: "string \<Rightarrow> int \<Rightarrow> int \<Rightarrow> int \<Rightarrow> int" where
  "simple_next content chunk_size chunk_overlap start =
     (let e = simple_end content chunk_size start
      in if e < int (length content) then min e (e - chunk_overlap) else e)"

lemma simple_body_next:
  "fst (snd (simple_body content csz ov start i)) = simple_next content csz ov start"
  by (simp add: simple_body_def simple_next_def Let_def min_def)

lemma simple_end_bounds:
  assumes "1 \<le> csz" and "0 \<le> start" and "start < int (length content)"
  shows "start < simple_end content csz start \<and> simple_end content csz start \<le> int (length content) \<and>
    simple_end content csz start \<le> start + csz"
proof -
  let ?e = "min (start + csz) (int (length content))"
  have "py_index (length content) ?e = nat ?e" using assms by (simp add: py_index_def)
  then have "py_rfind newline content start ?e < int (nat ?e) \<or> py_rfind newline content start ?e = -1"
    unfolding py_rfind_def using rfind_below_bounds by metis
  then show ?thesis using assms by (auto simp: simple_end_def Let_def min_def split: if_splits)
qed

lemma simple_end_no_newline:
  assumes "newline \<notin> set content" and "0 \<le> start"
  shows "simple_end content csz start = min (start + csz) (int (length content))"
proof -
  have "py_rfind newline content start (min (start + csz) (int (length content))) = -1"
    unfolding py_rfind_def rfind_below_miss using assms(1)
    by (auto simp: py_index_def in_set_conv_nth split: if_splits)
  then show ?thesis using assms(2) by (simp add: simple_end_def Let_def)
qed

definition simple_safe :: "string \<Rightarrow> int \<Rightarrow> int \<Rightarrow> bool" where
  "simple_safe content chunk_size chunk_overlap \<longleftrightarrow> 1 \<le> chunk_size \<and>
     (chunk_overlap \<le> 0 \<or> newline \<notin> set content \<and> chunk_overlap < chunk_size)"

lemma simple_next_progress:
  assumes "simple_safe content csz ov" and "0 \<le> start" and "start < int (length content)"
  shows "start < simple_next content csz ov start"
  using assms simple_end_bounds [of csz start content] simple_end_no_newline [of content start csz]
  by (auto simp: simple_safe_def simple_next_def Let_def min_def split: if_splits)

definition simple_chunk_ok :: "string \<Rightarrow> int \<Rightarrow> chunk_data \<Rightarrow> bool" where
  "simple_chunk_ok content chunk_size c \<longleftrightarrow>
     0 \<le> cd_start_char c \<and> cd_start_char c < cd_end_char c \<and>
     cd_end_char c \<le> int (length content) \<and> cd_end_char c - cd_start_char c \<le> chunk_size \<and>
     cd_content c = py_strip (py_slice content (cd_start_char c) (cd_end_char c)) \<and>
     cd_content c \<noteq> [] \<and> cd_token_count c = int (length (py_split (cd_content c)))"

lemma simple_body_cases:
  assumes "1 \<le> csz" and "0 \<le> start" and "start < int (length content)"
  obtains h where "simple_body content csz ov start i =
      (h, simple_next content csz ov start, i + int (length h))"
    "length h \<le> 1" "\<forall>c \<in> set h. simple_chunk_ok content csz c \<and> cd_chunk_index c = i"
proof (rule that)
  show "simple_body content csz ov start i =
      (fst (simple_body content csz ov start i), simple_next content csz ov start,
       i + int (length (fst (simple_body content csz ov start i))))"
    by (simp add: simple_body_def simple_next_def Let_def min_def)
  show "length (fst (simple_body content csz ov start i)) \<le> 1"
    by (simp add: simple_body_def Let_def)
  show "\<forall>c \<in> set (fst (simple_body content csz ov start i)).
      simple_chunk_ok content csz c \<and> cd_chunk_index c = i"
    using simple_end_bounds [OF assms] assms(2)
    by (auto simp: simple_body_def Let_def simple_chunk_ok_def)
qed

lemma simple_loop_returns:
  assumes "simple_safe content csz ov" and "0 \<le> start"
  shows "\<exists>cs. simple_loop content csz ov start i = Some cs \<and>
    (\<forall>c \<in> set cs. simple_chunk_ok content csz c) \<and>
    map cd_chunk_index cs = map (\<lambda>k. i + int k) [0..<length cs]"
  using assms(2)
proof (induction "nat (int (length content) - start)" arbitrary: start i rule: less_induct)
  case less
  show ?case
  proof (cases "start < int (length content)")
    case False
    then show ?thesis by (simp add: simple_loop.simps [of _ _ _ start])
  next
    case True
    let ?n = "simple_next content csz ov start"
    from assms(1) have sz: "1 \<le> csz" by (simp add: simple_safe_def)
    obtain h where h: "simple_body content csz ov start i = (h, ?n, i + int (length h))"
      "length h \<le> 1" "\<forall>c \<in> set h. simple_chunk_ok content csz c \<and> cd_chunk_index c = i"
      using simple_body_cases [OF sz less.prems True] by blast
    have prog: "start < ?n" by (rule simple_next_progress [OF assms(1) less.prems True])
    with True less.prems obtain rest where
      r: "simple_loop content csz ov ?n (i + int (length h)) = Some rest"
      "\<forall>c \<in> set rest. simple_chunk_ok content csz c"
      "map cd_chunk_index rest = map (\<lambda>k. i + int (length h) + int k) [0..<length rest]"
      using less.hyps [of ?n "i + int (length h)"] by auto
    have "simple_loop content csz ov start i = Some (h @ rest)"
      using True h r by (subst simple_loop.simps) simp
    moreover have "map cd_chunk_index (h @ rest) = map (\<lambda>k. i + int k) [0..<length (h @ rest)]"
    proof (cases h)
      case Nil
      then show ?thesis using r by simp
    next
      case (Cons c t)
      then have "h = [c]" "cd_chunk_index c = i" using h by auto
      moreover have "[0..<Suc (length rest)] = 0 # map Suc [0..<length rest]"
        by (simp add: upt_conv_Cons map_Suc_upt del: upt_Suc)
      ultimately show ?thesis using r by (simp add: o_def algebra_simps del: upt_Suc)
    qed
    ultimately show ?thesis using h r by auto
  qed
qed

lemma simple_loop_stuck:
  assumes "start < int (length content)" and "simple_next content csz ov start = start"
  shows "simple_loop content csz ov start i = None"
proof (rule ccontr)
  assume "simple_loop content csz ov start i \<noteq> None"
  then obtain r where ret: "simple_loop content csz ov start i = Some r" by blast
  have "\<not> (content = content \<and> csz = csz \<and> ov = ov \<and> start = start)"
  proof (rule simple_loop.raw_induct
      [where P = "\<lambda>c s v st i r. \<not> (c = content \<and> s = csz \<and> v = ov \<and> st = start)", OF _ ret])
    fix f c s v st j r
    assume IH: "\<And>c s v st j r. f c s v st j = Some r \<Longrightarrow>
        \<not> (c = content \<and> s = csz \<and> v = ov \<and> st = start)"
      and eq: "(if st < int (length c) then case simple_body c s v st j of (here, start', index') \<Rightarrow>
          Option.bind (f c s v start' index') (\<lambda>rest. Some (here @ rest)) else Some []) = Some r"
    show "\<not> (c = content \<and> s = csz \<and> v = ov \<and> st = start)"
    proof
      assume a: "c = content \<and> s = csz \<and> v = ov \<and> st = start"
      obtain h n j' where b: "simple_body c s v st j = (h, n, j')" by (cases "simple_body c s v st j")
      then have "n = start" using a simple_body_next [of c s v st j] assms(2) by simp
      moreover obtain q where "f c s v n j' = Some q"
        using eq a b assms(1) by (auto split: if_splits bind_splits)
      ultimately show False using IH a by blast
    qed
  qed
  then show False by blast
qed

text \<open>
  Character chunking with a chunk size of at least one returns when there is no overlap,
  and also with an overlap below the chunk size on a text without newlines. Every chunk is
  then the stripped text between its offsets, not empty, of at most \<open>chunk_size\<close> characters,
  with its word count as token count, and the chunks are numbered from 0.
\<close>

theorem simple_chunk_returns:
  assumes "1 \<le> chunk_size"
    and "chunk_overlap \<le> 0 \<or> newline \<notin> set content \<and> chunk_overlap < chunk_size"
  shows "\<exists>cs. simple_chunk content chunk_size chunk_overlap = Some cs \<and>
    (\<forall>c \<in> set cs. simple_chunk_ok content chunk_size c) \<and>
    map cd_chunk_index cs = map int [0..<length cs]"
  using simple_loop_returns [of content chunk_size chunk_overlap 0 0] assms
  by (auto simp: simple_chunk_def simple_safe_def)

theorem simple_chunk_returns_witness:
  "\<exists>cs. simple_chunk ''one two three'' 5 2 = Some cs \<and>
    (\<forall>c \<in> set cs. simple_chunk_ok ''one two three'' 5 c) \<and>
    map cd_chunk_index cs = map int [0..<length cs]"
  by (rule simple_chunk_returns) (simp_all add: newline_def)

text \<open>
  C37. Character chunking with an overlap can run forever: when the last newline of the first
  window stands just \<open>chunk_overlap - 1\<close> characters into the text, the next start is again 0,
  and the guard against infinite loops in the code does not apply.
\<close>

theorem simple_chunk_diverges:
  assumes "py_strip content \<noteq> []" and "0 < chunk_size" and "chunk_size < int (length content)"
    and "py_rfind newline content 0 chunk_size = p" and "0 < p" and "chunk_overlap = p + 1"
  shows "simple_chunk content chunk_size chunk_overlap = None"
proof -
  have len: "(0 :: int) < int (length content)" using assms(2,3) by linarith
  have e: "simple_end content chunk_size 0 = p + 1"
    using assms by (simp add: simple_end_def Let_def)
  have "py_rfind newline content 0 chunk_size < chunk_size"
    using assms(2,3,4,5) rfind_below_bounds [of newline content 0 "nat chunk_size"]
    by (auto simp: py_rfind_def py_index_def)
  then have "p + 1 < int (length content)" using assms(3,4) by linarith
  then have "simple_next content chunk_size chunk_overlap 0 = 0"
    using e assms(5,6) by (simp add: simple_next_def)
  from simple_loop_stuck [OF len this] show ?thesis
    using assms(1) by (simp add: simple_chunk_def)
qed

theorem simple_chunk_diverges_witness:
  "simple_chunk (''ab'' @ [newline] @ ''cdefgh'') 5 3 = None"
  by (rule simple_chunk_diverges [where p = 2]) (simp_all add: newline_def, code_simp, code_simp)

end
