(* ===== verification/Token_Service.thy ===== *)
theory Token_Service
  imports Exceptions
begin

section \<open>Token counting\<close>

text \<open>
  \<open>src/app/domain/services/token_service.py\<close> (the interface) and
  \<open>src/app/infrastructure/token/tiktoken_service.py\<close> (its implementation). The tiktoken
  library is the parameter record \<open>tiktoken\<close>: \<open>encoding_for_model\<close> is \<open>None\<close> where the library
  raises \<open>KeyError\<close>, and \<open>enc_encode\<close> may raise (tiktoken rejects special tokens). The state of
  the service is its dictionary of encodings.

  The locale \<open>token_counter\<close> is the contract the callers rely on: the count of a text does not
  depend on the state of the service. It is interpreted for \<open>TiktokenService\<close>, where the
  state is the encoding cache.
\<close>

record 'enc tiktoken =
  encoding_for_model :: "string \<Rightarrow> 'enc option"
  get_named_encoding :: "string \<Rightarrow> 'enc"
  enc_encode :: "'enc \<Rightarrow> string \<Rightarrow> int list result"
  enc_decode :: "'enc \<Rightarrow> int list \<Rightarrow> string"

type_synonym 'enc encodings = "(string \<times> 'enc) list"

definition FALLBACK_ENCODING :: string where
  "FALLBACK_ENCODING = ''cl100k_base''"

definition get_encoding ::
  "'enc tiktoken \<Rightarrow> string \<Rightarrow> 'enc encodings \<Rightarrow> 'enc \<times> 'enc encodings" where
  "get_encoding tk model encodings =
     (case map_of encodings model of
        Some e \<Rightarrow> (e, encodings)
      | None \<Rightarrow>
          let e = (case encoding_for_model tk model of
                     Some e \<Rightarrow> e
                   | None \<Rightarrow> get_named_encoding tk FALLBACK_ENCODING)
          in (e, AList.update model e encodings))"

definition count_tokens ::
  "'enc tiktoken \<Rightarrow> string \<Rightarrow> string \<Rightarrow> ('enc encodings, exn, int) eff" where
  "count_tokens tk text model = (\<lambda>encodings.
     let (encoding, encodings') = get_encoding tk model encodings
     in (bindE (enc_encode tk encoding text) (\<lambda>ids. Inr (int (length ids))), encodings'))"

text \<open>Prices in USD per million tokens (input, output).\<close>

definition MODEL_PRICING :: "(string \<times> real \<times> real) list" where
  "MODEL_PRICING =
     [(''gpt-4o'', 5 / 2, 10), (''gpt-4o-mini'', 15 / 100, 60 / 100), (''gpt-4-turbo'', 10, 30),
      (''gpt-4'', 30, 60), (''gpt-3.5-turbo'', 50 / 100, 150 / 100),
      (''text-embedding-3-small'', 2 / 100, 0), (''text-embedding-3-large'', 13 / 100, 0),
      (''text-embedding-ada-002'', 10 / 100, 0)]"

definition estimate_cost :: "int \<Rightarrow> int \<Rightarrow> string \<Rightarrow> real" where
  "estimate_cost prompt_tokens completion_tokens model =
     (case map_of MODEL_PRICING model of
        None \<Rightarrow> 0
      | Some (input_price_per_1m, output_price_per_1m) \<Rightarrow>
          of_int prompt_tokens / 1000000 * input_price_per_1m +
          of_int completion_tokens / 1000000 * output_price_per_1m)"

definition truncate_to_token_limit ::
  "'enc tiktoken \<Rightarrow> string \<Rightarrow> int \<Rightarrow> string \<Rightarrow> ('enc encodings, exn, string) eff" where
  "truncate_to_token_limit tk text max_tokens model = (\<lambda>encodings.
     let (encoding, encodings') = get_encoding tk model encodings
     in (bindE (enc_encode tk encoding text) (\<lambda>tokens.
           if int (length tokens) \<le> max_tokens then Inr text
           else Inr (enc_decode tk encoding (py_slice tokens 0 max_tokens))), encodings'))"

subsection \<open>The contract\<close>

locale token_counter =
  fixes count :: "string \<Rightarrow> string \<Rightarrow> ('s, exn, int) eff"
    and inv :: "'s \<Rightarrow> bool"
    and spec :: "string \<Rightarrow> string \<Rightarrow> int result"
  assumes count_spec: "inv s \<Longrightarrow> fst (count text model s) = spec text model"
    and count_inv: "inv s \<Longrightarrow> inv (snd (count text model s))"
    and spec_nonneg: "spec text model = Inr n \<Longrightarrow> 0 \<le> n"
begin

lemma count_cases:
  assumes "inv s"
  obtains s' where "count text model s = (spec text model, s')" "inv s'"
  using assms count_spec count_inv by (metis prod.collapse)

lemma count_twice:
  "inv s \<Longrightarrow> fst (count text model (snd (count text' model' s))) = fst (count text model s)"
  by (simp add: count_spec count_inv)

end

subsection \<open>TiktokenService meets it\<close>

text \<open>The encoding a model resolves to, and a cache that holds nothing else.\<close>

definition resolve_encoding :: "'enc tiktoken \<Rightarrow> string \<Rightarrow> 'enc" where
  "resolve_encoding tk model =
     (case encoding_for_model tk model of
        Some e \<Rightarrow> e | None \<Rightarrow> get_named_encoding tk FALLBACK_ENCODING)"

definition encodings_ok :: "'enc tiktoken \<Rightarrow> 'enc encodings \<Rightarrow> bool" where
  "encodings_ok tk encodings = (\<forall>(m, e) \<in> set encodings. e = resolve_encoding tk m)"

definition token_count_spec :: "'enc tiktoken \<Rightarrow> string \<Rightarrow> string \<Rightarrow> int result" where
  "token_count_spec tk text model =
     bindE (enc_encode tk (resolve_encoding tk model) text) (\<lambda>ids. Inr (int (length ids)))"

lemma get_encoding_resolve:
  "encodings_ok tk es \<Longrightarrow> fst (get_encoding tk model es) = resolve_encoding tk model"
  by (auto simp: get_encoding_def encodings_ok_def resolve_encoding_def Let_def
      split: option.splits dest!: map_of_SomeD)

lemma get_encoding_ok: "encodings_ok tk es \<Longrightarrow> encodings_ok tk (snd (get_encoding tk model es))"
  by (auto simp: get_encoding_def encodings_ok_def resolve_encoding_def Let_def
      split: option.splits dest!: in_set_alist_update)

interpretation tiktoken_counter: token_counter "count_tokens tk" "encodings_ok tk" "token_count_spec tk"
  for tk :: "'enc tiktoken"
proof
  fix s :: "'enc encodings" and tx model
  assume "encodings_ok tk s"
  then show "fst (count_tokens tk tx model s) = token_count_spec tk tx model"
    and "encodings_ok tk (snd (count_tokens tk tx model s))"
    by (simp_all add: count_tokens_def token_count_spec_def split_beta get_encoding_resolve
        get_encoding_ok)
qed (auto simp: token_count_spec_def)

subsection \<open>Properties\<close>

text \<open>
  The encoding cache is transparent: starting from an empty cache, whatever texts and
  models were counted before, counting and truncating a text give the result of the model's
  own encoding (or of \<open>cl100k_base\<close> for a model tiktoken does not know).
\<close>

theorem token_cache_transparent:
  "fst (count_tokens tk text model
       (foldl (\<lambda>es (t, m). snd (count_tokens tk t m es)) [] history)) =
     bindE (enc_encode tk (resolve_encoding tk model) text) (\<lambda>ids. Inr (int (length ids)))"
proof -
  have "encodings_ok tk (foldl (\<lambda>es (t, m). snd (count_tokens tk t m es)) es0 history)"
    if "encodings_ok tk es0" for es0
    using that
    by (induction history arbitrary: es0) (auto intro: tiktoken_counter.count_inv)
  moreover have "encodings_ok tk []" by (simp add: encodings_ok_def)
  ultimately show ?thesis
    using tiktoken_counter.count_spec by (fastforce simp: token_count_spec_def)
qed

text \<open>
  Truncation to a limit that is not negative returns the text itself when it fits, and
  otherwise the decoding of exactly its first \<open>max_tokens\<close> tokens.
\<close>

theorem truncate_spec:
  assumes "encodings_ok tk es" and "enc_encode tk (resolve_encoding tk model) text = Inr ids"
    and "0 \<le> max_tokens"
  shows "fst (truncate_to_token_limit tk text max_tokens model es) =
    Inr (if int (length ids) \<le> max_tokens then text
         else enc_decode tk (resolve_encoding tk model) (take (nat max_tokens) ids))"
proof -
  have "py_slice ids 0 max_tokens = take (nat max_tokens) ids"
    using assms(3) by (simp add: py_slice_def py_index_def min_def)
  then show ?thesis
    using assms by (simp add: truncate_to_token_limit_def split_beta get_encoding_resolve)
qed

theorem truncate_spec_witness:
  "fst (truncate_to_token_limit \<lparr>encoding_for_model = (\<lambda>m. None), get_named_encoding = (\<lambda>n. ()),
      enc_encode = (\<lambda>e s. Inr (map of_char s)), enc_decode = (\<lambda>e. map char_of)\<rparr>
      ''abcd'' 3 ''gpt-4o'' []) = Inr ''abc''"
  by (subst truncate_spec [where ids = "map of_char ''abcd''"])
    (simp_all add: encodings_ok_def, code_simp)

text \<open>
  Cost estimates are never negative for token counts that are not, are zero for a model
  without a price, and add up over requests.
\<close>

theorem estimate_cost_spec:
  "(0 \<le> p \<and> 0 \<le> c \<longrightarrow> 0 \<le> estimate_cost p c model) \<and>
   (model \<notin> fst ` set MODEL_PRICING \<longrightarrow> estimate_cost p c model = 0) \<and>
   estimate_cost (p + p') (c + c') model = estimate_cost p c model + estimate_cost p' c' model"
proof (intro conjI impI)
  assume "0 \<le> p \<and> 0 \<le> c"
  moreover have "0 \<le> i \<and> 0 \<le> out" if "map_of MODEL_PRICING model = Some (i, out)" for i out
    using map_of_SomeD [OF that] by (auto simp: MODEL_PRICING_def)
  ultimately show "0 \<le> estimate_cost p c model"
    by (auto simp: estimate_cost_def split: option.splits)
next
  assume "model \<notin> fst ` set MODEL_PRICING"
  then have "map_of MODEL_PRICING model = None" by (simp add: map_of_eq_None_iff)
  then show "estimate_cost p c model = 0" by (simp add: estimate_cost_def)
next
  show "estimate_cost (p + p') (c + c') model = estimate_cost p c model + estimate_cost p' c' model"
    by (simp add: estimate_cost_def field_simps split: option.splits)
qed

theorem estimate_cost_spec_witness:
  "0 \<le> estimate_cost 1000 500 ''gpt-4o'' \<and> estimate_cost 1 1 ''unknown'' = 0 \<and>
   estimate_cost (1 + 2) (1 + 3) ''gpt-4'' = estimate_cost 1 1 ''gpt-4'' + estimate_cost 2 3 ''gpt-4''"
  using estimate_cost_spec [of 1000 500 "''gpt-4o''" 0 0] estimate_cost_spec [of 1 1 "''unknown''" 0 0]
    estimate_cost_spec [of 1 1 "''gpt-4''" 2 3]
  by (simp add: MODEL_PRICING_def)

end
