(* ===== verification/Context_Prompt.thy ===== *)
theory Context_Prompt
  imports Token_Service Entities
begin

section \<open>Context window and prompt\<close>

text \<open>
  \<open>src/app/application/services/context_service.py\<close> and \<open>prompt_service.py\<close>. The token
  service is a parameter \<open>count\<close> of \<open>build_context\<close>; the results are proved inside the locale
  \<open>token_counter\<close>, for any service that meets that contract, and apply to the tiktoken
  service through its interpretation. Scores are real numbers: the percentage of the citation
  line is the exact round-half-even of \<open>100 * score\<close>.
\<close>

subsection \<open>ContextService\<close>

definition round_half_even :: "real \<Rightarrow> int" where
  "round_half_even x =
     (let f = \<lfloor>x\<rfloor>; d = x - of_int f
      in if d < 1 / 2 then f else if d > 1 / 2 then f + 1 else if even f then f else f + 1)"

definition score_pct :: "real \<Rightarrow> string" where
  "score_pct score = py_str_int (round_half_even (100 * score)) @ ''%''"

definition dquote :: string where
  "dquote = [CHR 0x22]"

definition format_block :: "int \<Rightarrow> search_result \<Rightarrow> string" where
  "format_block index r =
     ''['' @ py_str_int index @ ''] Source: '' @ dquote @ str_or (sr_document_title r) ''Untitled'' @
     dquote @ '' (chunk '' @ py_str_int (sr_chunk_index r) @ '', relevance '' @
     score_pct (sr_score r) @ '')'' @ [newline] @ sr_content r"

fun context_loop ::
  "(string \<Rightarrow> string \<Rightarrow> ('s, exn, int) eff) \<Rightarrow> int \<Rightarrow> string \<Rightarrow> int \<Rightarrow> int \<Rightarrow> search_result list
   \<Rightarrow> ('s, exn, string list \<times> search_result list) eff" where
  "context_loop count max_context_tokens model i current_tokens [] = returnM ([], [])"
| "context_loop count max_context_tokens model i current_tokens (r # rs) =
     (let block = format_block (i + 1) r
      in bindM (count block model) (\<lambda>block_tokens.
           if current_tokens + block_tokens > max_context_tokens then returnM ([], [])
           else bindM (context_loop count max_context_tokens model (i + 1)
                         (current_tokens + block_tokens) rs)
                  (\<lambda>(blocks, used). returnM (block # blocks, r # used))))"

definition build_context ::
  "(string \<Rightarrow> string \<Rightarrow> ('s, exn, int) eff) \<Rightarrow> int \<Rightarrow> real \<Rightarrow> search_result list \<Rightarrow> string
   \<Rightarrow> ('s, exn, string \<times> search_result list) eff" where
  "build_context count max_context_tokens score_threshold search_results model =
     (if search_results = [] then returnM ([], [])
      else let relevant = filter (\<lambda>r. sr_score r \<ge> score_threshold) search_results
           in if relevant = [] then returnM ([], [])
              else bindM (context_loop count max_context_tokens model 0 0 relevant)
                     (\<lambda>(blocks, used). returnM (py_join [newline, newline] blocks, used)))"

subsection \<open>PromptService\<close>

definition CONTEXT_PLACEHOLDER :: string where
  "CONTEXT_PLACEHOLDER = ''%%CONTEXT%%''"

definition RAG_SYSTEM_PROMPT :: string where
  "RAG_SYSTEM_PROMPT = py_join [newline]
     [''You are a helpful AI assistant. Answer questions based ONLY on the provided context.'',
      [],
      ''Rules:'',
      ''1. Use ONLY the information from the [CONTEXT] section below'',
      ''2. If the context does not contain enough information, say '' @ dquote @ ''I don'' @
        [CHR 0x27] @ ''t have enough information to answer that'' @ dquote,
      ''3. Cite sources using [1], [2], etc. corresponding to the context blocks'',
      ''4. Be concise and accurate'',
      ''5. Do not make up information not present in the context'',
      [],
      ''[CONTEXT]'',
      CONTEXT_PLACEHOLDER,
      ''[END CONTEXT]'']"

definition DEFAULT_SYSTEM_PROMPT :: string where
  "DEFAULT_SYSTEM_PROMPT =
     ''You are a helpful AI assistant. Be concise and accurate in your responses.''"

definition build_system_prompt :: string where
  "build_system_prompt = DEFAULT_SYSTEM_PROMPT"

definition build_rag_prompt ::
  "string \<Rightarrow> string \<Rightarrow> chat_message list option \<Rightarrow> chat_message list" where
  "build_rag_prompt query context history =
     (let system_content = py_replace CONTEXT_PLACEHOLDER context RAG_SYSTEM_PROMPT
      in [ChatMessage SYSTEM system_content] @
         (case history of None \<Rightarrow> [] | Some h \<Rightarrow> h) @ [ChatMessage USER query])"

subsection \<open>What the context loop computes\<close>

text \<open>
  \<open>blocks_from i rs\<close> are the numbered citation blocks; \<open>fits\<close> says that a list of results
  stays within the budget. The loop returns the longest fitting prefix.
\<close>

definition blocks_from :: "int \<Rightarrow> search_result list \<Rightarrow> string list" where
  "blocks_from i rs = map (\<lambda>(k, r). format_block (i + 1 + int k) r) (enumerate 0 rs)"

lemma blocks_from_Nil [simp]: "blocks_from i [] = []"
  by (simp add: blocks_from_def)

lemma blocks_from_Cons: "blocks_from i (r # rs) = format_block (i + 1) r # blocks_from (i + 1) rs"
proof -
  have "enumerate (Suc 0) rs = map (\<lambda>(k, x). (Suc k, x)) (enumerate 0 rs)"
    by (simp add: enumerate_eq_zip zip_map1 [symmetric] map_Suc_upt del: upt_Suc)
  then show ?thesis by (auto simp: blocks_from_def algebra_simps)
qed

lemma length_blocks_from [simp]: "length (blocks_from i rs) = length rs"
  by (simp add: blocks_from_def)

text \<open>
  \<open>longest_fit\<close>: \<open>n\<close> results are taken, their blocks cost at most the budget, and one more
  block would exceed it.
\<close>

definition longest_fit ::
  "(string \<Rightarrow> int) \<Rightarrow> int \<Rightarrow> int \<Rightarrow> int \<Rightarrow> search_result list \<Rightarrow> nat \<Rightarrow> bool" where
  "longest_fit cost budget i cur rs n \<longleftrightarrow> n \<le> length rs \<and>
     (0 < n \<longrightarrow> cur + sum_list (map cost (blocks_from i (take n rs))) \<le> budget) \<and>
     (n < length rs \<longrightarrow> budget < cur + sum_list (map cost (blocks_from i (take (Suc n) rs))))"

lemma longest_fit_0: "budget < cur + cost (format_block (i + 1) r) \<Longrightarrow>
    longest_fit cost budget i cur (r # rs) 0"
  by (simp add: longest_fit_def blocks_from_Cons)

lemma longest_fit_Suc:
  assumes "longest_fit cost budget (i + 1) (cur + cost (format_block (i + 1) r)) rs n"
    and "cur + cost (format_block (i + 1) r) \<le> budget"
  shows "longest_fit cost budget i cur (r # rs) (Suc n)"
  using assms by (cases n) (auto simp: longest_fit_def blocks_from_Cons add.assoc)

context token_counter begin

lemma context_loop_longest:
  assumes "inv s" and "\<And>k r. r \<in> set rs \<Longrightarrow> spec (format_block k r) model = Inr (cost (format_block k r))"
  shows "\<exists>n s'. context_loop count budget model i cur rs s =
      (Inr (blocks_from i (take n rs), take n rs), s') \<and> inv s' \<and>
      longest_fit cost budget i cur rs n"
  using assms
proof (induction rs arbitrary: i cur s)
  case Nil
  then show ?case by (simp add: returnM_def longest_fit_def)
next
  case (Cons r rs)
  let ?b = "format_block (i + 1) r"
  obtain s1 where s1: "count ?b model s = (Inr (cost ?b), s1)" "inv s1"
    using count_cases [OF Cons.prems(1)] Cons.prems(2) by (metis list.set_intros(1))
  show ?case
  proof (cases "cur + cost ?b > budget")
    case True
    then show ?thesis
      using s1 by (intro exI [of _ 0] exI [of _ s1])
        (simp add: res_simps longest_fit_0 Let_def)
  next
    case False
    obtain n s' where IH: "context_loop count budget model (i + 1) (cur + cost ?b) rs s1 =
        (Inr (blocks_from (i + 1) (take n rs), take n rs), s')" "inv s'"
        "longest_fit cost budget (i + 1) (cur + cost ?b) rs n"
      using Cons.IH [OF s1(2)] Cons.prems(2) by (metis list.set_intros(2))
    then show ?thesis
      using s1 False by (intro exI [of _ "Suc n"] exI [of _ s'])
        (simp add: res_simps longest_fit_Suc blocks_from_Cons Let_def)
  qed
qed

lemma build_context_longest:
  assumes "inv s"
    and "\<And>k r. r \<in> set results \<Longrightarrow> spec (format_block k r) model = Inr (cost (format_block k r))"
    and relevant_def: "relevant = filter (\<lambda>r. sr_score r \<ge> threshold) results"
  shows "\<exists>n s'. build_context count budget threshold results model s =
      (Inr (py_join [newline, newline] (blocks_from 0 (take n relevant)), take n relevant), s') \<and>
      inv s' \<and> longest_fit cost budget 0 0 relevant n"
proof (cases "relevant = []")
  case True
  then have "build_context count budget threshold results model s = (Inr ([], []), s)"
    by (simp add: build_context_def relevant_def res_simps)
  with True assms(1) show ?thesis by (simp add: longest_fit_def)
next
  case False
  then have "results \<noteq> []" by (auto simp: relevant_def)
  obtain n s' where "context_loop count budget model 0 0 relevant s =
      (Inr (blocks_from 0 (take n relevant), take n relevant), s')" "inv s'"
      "longest_fit cost budget 0 0 relevant n"
    using context_loop_longest [OF assms(1), of relevant model cost] assms(2)
    by (metis (no_types, lifting) filter_is_subset relevant_def subsetD)
  then show ?thesis
    using False \<open>results \<noteq> []\<close> by (auto simp: build_context_def relevant_def res_simps Let_def)
qed

end

subsection \<open>Properties\<close>

abbreviation block_cost :: "'enc tiktoken \<Rightarrow> string \<Rightarrow> string \<Rightarrow> int" where
  "block_cost tk model block \<equiv> (case token_count_spec tk block model of Inr n \<Rightarrow> n | Inl _ \<Rightarrow> 0)"

text \<open>
  C17. The context of a chat request: with the tiktoken service and results whose blocks can
  be encoded, \<open>build_context\<close> uses a prefix of the results at or above the score threshold
  and drops everything below it; the blocks used, numbered 1, 2, \<open>\<dots>\<close> in order, cost at most
  the token budget together, and the prefix is maximal: the next block would exceed the
  budget. The context text is these blocks joined by blank lines.
\<close>

theorem build_context_within_budget:
  assumes "encodings_ok tk es" and "0 \<le> budget"
    and "\<And>k r. r \<in> set results \<Longrightarrow> is_ok (token_count_spec tk (format_block k r) model)"
    and "relevant = filter (\<lambda>r. sr_score r \<ge> threshold) results"
  shows "\<exists>n es'. build_context (count_tokens tk) budget threshold results model es =
      (Inr (py_join [newline, newline] (blocks_from 0 (take n relevant)), take n relevant), es') \<and>
    sum_list (map (block_cost tk model) (blocks_from 0 (take n relevant))) \<le> budget \<and>
    (n < length relevant \<longrightarrow>
       budget < sum_list (map (block_cost tk model) (blocks_from 0 (take (Suc n) relevant))))"
proof -
  have "token_count_spec tk (format_block k r) model =
      Inr (block_cost tk model (format_block k r))" if "r \<in> set results" for k r
    using assms(3) [OF that, of k] by (auto simp: is_ok_iff)
  from tiktoken_counter.build_context_longest [OF assms(1) this assms(4)]
  obtain n es' where n: "build_context (count_tokens tk) budget threshold results model es =
      (Inr (py_join [newline, newline] (blocks_from 0 (take n relevant)), take n relevant), es')"
    "longest_fit (block_cost tk model) budget 0 0 relevant n"
    by metis
  then show ?thesis using assms(2)
    by (intro exI [of _ n] exI [of _ es']) (cases "n = 0"; simp add: longest_fit_def)
qed

definition demo_tiktoken :: "unit tiktoken" where
  "demo_tiktoken = \<lparr>encoding_for_model = (\<lambda>m. None), get_named_encoding = (\<lambda>n. ()),
     enc_encode = (\<lambda>e s. Inr (map of_char s)), enc_decode = (\<lambda>e. map char_of)\<rparr>"

definition demo_result :: "real \<Rightarrow> search_result" where
  "demo_result score = \<lparr>sr_chunk_id = ChunkId 1, sr_document_id = DocumentId 2,
     sr_collection_id = CollectionId 3, sr_content = ''text'', sr_score = score,
     sr_metadata = [], sr_document_title = ''T'', sr_chunk_index = 0\<rparr>"

theorem build_context_within_budget_witness:
  "\<exists>n es'. build_context (count_tokens demo_tiktoken) 70 (72 / 100)
      [demo_result (9 / 10), demo_result (1 / 2), demo_result (8 / 10)] ''gpt-4o'' [] =
      (Inr (py_join [newline, newline] (blocks_from 0 (take n [demo_result (9 / 10), demo_result (8 / 10)])),
            take n [demo_result (9 / 10), demo_result (8 / 10)]), es') \<and>
    sum_list (map (block_cost demo_tiktoken ''gpt-4o'')
      (blocks_from 0 (take n [demo_result (9 / 10), demo_result (8 / 10)]))) \<le> 70"
proof -
  have ok: "is_ok (token_count_spec demo_tiktoken t m)" for t m
    by (simp add: token_count_spec_def demo_tiktoken_def)
  have rel: "[demo_result (9 / 10), demo_result (8 / 10)] =
      filter (\<lambda>r. sr_score r \<ge> 72 / 100) [demo_result (9 / 10), demo_result (1 / 2), demo_result (8 / 10)]"
    by (simp add: demo_result_def)
  from build_context_within_budget [OF _ _ ok rel, of "[]" 70 "''gpt-4o''"]
  show ?thesis by (auto simp: encodings_ok_def)
qed

text \<open>
  Prompt assembly is immune to the content of the documents: whatever the context
  contains (braces, or the placeholder itself), the system message is the fixed head, the
  context verbatim, and the fixed tail; it comes first, the history follows unchanged and in
  order, and the user's question is last.
\<close>

theorem rag_prompt_verbatim:
  "\<exists>head tail. RAG_SYSTEM_PROMPT = head @ CONTEXT_PLACEHOLDER @ tail \<and>
     (\<forall>query context history. build_rag_prompt query context history =
        [ChatMessage SYSTEM (head @ context @ tail)] @
        (case history of None \<Rightarrow> [] | Some h \<Rightarrow> h) @ [ChatMessage USER query])"
proof -
  define tail where "tail = newline # ''[END CONTEXT]''"
  define head where "head = take (length RAG_SYSTEM_PROMPT - 25) RAG_SYSTEM_PROMPT"
  have split: "RAG_SYSTEM_PROMPT = head @ CONTEXT_PLACEHOLDER @ tail"
    unfolding head_def tail_def by code_simp
  have "CHR ''%'' \<notin> set head" unfolding head_def by code_simp
  moreover have "CHR ''%'' \<notin> set tail" unfolding tail_def by code_simp
  ultimately have "py_replace CONTEXT_PLACEHOLDER ctx RAG_SYSTEM_PROMPT = head @ ctx @ tail"
    for ctx
    unfolding split
    by (simp add: py_replace_append_absent py_replace_hit py_replace_absent CONTEXT_PLACEHOLDER_def
        del: append_Cons)
  with split show ?thesis by (auto simp: build_rag_prompt_def Let_def)
qed

end
