(* ===== verification/Document_Repository.thy ===== *)
theory Document_Repository
  imports Tenant "HOL-Library.Multiset"
begin

section \<open>Document repositories\<close>

text \<open>
  The interface \<open>src/app/domain/repositories/document_repository.py\<close> as the locale
  \<open>document_repository\<close>, and its two implementations:
  \<open>src/app/infrastructure/repositories/memory_document_repo.py\<close> (a dictionary) and
  \<open>postgres_document_repo.py\<close> over \<open>src/app/infrastructure/db/postgres_pool.py\<close> (SQL on the
  tables of \<open>src/scripts\<close>' migration). A table is a list of rows in an order the server
  chooses; each statement of the repository is the corresponding function on it, with the
  constraints of the migration (foreign key, column widths, 32-bit counters). What the
  server or the network may do to the next queries is the list \<open>db_faults\<close>: each entry makes
  one query raise or lets it through.

  The in-memory dictionary is a list of key-value pairs in insertion order. It stores the
  document as it is when the call is made; the use cases call \<open>update\<close> after every mutation,
  so that sharing the object with the caller is not observable through them.
\<close>

subsection \<open>InMemoryDocumentRepository\<close>

type_synonym memory_docs = "(string \<times> document) list"

definition mem_get_by_id :: "document_id \<Rightarrow> (memory_docs, exn, document option) eff" where
  "mem_get_by_id did = getM (\<lambda>store. map_of store (DocumentId_str did))"

definition sort_desc :: "document list \<Rightarrow> document list" where
  "sort_desc ds = sort_key (\<lambda>d. - created_at d) ds"

definition mem_get_by_collection ::
  "collection_id \<Rightarrow> pagination_params \<Rightarrow> (memory_docs, exn, document list) eff" where
  "mem_get_by_collection cid pagination = getM (\<lambda>store.
     let matching = sort_desc (filter (\<lambda>d. d_collection_id d = cid) (map snd store));
         start = pg_offset pagination; end1 = start + pg_limit pagination
     in py_slice matching start end1)"

definition mem_save :: "document \<Rightarrow> (memory_docs, exn, document) eff" where
  "mem_save d = thenM (modifyM (AList.update (DocumentId_str (d_document_id d)) d)) (returnM d)"

definition mem_update :: "document \<Rightarrow> (memory_docs, exn, document) eff" where
  "mem_update d = thenM (modifyM (AList.update (DocumentId_str (d_document_id d)) d)) (returnM d)"

definition mem_delete :: "document_id \<Rightarrow> (memory_docs, exn, bool) eff" where
  "mem_delete did = (\<lambda>store.
     let key = DocumentId_str did
     in if key \<in> set (map fst store) then (Inr True, AList.delete key store) else (Inr False, store))"

definition mem_count_by_collection :: "collection_id \<Rightarrow> (memory_docs, exn, int) eff" where
  "mem_count_by_collection cid =
     getM (\<lambda>store. int (length (filter (\<lambda>d. d_collection_id d = cid) (map snd store))))"

subsection \<open>PostgresPool\<close>

record doc_row =
  r_document_id :: uuid
  r_tenant_id :: uuid
  r_collection_id :: uuid
  r_title :: string
  r_content :: string
  r_content_type :: string
  r_content_hash :: string
  r_status :: string
  r_chunk_count :: int
  r_token_count :: int
  r_error_message :: "string option"
  r_metadata :: string
  r_created_at :: timestamp
  r_updated_at :: timestamp

record tenant_row =
  tr_tenant_id :: uuid
  tr_name :: string
  tr_api_key_hash :: string
  tr_plan :: string
  tr_is_active :: bool
  tr_tokens_used_this_month :: int
  tr_total_tokens_used :: int
  tr_metadata :: string
  tr_created_at :: timestamp
  tr_updated_at :: timestamp

record database =
  db_connected :: bool
  db_documents :: "doc_row list"
  db_tenants :: "tenant_row list"
  db_faults :: "exn option list"

definition pool_connect :: "exn option \<Rightarrow> (database, exn, unit) eff" where
  "pool_connect failure = (\<lambda>db. case failure of
     Some e \<Rightarrow> (Inl e, db) | None \<Rightarrow> (Inr (), db\<lparr>db_connected := True\<rparr>))"

definition pool_close :: "(database, exn, unit) eff" where
  "pool_close = modifyM (\<lambda>db. db\<lparr>db_connected := False\<rparr>)"

text \<open>\<open>execute\<close>, \<open>fetch\<close>, \<open>fetchrow\<close> and \<open>fetchval\<close>: run one statement on the connected pool.\<close>

definition pool_run :: "(database \<Rightarrow> 'a result \<times> database) \<Rightarrow> (database, exn, 'a) eff" where
  "pool_run stmt = (\<lambda>db.
     if \<not> db_connected db
     then (Inl (RuntimeError ''PostgresPool not connected. Call connect() first.''), db)
     else case db_faults db of
         Some e # fs \<Rightarrow> (Inl e, db\<lparr>db_faults := fs\<rparr>)
       | None # fs \<Rightarrow> stmt (db\<lparr>db_faults := fs\<rparr>)
       | [] \<Rightarrow> stmt db)"

subsection \<open>PostgresDocumentRepository\<close>

text \<open>
  \<open>hashlib.sha256(..).hexdigest()\<close>, \<open>json.dumps\<close> and \<open>json.loads\<close> are parameters. A loaded
  document gets a fresh entity \<open>id\<close> (\<open>eid\<close>): the row mapper does not restore it.
\<close>

record pylib =
  sha256 :: "string \<Rightarrow> string"
  json_dumps :: "pyval \<Rightarrow> string"
  json_loads :: "string \<Rightarrow> pyval result"

definition DocumentStatus :: "string \<Rightarrow> document_status result" where
  "DocumentStatus v = (if v = ''pending'' then Inr DPending
     else if v = ''processing'' then Inr DProcessing
     else if v = ''completed'' then Inr DCompleted
     else if v = ''failed'' then Inr DFailed
     else Inl (ValueError (quoted v @ '' is not a valid DocumentStatus'')))"

definition load_metadata :: "pylib \<Rightarrow> string \<Rightarrow> string \<Rightarrow> dict result" where
  "load_metadata lib model txt =
     (if txt = [] then Inr []
      else bindE (json_loads lib txt) (\<lambda>v. case v of
          PDict d \<Rightarrow> Inr d | _ \<Rightarrow> Inl (ValidationError model [''metadata''])))"

definition row_to_document :: "pylib \<Rightarrow> uuid \<Rightarrow> doc_row \<Rightarrow> document result" where
  "row_to_document lib eid row =
     bindE (DocumentStatus (r_status row)) (\<lambda>st.
     bindE (load_metadata lib ''Document'' (r_metadata row)) (\<lambda>meta.
     Inr \<lparr>ent_id = eid, created_at = r_created_at row, updated_at = r_updated_at row,
          d_tenant_id = TenantId (r_tenant_id row),
          d_document_id = DocumentId (r_document_id row),
          d_collection_id = CollectionId (r_collection_id row), d_title = r_title row,
          d_content = r_content row, d_content_type = r_content_type row,
          d_metadata = meta, d_status = st, d_chunk_count = r_chunk_count row,
          d_token_count = r_token_count row, d_error_message = r_error_message row\<rparr>))"

definition content_hash :: "pylib \<Rightarrow> string \<Rightarrow> string" where
  "content_hash lib content = sha256 lib content"

definition select_documents :: "(doc_row \<Rightarrow> bool) \<Rightarrow> database \<Rightarrow> doc_row list result \<times> database" where
  "select_documents P db = (Inr (filter P (db_documents db)), db)"

definition first_document ::
  "pylib \<Rightarrow> uuid \<Rightarrow> (doc_row \<Rightarrow> bool) \<Rightarrow> (database, exn, document option) eff" where
  "first_document lib eid P =
     bindM (pool_run (select_documents P)) (\<lambda>rows. case rows of
         [] \<Rightarrow> returnM None
       | row # _ \<Rightarrow> liftM (bindE (row_to_document lib eid row) (\<lambda>d. Inr (Some d))))"

definition pg_get_by_id ::
  "pylib \<Rightarrow> uuid \<Rightarrow> document_id \<Rightarrow> (database, exn, document option) eff" where
  "pg_get_by_id lib eid did =
     first_document lib eid (\<lambda>row. r_document_id row = document_id_value did)"

definition pg_get_by_id_for_tenant ::
  "pylib \<Rightarrow> uuid \<Rightarrow> document_id \<Rightarrow> tenant_id \<Rightarrow> (database, exn, document option) eff" where
  "pg_get_by_id_for_tenant lib eid did tid =
     first_document lib eid (\<lambda>row. r_document_id row = document_id_value did \<and>
                                    r_tenant_id row = tenant_id_value tid)"

definition pg_get_by_collection ::
  "pylib \<Rightarrow> (nat \<Rightarrow> uuid) \<Rightarrow> collection_id \<Rightarrow> pagination_params
   \<Rightarrow> (database, exn, document list) eff" where
  "pg_get_by_collection lib eids cid pagination =
     bindM (pool_run (select_documents (\<lambda>row. r_collection_id row = collection_id_value cid)))
       (\<lambda>rows. liftM (mapE (\<lambda>(i, row). row_to_document lib (eids i) row)
          (enumerate 0 (take (nat (pg_limit pagination)) (drop (nat (pg_offset pagination))
             (sort_key (\<lambda>row. - r_created_at row) rows))))))"

definition pg_find_duplicate ::
  "pylib \<Rightarrow> uuid \<Rightarrow> tenant_id \<Rightarrow> string \<Rightarrow> (database, exn, document option) eff" where
  "pg_find_duplicate lib eid tid content =
     first_document lib eid (\<lambda>row. r_tenant_id row = tenant_id_value tid \<and>
                                    r_content_hash row = content_hash lib content)"

definition int4_ok :: "int \<Rightarrow> bool" where
  "int4_ok i = (- (2 ^ 31) \<le> i \<and> i < 2 ^ 31)"

definition document_row :: "pylib \<Rightarrow> document \<Rightarrow> doc_row" where
  "document_row lib d =
     \<lparr>r_document_id = document_id_value (d_document_id d),
      r_tenant_id = tenant_id_value (d_tenant_id d),
      r_collection_id = collection_id_value (d_collection_id d), r_title = d_title d,
      r_content = d_content d, r_content_type = d_content_type d,
      r_content_hash = content_hash lib (d_content d),
      r_status = document_status_value (d_status d), r_chunk_count = d_chunk_count d,
      r_token_count = d_token_count d, r_error_message = d_error_message d,
      r_metadata = json_dumps lib (PDict (d_metadata d)), r_created_at = created_at d,
      r_updated_at = updated_at d\<rparr>"

text \<open>
  PostgreSQL stores no NUL: a text with that character is rejected, and so is, for \<open>JSONB\<close>, JSON text with its
  escape \<open>\u0000\<close>. The error messages that updates write are those of exceptions, which quote values as Python
  literals; they are taken to have no NUL.
\<close>

definition text_ok :: "string \<Rightarrow> bool" where
  "text_ok s = (CHR 0x00 \<notin> set s)"

fun has_nul_escape :: "string \<Rightarrow> bool" where
  "has_nul_escape [] = False"
| "has_nul_escape (c # cs) = (if c = CHR 0x5C then take 5 cs = ''u0000'' \<or> has_nul_escape (drop 1 cs)
     else has_nul_escape cs)"

definition jsonb_ok :: "string \<Rightarrow> bool" where
  "jsonb_ok s = (text_ok s \<and> \<not> has_nul_escape s)"

definition updated_columns_ok :: "doc_row \<Rightarrow> bool" where
  "updated_columns_ok row = (int4_ok (r_chunk_count row) \<and> int4_ok (r_token_count row) \<and> jsonb_ok (r_metadata row))"

definition texts_ok :: "doc_row \<Rightarrow> bool" where
  "texts_ok row = (text_ok (r_title row) \<and> text_ok (r_content row) \<and> text_ok (r_content_type row) \<and>
     text_ok (r_content_hash row))"

definition widths_ok :: "doc_row \<Rightarrow> bool" where
  "widths_ok row = (texts_ok row \<and> length (r_title row) \<le> 1024 \<and> length (r_content_type row) \<le> 100 \<and>
     length (r_content_hash row) \<le> 64 \<and> updated_columns_ok row)"

text \<open>\<open>INSERT \<dots> ON CONFLICT (document_id) DO NOTHING\<close>\<close>

definition insert_document :: "doc_row \<Rightarrow> database \<Rightarrow> unit result \<times> database" where
  "insert_document row db =
     (if \<not> widths_ok row then (Inl (ClientError ''value too long, out of range or with a NUL''), db)
      else if r_document_id row \<in> r_document_id ` set (db_documents db) then (Inr (), db)
      else if r_tenant_id row \<notin> tr_tenant_id ` set (db_tenants db)
        then (Inl (ClientError ''foreign key violation: tenant_id''), db)
      else (Inr (), db\<lparr>db_documents := db_documents db @ [row]\<rparr>))"

definition pg_save :: "pylib \<Rightarrow> document \<Rightarrow> (database, exn, document) eff" where
  "pg_save lib d =
     thenM (pool_run (insert_document (document_row lib d))) (returnM d)"

text \<open>\<open>UPDATE documents SET \<dots>, updated_at = NOW() WHERE document_id = $1\<close>\<close>

definition update_documents :: "timestamp \<Rightarrow> doc_row \<Rightarrow> database \<Rightarrow> unit result \<times> database" where
  "update_documents now row db =
     (if \<not> updated_columns_ok row
      then (Inl (ClientError ''value out of range or with a NUL''), db)
      else (Inr (), db\<lparr>db_documents := map (\<lambda>r.
          if r_document_id r = r_document_id row
          then r\<lparr>r_status := r_status row, r_chunk_count := r_chunk_count row,
                 r_token_count := r_token_count row, r_error_message := r_error_message row,
                 r_metadata := r_metadata row, r_updated_at := now\<rparr>
          else r) (db_documents db)\<rparr>))"

definition pg_update :: "pylib \<Rightarrow> timestamp \<Rightarrow> document \<Rightarrow> (database, exn, document) eff" where
  "pg_update lib now d =
     thenM (pool_run (update_documents now (document_row lib d))) (returnM d)"

definition pg_delete :: "document_id \<Rightarrow> (database, exn, bool) eff" where
  "pg_delete did = pool_run (\<lambda>db.
     let doomed = filter (\<lambda>r. r_document_id r = document_id_value did) (db_documents db)
     in (Inr (length doomed = 1),
         db\<lparr>db_documents := filter (\<lambda>r. r_document_id r \<noteq> document_id_value did)
                              (db_documents db)\<rparr>))"

definition pg_count_by_collection :: "collection_id \<Rightarrow> (database, exn, int) eff" where
  "pg_count_by_collection cid = pool_run (\<lambda>db.
     (Inr (int (length (filter (\<lambda>r. r_collection_id r = collection_id_value cid)
                          (db_documents db)))), db))"

lemmas column_checks = widths_ok_def texts_ok_def updated_columns_ok_def int4_ok_def jsonb_ok_def text_ok_def

subsection \<open>The contract\<close>

text \<open>
  What a caller can rely on is stated on the part of a document that every implementation
  keeps: all fields but the entity \<open>id\<close> and the update time, which the row mapper does not
  restore, and the metadata, which the server may reorder. \<open>storable\<close> collects the
  constraints an implementation puts on a document.
\<close>

definition doc_view :: "document \<Rightarrow> document" where
  "doc_view d = d\<lparr>ent_id := 0, updated_at := 0, d_metadata := []\<rparr>"

text \<open>The fields an update statement does not write.\<close>

definition same_core :: "document \<Rightarrow> document \<Rightarrow> bool" where
  "same_core a b \<longleftrightarrow> d_document_id a = d_document_id b \<and> d_tenant_id a = d_tenant_id b \<and>
     d_collection_id a = d_collection_id b \<and> d_title a = d_title b \<and> d_content a = d_content b \<and>
     d_content_type a = d_content_type b \<and> created_at a = created_at b"

locale document_repository =
  fixes get :: "uuid \<Rightarrow> document_id \<Rightarrow> ('s, exn, document option) eff"
    and save :: "document \<Rightarrow> ('s, exn, document) eff"
    and upd :: "timestamp \<Rightarrow> document \<Rightarrow> ('s, exn, document) eff"
    and del :: "document_id \<Rightarrow> ('s, exn, bool) eff"
    and docs :: "'s \<Rightarrow> document_id \<Rightarrow> document option"
    and inv :: "'s \<Rightarrow> bool"
    and storable :: "'s \<Rightarrow> document \<Rightarrow> bool"
  assumes get_law: "inv s \<Longrightarrow> \<exists>r. get eid did s = (Inr r, s) \<and> map_option doc_view r = docs s did"
    and save_law: "inv s \<Longrightarrow> storable s d \<Longrightarrow> docs s (d_document_id d) = None \<Longrightarrow>
      \<exists>s'. save d s = (Inr d, s') \<and> inv s' \<and>
           docs s' = (docs s)(d_document_id d \<mapsto> doc_view d) \<and> storable s' = storable s"
    and upd_law: "inv s \<Longrightarrow> storable s d \<Longrightarrow> docs s (d_document_id d) = Some old \<Longrightarrow>
      same_core d old \<Longrightarrow>
      \<exists>s'. upd now d s = (Inr d, s') \<and> inv s' \<and>
           docs s' = (docs s)(d_document_id d \<mapsto> doc_view d) \<and> storable s' = storable s"
    and del_law: "inv s \<Longrightarrow>
      \<exists>s'. del did s = (Inr (docs s did \<noteq> None), s') \<and> inv s' \<and> docs s' = (docs s)(did := None)"
begin

lemma save_get:
  assumes "inv s" "storable s d" "docs s (d_document_id d) = None"
  obtains s' r where "save d s = (Inr d, s')" "get eid (d_document_id d) s' = (Inr (Some r), s')"
    "doc_view r = doc_view d" "inv s'"
proof -
  obtain s' where s': "save d s = (Inr d, s')" "inv s'"
    "docs s' = (docs s)(d_document_id d \<mapsto> doc_view d)"
    using save_law [OF assms] by blast
  then obtain r where "get eid (d_document_id d) s' = (Inr (Some r), s')" "doc_view r = doc_view d"
    using get_law [OF s'(2), of eid "d_document_id d"] by auto
  with s' show thesis using that by blast
qed

lemma save_update_get:
  assumes "inv s" "storable s d" "storable s d'" "docs s (d_document_id d) = None" "same_core d' d"
  obtains s1 s2 r where "save d s = (Inr d, s1)" "upd now d' s1 = (Inr d', s2)"
    "get eid (d_document_id d) s2 = (Inr (Some r), s2)" "doc_view r = doc_view d'" "inv s2"
    "docs s2 = (docs s)(d_document_id d \<mapsto> doc_view d')"
proof -
  have ids: "d_document_id d' = d_document_id d" using assms(5) by (simp add: same_core_def)
  obtain s1 where s1: "save d s = (Inr d, s1)" "inv s1"
    "docs s1 = (docs s)(d_document_id d \<mapsto> doc_view d)" "storable s1 = storable s"
    using save_law [OF assms(1,2,4)] by blast
  have core: "same_core d' (doc_view d)" using assms(5) by (simp add: same_core_def doc_view_def)
  obtain s2 where s2: "upd now d' s1 = (Inr d', s2)" "inv s2"
    "docs s2 = (docs s1)(d_document_id d \<mapsto> doc_view d')"
    using upd_law [OF s1(2), of d' "doc_view d" now] s1 assms(3) ids core by auto
  then obtain r where r: "get eid (d_document_id d) s2 = (Inr (Some r), s2)" "doc_view r = doc_view d'"
    using get_law [OF s2(2), of eid "d_document_id d"] by auto
  have "docs s2 = (docs s)(d_document_id d \<mapsto> doc_view d')" using s1(3) s2(3) by simp
  from that [OF s1(1) s2(1) r s2(2) this] show thesis .
qed

lemma delete_get:
  assumes "inv s"
  obtains s' where "del did s = (Inr (docs s did \<noteq> None), s')" "get eid did s' = (Inr None, s')" "inv s'"
proof -
  obtain s' where s': "del did s = (Inr (docs s did \<noteq> None), s')" "inv s'"
    "docs s' = (docs s)(did := None)"
    using del_law [OF assms] by blast
  then have "get eid did s' = (Inr None, s')"
    using get_law [OF s'(2), of eid did] by auto
  with s' show thesis using that by blast
qed

end

subsection \<open>The in-memory repository meets the contract\<close>

definition mem_docs :: "memory_docs \<Rightarrow> document_id \<Rightarrow> document option" where
  "mem_docs store did = map_option doc_view (map_of store (DocumentId_str did))"

lemma uuid_str_inj: "uuid_str u = uuid_str v \<longleftrightarrow> u = v"
  using uuid_roundtrip by (metis sum.inject(2))

lemma DocumentId_str_inj: "DocumentId_str a = DocumentId_str b \<longleftrightarrow> a = b"
  by (cases a; cases b) (simp add: uuid_str_inj)

lemma ChunkId_str_inj: "ChunkId_str a = ChunkId_str b \<longleftrightarrow> a = b"
  by (cases a; cases b) (simp add: uuid_str_inj)

interpretation mem_repo: document_repository "\<lambda>eid. mem_get_by_id" mem_save "\<lambda>now. mem_update"
  mem_delete mem_docs "\<lambda>_. True" "\<lambda>_ _. True"
proof
  fix s :: memory_docs and did
  show "\<exists>s'. mem_delete did s = (Inr (mem_docs s did \<noteq> None), s') \<and> True \<and>
      mem_docs s' = (mem_docs s)(did := None)"
    by (auto simp: mem_delete_def mem_docs_def fun_eq_iff Let_def DocumentId_str_inj
        map_of_eq_None_iff)
qed (auto simp: mem_get_by_id_def mem_save_def mem_update_def mem_docs_def res_simps fun_eq_iff
    DocumentId_str_inj)

subsection \<open>The PostgreSQL repository meets the contract\<close>

definition readable :: "pylib \<Rightarrow> doc_row \<Rightarrow> bool" where
  "readable lib row = is_ok (row_to_document lib 0 row)"

definition pg_inv :: "pylib \<Rightarrow> database \<Rightarrow> bool" where
  "pg_inv lib db \<longleftrightarrow> db_connected db \<and> db_faults db = [] \<and>
     distinct (map r_document_id (db_documents db)) \<and> (\<forall>row \<in> set (db_documents db). readable lib row)"

definition row_view :: "doc_row \<Rightarrow> document" where
  "row_view row =
     \<lparr>ent_id = 0, created_at = r_created_at row, updated_at = 0,
      d_tenant_id = TenantId (r_tenant_id row), d_document_id = DocumentId (r_document_id row),
      d_collection_id = CollectionId (r_collection_id row), d_title = r_title row,
      d_content = r_content row, d_content_type = r_content_type row, d_metadata = [],
      d_status = (case DocumentStatus (r_status row) of Inr st \<Rightarrow> st | Inl _ \<Rightarrow> DPending),
      d_chunk_count = r_chunk_count row, d_token_count = r_token_count row,
      d_error_message = r_error_message row\<rparr>"

definition pg_docs :: "database \<Rightarrow> document_id \<Rightarrow> document option" where
  "pg_docs db did = map_option row_view
     (find (\<lambda>r. r_document_id r = document_id_value did) (db_documents db))"

definition pg_storable :: "pylib \<Rightarrow> database \<Rightarrow> document \<Rightarrow> bool" where
  "pg_storable lib db d \<longleftrightarrow> widths_ok (document_row lib d) \<and>
     tenant_id_value (d_tenant_id d) \<in> tr_tenant_id ` set (db_tenants db) \<and>
     is_ok (load_metadata lib ''Document'' (json_dumps lib (PDict (d_metadata d))))"

lemma DocumentStatus_value [simp]: "DocumentStatus (document_status_value s) = Inr s"
  by (cases s) (simp_all add: DocumentStatus_def)

lemma row_to_document_view:
  "readable lib row \<Longrightarrow>
     \<exists>d. row_to_document lib eid row = Inr d \<and> doc_view d = row_view row \<and>
         d_document_id d = DocumentId (r_document_id row)"
  by (auto simp: readable_def row_view_def row_to_document_def is_ok_iff doc_view_def)

lemma document_row_view:
  "is_ok (load_metadata lib ''Document'' (json_dumps lib (PDict (d_metadata d)))) \<Longrightarrow>
     readable lib (document_row lib d) \<and> row_view (document_row lib d) = doc_view d"
  by (cases "d_tenant_id d"; cases "d_document_id d"; cases "d_collection_id d")
    (auto simp: readable_def row_view_def row_to_document_def document_row_def is_ok_iff
      doc_view_def)

lemma first_document_find:
  assumes "db_connected db" "db_faults db = []"
  shows "first_document lib eid P db = (case find P (db_documents db) of
      None \<Rightarrow> (Inr None, db)
    | Some row \<Rightarrow> (bindE (row_to_document lib eid row) (\<lambda>d. Inr (Some d)), db))"
proof (cases "filter P (db_documents db)")
  case Nil
  then have "find P (db_documents db) = None" by (simp add: filter_Nil_find)
  with Nil assms show ?thesis
    by (simp add: first_document_def pool_run_def select_documents_def bindM_def returnM_def)
next
  case (Cons row rows)
  then have "find P (db_documents db) = Some row" by (rule filter_Cons_find)
  with Cons assms show ?thesis
    by (simp add: first_document_def pool_run_def select_documents_def bindM_def liftM_def)
qed

lemma pg_update_found:
  assumes "distinct (map r_document_id rows)"
    and "find (\<lambda>r. r_document_id r = r_document_id row) rows = Some old"
    and that: "\<And>r. r_document_id (f r) = r_document_id r"
  shows "find (\<lambda>r. r_document_id r = k)
      (map (\<lambda>r. if r_document_id r = r_document_id row then f r else r) rows) =
    (if k = r_document_id row then Some (f old) else find (\<lambda>r. r_document_id r = k) rows)"
proof (cases "k = r_document_id row")
  case True
  have "find (\<lambda>r. r_document_id r = k)
      (map (\<lambda>r. if r_document_id r = r_document_id row then f r else r) rows) =
      map_option (\<lambda>r. if r_document_id r = r_document_id row then f r else r)
        (find (\<lambda>r. r_document_id r = k) rows)"
    by (rule find_map_key) (simp add: that)
  with True assms(2) find_Some_mem [OF assms(2)] show ?thesis by simp
next
  case False
  have "find (\<lambda>r. r_document_id r = k)
      (map (\<lambda>r. if r_document_id r = r_document_id row then f r else r) rows) =
      map_option (\<lambda>r. if r_document_id r = r_document_id row then f r else r)
        (find (\<lambda>r. r_document_id r = k) rows)"
    by (rule find_map_key) (simp add: that)
  with False show ?thesis
    by (cases "find (\<lambda>r. r_document_id r = k) rows") (auto dest: find_Some_mem)
qed

lemma pg_get_view:
  assumes "pg_inv lib s"
  shows "\<exists>r. pg_get_by_id lib eid did s = (Inr r, s) \<and> map_option doc_view r = pg_docs s did"
proof (cases "find (\<lambda>r. r_document_id r = document_id_value did) (db_documents s)")
  case None
  with assms show ?thesis by (simp add: pg_get_by_id_def first_document_find pg_inv_def pg_docs_def)
next
  case (Some row)
  then have "readable lib row" using assms by (auto simp: pg_inv_def dest!: find_Some_mem)
  then obtain d where "row_to_document lib eid row = Inr d" "doc_view d = row_view row"
    using row_to_document_view [of lib row eid] by blast
  with Some assms show ?thesis by (simp add: pg_get_by_id_def first_document_find pg_inv_def pg_docs_def)
qed

interpretation pg_repo: document_repository "pg_get_by_id lib" "pg_save lib" "pg_update lib"
  pg_delete pg_docs "pg_inv lib" "pg_storable lib" for lib
proof
  fix s eid did
  assume inv: "pg_inv lib s"
  then show "\<exists>r. pg_get_by_id lib eid did s = (Inr r, s) \<and> map_option doc_view r = pg_docs s did"
    by (rule pg_get_view)
  have dist: "distinct (map r_document_id (db_documents s))" using inv by (simp add: pg_inv_def)
  let ?k = "document_id_value did"
  have other: "find (\<lambda>r. r_document_id r = document_id_value x)
      (filter (\<lambda>r. r_document_id r \<noteq> ?k) (db_documents s)) =
      (if x = did then None else find (\<lambda>r. r_document_id r = document_id_value x) (db_documents s))" for x
    by (cases x; cases did) (auto simp: find_None_iff_key intro!: find_filter_other)
  show "\<exists>s'. pg_delete did s = (Inr (pg_docs s did \<noteq> None), s') \<and> pg_inv lib s' \<and>
      pg_docs s' = (pg_docs s)(did := None)"
    using inv length_filter_distinct_key [OF dist, of ?k]
    by (auto simp: pg_delete_def pool_run_def pg_inv_def pg_docs_def fun_eq_iff Let_def other
        distinct_map_filter find_None_iff_key)
next
  fix s d
  assume inv: "pg_inv lib s" and st: "pg_storable lib s d" and none: "pg_docs s (d_document_id d) = None"
  let ?row = "document_row lib d"
  have new: "r_document_id ?row \<notin> r_document_id ` set (db_documents s)"
    using none by (simp add: pg_docs_def find_None_iff_key document_row_def)
  have rv: "readable lib ?row" "row_view ?row = doc_view d"
    using st document_row_view by (auto simp: pg_storable_def)
  let ?s = "s\<lparr>db_documents := db_documents s @ [?row]\<rparr>"
  have "pg_save lib d s = (Inr d, ?s)"
    using inv st new by (simp add: pg_save_def pool_run_def pg_inv_def insert_document_def
        pg_storable_def thenM_def bindM_def returnM_def document_row_def)
  moreover have "pg_inv lib ?s" using inv new rv by (auto simp: pg_inv_def)
  moreover have "pg_docs ?s = (pg_docs s)(d_document_id d \<mapsto> doc_view d)"
  proof
    fix x
    have id: "r_document_id ?row = document_id_value (d_document_id d)" by (simp add: document_row_def)
    show "pg_docs ?s x = ((pg_docs s)(d_document_id d \<mapsto> doc_view d)) x"
      using none rv id by (cases x; cases "d_document_id d")
        (auto simp: pg_docs_def find_append split: option.splits)
  qed
  ultimately show "\<exists>s'. pg_save lib d s = (Inr d, s') \<and> pg_inv lib s' \<and>
      pg_docs s' = (pg_docs s)(d_document_id d \<mapsto> doc_view d) \<and> pg_storable lib s' = pg_storable lib s"
    by (auto simp: pg_storable_def fun_eq_iff)
next
  fix s d old now
  assume inv: "pg_inv lib s" and st: "pg_storable lib s d"
    and some: "pg_docs s (d_document_id d) = Some old" and core: "same_core d old"
  let ?row = "document_row lib d"
  let ?f = "\<lambda>r. r\<lparr>r_status := r_status ?row, r_chunk_count := r_chunk_count ?row,
      r_token_count := r_token_count ?row, r_error_message := r_error_message ?row,
      r_metadata := r_metadata ?row, r_updated_at := now\<rparr>"
  let ?g = "\<lambda>r. if r_document_id r = r_document_id ?row then ?f r else r"
  let ?s = "s\<lparr>db_documents := map ?g (db_documents s)\<rparr>"
  have id: "r_document_id ?row = document_id_value (d_document_id d)" by (simp add: document_row_def)
  obtain row0 where row0: "find (\<lambda>r. r_document_id r = r_document_id ?row) (db_documents s) = Some row0"
    "row_view row0 = old"
    using some by (auto simp: pg_docs_def id)
  have meta: "is_ok (load_metadata lib ''Document'' (r_metadata ?row))"
    using st by (simp add: pg_storable_def document_row_def)
  have rd: "readable lib (?f r)" for r
    using meta by (auto simp: readable_def row_to_document_def is_ok_iff document_row_def)
  have fv: "row_view (?f row0) = doc_view d"
    using core row0(2) [symmetric]
    by (cases "d_document_id d")
      (auto simp: row_view_def doc_view_def same_core_def document_row_def)
  have "pg_update lib now d s = (Inr d, ?s)"
    using inv st by (simp add: pg_update_def pool_run_def pg_inv_def update_documents_def
        pg_storable_def widths_ok_def thenM_def bindM_def returnM_def)
  moreover have "pg_inv lib ?s"
  proof -
    have "map r_document_id (map ?g (db_documents s)) = map r_document_id (db_documents s)"
      by (simp add: o_def if_distrib cong: if_cong)
    then show ?thesis using inv rd by (auto simp: pg_inv_def simp del: map_map map_eq_conv)
  qed
  moreover have "pg_docs ?s = (pg_docs s)(d_document_id d \<mapsto> doc_view d)"
  proof
    fix x
    have "find (\<lambda>r. r_document_id r = document_id_value x) (map ?g (db_documents s)) =
        (if document_id_value x = r_document_id ?row then Some (?f row0)
         else find (\<lambda>r. r_document_id r = document_id_value x) (db_documents s))"
      using inv row0(1) by (intro pg_update_found) (auto simp: pg_inv_def)
    then show "pg_docs ?s x = ((pg_docs s)(d_document_id d \<mapsto> doc_view d)) x"
      using fv id by (cases x; cases "d_document_id d") (auto simp: pg_docs_def)
  qed
  ultimately show "\<exists>s'. pg_update lib now d s = (Inr d, s') \<and> pg_inv lib s' \<and>
      pg_docs s' = (pg_docs s)(d_document_id d \<mapsto> doc_view d) \<and> pg_storable lib s' = pg_storable lib s"
    by (auto simp: pg_storable_def fun_eq_iff)
qed

subsection \<open>Tenant scoping, deduplication and pages\<close>

lemma find_conj_key:
  assumes "distinct (map f xs)"
  shows "find (\<lambda>x. f x = k \<and> P x) xs =
    (case find (\<lambda>x. f x = k) xs of None \<Rightarrow> None | Some x \<Rightarrow> if P x then Some x else None)"
  using assms
proof (induction xs)
  case (Cons y ys)
  then show ?case
    by (auto simp: find_None_iff split: option.splits dest!: find_Some_mem)
qed simp

lemma first_document_None:
  "pg_inv lib db \<Longrightarrow> find P (db_documents db) = None \<Longrightarrow> first_document lib eid P db = (Inr None, db)"
  by (simp add: first_document_find pg_inv_def)

lemma first_document_Some:
  assumes "pg_inv lib db" "find P (db_documents db) = Some row"
  shows "\<exists>d. first_document lib eid P db = (Inr (Some d), db) \<and> row_to_document lib eid row = Inr d \<and>
    doc_view d = row_view row \<and> row \<in> set (db_documents db) \<and> P row"
proof -
  from assms have row: "row \<in> set (db_documents db)" "P row" by (auto dest: find_Some_mem)
  then have "readable lib row" using assms by (simp add: pg_inv_def)
  then obtain d where "row_to_document lib eid row = Inr d" "doc_view d = row_view row"
    using row_to_document_view [of lib row eid] by blast
  with assms row show ?thesis by (simp add: first_document_find pg_inv_def)
qed

lemma row_to_document_fields:
  "row_to_document lib eid row = Inr d \<Longrightarrow>
     d_tenant_id d = TenantId (r_tenant_id row) \<and> d_document_id d = DocumentId (r_document_id row) \<and>
     d_content d = r_content row \<and> ent_id d = eid"
  by (auto simp: row_to_document_def)

text \<open>Every stored row carries the digest of its own content.\<close>

definition hashes_ok :: "pylib \<Rightarrow> database \<Rightarrow> bool" where
  "hashes_ok lib db \<longleftrightarrow> (\<forall>row \<in> set (db_documents db). r_content_hash row = sha256 lib (r_content row))"

lemma pool_run_hashes_ok:
  assumes "hashes_ok lib db" "\<And>db. hashes_ok lib db \<Longrightarrow> hashes_ok lib (snd (stmt db))"
  shows "hashes_ok lib (snd (pool_run stmt db))"
proof -
  have faults: "hashes_ok lib (db\<lparr>db_faults := fs\<rparr>)" for fs
    using assms(1) by (simp add: hashes_ok_def)
  show ?thesis
    using assms(1) faults assms(2) [OF faults] assms(2) [OF assms(1)]
    by (auto simp: pool_run_def split: list.split option.split)
qed

lemma hashes_ok_save: "hashes_ok lib db \<Longrightarrow> hashes_ok lib (snd (pg_save lib d db))"
  unfolding pg_save_def snd_thenM_returnM
  by (rule pool_run_hashes_ok)
    (auto simp: insert_document_def hashes_ok_def document_row_def content_hash_def)

lemma hashes_ok_update: "hashes_ok lib db \<Longrightarrow> hashes_ok lib (snd (pg_update lib now d db))"
  unfolding pg_update_def snd_thenM_returnM
  by (rule pool_run_hashes_ok) (auto simp: update_documents_def hashes_ok_def)

lemma hashes_ok_delete: "hashes_ok lib db \<Longrightarrow> hashes_ok lib (snd (pg_delete did db))"
  unfolding pg_delete_def
  by (rule pool_run_hashes_ok) (auto simp: hashes_ok_def Let_def)

subsection \<open>Properties\<close>

definition demo_lib :: pylib where
  "demo_lib = \<lparr>sha256 = (\<lambda>s. s), json_dumps = (\<lambda>_. ''{}''), json_loads = (\<lambda>_. Inr (PDict []))\<rparr>"

definition demo_db :: database where
  "demo_db = \<lparr>db_connected = True, db_documents = [],
     db_tenants = [\<lparr>tr_tenant_id = 1, tr_name = ''acme'', tr_api_key_hash = ''h'', tr_plan = ''free'',
        tr_is_active = True, tr_tokens_used_this_month = 0, tr_total_tokens_used = 0,
        tr_metadata = ''{}'', tr_created_at = 0, tr_updated_at = 0\<rparr>],
     db_faults = []\<rparr>"

definition demo_document :: document where
  "demo_document = new_document 5 0 7 (TenantId 1) (CollectionId 2) ''Guide'' ''Some text.''
     ''text/plain'' []"

text \<open>
  C26. The PostgreSQL repository behaves as a finite map from document ids to documents:
  after saving a new document and updating it with any change that keeps its identity
  fields, a load returns the updated values (up to the entity id, the update time and
  the encoding of metadata), and every other document is what it was.
\<close>

theorem pg_save_update_get:
  assumes "pg_inv lib db" and "pg_storable lib db d" and "pg_storable lib db d'"
    and "pg_docs db (d_document_id d) = None" and "same_core d' d"
  shows "\<exists>db1 db2 r. pg_save lib d db = (Inr d, db1) \<and> pg_update lib now d' db1 = (Inr d', db2) \<and>
    pg_get_by_id lib eid (d_document_id d) db2 = (Inr (Some r), db2) \<and> doc_view r = doc_view d' \<and>
    pg_docs db2 = (pg_docs db)(d_document_id d \<mapsto> doc_view d')"
  using pg_repo.save_update_get [OF assms, where now = now and eid = eid] by metis

theorem pg_save_update_get_witness:
  "\<exists>db1 db2 r. pg_save demo_lib demo_document demo_db = (Inr demo_document, db1) \<and>
    pg_update demo_lib 9 (mark_processing 8 demo_document) db1 =
      (Inr (mark_processing 8 demo_document), db2) \<and>
    pg_get_by_id demo_lib 3 (d_document_id demo_document) db2 = (Inr (Some r), db2) \<and>
    d_status r = DProcessing"
proof -
  have hyps: "pg_inv demo_lib demo_db" "pg_storable demo_lib demo_db demo_document"
    "pg_storable demo_lib demo_db (mark_processing 8 demo_document)"
    "pg_docs demo_db (d_document_id demo_document) = None"
    "same_core (mark_processing 8 demo_document) demo_document"
    by (simp_all add: pg_inv_def pg_storable_def pg_docs_def same_core_def demo_db_def demo_lib_def
        demo_document_def new_document_def mark_processing_def update_def document_row_def
        column_checks content_hash_def load_metadata_def)
  have st: "doc_view r = doc_view (mark_processing 8 demo_document) \<Longrightarrow> d_status r = DProcessing" for r
    by (drule arg_cong [where f = d_status]) (simp add: doc_view_def mark_processing_def update_def)
  show ?thesis using pg_save_update_get [OF hyps, of 9 3] st by blast
qed

text \<open>
  Tenant isolation of loads: the tenant-scoped load answers exactly like the plain load
  when the document belongs to the tenant, and answers \<open>None\<close> when it belongs to another one.
\<close>

theorem tenant_scoped_load:
  assumes "pg_inv lib db"
  shows "\<exists>r. pg_get_by_id lib eid did db = (Inr r, db) \<and>
    pg_get_by_id_for_tenant lib eid did tid db =
      (Inr (case r of None \<Rightarrow> None | Some d \<Rightarrow> if d_tenant_id d = tid then Some d else None), db)"
proof -
  have dist: "distinct (map r_document_id (db_documents db))" using assms by (simp add: pg_inv_def)
  note find_conj = find_conj_key [OF dist, of "document_id_value did" "\<lambda>r. r_tenant_id r = tenant_id_value tid"]
  show ?thesis
  proof (cases "find (\<lambda>r. r_document_id r = document_id_value did) (db_documents db)")
    case None
    with find_conj assms show ?thesis
      by (simp add: pg_get_by_id_def pg_get_by_id_for_tenant_def first_document_None)
  next
    case (Some row)
    then obtain d where d: "row_to_document lib eid row = Inr d"
      "pg_get_by_id lib eid did db = (Inr (Some d), db)"
      using first_document_Some [OF assms Some, of eid] by (auto simp: pg_get_by_id_def)
    have tid: "d_tenant_id d = tid \<longleftrightarrow> r_tenant_id row = tenant_id_value tid"
      using row_to_document_fields [OF d(1)] by (cases tid) auto
    show ?thesis using Some find_conj assms d tid
      by (auto simp: pg_get_by_id_for_tenant_def first_document_find pg_inv_def)
  qed
qed

theorem tenant_scoped_load_witness:
  "\<exists>r. pg_get_by_id demo_lib 3 (DocumentId 7) demo_db = (Inr r, demo_db) \<and>
    pg_get_by_id_for_tenant demo_lib 3 (DocumentId 7) (TenantId 1) demo_db =
      (Inr (case r of None \<Rightarrow> None | Some d \<Rightarrow> if d_tenant_id d = TenantId 1 then Some d else None), demo_db)"
  by (rule tenant_scoped_load) (simp add: pg_inv_def demo_db_def)

text \<open>
  Deduplication: as long as the digest of the new content collides with no stored one,
  \<open>find_duplicate\<close> answers \<open>None\<close> exactly when the tenant has no document with this very
  content, and what it finds is a stored document of the same tenant with this content.
\<close>

theorem duplicate_detection:
  assumes "pg_inv lib db" and "hashes_ok lib db"
    and "\<forall>row \<in> set (db_documents db). sha256 lib (r_content row) = sha256 lib content \<longrightarrow>
      r_content row = content"
  shows "\<exists>r. pg_find_duplicate lib eid tid content db = (Inr r, db) \<and>
    (r = None \<longleftrightarrow> (\<forall>row \<in> set (db_documents db).
        \<not> (r_tenant_id row = tenant_id_value tid \<and> r_content row = content))) \<and>
    (\<forall>d. r = Some d \<longrightarrow> d_tenant_id d = tid \<and> d_content d = content \<and>
        document_id_value (d_document_id d) \<in> r_document_id ` set (db_documents db))"
proof -
  let ?P = "\<lambda>row. r_tenant_id row = tenant_id_value tid \<and> r_content_hash row = content_hash lib content"
  have P: "?P row \<longleftrightarrow> r_tenant_id row = tenant_id_value tid \<and> r_content row = content"
    if "row \<in> set (db_documents db)" for row
    using that assms(2,3) by (auto simp: hashes_ok_def content_hash_def)
  show ?thesis
  proof (cases "find ?P (db_documents db)")
    case None
    then have "\<forall>row \<in> set (db_documents db). \<not> ?P row" by (auto simp: find_None_iff)
    with first_document_None [OF assms(1) None, of eid] P show ?thesis
      by (auto simp: pg_find_duplicate_def)
  next
    case (Some row)
    then obtain d where d: "first_document lib eid ?P db = (Inr (Some d), db)"
      "row_to_document lib eid row = Inr d" "row \<in> set (db_documents db)" "?P row"
      using first_document_Some [OF assms(1) Some, of eid] by auto
    with P row_to_document_fields [OF d(2)] show ?thesis
      by (cases tid) (auto simp: pg_find_duplicate_def)
  qed
qed

theorem duplicate_detection_witness:
  "\<exists>r. pg_find_duplicate demo_lib 3 (TenantId 1) ''Some text.''
      (demo_db\<lparr>db_documents := [document_row demo_lib demo_document]\<rparr>) =
      (Inr (Some r), demo_db\<lparr>db_documents := [document_row demo_lib demo_document]\<rparr>) \<and>
    d_content r = ''Some text.''"
proof -
  let ?db = "demo_db\<lparr>db_documents := [document_row demo_lib demo_document]\<rparr>"
  have hyps: "pg_inv demo_lib ?db" "hashes_ok demo_lib ?db"
    "\<forall>row \<in> set (db_documents ?db). sha256 demo_lib (r_content row) = sha256 demo_lib ''Some text.'' \<longrightarrow>
      r_content row = ''Some text.''"
    by (simp_all add: pg_inv_def hashes_ok_def demo_db_def demo_lib_def document_row_def readable_def
        row_to_document_def load_metadata_def content_hash_def)
  have stored: "r_tenant_id (document_row demo_lib demo_document) = 1"
    "r_content (document_row demo_lib demo_document) = ''Some text.''"
    by (simp_all add: document_row_def demo_document_def new_document_def)
  show ?thesis
    using duplicate_detection [OF hyps, of 3 "TenantId 1"] stored by auto
qed

text \<open>
  Listing by pages: reading the pages of size \<open>k\<close> of a collection one after the other
  yields each of its documents exactly once, newest first, and the count operation returns
  their number; only the documents of that collection are listed.
\<close>

theorem pages_partition_collection:
  assumes "\<forall>i < n. PaginationParams (int (i * k)) (int k) = Inr (pages i)"
    and "length (filter (\<lambda>d. d_collection_id d = cid) (map snd store)) \<le> n * k"
  shows "\<exists>ds. concat (map (\<lambda>i. case mem_get_by_collection cid (pages i) store of
      (Inr page, _) \<Rightarrow> page | _ \<Rightarrow> []) [0..<n]) = ds \<and>
    mset ds = mset (filter (\<lambda>d. d_collection_id d = cid) (map snd store)) \<and>
    sorted (map (\<lambda>d. - created_at d) ds) \<and>
    mem_count_by_collection cid store = (Inr (int (length ds)), store)"
proof -
  let ?m = "filter (\<lambda>d. d_collection_id d = cid) (map snd store)"
  have page: "mem_get_by_collection cid (pages i) store = (Inr (take k (drop (i * k) (sort_desc ?m))), store)"
    if "i < n" for i
  proof -
    have "pages i = \<lparr>pg_offset = int (i * k), pg_limit = int k\<rparr>"
      using assms(1) that by (auto simp: PaginationParams_def Let_def simp del: of_nat_mult
          split: if_splits)
    then show ?thesis
      by (simp add: mem_get_by_collection_def getM_def Let_def py_slice_range del: of_nat_mult)
  qed
  have "concat (map (\<lambda>i. case mem_get_by_collection cid (pages i) store of
      (Inr page, _) \<Rightarrow> page | _ \<Rightarrow> []) [0..<n]) =
      concat (map (\<lambda>i. take k (drop (i * k) (sort_desc ?m))) [0..<n])"
    by (rule arg_cong [where f = concat]) (auto simp: page)
  also have "\<dots> = take (n * k) (sort_desc ?m)" by (rule concat_pages)
  also have "\<dots> = sort_desc ?m" using assms(2) by (simp add: sort_desc_def)
  finally show ?thesis by (simp add: sort_desc_def mem_count_by_collection_def getM_def)
qed

theorem pages_partition_collection_witness:
  "\<exists>ds. concat (map (\<lambda>i. case mem_get_by_collection (CollectionId 2)
        \<lparr>pg_offset = int (i * 1), pg_limit = 1\<rparr> [(''a'', demo_document), (''b'', demo_document)] of
      (Inr page, _) \<Rightarrow> page | _ \<Rightarrow> []) [0..<2]) = ds \<and> length ds = 2"
proof -
  have hyps: "\<forall>i < 2. PaginationParams (int (i * 1)) (int 1) = Inr \<lparr>pg_offset = int (i * 1), pg_limit = 1\<rparr>"
    "length (filter (\<lambda>d. d_collection_id d = CollectionId 2)
      (map snd [(''a'', demo_document), (''b'', demo_document)])) \<le> 2 * 1"
    "length (filter (\<lambda>d. d_collection_id d = CollectionId 2)
      (map snd [(''a'', demo_document), (''b'', demo_document)])) = 2"
    by (auto simp: PaginationParams_def demo_document_def new_document_def)
  show ?thesis
    using pages_partition_collection [OF hyps(1,2)] hyps(3) by (metis size_mset)
qed

end
