(* ===== verification/Chunk_Repository.thy ===== *)
theory Chunk_Repository
  imports Document_Repository
begin

section \<open>The in-memory chunk repository\<close>

text \<open>
  \<open>src/app/infrastructure/repositories/memory_chunk_repo.py\<close>: a dictionary from chunk ids to
  chunk objects. The dictionary shares the objects with the caller, so a later mutation of a
  saved chunk is seen through the repository: \<open>write_through\<close> is that effect.
\<close>

type_synonym chunk_store = "(string \<times> chunk) list"

definition chunk_key :: "chunk \<Rightarrow> string" where
  "chunk_key c = ChunkId_str (c_chunk_id c)"

definition chunk_get_by_id :: "chunk_id \<Rightarrow> (chunk_store, exn, chunk option) eff" where
  "chunk_get_by_id cid = getM (\<lambda>store. map_of store (ChunkId_str cid))"

definition get_by_document :: "document_id \<Rightarrow> (chunk_store, exn, chunk list) eff" where
  "get_by_document did = getM (\<lambda>store.
     sort_key c_chunk_index (filter (\<lambda>c. c_document_id c = did) (map snd store)))"

definition save_many :: "chunk list \<Rightarrow> (chunk_store, exn, chunk list) eff" where
  "save_many chunks =
     thenM (modifyM (fold (\<lambda>c. AList.update (chunk_key c) c) chunks)) (returnM chunks)"

definition delete_by_document :: "document_id \<Rightarrow> (chunk_store, exn, int) eff" where
  "delete_by_document did = (\<lambda>store.
     let to_delete = map fst (filter (\<lambda>(k, c). c_document_id c = did) store)
     in (Inr (int (length to_delete)), fold AList.delete to_delete store))"

definition count_by_document :: "document_id \<Rightarrow> (chunk_store, exn, int) eff" where
  "count_by_document did = getM (\<lambda>store.
     int (length (filter (\<lambda>c. c_document_id c = did) (map snd store))))"

definition write_through :: "chunk \<Rightarrow> chunk_store \<Rightarrow> chunk_store" where
  "write_through c store = map (\<lambda>(k, old). (k, if k = chunk_key c then c else old)) store"

subsection \<open>Batches of fresh chunks\<close>

lemma fold_update_fresh:
  assumes "distinct (map chunk_key cs)" "chunk_key ` set cs \<inter> fst ` set store = {}"
  shows "fold (\<lambda>c. AList.update (chunk_key c) c) cs store = store @ map (\<lambda>c. (chunk_key c, c)) cs"
  using assms
proof (induction cs arbitrary: store)
  case (Cons c cs)
  have "AList.update (chunk_key c) c store = store @ [(chunk_key c, c)]"
    using Cons.prems(2) by (intro update_fresh) auto
  moreover have "chunk_key ` set cs \<inter> fst ` set (store @ [(chunk_key c, c)]) = {}"
    using Cons.prems by auto
  ultimately show ?case using Cons.IH Cons.prems(1) by simp
qed simp

lemma fold_delete_keys: "fold AList.delete ks store = filter (\<lambda>(k, _). k \<notin> set ks) store"
proof (induction ks arbitrary: store)
  case (Cons k ks)
  then show ?case by (auto simp: AList.delete_eq case_prod_beta intro!: filter_cong)
qed simp

definition chunk_store_ok :: "chunk_store \<Rightarrow> bool" where
  "chunk_store_ok store \<longleftrightarrow> distinct (map fst store) \<and> (\<forall>(k, c) \<in> set store. k = chunk_key c)"

lemma chunk_store_ok_update:
  "chunk_store_ok store \<Longrightarrow> chunk_store_ok (AList.update (chunk_key c) c store)"
  by (auto simp: chunk_store_ok_def distinct_update dest!: in_set_alist_update)

lemma save_many_ok:
  assumes "chunk_store_ok store"
  shows "chunk_store_ok (snd (save_many cs store))"
proof -
  have "chunk_store_ok (fold (\<lambda>c. AList.update (chunk_key c) c) cs store)"
    using assms by (induction cs arbitrary: store) (simp_all add: chunk_store_ok_update)
  then show ?thesis by (simp add: save_many_def snd_thenM_returnM modifyM_def)
qed

lemma write_through_ok: "chunk_store_ok store \<Longrightarrow> chunk_store_ok (write_through c store)"
  by (auto simp: chunk_store_ok_def write_through_def o_def case_prod_beta)

lemma delete_by_document_filter:
  assumes "chunk_store_ok store"
  shows "delete_by_document did store =
    (Inr (int (length (filter (\<lambda>c. c_document_id c = did) (map snd store)))),
     filter (\<lambda>q. c_document_id (snd q) \<noteq> did) store)"
proof -
  have dist: "distinct (map fst store)" using assms unfolding chunk_store_ok_def by blast
  let ?ks = "map fst (filter (\<lambda>q. c_document_id (snd q) = did) store)"
  have "filter (\<lambda>q. fst q \<notin> set ?ks) store = filter (\<lambda>q. c_document_id (snd q) \<noteq> did) store"
    using key_in_filter_iff [OF dist] by (intro filter_cong refl) simp
  then have "fold AList.delete ?ks store = filter (\<lambda>q. c_document_id (snd q) \<noteq> did) store"
    unfolding fold_delete_keys case_prod_beta .
  moreover have "length ?ks = length (filter (\<lambda>c. c_document_id c = did) (map snd store))"
    by (simp add: filter_map o_def)
  ultimately show ?thesis unfolding delete_by_document_def Let_def case_prod_beta by metis
qed

subsection \<open>Property\<close>

text \<open>
  C33. Chunks of a document: after saving the chunks of a new document (distinct fresh ids,
  numbered in increasing order), they are listed back in that order and counted, deleting
  the document's chunks reports their number and restores the repository as it was, and the
  repository stays keyed by chunk id.
\<close>

theorem chunks_saved_listed_deleted:
  assumes "chunk_store_ok store" and "distinct (map chunk_key cs)"
    and "chunk_key ` set cs \<inter> fst ` set store = {}" and "sorted (map c_chunk_index cs)"
    and "\<forall>c \<in> set cs. c_document_id c = did" and "\<forall>c \<in> snd ` set store. c_document_id c \<noteq> did"
  shows "\<exists>store'. save_many cs store = (Inr cs, store') \<and> chunk_store_ok store' \<and>
    get_by_document did store' = (Inr cs, store') \<and>
    count_by_document did store' = (Inr (int (length cs)), store') \<and>
    delete_by_document did store' = (Inr (int (length cs)), store)"
proof -
  let ?store = "store @ map (\<lambda>c. (chunk_key c, c)) cs"
  have save: "save_many cs store = (Inr cs, ?store)"
    using fold_update_fresh [OF assms(2,3)]
    by (simp add: save_many_def thenM_def bindM_def modifyM_def returnM_def)
  have ok: "chunk_store_ok ?store" using save_many_ok [OF assms(1), of cs] save by simp
  have mine: "filter (\<lambda>c. c_document_id c = did) (map snd ?store) = cs"
    using assms(5,6) by (simp add: o_def filter_map filter_id_conv)
  have rest: "filter (\<lambda>q. c_document_id (snd q) \<noteq> did) ?store = store"
    using assms(5,6) by (simp add: filter_map o_def filter_id_conv)
  have "get_by_document did ?store = (Inr cs, ?store)"
    "count_by_document did ?store = (Inr (int (length cs)), ?store)"
    unfolding get_by_document_def count_by_document_def getM_def mine
    using assms(4) by (simp_all add: sort_key_id_if_sorted)
  with save ok delete_by_document_filter [OF ok, of did, unfolded mine rest] show ?thesis by blast
qed

definition demo_chunk :: "uuid \<Rightarrow> int \<Rightarrow> chunk" where
  "demo_chunk u i = \<lparr>ent_id = u, created_at = 0, updated_at = 0, c_tenant_id = TenantId 1,
     c_chunk_id = ChunkId u, c_document_id = DocumentId 7, c_collection_id = CollectionId 2,
     c_content = ''text'', c_chunk_index = i, c_start_char = 0, c_end_char = 4, c_token_count = 1,
     c_embedding = None, c_metadata = []\<rparr>"

theorem chunks_saved_listed_deleted_witness:
  "\<exists>store'. save_many [demo_chunk 1 0, demo_chunk 2 1] [] = (Inr [demo_chunk 1 0, demo_chunk 2 1], store') \<and>
    chunk_store_ok store' \<and>
    get_by_document (DocumentId 7) store' = (Inr [demo_chunk 1 0, demo_chunk 2 1], store') \<and>
    count_by_document (DocumentId 7) store' = (Inr (int (length [demo_chunk 1 0, demo_chunk 2 1])), store') \<and>
    delete_by_document (DocumentId 7) store' = (Inr (int (length [demo_chunk 1 0, demo_chunk 2 1])), [])"
  by (rule chunks_saved_listed_deleted)
    (simp_all add: chunk_store_ok_def chunk_key_def ChunkId_str_inj demo_chunk_def del: ChunkId_str.simps)

end
