(* ===== verification/Redis_Cache.thy ===== *)
theory Redis_Cache
  imports Document_Repository
begin

section \<open>The Redis cache adapter\<close>

text \<open>
  \<open>src/app/infrastructure/cache/redis_cache.py\<close>. The Redis client is the parameter record
  \<open>redis\<close>: its commands are effects on a state of any type and may raise. Values are texts
  (the bytes the adapter encodes with UTF-8). What the adapter relies on is \<open>kv_laws\<close>: a
  read returns the value that was last set, or nothing, since a key may expire or be
  evicted at any moment; a command that raises may or may not have taken effect.

  The lazily created connection (\<open>client\<close>, \<open>close\<close>) is part of that parameter.
\<close>

datatype redis_cmd = RPUSH string string | LTRIM string int int | EXPIRE string int

record 's redis =
  rd_get :: "string \<Rightarrow> ('s, exn, string option) eff"
  rd_set :: "string \<Rightarrow> string \<Rightarrow> int \<Rightarrow> ('s, exn, unit) eff"
  rd_delete :: "string \<Rightarrow> ('s, exn, int) eff"
  rd_transaction :: "redis_cmd list \<Rightarrow> ('s, exn, unit) eff"
  rd_lrange :: "string \<Rightarrow> int \<Rightarrow> int \<Rightarrow> ('s, exn, string list) eff"

text \<open>Pydantic's conversion of a JSON value to a field's type; \<open>None\<close> is a validation error.\<close>

record pydantic =
  pyd_str :: "pyval \<Rightarrow> string option"
  pyd_int :: "pyval \<Rightarrow> int option"
  pyd_floats :: "pyval list \<Rightarrow> real list option"
  pyd_dict :: "pyval \<Rightarrow> dict option"

definition pydantic_laws :: "pydantic \<Rightarrow> bool" where
  "pydantic_laws pyd \<longleftrightarrow> (\<forall>s. pyd_str pyd (PStr s) = Some s) \<and> (\<forall>i. pyd_int pyd (PInt i) = Some i) \<and>
     (\<forall>xs. pyd_floats pyd (map PFloat xs) = Some xs) \<and> (\<forall>d. pyd_dict pyd (PDict d) = Some d)"

text \<open>Parsing the text of a value gives the value back, for the values of \<open>V\<close>.\<close>

definition json_laws :: "pylib \<Rightarrow> pyval set \<Rightarrow> bool" where
  "json_laws lib V \<longleftrightarrow> (\<forall>v \<in> V. json_loads lib (json_dumps lib v) = Inr v)"

subsection \<open>Raw and JSON operations\<close>

definition cache_get :: "'s redis \<Rightarrow> string \<Rightarrow> ('s, exn, string option) eff" where
  "cache_get rd key = rd_get rd key"

definition cache_set :: "'s redis \<Rightarrow> string \<Rightarrow> string \<Rightarrow> int \<Rightarrow> ('s, exn, unit) eff" where
  "cache_set rd key v ttl_seconds = rd_set rd key v ttl_seconds"

definition cache_delete :: "'s redis \<Rightarrow> string \<Rightarrow> ('s, exn, bool) eff" where
  "cache_delete rd key = bindM (rd_delete rd key) (\<lambda>n. returnM (n > 0))"

definition get_json :: "'s redis \<Rightarrow> pylib \<Rightarrow> string \<Rightarrow> ('s, exn, pyval option) eff" where
  "get_json rd lib key = bindM (cache_get rd key) (\<lambda>raw. case raw of
       None \<Rightarrow> returnM None
     | Some txt \<Rightarrow> (case json_loads lib txt of
           Inr v \<Rightarrow> returnM (Some v)
         | Inl e \<Rightarrow> if isinstance e JSONDecodeErrorC \<or> isinstance e TypeErrorC then returnM None
                    else raiseM e))"

definition set_json :: "'s redis \<Rightarrow> pylib \<Rightarrow> string \<Rightarrow> pyval \<Rightarrow> int \<Rightarrow> ('s, exn, unit) eff" where
  "set_json rd lib key v ttl_seconds = cache_set rd key (json_dumps lib v) ttl_seconds"

subsection \<open>Embeddings\<close>

definition embedding_key :: "pylib \<Rightarrow> string \<Rightarrow> string \<Rightarrow> string" where
  "embedding_key lib txt model =
     (let text_hash = py_slice (sha256 lib txt) 0 16 in ''embed:'' @ model @ '':'' @ text_hash)"

definition py_subscript :: "pyval \<Rightarrow> string \<Rightarrow> pyval result" where
  "py_subscript v k = (case v of
       PDict d \<Rightarrow> (case map_of d k of Some x \<Rightarrow> Inr x | None \<Rightarrow> Inl (KeyError k))
     | _ \<Rightarrow> Inl (TypeError (BadOperand ''subscript'')))"

definition py_tuple :: "pyval \<Rightarrow> pyval list result" where
  "py_tuple v = (case v of
       PList xs \<Rightarrow> Inr xs
     | PStr s \<Rightarrow> Inr (map (\<lambda>c. PStr [c]) s)
     | PDict d \<Rightarrow> Inr (map (PStr \<circ> fst) d)
     | _ \<Rightarrow> Inl (TypeError (BadOperand ''tuple'')))"

definition embedding_of_json :: "pydantic \<Rightarrow> pyval \<Rightarrow> embedding_vector result" where
  "embedding_of_json pyd data =
     bindE (py_subscript data ''values'') (\<lambda>v.
     bindE (py_tuple v) (\<lambda>vs.
     bindE (py_subscript data ''model'') (\<lambda>m.
     bindE (py_subscript data ''dimensions'') (\<lambda>d.
       case (pyd_floats pyd vs, pyd_str pyd m, pyd_int pyd d) of
         (Some xs, Some model, Some dims) \<Rightarrow> EmbeddingVector xs model dims
       | (a, b, c) \<Rightarrow> Inl (ValidationError ''EmbeddingVector''
            ((if a = None then [''values''] else []) @ (if b = None then [''model''] else []) @
             (if c = None then [''dimensions''] else [])))))))"

definition get_embedding ::
  "'s redis \<Rightarrow> pylib \<Rightarrow> pydantic \<Rightarrow> string \<Rightarrow> string \<Rightarrow> ('s, exn, embedding_vector option) eff" where
  "get_embedding rd lib pyd txt model =
     bindM (get_json rd lib (embedding_key lib txt model)) (\<lambda>data. case data of
         None \<Rightarrow> returnM None
       | Some PNone \<Rightarrow> returnM None
       | Some v \<Rightarrow> liftM (bindE (embedding_of_json pyd v) (\<lambda>e. Inr (Some e))))"

definition embedding_json :: "embedding_vector \<Rightarrow> pyval" where
  "embedding_json e = PDict [(''values'', PList (map PFloat (ev_values e))),
     (''model'', PStr (ev_model e)), (''dimensions'', PInt (ev_dimensions e))]"

definition cache_set_embedding ::
  "'s redis \<Rightarrow> pylib \<Rightarrow> string \<Rightarrow> string \<Rightarrow> embedding_vector \<Rightarrow> int \<Rightarrow> ('s, exn, unit) eff" where
  "cache_set_embedding rd lib txt model e ttl =
     set_json rd lib (embedding_key lib txt model) (embedding_json e) ttl"

subsection \<open>What the adapter relies on\<close>

definition kv_get_law :: "'s redis \<Rightarrow> ('s \<Rightarrow> string \<Rightarrow> string option) \<Rightarrow> bool" where
  "kv_get_law rd view \<longleftrightarrow> (\<forall>k s r s'. rd_get rd k s = (r, s') \<longrightarrow>
     view s' \<subseteq>\<^sub>m view s \<and> (\<forall>v. r = Inr (Some v) \<longrightarrow> view s k = Some v))"

definition kv_set_law :: "'s redis \<Rightarrow> ('s \<Rightarrow> string \<Rightarrow> string option) \<Rightarrow> bool" where
  "kv_set_law rd view \<longleftrightarrow> (\<forall>k v ttl s r s'. rd_set rd k v ttl s = (r, s') \<longrightarrow>
     view s' \<subseteq>\<^sub>m (view s)(k \<mapsto> v) \<or> r \<noteq> Inr () \<and> view s' \<subseteq>\<^sub>m view s)"

definition kv_delete_law :: "'s redis \<Rightarrow> ('s \<Rightarrow> string \<Rightarrow> string option) \<Rightarrow> bool" where
  "kv_delete_law rd view \<longleftrightarrow> (\<forall>k s r s'. rd_delete rd k s = (r, s') \<longrightarrow>
     view s' \<subseteq>\<^sub>m view s \<and> (\<forall>n. r = Inr n \<longrightarrow> view s' k = None))"

definition kv_laws :: "'s redis \<Rightarrow> ('s \<Rightarrow> string \<Rightarrow> string option) \<Rightarrow> bool" where
  "kv_laws rd view \<longleftrightarrow> kv_get_law rd view \<and> kv_set_law rd view \<and> kv_delete_law rd view"

definition reads_succeed :: "'s redis \<Rightarrow> bool" where
  "reads_succeed rd \<longleftrightarrow> (\<forall>k s. \<exists>r s'. rd_get rd k s = (Inr r, s'))"

lemma kv_getD:
  assumes "kv_laws rd view" "rd_get rd k s = (r, s')"
  shows "view s' \<subseteq>\<^sub>m view s" "r = Inr (Some v) \<Longrightarrow> view s k = Some v"
  using assms unfolding kv_laws_def kv_get_law_def by blast+

lemma kv_setD:
  assumes "kv_laws rd view" "rd_set rd k v ttl s = (r, s')"
  shows "view s' \<subseteq>\<^sub>m (view s)(k \<mapsto> v) \<or> view s' \<subseteq>\<^sub>m view s"
  using assms unfolding kv_laws_def kv_set_law_def by blast

lemma kv_deleteD:
  assumes "kv_laws rd view" "rd_delete rd k s = (r, s')"
  shows "view s' \<subseteq>\<^sub>m view s" "r = Inr n \<Longrightarrow> view s' k = None"
  using assms unfolding kv_laws_def kv_delete_law_def by blast+

lemma embedding_of_json_roundtrip:
  "pydantic_laws pyd \<Longrightarrow> embedding_wf e \<Longrightarrow> embedding_of_json pyd (embedding_json e) = Inr e"
  by (simp add: pydantic_laws_def embedding_of_json_def embedding_json_def py_subscript_def
      py_tuple_def EmbeddingVector_def embedding_wf_def)

subsection \<open>Caches that only hold true embeddings\<close>

text \<open>
  \<open>cache_ok view lib T E model s\<close>: whatever is stored under the embedding key of one of the texts \<open>T\<close> is the
  serialisation of the embedding \<open>E t\<close> of that text.
\<close>

definition cache_ok ::
  "('s \<Rightarrow> string \<Rightarrow> string option) \<Rightarrow> pylib \<Rightarrow> string set \<Rightarrow> (string \<Rightarrow> embedding_vector) \<Rightarrow> string \<Rightarrow> 's \<Rightarrow> bool" where
  "cache_ok view lib T E model s \<longleftrightarrow> (\<forall>t v. t \<in> T \<longrightarrow> view s (embedding_key lib t model) = Some v \<longrightarrow>
     v = json_dumps lib (embedding_json (E t)))"

text \<open>The texts have different digests in the 16 hexadecimal digits (64 bits) that a key keeps of them.\<close>

definition digests_differ :: "pylib \<Rightarrow> string set \<Rightarrow> bool" where
  "digests_differ lib T \<longleftrightarrow> inj_on (\<lambda>t. py_slice (sha256 lib t) 0 16) T"

lemma embedding_key_separates:
  "digests_differ lib T \<Longrightarrow> t \<in> T \<Longrightarrow> t' \<in> T \<Longrightarrow> embedding_key lib t model = embedding_key lib t' model \<Longrightarrow> t = t'"
  by (auto simp: digests_differ_def inj_on_def embedding_key_def Let_def)

lemma cache_ok_mono: "cache_ok view lib T E model s \<Longrightarrow> view s' \<subseteq>\<^sub>m view s \<Longrightarrow> cache_ok view lib T E model s'"
  unfolding cache_ok_def map_le_def by (metis domI)

lemma cache_ok_get:
  assumes "kv_laws rd view" "json_laws lib ((embedding_json \<circ> E) ` T)" "pydantic_laws pyd" "embedding_wf (E t)"
    and t: "t \<in> T" and ok: "cache_ok view lib T E model s"
    and get: "get_embedding rd lib pyd t model s = (r, s')"
  shows "cache_ok view lib T E model s' \<and> (case r of Inr x \<Rightarrow> x = None \<or> x = Some (E t)
    | Inl e \<Rightarrow> rd_get rd (embedding_key lib t model) s = (Inl e, s'))"
proof -
  let ?k = "embedding_key lib t model"
  obtain r0 s0 where r0: "rd_get rd ?k s = (r0, s0)" by fastforce
  have loads: "json_loads lib (json_dumps lib (embedding_json (E t))) = Inr (embedding_json (E t))"
    using assms(2) t by (simp add: json_laws_def)
  have "s' = s0 \<and> (case r of Inr x \<Rightarrow> x = None \<or> x = Some (E t) | Inl e \<Rightarrow> r0 = Inl e)"
  proof (cases r0)
    case (Inl e)
    then show ?thesis using get r0
      by (auto simp: get_embedding_def get_json_def cache_get_def bindM_def)
  next
    case (Inr found)
    show ?thesis
    proof (cases found)
      case None
      then show ?thesis using get r0 Inr
        by (auto simp: get_embedding_def get_json_def cache_get_def bindM_def returnM_def)
    next
      case (Some raw)
      then have "raw = json_dumps lib (embedding_json (E t))"
        using kv_getD(2) [OF assms(1) r0] Inr ok t by (simp add: cache_ok_def)
      then show ?thesis
        using get r0 Inr Some loads embedding_of_json_roundtrip [OF assms(3,4)]
        by (auto simp: get_embedding_def get_json_def cache_get_def bindM_def returnM_def liftM_def embedding_json_def)
    qed
  qed
  with r0 cache_ok_mono [OF ok kv_getD(1) [OF assms(1) r0]] show ?thesis by (auto split: sum.splits)
qed

lemma cache_ok_set:
  assumes laws: "kv_laws rd view" and sep: "digests_differ lib T" "t \<in> T"
    and ok: "cache_ok view lib T E model s"
    and set: "cache_set_embedding rd lib t model (E t) ttl s = (r, s')"
  shows "cache_ok view lib T E model s'"
proof -
  let ?k = "embedding_key lib t model" and ?v = "json_dumps lib (embedding_json (E t))"
  have "view s' \<subseteq>\<^sub>m (view s)(?k \<mapsto> ?v) \<or> view s' \<subseteq>\<^sub>m view s"
    using kv_setD [OF laws] set by (simp add: cache_set_embedding_def set_json_def cache_set_def)
  then show ?thesis
  proof
    assume le: "view s' \<subseteq>\<^sub>m (view s)(?k \<mapsto> ?v)"
    have "v = json_dumps lib (embedding_json (E t'))"
      if t': "t' \<in> T" and v: "view s' (embedding_key lib t' model) = Some v" for t' v
    proof -
      have "((view s)(?k \<mapsto> ?v)) (embedding_key lib t' model) = Some v"
        using le v by (metis domI map_le_def)
      then show ?thesis using ok t' embedding_key_separates [OF sep(1) t' sep(2), of model]
        by (auto simp: cache_ok_def split: if_splits)
    qed
    then show ?thesis by (simp add: cache_ok_def)
  qed (rule cache_ok_mono [OF ok])
qed

subsection \<open>An instance of the assumptions\<close>

text \<open>A server that keeps its keys in an association list.\<close>

definition demo_redis :: "(string \<times> string) list redis" where
  "demo_redis = \<lparr>rd_get = (\<lambda>k s. (Inr (map_of s k), s)),
     rd_set = (\<lambda>k v ttl s. (Inr (), AList.update k v s)),
     rd_delete = (\<lambda>k s. (Inr (if k \<in> fst ` set s then 1 else 0), AList.delete k s)),
     rd_transaction = (\<lambda>_ s. (Inr (), s)), rd_lrange = (\<lambda>_ _ _ s. (Inr [], s))\<rparr>"

definition demo_pydantic :: pydantic where
  "demo_pydantic =
     \<lparr>pyd_str = (\<lambda>v. case v of PStr s \<Rightarrow> Some s | _ \<Rightarrow> None),
      pyd_int = (\<lambda>v. case v of PInt i \<Rightarrow> Some i | _ \<Rightarrow> None),
      pyd_floats = (\<lambda>vs. if \<forall>v \<in> set vs. \<exists>x. v = PFloat x
                         then Some (map (\<lambda>v. case v of PFloat x \<Rightarrow> x | _ \<Rightarrow> 0) vs) else None),
      pyd_dict = (\<lambda>v. case v of PDict d \<Rightarrow> Some d | _ \<Rightarrow> None)\<rparr>"

lemma demo_pydantic_laws: "pydantic_laws demo_pydantic"
  by (auto simp: pydantic_laws_def demo_pydantic_def o_def)

lemma demo_redis_laws: "kv_laws demo_redis map_of"
  by (auto simp: kv_laws_def kv_get_law_def kv_set_law_def kv_delete_law_def demo_redis_def map_le_def)

end
