(* ===== verification/Chat_History.thy ===== *)
theory Chat_History
  imports Redis_Cache
begin

section \<open>Chat history in Redis\<close>

text \<open>
  \<open>src/app/infrastructure/repositories/redis_chat_repo.py\<close>: one Redis list per user, appended
  and trimmed in one transaction. \<open>list_laws\<close> states what the adapter relies on of a healthy
  server, within the seven days before a list expires: a transaction runs its commands in
  order and atomically, \<open>LRANGE\<close> and \<open>LTRIM\<close> count negative indices from the end.
\<close>

definition MAX_HISTORY_SIZE :: int where
  "MAX_HISTORY_SIZE = 100"

definition history_key :: "user_id \<Rightarrow> string" where
  "history_key uid = ''chat:'' @ uuid_str (user_id_value uid)"

definition message_json :: "chat_message \<Rightarrow> pyval" where
  "message_json m = PDict [(''role'', PStr (role_value (m_role m))), (''content'', PStr (m_content m)),
     (''metadata'', PDict (m_metadata m))]"

definition save_message ::
  "'s redis \<Rightarrow> pylib \<Rightarrow> user_id \<Rightarrow> chat_message \<Rightarrow> ('s, exn, unit) eff" where
  "save_message rd lib uid message =
     (let key = history_key uid; data = json_dumps lib (message_json message)
      in rd_transaction rd [RPUSH key data, LTRIM key (- MAX_HISTORY_SIZE) (-1), EXPIRE key (86400 * 7)])"

text \<open>One list entry: a message, or the exception its decoding raises.\<close>

definition role_of_json :: "pyval \<Rightarrow> message_role result" where
  "role_of_json v = (case v of PStr s \<Rightarrow> MessageRole s | _ \<Rightarrow> Inl (ValueError ''not a valid MessageRole''))"

definition decode_entry :: "pylib \<Rightarrow> pydantic \<Rightarrow> string \<Rightarrow> chat_message result" where
  "decode_entry lib pyd raw =
     bindE (json_loads lib raw) (\<lambda>data.
     bindE (py_subscript data ''role'') (\<lambda>r.
     bindE (role_of_json r) (\<lambda>role.
     bindE (py_subscript data ''content'') (\<lambda>c.
       let meta = (case data of PDict d \<Rightarrow> dict_get d ''metadata'' (PDict []) | _ \<Rightarrow> PDict [])
       in case (pyd_str pyd c, pyd_dict pyd meta) of
            (Some content, Some metadata) \<Rightarrow>
              Inr \<lparr>m_role = role, m_content = content, m_metadata = metadata\<rparr>
          | (a, b) \<Rightarrow> Inl (ValidationError ''ChatMessage''
               ((if a = None then [''content''] else []) @ (if b = None then [''metadata''] else [])))))))"

fun decode_entries :: "pylib \<Rightarrow> pydantic \<Rightarrow> string list \<Rightarrow> chat_message list result" where
  "decode_entries lib pyd [] = Inr []"
| "decode_entries lib pyd (raw # raws) = (case decode_entry lib pyd raw of
     Inr m \<Rightarrow> bindE (decode_entries lib pyd raws) (\<lambda>ms. Inr (m # ms))
   | Inl e \<Rightarrow> if isinstance e JSONDecodeErrorC \<or> isinstance e KeyErrorC \<or> isinstance e ValueErrorC
              then decode_entries lib pyd raws else Inl e)"

definition get_history ::
  "'s redis \<Rightarrow> pylib \<Rightarrow> pydantic \<Rightarrow> user_id \<Rightarrow> int \<Rightarrow> ('s, exn, chat_message list) eff" where
  "get_history rd lib pyd uid limit =
     bindM (rd_lrange rd (history_key uid) (- limit) (-1)) (\<lambda>raws. liftM (decode_entries lib pyd raws))"

definition clear_history :: "'s redis \<Rightarrow> user_id \<Rightarrow> ('s, exn, unit) eff" where
  "clear_history rd uid = thenM (cache_delete rd (history_key uid)) (returnM ())"

subsection \<open>What the adapter relies on\<close>

definition redis_range :: "'a list \<Rightarrow> int \<Rightarrow> int \<Rightarrow> 'a list" where
  "redis_range xs a b =
     (let n = int (length xs); lo = (if a < 0 then max 0 (n + a) else a);
          hi = (if b < 0 then n + b else b)
      in take (nat (hi + 1 - lo)) (drop (nat lo) xs))"

fun exec_cmd :: "redis_cmd \<Rightarrow> (string \<Rightarrow> string list) \<Rightarrow> (string \<Rightarrow> string list)" where
  "exec_cmd (RPUSH k v) m = m(k := m k @ [v])"
| "exec_cmd (LTRIM k a b) m = m(k := redis_range (m k) a b)"
| "exec_cmd (EXPIRE k t) m = m"

definition list_laws :: "'s redis \<Rightarrow> ('s \<Rightarrow> string \<Rightarrow> string list) \<Rightarrow> bool" where
  "list_laws rd lview \<longleftrightarrow>
     (\<forall>cmds s. \<exists>s'. rd_transaction rd cmds s = (Inr (), s') \<and> lview s' = fold exec_cmd cmds (lview s)) \<and>
     (\<forall>k a b s. \<exists>s'. rd_lrange rd k a b s = (Inr (redis_range (lview s k) a b), s') \<and> lview s' = lview s)"

subsection \<open>Windows of messages\<close>

definition last_n :: "nat \<Rightarrow> 'a list \<Rightarrow> 'a list" where
  "last_n n xs = drop (length xs - n) xs"

lemma redis_range_last: "0 < n \<Longrightarrow> redis_range xs (- int n) (-1) = last_n n xs"
  by (cases "n \<le> length xs") (auto simp: redis_range_def last_n_def Let_def nat_diff_distrib')

lemma last_n_snoc: "0 < n \<Longrightarrow> last_n n (last_n n xs @ [x]) = last_n n (xs @ [x])"
  by (cases "n \<le> length xs") (simp_all add: last_n_def Suc_diff_le)

lemma last_n_last_n: "m \<le> n \<Longrightarrow> last_n m (last_n n xs) = last_n m xs"
  by (cases "n \<le> length xs") (simp_all add: last_n_def)

lemma last_n_map: "last_n n (map f xs) = map f (last_n n xs)"
  by (simp add: last_n_def drop_map)

lemma set_last_n: "set (last_n n xs) \<subseteq> set xs"
  by (auto simp: last_n_def dest: in_set_dropD)

lemma history_key_inj: "history_key u = history_key v \<longleftrightarrow> u = v"
  by (cases u; cases v) (simp add: history_key_def uuid_str_inj)

lemma decode_entry_saved:
  "pydantic_laws pyd \<Longrightarrow> json_loads lib raw = Inr (message_json m) \<Longrightarrow> decode_entry lib pyd raw = Inr m"
  by (simp add: decode_entry_def message_json_def py_subscript_def role_of_json_def dict_get_def
      pydantic_laws_def Let_def)

lemma decode_entries_saved:
  "pydantic_laws pyd \<Longrightarrow> json_laws lib (message_json ` set ms) \<Longrightarrow>
     decode_entries lib pyd (map (json_dumps lib \<circ> message_json) ms) = Inr ms"
  by (induction ms) (simp_all add: json_laws_def decode_entry_saved)

text \<open>Saving a list of messages, one after the other.\<close>

fun save_all :: "'s redis \<Rightarrow> pylib \<Rightarrow> user_id \<Rightarrow> chat_message list \<Rightarrow> ('s, exn, unit) eff" where
  "save_all rd lib uid [] = returnM ()"
| "save_all rd lib uid (m # ms) = thenM (save_message rd lib uid m) (save_all rd lib uid ms)"

lemma save_message_lists:
  assumes "list_laws rd lview"
  shows "\<exists>s'. save_message rd lib uid m s = (Inr (), s') \<and>
    lview s' = (lview s)(history_key uid :=
      last_n 100 (lview s (history_key uid) @ [json_dumps lib (message_json m)]))"
proof -
  have "redis_range xs (- MAX_HISTORY_SIZE) (-1) = last_n 100 xs" for xs :: "string list"
    using redis_range_last [of 100 xs] by (simp add: MAX_HISTORY_SIZE_def)
  moreover obtain s' where "save_message rd lib uid m s = (Inr (), s')"
    "lview s' = fold exec_cmd [RPUSH (history_key uid) (json_dumps lib (message_json m)),
      LTRIM (history_key uid) (- MAX_HISTORY_SIZE) (-1), EXPIRE (history_key uid) (86400 * 7)] (lview s)"
    using assms unfolding list_laws_def save_message_def Let_def by blast
  ultimately show ?thesis by simp
qed

lemma save_all_lists:
  assumes laws: "list_laws rd lview"
    and "lview s (history_key uid) = last_n 100 (map (json_dumps lib \<circ> message_json) old)"
  shows "\<exists>s'. save_all rd lib uid ms s = (Inr (), s') \<and>
    lview s' (history_key uid) = last_n 100 (map (json_dumps lib \<circ> message_json) (old @ ms)) \<and>
    (\<forall>u. u \<noteq> uid \<longrightarrow> lview s' (history_key u) = lview s (history_key u))"
  using assms(2)
proof (induction ms arbitrary: old s)
  case Nil
  then show ?case by (auto simp: res_simps)
next
  case (Cons m ms)
  obtain s1 where s1: "save_message rd lib uid m s = (Inr (), s1)"
    "lview s1 = (lview s)(history_key uid :=
      last_n 100 (lview s (history_key uid) @ [json_dumps lib (message_json m)]))"
    using save_message_lists [OF laws] by blast
  have "lview s1 (history_key uid) = last_n 100 (map (json_dumps lib \<circ> message_json) (old @ [m]))"
    using s1(2) Cons.prems last_n_snoc [of 100] by (simp add: o_def)
  from Cons.IH [OF this] obtain s2 where s2: "save_all rd lib uid ms s1 = (Inr (), s2)"
    "lview s2 (history_key uid) = last_n 100 (map (json_dumps lib \<circ> message_json) (old @ m # ms))"
    "\<forall>u. u \<noteq> uid \<longrightarrow> lview s2 (history_key u) = lview s1 (history_key u)"
    by (auto simp: o_def)
  with s1 show ?case by (auto simp: res_simps thenM_def history_key_inj o_def)
qed

subsection \<open>The contract of a history\<close>

text \<open>
  What the chat use case relies on: \<open>holds s u ms\<close> says that \<open>ms\<close> is the kept history of user
  \<open>u\<close> in state \<open>s\<close>. Saving appends and keeps the last \<open>cap\<close> messages, reading returns the last
  \<open>n\<close>, and neither touches the history of another user.
\<close>

locale chat_history =
  fixes save :: "user_id \<Rightarrow> chat_message \<Rightarrow> ('s, exn, unit) eff"
    and recall :: "user_id \<Rightarrow> int \<Rightarrow> ('s, exn, chat_message list) eff"
    and holds :: "'s \<Rightarrow> user_id \<Rightarrow> chat_message list \<Rightarrow> bool"
    and storable :: "chat_message \<Rightarrow> bool"
    and cap :: nat
  assumes save_appends: "holds s u ms \<Longrightarrow> storable m \<Longrightarrow>
      \<exists>s'. save u m s = (Inr (), s') \<and> holds s' u (last_n cap (ms @ [m])) \<and>
        (\<forall>v ns. v \<noteq> u \<longrightarrow> holds s v ns \<longrightarrow> holds s' v ns)"
    and recall_last: "holds s u ms \<Longrightarrow> 0 < n \<Longrightarrow>
      \<exists>s'. recall u (int n) s = (Inr (last_n n ms), s') \<and> (\<forall>v ns. holds s v ns \<longrightarrow> holds s' v ns)"
    and cap_pos: "0 < cap"
begin

lemma save_both:
  assumes "holds s u ms" "storable q" "storable a"
  shows "\<exists>s'. thenM (save u q) (save u a) s = (Inr (), s') \<and> holds s' u (last_n cap (ms @ [q, a])) \<and>
    (\<forall>v ns. v \<noteq> u \<longrightarrow> holds s v ns \<longrightarrow> holds s' v ns)"
proof -
  obtain s1 where s1: "save u q s = (Inr (), s1)" "holds s1 u (last_n cap (ms @ [q]))"
    "\<forall>v ns. v \<noteq> u \<longrightarrow> holds s v ns \<longrightarrow> holds s1 v ns"
    using save_appends [OF assms(1,2)] by blast
  obtain s2 where s2: "save u a s1 = (Inr (), s2)" "holds s2 u (last_n cap (last_n cap (ms @ [q]) @ [a]))"
    "\<forall>v ns. v \<noteq> u \<longrightarrow> holds s1 v ns \<longrightarrow> holds s2 v ns"
    using save_appends [OF s1(2) assms(3)] by blast
  have "last_n cap (last_n cap (ms @ [q]) @ [a]) = last_n cap (ms @ [q, a])"
    using last_n_snoc [OF cap_pos, of "ms @ [q]" a] by simp
  with s1 s2 show ?thesis by (auto simp: thenM_def bindM_def)
qed

lemma recall_after_save:
  assumes "holds s u ms" "storable q" "storable a" "0 < n" "n \<le> cap"
  shows "\<exists>s1 s2. thenM (save u q) (save u a) s = (Inr (), s1) \<and>
    recall u (int n) s1 = (Inr (last_n n (ms @ [q, a])), s2)"
  using save_both [OF assms(1-3)] recall_last [OF _ assms(4)] last_n_last_n [OF assms(5)] by metis

end

definition redis_holds ::
  "'s redis \<Rightarrow> pylib \<Rightarrow> pydantic \<Rightarrow> ('s \<Rightarrow> string \<Rightarrow> string list) \<Rightarrow> chat_message set \<Rightarrow> 's \<Rightarrow> user_id \<Rightarrow> chat_message list \<Rightarrow> bool" where
  "redis_holds rd lib pyd lview S s u ms \<longleftrightarrow> list_laws rd lview \<and> pydantic_laws pyd \<and> json_laws lib (message_json ` S) \<and>
     set ms \<subseteq> S \<and> lview s (history_key u) = map (json_dumps lib \<circ> message_json) ms"

lemma redis_save_appends:
  assumes h: "redis_holds rd lib pyd lview S s u ms" and m: "m \<in> S"
  shows "\<exists>s'. save_message rd lib u m s = (Inr (), s') \<and> redis_holds rd lib pyd lview S s' u (last_n 100 (ms @ [m])) \<and>
    (\<forall>v ns. v \<noteq> u \<longrightarrow> redis_holds rd lib pyd lview S s v ns \<longrightarrow> redis_holds rd lib pyd lview S s' v ns)"
proof -
  have laws: "list_laws rd lview" using h by (simp add: redis_holds_def)
  obtain s' where s': "save_message rd lib u m s = (Inr (), s')"
    "lview s' = (lview s)(history_key u := last_n 100 (lview s (history_key u) @ [json_dumps lib (message_json m)]))"
    using save_message_lists [OF laws] by blast
  have "lview s' (history_key u) = map (json_dumps lib \<circ> message_json) (last_n 100 (ms @ [m]))"
    using s'(2) h last_n_map [of 100 "json_dumps lib \<circ> message_json" "ms @ [m]"] by (simp add: redis_holds_def)
  moreover have "set (last_n 100 (ms @ [m])) \<subseteq> S" using set_last_n [of 100 "ms @ [m]"] h m by (auto simp: redis_holds_def)
  ultimately show ?thesis using s' h by (auto simp: redis_holds_def history_key_inj)
qed

lemma redis_recall_last:
  assumes h: "redis_holds rd lib pyd lview S s u ms" and n: "0 < n"
  shows "\<exists>s'. get_history rd lib pyd u (int n) s = (Inr (last_n n ms), s') \<and>
    (\<forall>v ns. redis_holds rd lib pyd lview S s v ns \<longrightarrow> redis_holds rd lib pyd lview S s' v ns)"
proof -
  let ?f = "json_dumps lib \<circ> message_json"
  have laws: "list_laws rd lview" "pydantic_laws pyd" "json_laws lib (message_json ` S)" "set ms \<subseteq> S"
    and v: "lview s (history_key u) = map ?f ms" using h by (simp_all add: redis_holds_def)
  obtain s' where s': "rd_lrange rd (history_key u) (- int n) (-1) s =
      (Inr (redis_range (lview s (history_key u)) (- int n) (-1)), s')" "lview s' = lview s"
    using laws(1) unfolding list_laws_def by blast
  have "decode_entries lib pyd (map ?f (last_n n ms)) = Inr (last_n n ms)"
    using laws(2-4) set_last_n [of n ms] by (intro decode_entries_saved) (auto simp: json_laws_def)
  then have "get_history rd lib pyd u (int n) s = (Inr (last_n n ms), s')"
    using s'(1) v n by (simp add: get_history_def bindM_def liftM_def redis_range_last last_n_map)
  with s'(2) show ?thesis by (simp add: redis_holds_def)
qed

interpretation redis_history: chat_history
  "save_message rd lib" "get_history rd lib pyd" "redis_holds rd lib pyd lview S" "\<lambda>m. m \<in> S" 100
proof unfold_locales
  show "\<exists>s'. save_message rd lib u m s = (Inr (), s') \<and> redis_holds rd lib pyd lview S s' u (last_n 100 (ms @ [m])) \<and>
      (\<forall>v ns. v \<noteq> u \<longrightarrow> redis_holds rd lib pyd lview S s v ns \<longrightarrow> redis_holds rd lib pyd lview S s' v ns)"
    if "redis_holds rd lib pyd lview S s u ms" "m \<in> S" for s u ms m
    by (rule redis_save_appends [OF that])
  show "\<exists>s'. get_history rd lib pyd u (int n) s = (Inr (last_n n ms), s') \<and>
      (\<forall>v ns. redis_holds rd lib pyd lview S s v ns \<longrightarrow> redis_holds rd lib pyd lview S s' v ns)"
    if "redis_holds rd lib pyd lview S s u ms" "0 < n" for s u ms n
    by (rule redis_recall_last [OF that])
qed simp

subsection \<open>Property\<close>

text \<open>
  Chat history: after any sequence of messages is saved for a user with an empty
  history, asking for the last \<open>n\<close> (1 to 100) returns exactly the last \<open>n\<close> messages, in
  order, with role, content and metadata as saved; at most 100 entries are kept, and no
  other user's history changes.
\<close>

theorem history_returns_last_messages:
  assumes laws: "list_laws rd lview" "pydantic_laws pyd" "json_laws lib (message_json ` set ms)"
    and empty: "lview s (history_key uid) = []" and n: "0 < n" "n \<le> 100"
  shows "\<exists>s1 s2. save_all rd lib uid ms s = (Inr (), s1) \<and>
    get_history rd lib pyd uid (int n) s1 = (Inr (last_n n ms), s2) \<and>
    length (lview s1 (history_key uid)) \<le> 100 \<and>
    (\<forall>u. u \<noteq> uid \<longrightarrow> lview s1 (history_key u) = lview s (history_key u))"
proof -
  let ?f = "json_dumps lib \<circ> message_json"
  have "lview s (history_key uid) = last_n 100 (map ?f [])" using empty by (simp add: last_n_def)
  from save_all_lists [OF laws(1) this, of ms]
  obtain s1 where s1: "save_all rd lib uid ms s = (Inr (), s1)"
    "lview s1 (history_key uid) = last_n 100 (map ?f ms)"
    "\<forall>u. u \<noteq> uid \<longrightarrow> lview s1 (history_key u) = lview s (history_key u)"
    by auto
  obtain s2 where s2: "rd_lrange rd (history_key uid) (- int n) (-1) s1 =
      (Inr (redis_range (lview s1 (history_key uid)) (- int n) (-1)), s2)"
    using laws(1) unfolding list_laws_def by blast
  have "redis_range (lview s1 (history_key uid)) (- int n) (-1) = map ?f (last_n n ms)"
    using s1(2) n by (simp add: redis_range_last last_n_last_n last_n_map)
  moreover have "decode_entries lib pyd (map ?f (last_n n ms)) = Inr (last_n n ms)"
    using laws(2,3) set_last_n [of n ms] by (intro decode_entries_saved) (auto simp: json_laws_def)
  ultimately have "get_history rd lib pyd uid (int n) s1 = (Inr (last_n n ms), s2)"
    using s2 by (simp add: get_history_def bindM_def liftM_def)
  with s1 show ?thesis by (auto simp: last_n_def)
qed

text \<open>A server that is its lists.\<close>

definition demo_list_redis :: "(string \<Rightarrow> string list) redis" where
  "demo_list_redis = \<lparr>rd_get = (\<lambda>k s. (Inr None, s)), rd_set = (\<lambda>k v ttl s. (Inr (), s)),
     rd_delete = (\<lambda>k s. (Inr (if s k = [] then 0 else 1), s(k := []))),
     rd_transaction = (\<lambda>cmds s. (Inr (), fold exec_cmd cmds s)),
     rd_lrange = (\<lambda>k a b s. (Inr (redis_range (s k) a b), s))\<rparr>"

definition demo_chat_lib :: pylib where
  "demo_chat_lib = \<lparr>sha256 = (\<lambda>s. s), json_dumps = (\<lambda>v. if v = message_json (ChatMessage USER ''hi'') then ''u'' else ''a''),
     json_loads = (\<lambda>x. Inr (if x = ''u'' then message_json (ChatMessage USER ''hi'')
       else message_json (ChatMessage ASSISTANT ''hello'')))\<rparr>"

definition demo_chat_pydantic :: pydantic where
  "demo_chat_pydantic =
     \<lparr>pyd_str = (\<lambda>v. case v of PStr s \<Rightarrow> Some s | _ \<Rightarrow> None),
      pyd_int = (\<lambda>v. case v of PInt i \<Rightarrow> Some i | _ \<Rightarrow> None),
      pyd_floats = (\<lambda>vs. Some (map (\<lambda>v. case v of PFloat x \<Rightarrow> x | _ \<Rightarrow> 0) vs)),
      pyd_dict = (\<lambda>v. case v of PDict d \<Rightarrow> Some d | _ \<Rightarrow> None)\<rparr>"

theorem history_returns_last_messages_witness:
  "\<exists>s1 s2. save_all demo_list_redis demo_chat_lib (UserId 1)
      [ChatMessage USER ''hi'', ChatMessage ASSISTANT ''hello''] (\<lambda>_. []) = (Inr (), s1) \<and>
    get_history demo_list_redis demo_chat_lib demo_chat_pydantic (UserId 1) (int 1) s1 =
      (Inr [ChatMessage ASSISTANT ''hello''], s2)"
proof -
  let ?ms = "[ChatMessage USER ''hi'', ChatMessage ASSISTANT ''hello'']"
  have "list_laws demo_list_redis (\<lambda>s. s)" by (simp add: list_laws_def demo_list_redis_def)
  moreover have "pydantic_laws demo_chat_pydantic"
    by (simp add: pydantic_laws_def demo_chat_pydantic_def o_def)
  moreover have "json_laws demo_chat_lib (message_json ` set ?ms)"
    by (simp add: json_laws_def demo_chat_lib_def message_json_def ChatMessage_def)
  moreover have "last_n 1 ?ms = [ChatMessage ASSISTANT ''hello'']" by (simp add: last_n_def)
  ultimately show ?thesis
    using history_returns_last_messages [of demo_list_redis "\<lambda>s. s" demo_chat_pydantic demo_chat_lib ?ms
        "\<lambda>_. []" "UserId 1" 1]
    by auto
qed

end
