(* ===== verification/Tenant_Repository.thy ===== *)
theory Tenant_Repository
  imports Redis_Cache
begin

section \<open>The tenant repository\<close>

text \<open>
  \<open>src/app/infrastructure/repositories/postgres_tenant_repo.py\<close>: tenants in PostgreSQL with a
  Redis cache in front of the lookup by API key. The state is the pair of the Redis state and
  the database. Pydantic's \<open>model_dump\<close> of a tenant and \<open>Tenant(**cached)\<close> are the parameters
  \<open>dump\<close> and \<open>load\<close>. The constraints on the table are those of \<open>src/scripts/migrate.sql\<close>.
\<close>

definition CACHE_TTL :: int where
  "CACHE_TTL = 300"

definition tenant_cache_key :: "string \<Rightarrow> string" where
  "tenant_cache_key api_key_hash = ''tenant:key:'' @ api_key_hash"

definition row_to_tenant :: "pylib \<Rightarrow> uuid \<Rightarrow> tenant_row \<Rightarrow> tenant result" where
  "row_to_tenant lib eid row =
     bindE (TenantPlan (tr_plan row)) (\<lambda>plan.
     bindE (load_metadata lib ''Tenant'' (tr_metadata row)) (\<lambda>meta.
     Inr \<lparr>ent_id = eid, created_at = tr_created_at row, updated_at = tr_updated_at row,
          t_tenant_id = TenantId (tr_tenant_id row), t_name = tr_name row,
          t_api_key_hash = tr_api_key_hash row, t_plan = plan, t_is_active = tr_is_active row,
          t_tokens_used_this_month = tr_tokens_used_this_month row,
          t_total_tokens_used = tr_total_tokens_used row, t_metadata = meta\<rparr>))"

definition first_tenant ::
  "pylib \<Rightarrow> uuid \<Rightarrow> (tenant_row \<Rightarrow> bool) \<Rightarrow> (database, exn, tenant option) eff" where
  "first_tenant lib eid P =
     bindM (pool_run (\<lambda>db. (Inr (filter P (db_tenants db)), db))) (\<lambda>rows. case rows of
         [] \<Rightarrow> returnM None
       | row # _ \<Rightarrow> liftM (bindE (row_to_tenant lib eid row) (\<lambda>t. Inr (Some t))))"

definition tenant_get_by_id ::
  "pylib \<Rightarrow> uuid \<Rightarrow> tenant_id \<Rightarrow> ('s \<times> database, exn, tenant option) eff" where
  "tenant_get_by_id lib eid tid =
     onR (first_tenant lib eid (\<lambda>row. tr_tenant_id row = tenant_id_value tid))"

fun py_truthy :: "pyval \<Rightarrow> bool" where
  "py_truthy PNone = False"
| "py_truthy (PBool b) = b"
| "py_truthy (PInt i) = (i \<noteq> 0)"
| "py_truthy (PFloat x) = (x \<noteq> 0)"
| "py_truthy (PStr s) = (s \<noteq> [])"
| "py_truthy (PList xs) = (xs \<noteq> [])"
| "py_truthy (PDict d) = (d \<noteq> [])"

definition tenant_db_lookup ::
  "'s redis \<Rightarrow> pylib \<Rightarrow> (tenant \<Rightarrow> pyval) \<Rightarrow> uuid \<Rightarrow> string \<Rightarrow> ('s \<times> database, exn, tenant option) eff" where
  "tenant_db_lookup rd lib dump eid api_key_hash =
     bindM (onR (first_tenant lib eid (\<lambda>row. tr_api_key_hash row = api_key_hash))) (\<lambda>found. case found of
         None \<Rightarrow> returnM None
       | Some t \<Rightarrow>
           thenM (catchM (onL (set_json rd lib (tenant_cache_key api_key_hash) (dump t) CACHE_TTL))
                    (\<lambda>_. returnM ()))
             (returnM (Some t)))"

definition get_by_api_key_hash ::
  "'s redis \<Rightarrow> pylib \<Rightarrow> (tenant \<Rightarrow> pyval) \<Rightarrow> (pyval \<Rightarrow> tenant result) \<Rightarrow> uuid \<Rightarrow> string
   \<Rightarrow> ('s \<times> database, exn, tenant option) eff" where
  "get_by_api_key_hash rd lib dump load eid api_key_hash =
     bindM (onL (get_json rd lib (tenant_cache_key api_key_hash))) (\<lambda>cached. case cached of
         Some v \<Rightarrow>
           if py_truthy v
           then (case load v of
                   Inr t \<Rightarrow> returnM (Some t)
                 | Inl _ \<Rightarrow> tenant_db_lookup rd lib dump eid api_key_hash)
           else tenant_db_lookup rd lib dump eid api_key_hash
       | None \<Rightarrow> tenant_db_lookup rd lib dump eid api_key_hash)"

definition int8_ok :: "int \<Rightarrow> bool" where
  "int8_ok i = (- (2 ^ 63) \<le> i \<and> i < 2 ^ 63)"

definition tenant_to_row :: "pylib \<Rightarrow> tenant \<Rightarrow> tenant_row" where
  "tenant_to_row lib t =
     \<lparr>tr_tenant_id = tenant_id_value (t_tenant_id t), tr_name = t_name t,
      tr_api_key_hash = t_api_key_hash t, tr_plan = plan_value (t_plan t), tr_is_active = t_is_active t,
      tr_tokens_used_this_month = t_tokens_used_this_month t,
      tr_total_tokens_used = t_total_tokens_used t, tr_metadata = json_dumps lib (PDict (t_metadata t)),
      tr_created_at = created_at t, tr_updated_at = updated_at t\<rparr>"

text \<open>\<open>INSERT \<dots> ON CONFLICT (tenant_id) DO NOTHING\<close>\<close>

definition insert_tenant :: "tenant_row \<Rightarrow> database \<Rightarrow> unit result \<times> database" where
  "insert_tenant row db =
     (if length (tr_name row) > 255 \<or> length (tr_api_key_hash row) > 64 \<or> length (tr_plan row) > 50 \<or>
         \<not> int8_ok (tr_tokens_used_this_month row) \<or> \<not> int8_ok (tr_total_tokens_used row) \<or>
         \<not> text_ok (tr_name row) \<or> \<not> text_ok (tr_api_key_hash row) \<or> \<not> jsonb_ok (tr_metadata row)
      then (Inl (ClientError ''value too long, out of range or with a NUL''), db)
      else if tr_tenant_id row \<in> tr_tenant_id ` set (db_tenants db) then (Inr (), db)
      else if tr_api_key_hash row \<in> tr_api_key_hash ` set (db_tenants db)
        then (Inl (ClientError ''unique violation: api_key_hash''), db)
      else (Inr (), db\<lparr>db_tenants := db_tenants db @ [row]\<rparr>))"

definition tenant_save :: "pylib \<Rightarrow> tenant \<Rightarrow> ('s \<times> database, exn, tenant) eff" where
  "tenant_save lib t = thenM (onR (pool_run (insert_tenant (tenant_to_row lib t)))) (returnM t)"

text \<open>\<open>UPDATE tenants SET \<dots>, updated_at = NOW() WHERE tenant_id = $1\<close>\<close>

definition update_tenants :: "timestamp \<Rightarrow> tenant_row \<Rightarrow> database \<Rightarrow> unit result \<times> database" where
  "update_tenants now row db =
     (if \<not> (int8_ok (tr_tokens_used_this_month row) \<and> int8_ok (tr_total_tokens_used row) \<and> jsonb_ok (tr_metadata row))
      then (Inl (ClientError ''value out of int64 range or with a NUL''), db)
      else (Inr (), db\<lparr>db_tenants := map (\<lambda>r.
          if tr_tenant_id r = tr_tenant_id row
          then r\<lparr>tr_is_active := tr_is_active row, tr_plan := tr_plan row,
                 tr_tokens_used_this_month := tr_tokens_used_this_month row,
                 tr_total_tokens_used := tr_total_tokens_used row, tr_metadata := tr_metadata row,
                 tr_updated_at := now\<rparr>
          else r) (db_tenants db)\<rparr>))"

definition tenant_update ::
  "'s redis \<Rightarrow> pylib \<Rightarrow> timestamp \<Rightarrow> tenant \<Rightarrow> ('s \<times> database, exn, tenant) eff" where
  "tenant_update rd lib now t =
     thenM (onR (pool_run (update_tenants now (tenant_to_row lib t))))
       (thenM (onL (cache_delete rd (tenant_cache_key (t_api_key_hash t)))) (returnM t))"

text \<open>\<open>UPDATE tenants SET is_active = FALSE, \<dots> WHERE tenant_id = $1\<close>; the cache is not touched.\<close>

definition tenant_delete :: "timestamp \<Rightarrow> tenant_id \<Rightarrow> ('s \<times> database, exn, bool) eff" where
  "tenant_delete now tid = onR (pool_run (\<lambda>db.
     (Inr (length (filter (\<lambda>r. tr_tenant_id r = tenant_id_value tid) (db_tenants db)) = 1),
      db\<lparr>db_tenants := map (\<lambda>r.
          if tr_tenant_id r = tenant_id_value tid
          then r\<lparr>tr_is_active := False, tr_updated_at := now\<rparr> else r) (db_tenants db)\<rparr>)))"

subsection \<open>Well-formed tenant tables\<close>

definition tenants_ok :: "pylib \<Rightarrow> database \<Rightarrow> bool" where
  "tenants_ok lib db \<longleftrightarrow> db_connected db \<and> db_faults db = [] \<and>
     distinct (map tr_tenant_id (db_tenants db)) \<and> distinct (map tr_api_key_hash (db_tenants db)) \<and>
     (\<forall>row \<in> set (db_tenants db). is_ok (row_to_tenant lib 0 row))"

lemma first_tenant_find:
  assumes "db_connected db" "db_faults db = []"
  shows "first_tenant lib eid P db = (case find P (db_tenants db) of
      None \<Rightarrow> (Inr None, db)
    | Some row \<Rightarrow> (bindE (row_to_tenant lib eid row) (\<lambda>t. Inr (Some t)), db))"
proof (cases "filter P (db_tenants db)")
  case Nil
  then have "find P (db_tenants db) = None" by (simp add: filter_Nil_find)
  with Nil assms show ?thesis by (simp add: first_tenant_def pool_run_def bindM_def returnM_def)
next
  case (Cons row rows)
  then have "find P (db_tenants db) = Some row" by (rule filter_Cons_find)
  with Cons assms show ?thesis by (simp add: first_tenant_def pool_run_def bindM_def liftM_def)
qed

lemma find_unique_key:
  "distinct (map f xs) \<Longrightarrow> x \<in> set xs \<Longrightarrow> find (\<lambda>y. f y = f x) xs = Some x"
  by (induction xs) auto

lemma tenant_db_lookup_row:
  assumes "tenants_ok lib db" "row \<in> set (db_tenants db)" "row_to_tenant lib eid row = Inr t"
  shows "\<exists>s'. tenant_db_lookup rd lib dump eid (tr_api_key_hash row) (s, db) = (Inr (Some t), (s', db))"
proof -
  let ?set = "set_json rd lib (tenant_cache_key (tr_api_key_hash row)) (dump t) CACHE_TTL"
  have "find (\<lambda>r. tr_api_key_hash r = tr_api_key_hash row) (db_tenants db) = Some row"
    using assms(1,2) by (intro find_unique_key) (simp_all add: tenants_ok_def)
  then have "first_tenant lib eid (\<lambda>r. tr_api_key_hash r = tr_api_key_hash row) db = (Inr (Some t), db)"
    using assms by (simp add: first_tenant_find tenants_ok_def)
  moreover obtain r s' where "?set s = (r, s')" by fastforce
  then have "catchM (onL ?set) (\<lambda>_. returnM ()) (s, db) = (Inr (), (s', db))"
    by (cases r) (simp_all add: catchM_def onL_def returnM_def)
  ultimately show ?thesis
    by (simp add: tenant_db_lookup_def bindM_def onR_def thenM_def returnM_def)
qed

subsection \<open>Properties\<close>

text \<open>
  An update takes effect at once for every later lookup: whatever the cache held for the
  tenant's key, after a successful update the lookup by API key hash returns the stored
  tenant with the new activity flag, plan and usage counters.
\<close>

theorem update_visible_to_key_lookup:
  assumes laws: "kv_laws rd view" "reads_succeed rd" and ok: "tenants_ok lib db"
    and row: "row \<in> set (db_tenants db)" "tr_tenant_id row = tenant_id_value (t_tenant_id t)"
      "tr_api_key_hash row = t_api_key_hash t"
    and meta: "is_ok (load_metadata lib ''Tenant'' (json_dumps lib (PDict (t_metadata t))))"
    and upd: "tenant_update rd lib now t (s, db) = (Inr t, st)"
  shows "\<exists>t' st'. get_by_api_key_hash rd lib dump load eid (t_api_key_hash t) st = (Inr (Some t'), st') \<and>
    t_tenant_id t' = t_tenant_id t \<and> t_is_active t' = t_is_active t \<and> t_plan t' = t_plan t \<and>
    t_tokens_used_this_month t' = t_tokens_used_this_month t \<and>
    t_total_tokens_used t' = t_total_tokens_used t"
proof -
  let ?row = "tenant_to_row lib t" and ?k = "tenant_cache_key (t_api_key_hash t)"
  let ?f = "\<lambda>r. r\<lparr>tr_is_active := tr_is_active ?row, tr_plan := tr_plan ?row,
                 tr_tokens_used_this_month := tr_tokens_used_this_month ?row,
                 tr_total_tokens_used := tr_total_tokens_used ?row, tr_metadata := tr_metadata ?row,
                 tr_updated_at := now\<rparr>"
  let ?g = "\<lambda>r. if tr_tenant_id r = tr_tenant_id ?row then ?f r else r"
  let ?db = "db\<lparr>db_tenants := map ?g (db_tenants db)\<rparr>"
  have conn: "db_connected db" "db_faults db = []" using ok by (simp_all add: tenants_ok_def)
  obtain n s1 where del: "rd_delete rd ?k s = (Inr n, s1)" and st: "st = (s1, ?db)"
    using upd conn
    by (auto simp: tenant_update_def pool_run_def update_tenants_def thenM_def bindM_def onR_def onL_def
        returnM_def cache_delete_def split: if_splits prod.splits sum.splits)
  have "view s1 ?k = None" using kv_deleteD(2) [OF laws(1) del] by simp
  then obtain s2 where get: "rd_get rd ?k s1 = (Inr None, s2)"
    using laws(2) kv_getD(2) [OF laws(1)] unfolding reads_succeed_def
    by (metis not_None_eq option.distinct(1))
  have "map tr_tenant_id (map ?g (db_tenants db)) = map tr_tenant_id (db_tenants db)"
    "map tr_api_key_hash (map ?g (db_tenants db)) = map tr_api_key_hash (db_tenants db)"
    by (simp_all add: o_def if_distrib cong: if_cong)
  moreover have rd: "is_ok (row_to_tenant lib e (?f r))" for e r
    using meta by (auto simp: row_to_tenant_def is_ok_iff tenant_to_row_def)
  ultimately have ok': "tenants_ok lib ?db"
    using ok by (auto simp: tenants_ok_def simp del: map_map map_eq_conv)
  have mem: "?f row \<in> set (db_tenants ?db)"
    using row(1,2) by (auto simp: tenant_to_row_def image_iff intro!: bexI [of _ row])
  obtain t' where t': "row_to_tenant lib eid (?f row) = Inr t'" using rd by (auto simp: is_ok_iff)
  obtain s3 where "tenant_db_lookup rd lib dump eid (t_api_key_hash t) (s2, ?db) = (Inr (Some t'), (s3, ?db))"
    using tenant_db_lookup_row [OF ok' mem t', of rd dump s2] row(3) by auto
  then have "get_by_api_key_hash rd lib dump load eid (t_api_key_hash t) st = (Inr (Some t'), (s3, ?db))"
    using get st by (simp add: get_by_api_key_hash_def get_json_def cache_get_def bindM_def onL_def returnM_def)
  moreover have "t_tenant_id t' = t_tenant_id t \<and> t_is_active t' = t_is_active t \<and> t_plan t' = t_plan t \<and>
      t_tokens_used_this_month t' = t_tokens_used_this_month t \<and>
      t_total_tokens_used t' = t_total_tokens_used t"
    using t' row(2) by (cases "t_tenant_id t") (auto simp: row_to_tenant_def tenant_to_row_def)
  ultimately show ?thesis by blast
qed

definition demo_tenant :: tenant where
  "demo_tenant = \<lparr>ent_id = 0, created_at = 0, updated_at = 0, t_tenant_id = TenantId 1, t_name = ''acme'',
     t_api_key_hash = ''h'', t_plan = PRO, t_is_active = False, t_tokens_used_this_month = 10,
     t_total_tokens_used = 20, t_metadata = []\<rparr>"

theorem update_visible_to_key_lookup_witness:
  "\<exists>t' st'. get_by_api_key_hash demo_redis demo_lib (\<lambda>_. PNone) (\<lambda>_. Inl JSONDecodeError) 3 ''h''
      (snd (tenant_update demo_redis demo_lib 9 demo_tenant ([(''tenant:key:h'', ''old'')], demo_db))) =
      (Inr (Some t'), st') \<and> \<not> t_is_active t' \<and> t_plan t' = PRO"
proof -
  let ?s = "[(''tenant:key:h'', ''old'')]"
  have ok: "tenants_ok demo_lib demo_db"
    by (simp add: tenants_ok_def demo_db_def row_to_tenant_def TenantPlan_def load_metadata_def demo_lib_def)
  have rd: "reads_succeed demo_redis" by (simp add: reads_succeed_def demo_redis_def)
  have row: "hd (db_tenants demo_db) \<in> set (db_tenants demo_db)"
    "tr_tenant_id (hd (db_tenants demo_db)) = tenant_id_value (t_tenant_id demo_tenant)"
    "tr_api_key_hash (hd (db_tenants demo_db)) = t_api_key_hash demo_tenant"
    by (simp_all add: demo_db_def demo_tenant_def)
  have meta: "is_ok (load_metadata demo_lib ''Tenant'' (json_dumps demo_lib (PDict (t_metadata demo_tenant))))"
    by (simp add: load_metadata_def demo_lib_def)
  have upd: "tenant_update demo_redis demo_lib 9 demo_tenant (?s, demo_db) =
      (Inr demo_tenant, snd (tenant_update demo_redis demo_lib 9 demo_tenant (?s, demo_db)))"
    by (simp add: tenant_update_def pool_run_def update_tenants_def thenM_def bindM_def onR_def onL_def
        returnM_def cache_delete_def demo_redis_def demo_db_def demo_tenant_def tenant_to_row_def int8_ok_def
        demo_lib_def jsonb_ok_def text_ok_def)
  show ?thesis
    using update_visible_to_key_lookup [OF demo_redis_laws rd ok row meta upd,
        of "\<lambda>_. PNone" "\<lambda>_. Inl JSONDecodeError" 3]
    by (auto simp: demo_tenant_def)
qed

text \<open>
  A soft delete does not reach the cache: as long as the cached copy of the tenant is
  readable, a lookup after the delete still returns it as it was, active or not.
\<close>

theorem delete_keeps_cached_tenant:
  assumes "rd_get rd (tenant_cache_key h) s = (Inr (Some raw), s')" and "json_loads lib raw = Inr v"
    and "py_truthy v" and "load v = Inr t" and "tenant_delete now tid (s, db) = (Inr True, st)"
  shows "\<exists>st'. get_by_api_key_hash rd lib dump load eid h st = (Inr (Some t), st')"
proof -
  obtain db' where "st = (s, db')"
    using assms(5) by (auto simp: tenant_delete_def onR_def split: prod.splits)
  with assms(1-4) show ?thesis
    by (simp add: get_by_api_key_hash_def get_json_def cache_get_def bindM_def onL_def returnM_def)
qed

theorem delete_keeps_cached_tenant_witness:
  "\<exists>st'. get_by_api_key_hash demo_redis (demo_lib\<lparr>json_loads := \<lambda>_. Inr (PDict [(''name'', PStr ''acme'')])\<rparr>)
      (\<lambda>_. PNone) (\<lambda>_. Inr (demo_tenant\<lparr>t_is_active := True\<rparr>)) 3 ''h''
      (snd (tenant_delete 9 (TenantId 1) ([(''tenant:key:h'', ''x'')], demo_db))) =
      (Inr (Some (demo_tenant\<lparr>t_is_active := True\<rparr>)), st')"
proof (rule delete_keeps_cached_tenant [where v = "PDict [(''name'', PStr ''acme'')]"])
  show "rd_get demo_redis (tenant_cache_key ''h'') [(''tenant:key:h'', ''x'')] =
      (Inr (Some ''x''), [(''tenant:key:h'', ''x'')])"
    by (simp add: demo_redis_def tenant_cache_key_def)
  show "tenant_delete 9 (TenantId 1) ([(''tenant:key:h'', ''x'')], demo_db) =
      (Inr True, snd (tenant_delete 9 (TenantId 1) ([(''tenant:key:h'', ''x'')], demo_db)))"
    by (simp add: tenant_delete_def pool_run_def onR_def demo_db_def)
qed simp_all

end
