(* ===== verification/Embedding_Service.thy ===== *)
theory Embedding_Service
  imports Redis_Cache
begin

section \<open>The OpenAI embedding service\<close>

text \<open>
  \<open>src/app/infrastructure/llm/openai_embedding.py\<close>. The embeddings endpoint is the parameter
  \<open>create\<close> (model and input texts to one vector per item), Python's \<open>float(str)\<close> the parameter
  \<open>py_float\<close>. The cache is optional, as in the code.

  The locale \<open>embedding_cache\<close> is what the service needs of a cache, for the texts it is used on: a lookup gives
  nothing or the true embedding of the text, or it fails as its store does, and no lookup or store breaks
  that. It is interpreted on the Redis adapter. \<open>embed_batch\<close> returns \<open>None\<close> at a position the provider sent no item for.
\<close>

subsection \<open>Errors of the provider\<close>

fun openai_str :: "exn \<Rightarrow> string" where
  "openai_str (RateLimitError m _) = m"
| "openai_str (APIConnectionError m) = m"
| "openai_str (BadRequestError m) = m"
| "openai_str (OpenAIError m) = m"
| "openai_str _ = []"

fun extract_retry_after :: "(string \<Rightarrow> real option) \<Rightarrow> exn \<Rightarrow> real option" where
  "extract_retry_after py_float (RateLimitError m (Some header)) = py_float header"
| "extract_retry_after py_float _ = None"

text \<open>
  The services raise \<open>LLMRateLimitException(provider="openai", retry_after=..)\<close>, whose
  constructor takes \<open>retry_after\<close> only: building the exception raises a \<open>TypeError\<close>.
\<close>

definition raise_rate_limit :: "(real \<Rightarrow> string) \<Rightarrow> real option \<Rightarrow> exn" where
  "raise_rate_limit show_float retry_after =
     (case py_bind_call ''LLMRateLimitException'' [(''retry_after'', True)] 0
             [''provider'', ''retry_after''] of
        Some err \<Rightarrow> TypeError err
      | None \<Rightarrow> Domain (LLMRateLimitException show_float retry_after))"

record float_lib =
  py_float :: "string \<Rightarrow> real option"
  show_float :: "real \<Rightarrow> string"

definition embedding_error :: "float_lib \<Rightarrow> exn \<Rightarrow> exn" where
  "embedding_error fl e =
     (if isinstance e RateLimitErrorC
      then raise_rate_limit (show_float fl) (extract_retry_after (py_float fl) e)
      else if isinstance e APIConnectionErrorC then Domain (LLMConnectionException (openai_str e))
      else if isinstance e OpenAIErrorC then Domain (EmbeddingException (openai_str e))
      else e)"

subsection \<open>The service\<close>

definition call_openai ::
  "(string \<Rightarrow> string list \<Rightarrow> ('s, exn, real list list) eff) \<Rightarrow> float_lib \<Rightarrow> int \<Rightarrow> string list \<Rightarrow> string
   \<Rightarrow> ('s, exn, embedding_vector list) eff" where
  "call_openai create fl dimensions texts model =
     bindM (catchM (create model texts) (\<lambda>e. raiseM (embedding_error fl e)))
       (\<lambda>items. liftM (mapE (\<lambda>vals. EmbeddingVector vals model dimensions) items))"

fun cache_lookups ::
  "(string \<Rightarrow> ('s, exn, embedding_vector option) eff) \<Rightarrow> nat \<Rightarrow> string list
   \<Rightarrow> embedding_vector option list \<Rightarrow> nat list \<Rightarrow> string list
   \<Rightarrow> ('s, exn, embedding_vector option list \<times> nat list \<times> string list) eff" where
  "cache_lookups get i [] results uncached_indices uncached_texts =
     returnM (results, uncached_indices, uncached_texts)"
| "cache_lookups get i (t # ts) results uncached_indices uncached_texts =
     bindM (get t) (\<lambda>cached. case cached of
         Some e \<Rightarrow> cache_lookups get (Suc i) ts (results[i := Some e]) uncached_indices uncached_texts
       | None \<Rightarrow> cache_lookups get (Suc i) ts results (uncached_indices @ [i]) (uncached_texts @ [t]))"

fun write_back ::
  "(string \<Rightarrow> embedding_vector \<Rightarrow> ('s, exn, unit) eff) option \<Rightarrow> (nat \<times> string \<times> embedding_vector) list
   \<Rightarrow> embedding_vector option list \<Rightarrow> ('s, exn, embedding_vector option list) eff" where
  "write_back put [] results = returnM results"
| "write_back put ((original_idx, t, e) # rest) results =
     bindM (case put of None \<Rightarrow> returnM () | Some p \<Rightarrow> catchM (p t e) (\<lambda>_. returnM ()))
       (\<lambda>_. write_back put rest (results[original_idx := Some e]))"

definition embed_batch_with ::
  "((string \<Rightarrow> ('s, exn, embedding_vector option) eff) \<times>
    (string \<Rightarrow> embedding_vector \<Rightarrow> ('s, exn, unit) eff)) option
   \<Rightarrow> (string list \<Rightarrow> ('s, exn, embedding_vector list) eff)
   \<Rightarrow> string list \<Rightarrow> ('s, exn, embedding_vector option list) eff" where
  "embed_batch_with cache call texts =
     (if texts = [] then returnM []
      else bindM (case cache of
            Some (get, put) \<Rightarrow> cache_lookups get 0 texts (replicate (length texts) None) [] []
          | None \<Rightarrow> returnM (replicate (length texts) None, [0..<length texts], texts))
        (\<lambda>(results, uncached_indices, uncached_texts).
           if uncached_texts = [] then returnM results
           else bindM (call uncached_texts) (\<lambda>fresh_embeddings.
             write_back (map_option snd cache)
               (zip uncached_indices (zip uncached_texts fresh_embeddings)) results)))"

definition embed_batch ::
  "'s redis option \<Rightarrow> pylib \<Rightarrow> pydantic \<Rightarrow> (string \<Rightarrow> string list \<Rightarrow> ('s, exn, real list list) eff)
   \<Rightarrow> float_lib \<Rightarrow> string \<Rightarrow> int \<Rightarrow> string list \<Rightarrow> ('s, exn, embedding_vector option list) eff" where
  "embed_batch cache lib pyd create fl model dimensions texts =
     embed_batch_with
       (map_option (\<lambda>rd. (\<lambda>t. get_embedding rd lib pyd t model,
                          \<lambda>t e. cache_set_embedding rd lib t model e 86400)) cache)
       (\<lambda>ts. call_openai create fl dimensions ts model) texts"

definition embed ::
  "'s redis option \<Rightarrow> pylib \<Rightarrow> pydantic \<Rightarrow> (string \<Rightarrow> string list \<Rightarrow> ('s, exn, real list list) eff)
   \<Rightarrow> float_lib \<Rightarrow> string \<Rightarrow> int \<Rightarrow> string \<Rightarrow> ('s, exn, embedding_vector option) eff" where
  "embed cache lib pyd create fl model dimensions txt =
     bindM (embed_batch cache lib pyd create fl model dimensions [txt])
       (\<lambda>results. case results of [] \<Rightarrow> raiseM IndexError | r # _ \<Rightarrow> returnM r)"

subsection \<open>The contract of the cache\<close>

locale embedding_cache =
  fixes get :: "string \<Rightarrow> ('s, exn, embedding_vector option) eff"
    and put :: "string \<Rightarrow> embedding_vector \<Rightarrow> ('s, exn, unit) eff"
    and inv :: "'s \<Rightarrow> bool"
    and E :: "string \<Rightarrow> embedding_vector"
    and T :: "string set"
    and failure :: "exn \<Rightarrow> bool"
  assumes get_law: "inv s \<Longrightarrow> t \<in> T \<Longrightarrow> get t s = (r, s') \<Longrightarrow> inv s' \<and>
      (case r of Inr x \<Rightarrow> x = None \<or> x = Some (E t) | Inl e \<Rightarrow> failure e)"
    and put_law: "inv s \<Longrightarrow> t \<in> T \<Longrightarrow> put t (E t) s = (r', s') \<Longrightarrow> inv s'"
begin

text \<open>The lookups of a batch: either one fails, or those that found nothing are left over.\<close>

lemma lookups:
  assumes "inv s" "i + length ts = length texts" "ts = drop i texts" "length results = length texts"
    and "ut = map ((!) texts) idxs" and "set texts \<subseteq> T" "set idxs \<subseteq> {..<length texts}"
    and "\<forall>j < i. j \<notin> set idxs \<longrightarrow> results ! j = Some (E (texts ! j))"
  obtains (failed) e s' where "cache_lookups get i ts results idxs ut s = (Inl e, s')" "inv s'" "failure e"
  | (found) results' idxs' s' where
      "cache_lookups get i ts results idxs ut s = (Inr (results', idxs', map ((!) texts) idxs'), s')" "inv s'"
      "length results' = length texts" "set idxs' \<subseteq> {..<length texts}"
      "\<forall>j < length texts. j \<notin> set idxs' \<longrightarrow> results' ! j = Some (E (texts ! j))"
  using assms
proof (induction ts arbitrary: i results idxs ut s thesis)
  case Nil
  show ?case by (rule Nil.prems(2)) (use Nil.prems in \<open>auto simp: res_simps\<close>)
next
  case (Cons t ts)
  note failed = Cons.prems(1) and found = Cons.prems(2) and asm = Cons.prems(3-)
  have i: "i < length texts" using asm(2) by simp
  have "texts ! i # drop (Suc i) texts = t # ts" using asm(3) Cons_nth_drop_Suc [OF i] by simp
  then have t: "t = texts ! i" and ts: "ts = drop (Suc i) texts" by simp_all
  have T: "t \<in> T" using asm(6) i t by auto
  obtain r s1 where get: "get t s = (r, s1)" by fastforce
  note r = get_law [OF asm(1) T get]
  show ?case
  proof (cases r)
    case (Inl e)
    then show ?thesis using failed [of e s1] get r by (simp add: bindM_def)
  next
    case (Inr x)
    show ?thesis
    proof (cases x)
      case None
      let ?idxs = "idxs @ [i]"
      have "\<forall>j < Suc i. j \<notin> set ?idxs \<longrightarrow> results ! j = Some (E (texts ! j))"
        using asm(8) by (auto simp: less_Suc_eq)
      moreover have "cache_lookups get i (t # ts) results idxs ut s =
          cache_lookups get (Suc i) ts results ?idxs (ut @ [t]) s1"
        using get Inr None by (simp add: bindM_def)
      ultimately show ?thesis
        using Cons.IH [where thesis = thesis and i = "Suc i" and idxs = ?idxs and ut = "ut @ [t]" and s = s1 and results = results]
          failed found r asm(2,4,5,6,7) ts t i by (simp add: Inr None)
    next
      case (Some e)
      let ?results = "results[i := Some e]"
      have "\<forall>j < Suc i. j \<notin> set idxs \<longrightarrow> ?results ! j = Some (E (texts ! j))"
        using asm(4,8) i t Some Inr r by (auto simp: less_Suc_eq nth_list_update)
      moreover have "cache_lookups get i (t # ts) results idxs ut s = cache_lookups get (Suc i) ts ?results idxs ut s1"
        using get Inr Some by (simp add: bindM_def)
      ultimately show ?thesis
        using Cons.IH [where thesis = thesis and i = "Suc i" and idxs = idxs and ut = ut and s = s1 and results = ?results]
          failed found r asm(2,4,5,6,7) ts by (simp add: Inr Some)
    qed
  qed
qed

lemma write_back_fills:
  assumes "inv s" "length results = length texts" "set idxs \<subseteq> {..<length texts}" "set texts \<subseteq> T"
    and "\<forall>j < length texts. j \<notin> set idxs \<longrightarrow> results ! j = Some (E (texts ! j))"
  shows "\<exists>s'. write_back (Some put) (zip idxs (zip (map ((!) texts) idxs) (map (E \<circ> (!) texts) idxs)))
      results s = (Inr (map (Some \<circ> E) texts), s') \<and> inv s'"
  using assms
proof (induction idxs arbitrary: results s)
  case Nil
  then have "results = map (Some \<circ> E) texts" by (intro nth_equalityI) auto
  with Nil show ?case by (simp add: res_simps)
next
  case (Cons i idxs)
  let ?p = "catchM (put (texts ! i) (E (texts ! i))) (\<lambda>_. returnM ())"
  have "snd (?p s) = snd (put (texts ! i) (E (texts ! i)) s)" "fst (?p s) = Inr ()"
    by (cases "put (texts ! i) (E (texts ! i)) s"; cases "fst (put (texts ! i) (E (texts ! i)) s)";
        simp add: catchM_def returnM_def)+
  moreover have "texts ! i \<in> T" using Cons.prems(3,4) by auto
  ultimately obtain s1 where s1: "?p s = (Inr (), s1)" "inv s1"
    using put_law [OF Cons.prems(1), of "texts ! i"] by (metis prod.collapse)
  have "\<forall>j < length texts. j \<notin> set idxs \<longrightarrow> (results[i := Some (E (texts ! i))]) ! j = Some (E (texts ! j))"
  proof (intro allI impI)
    fix j
    assume "j < length texts" "j \<notin> set idxs"
    with Cons.prems(2,5) show "(results[i := Some (E (texts ! i))]) ! j = Some (E (texts ! j))"
      by (cases "j = i") auto
  qed
  from Cons.IH [OF s1(2) _ _ Cons.prems(4) this] Cons.prems(2,3) s1(1) show ?case by (simp add: res_simps)
qed

lemma embed_batch_true:
  assumes "inv s" "set texts \<subseteq> T"
    and call: "\<And>ts s. inv s \<Longrightarrow> set ts \<subseteq> T \<Longrightarrow> \<exists>s'. call ts s = (Inr (map E ts), s') \<and> inv s'"
  shows "\<exists>r s'. embed_batch_with (Some (get, put)) call texts s = (r, s') \<and> inv s' \<and>
    (case r of Inr es \<Rightarrow> es = map (Some \<circ> E) texts | Inl e \<Rightarrow> failure e)"
proof (cases "texts = []")
  case True
  with assms show ?thesis by (auto simp: embed_batch_with_def res_simps)
next
  case False
  show ?thesis
  proof (rule lookups [where s = s and i = 0 and ts = texts and texts = texts and idxs = "[]" and ut = "[]"
        and results = "replicate (length texts) None"])
    fix e s'
    assume "cache_lookups get 0 texts (replicate (length texts) None) [] [] s = (Inl e, s')" "inv s'" "failure e"
    with False show ?thesis by (simp add: embed_batch_with_def bindM_def)
  next
    fix results idxs s1
    assume l: "cache_lookups get 0 texts (replicate (length texts) None) [] [] s =
        (Inr (results, idxs, map ((!) texts) idxs), s1)" "inv s1" "length results = length texts"
        "set idxs \<subseteq> {..<length texts}" "\<forall>j < length texts. j \<notin> set idxs \<longrightarrow> results ! j = Some (E (texts ! j))"
    show ?thesis
    proof (cases "idxs = []")
      case True
      then have "results = map (Some \<circ> E) texts" using l(3,5) by (intro nth_equalityI) auto
      with False True l show ?thesis by (auto simp: embed_batch_with_def res_simps)
    next
      case idx: False
      have "set (map ((!) texts) idxs) \<subseteq> T" using l(4) assms(2) by (auto simp: subset_iff)
      then obtain s2 where s2: "call (map ((!) texts) idxs) s1 = (Inr (map E (map ((!) texts) idxs)), s2)" "inv s2"
        using call [OF l(2)] by blast
      then show ?thesis
        using write_back_fills [OF s2(2) l(3,4) assms(2) l(5)] False idx l(1)
        by (auto simp: embed_batch_with_def res_simps)
    qed
  qed (use assms in auto)
qed

end

subsection \<open>The Redis adapter meets it\<close>

text \<open>
  The assumptions on Redis, on the JSON library and, for the texts in use, on the digests; the cache holds only
  true embeddings of these texts.
\<close>

definition redis_cache_inv ::
  "'s redis \<Rightarrow> ('s \<Rightarrow> string \<Rightarrow> string option) \<Rightarrow> pylib \<Rightarrow> pydantic \<Rightarrow> string set \<Rightarrow> (string \<Rightarrow> embedding_vector) \<Rightarrow> string
   \<Rightarrow> 's \<Rightarrow> bool" where
  "redis_cache_inv rd view lib pyd T E model s \<longleftrightarrow>
     kv_laws rd view \<and> json_laws lib ((embedding_json \<circ> E) ` T) \<and> pydantic_laws pyd \<and> (\<forall>t \<in> T. embedding_wf (E t)) \<and>
     digests_differ lib T \<and> cache_ok view lib T E model s"

lemma redis_cache_inv_change:
  "redis_cache_inv rd view lib pyd T E model s \<Longrightarrow> cache_ok view lib T E model s' \<Longrightarrow>
     redis_cache_inv rd view lib pyd T E model s'"
  by (simp add: redis_cache_inv_def)

text \<open>The exceptions that reads of the server raise.\<close>

definition read_failure :: "'s redis \<Rightarrow> exn \<Rightarrow> bool" where
  "read_failure rd e \<longleftrightarrow> (\<exists>k s s'. rd_get rd k s = (Inl e, s'))"

interpretation redis_embedding_cache:
  embedding_cache "\<lambda>t. get_embedding rd lib pyd t model" "\<lambda>t e. cache_set_embedding rd lib t model e 86400"
    "redis_cache_inv rd view lib pyd T E model" E T "read_failure rd"
  for rd :: "'s redis" and lib pyd model view T E
proof
  fix s t r s'
  assume inv: "redis_cache_inv rd view lib pyd T E model s" and t: "t \<in> T"
    and get: "get_embedding rd lib pyd t model s = (r, s')"
  have "cache_ok view lib T E model s' \<and> (case r of Inr x \<Rightarrow> x = None \<or> x = Some (E t)
      | Inl e \<Rightarrow> rd_get rd (embedding_key lib t model) s = (Inl e, s'))"
    using inv t get by (intro cache_ok_get [where rd = rd and pyd = pyd and s = s]) (auto simp: redis_cache_inv_def)
  then show "redis_cache_inv rd view lib pyd T E model s' \<and>
      (case r of Inr x \<Rightarrow> x = None \<or> x = Some (E t) | Inl e \<Rightarrow> read_failure rd e)"
    using redis_cache_inv_change [OF inv] by (auto simp: read_failure_def split: sum.splits)
next
  fix s t r s'
  assume inv: "redis_cache_inv rd view lib pyd T E model s" and t: "t \<in> T"
    and put: "cache_set_embedding rd lib t model (E t) 86400 s = (r, s')"
  have "cache_ok view lib T E model s'"
    by (rule cache_ok_set [where rd = rd and E = E and t = t and s = s and ttl = 86400 and r = r])
      (use inv t put in \<open>simp_all add: redis_cache_inv_def\<close>)
  then show "redis_cache_inv rd view lib pyd T E model s'" by (rule redis_cache_inv_change [OF inv])
qed

subsection \<open>Properties\<close>

lemma call_openai_true:
  assumes "create model ts s = (Inr (map (ev_values \<circ> E) ts), s')"
    and "\<And>t. t \<in> set ts \<Longrightarrow> embedding_wf (E t) \<and> ev_model (E t) = model \<and> ev_dimensions (E t) = dims"
  shows "call_openai create fl dims ts model s = (Inr (map E ts), s')"
proof -
  have "EmbeddingVector (ev_values (E t)) model dims = Inr (E t)" if "t \<in> set ts" for t
    using assms(2) [OF that] by (cases "E t") (simp add: EmbeddingVector_def embedding_wf_def)
  then have "mapE (\<lambda>vals. EmbeddingVector vals model dims) (map (ev_values \<circ> E) ts) = Inr (map E ts)"
    by (induction ts) simp_all
  with assms(1) show ?thesis by (simp add: call_openai_def res_simps bindM_def catchM_def liftM_def)
qed

text \<open>
  C18. Batch embedding is transparent to the cache: whatever mixture of the texts is cached, expired or evicted,
  and whether or not the cache writes fail, a batch returns the embedding of every text, in the order of
  the texts, or raises the exception of a cache read that failed (only writes are guarded); in both cases the
  cache is left with true embeddings only. It is stated for a set of texts, those of the batch and those
  that were cached before, whose digests differ in the 64 bits that a key keeps, and for a provider that answers
  item by item.
\<close>

theorem embed_batch_correct:
  assumes inv: "redis_cache_inv rd view lib pyd T E model s" and texts: "set texts \<subseteq> T"
    and meta: "\<forall>t \<in> T. ev_model (E t) = model \<and> ev_dimensions (E t) = dims"
    and api: "\<And>ts s. set ts \<subseteq> T \<Longrightarrow> \<exists>s'. create model ts s = (Inr (map (ev_values \<circ> E) ts), s') \<and> view s' \<subseteq>\<^sub>m view s"
  shows "\<exists>r s'. embed_batch (Some rd) lib pyd create fl model dims texts s = (r, s') \<and>
    redis_cache_inv rd view lib pyd T E model s' \<and>
    (case r of Inr es \<Rightarrow> es = map (Some \<circ> E) texts | Inl e \<Rightarrow> \<exists>k s1 s2. rd_get rd k s1 = (Inl e, s2))"
proof -
  have call: "\<exists>s'. call_openai create fl dims ts model s = (Inr (map E ts), s') \<and>
      redis_cache_inv rd view lib pyd T E model s'"
    if i: "redis_cache_inv rd view lib pyd T E model s" and ts: "set ts \<subseteq> T" for ts s
  proof -
    obtain s' where s': "create model ts s = (Inr (map (ev_values \<circ> E) ts), s')" "view s' \<subseteq>\<^sub>m view s"
      using api [OF ts] by blast
    have "cache_ok view lib T E model s'"
      using i s'(2) by (auto intro: cache_ok_mono simp: redis_cache_inv_def)
    then have "redis_cache_inv rd view lib pyd T E model s'" by (rule redis_cache_inv_change [OF i])
    moreover have "embedding_wf (E t) \<and> ev_model (E t) = model \<and> ev_dimensions (E t) = dims" if "t \<in> set ts" for t
      using i meta ts that by (auto simp: redis_cache_inv_def)
    ultimately show ?thesis using call_openai_true [where create = create and E = E, OF s'(1)] by blast
  qed
  show ?thesis
    using redis_embedding_cache.embed_batch_true [OF inv texts, of "\<lambda>ts. call_openai create fl dims ts model"] call
    unfolding embed_batch_def read_failure_def option.map fst_conv snd_conv by blast
qed

definition demo_floats :: float_lib where
  "demo_floats = \<lparr>py_float = (\<lambda>_. None), show_float = (\<lambda>_. [])\<rparr>"

definition demo_vector :: "string \<Rightarrow> embedding_vector" where
  "demo_vector t = \<lparr>ev_values = [if t = ''a'' then 1 else 2], ev_model = ''m'', ev_dimensions = 1\<rparr>"

definition demo_json :: pylib where
  "demo_json = \<lparr>sha256 = (\<lambda>t. if t = ''a'' then ''a'' else ''b''),
     json_dumps = (\<lambda>v. if v = embedding_json (demo_vector ''a'') then ''a'' else ''b''),
     json_loads = (\<lambda>x. Inr (embedding_json (demo_vector x)))\<rparr>"

lemma demo_cache_inv: "redis_cache_inv demo_redis map_of demo_json demo_pydantic {''a'', ''b''} demo_vector ''m'' []"
proof -
  have "json_laws demo_json ((embedding_json \<circ> demo_vector) ` {''a'', ''b''})"
    by (auto simp: json_laws_def demo_json_def embedding_json_def demo_vector_def)
  moreover have "digests_differ demo_json {''a'', ''b''}"
    by (auto simp: digests_differ_def demo_json_def py_slice_def py_index_def)
  moreover have "\<forall>t. embedding_wf (demo_vector t)" by (simp add: embedding_wf_def demo_vector_def)
  moreover have "cache_ok map_of demo_json {''a'', ''b''} demo_vector ''m'' []" by (simp add: cache_ok_def)
  ultimately show ?thesis
    by (simp add: redis_cache_inv_def demo_redis_laws demo_pydantic_laws)
qed

theorem embed_batch_correct_witness:
  "\<exists>s'. embed_batch (Some demo_redis) demo_json demo_pydantic
      (\<lambda>model ts s. (Inr (map (ev_values \<circ> demo_vector) ts), s)) demo_floats ''m'' 1 [''b'', ''a'', ''b''] [] =
      (Inr (map (Some \<circ> demo_vector) [''b'', ''a'', ''b'']), s') \<and>
      redis_cache_inv demo_redis map_of demo_json demo_pydantic {''a'', ''b''} demo_vector ''m'' s'"
proof -
  let ?create = "\<lambda>model ts s. (Inr (map (ev_values \<circ> demo_vector) ts), s)"
  have "\<exists>r s'. embed_batch (Some demo_redis) demo_json demo_pydantic ?create demo_floats ''m'' 1 [''b'', ''a'', ''b''] [] = (r, s') \<and>
      redis_cache_inv demo_redis map_of demo_json demo_pydantic {''a'', ''b''} demo_vector ''m'' s' \<and>
      (case r of Inr es \<Rightarrow> es = map (Some \<circ> demo_vector) [''b'', ''a'', ''b'']
       | Inl e \<Rightarrow> \<exists>k s1 s2. rd_get demo_redis k s1 = (Inl e, s2))"
    by (rule embed_batch_correct [OF demo_cache_inv]) (simp_all add: demo_vector_def)
  then obtain r s' where
    r: "embed_batch (Some demo_redis) demo_json demo_pydantic ?create demo_floats ''m'' 1 [''b'', ''a'', ''b''] [] = (r, s')"
      "redis_cache_inv demo_redis map_of demo_json demo_pydantic {''a'', ''b''} demo_vector ''m'' s'"
      "case r of Inr es \<Rightarrow> es = map (Some \<circ> demo_vector) [''b'', ''a'', ''b'']
       | Inl e \<Rightarrow> \<exists>k s1 s2. rd_get demo_redis k s1 = (Inl e, s2)" by (elim exE conjE)
  have reads: "rd_get demo_redis k s1 \<noteq> (Inl e, s2)" for k s1 e s2 by (simp add: demo_redis_def)
  show ?thesis
  proof (cases r)
    case (Inl e)
    with r(3) reads show ?thesis by simp
  next
    case (Inr es)
    with r(3) have "es = map (Some \<circ> demo_vector) [''b'', ''a'', ''b'']" by simp
    with r(1,2) Inr show ?thesis by (intro exI [of _ s']) (simp only: refl conj_absorb simp_thms)
  qed
qed

text \<open>
  Errors of the provider: a rate limit does not surface as the rate-limit exception the
  interface documents, because the service calls its constructor with an unknown keyword and
  Python raises a \<open>TypeError\<close>; a connection error becomes an \<open>LLMConnectionException\<close>, any
  other OpenAI error an \<open>EmbeddingException\<close>, and other exceptions pass through.
\<close>

theorem embedding_provider_errors:
  assumes "create model texts s = (Inl e, s')"
    and "e \<in> {RateLimitError m h, APIConnectionError m, BadRequestError m, OpenAIError m, ClientError m}"
  shows "call_openai create fl dims texts model s = (Inl (
      if e = RateLimitError m h then TypeError (UnexpectedKeyword ''LLMRateLimitException'' ''provider'')
      else if e = APIConnectionError m then Domain (LLMConnectionException m)
      else if e = ClientError m then ClientError m
      else Domain (EmbeddingException m)), s')"
  using assms
  by (auto simp: call_openai_def bindM_def catchM_def raiseM_def embedding_error_def isinstance_def
      is_subclass_def mro_def numeral_3_eq_3 raise_rate_limit_def py_bind_call_def)

theorem embedding_provider_errors_witness:
  "call_openai (\<lambda>_ _ s. (Inl (RateLimitError ''slow down'' (Some ''20'')), s)) demo_floats 3 [''t''] ''m'' () =
     (Inl (TypeError (UnexpectedKeyword ''LLMRateLimitException'' ''provider'')), ())"
  using embedding_provider_errors [of "\<lambda>_ _ s. (Inl (RateLimitError ''slow down'' (Some ''20'')), s)"
      "''m''" "[''t'']" "()" _ "()" "''slow down''" "Some ''20''" demo_floats 3, OF refl]
  by simp

end
