(* ===== verification/Process_Document.thy ===== *)
theory Process_Document
  imports Ingestion_Job Chunking Chunk_Repository
begin

section \<open>The document processing pipeline\<close>

text \<open>
  \<open>src/app/application/use_cases/process_document.py\<close>. The collaborators of the use case are the
  record \<open>proc_deps\<close> of operations on a state of any type (the dependencies the constructor
  takes), with the chunking strategy as a function; the state of a run is the job, which the
  use case mutates, together with the collaborators' state. \<open>pd_mutate\<close> is the effect a mutation
  of a chunk object has on a repository that shares it.

  Exceptions are those that \<open>except Exception\<close> catches: the cancellation of a task, as by the queue's job timeout, is
  a \<open>BaseException\<close>, ends the run at any await and is not modelled.

  All time stamps of one run are \<open>pd_now\<close>, new entity and chunk ids come from \<open>pd_uuid\<close>, and
  \<open>pd_str_exc\<close> is Python's \<open>str(exc)\<close>.
\<close>

definition EMBEDDING_BATCH_SIZE :: nat where
  "EMBEDDING_BATCH_SIZE = 50"

record 's proc_deps =
  pd_get :: "document_id \<Rightarrow> ('s, exn, document option) eff"
  pd_update :: "document \<Rightarrow> ('s, exn, document) eff"
  pd_save_many :: "chunk list \<Rightarrow> ('s, exn, chunk list) eff"
  pd_mutate :: "chunk \<Rightarrow> 's \<Rightarrow> 's"
  pd_upsert_many :: "(chunk_id \<times> embedding_vector \<times> dict) list \<Rightarrow> ('s, exn, unit) eff"
  pd_embed_batch :: "string list \<Rightarrow> ('s, exn, embedding_vector option list) eff"
  pd_chunk :: "string \<Rightarrow> int \<Rightarrow> int \<Rightarrow> chunk_data list result"
  pd_count :: "string \<Rightarrow> string \<Rightarrow> ('s, exn, int) eff"
  pd_chunk_size :: int
  pd_chunk_overlap :: int
  pd_now :: timestamp
  pd_uuid :: "nat \<Rightarrow> uuid"
  pd_str_exc :: "exn \<Rightarrow> string"

subsection \<open>Building chunks\<close>

text \<open>
  The constructor of \<open>Chunk\<close> (\<open>src/app/domain/entities/chunk.py\<close>): \<open>tenant_id\<close> is a required
  field, \<open>None\<close> stands for a call that does not pass it.
\<close>

definition Chunk ::
  "timestamp \<Rightarrow> uuid \<Rightarrow> uuid \<Rightarrow> tenant_id option \<Rightarrow> document_id \<Rightarrow> collection_id \<Rightarrow> string \<Rightarrow> int \<Rightarrow> int
   \<Rightarrow> int \<Rightarrow> int \<Rightarrow> chunk result" where
  "Chunk now eid cid tenant did col content idx start_char end_char tokens = (case tenant of
       None \<Rightarrow> Inl (ValidationError ''Chunk'' [''tenant_id''])
     | Some tid \<Rightarrow> Inr \<lparr>ent_id = eid, created_at = now, updated_at = now, c_tenant_id = tid,
         c_chunk_id = ChunkId cid, c_document_id = did, c_collection_id = col, c_content = content,
         c_chunk_index = idx, c_start_char = start_char, c_end_char = end_char,
         c_token_count = tokens, c_embedding = None, c_metadata = []\<rparr>)"

text \<open>The list comprehension over the chunk data; the call passes no \<open>tenant_id\<close>.\<close>

fun build_chunks ::
  "'s proc_deps \<Rightarrow> document \<Rightarrow> nat \<Rightarrow> chunk_data list \<Rightarrow> ('s, exn, chunk list) eff" where
  "build_chunks deps doc i [] = returnM []"
| "build_chunks deps doc i (cd # cds) =
     bindM (pd_count deps (cd_content cd) ''gpt-4o'') (\<lambda>tokens.
     bindM (liftM (Chunk (pd_now deps) (pd_uuid deps (2 * i)) (pd_uuid deps (2 * i + 1)) None
                     (d_document_id doc) (d_collection_id doc) (cd_content cd) (cd_chunk_index cd)
                     (cd_start_char cd) (cd_end_char cd) tokens)) (\<lambda>c.
     bindM (build_chunks deps doc (Suc i) cds) (\<lambda>cs. returnM (c # cs))))"

subsection \<open>Embedding in batches\<close>

type_synonym 's run = "ingestion_job \<times> 's"

definition jobM :: "(ingestion_job \<Rightarrow> ingestion_job) \<Rightarrow> ('s run, exn, unit) eff" where
  "jobM f = modifyM (\<lambda>(job, s). (f job, s))"

definition advance :: "timestamp \<Rightarrow> ingestion_status \<Rightarrow> ('s run, exn, unit) eff" where
  "advance now st = (\<lambda>(job, s). case advance_status now st job of
       Inl e \<Rightarrow> (Inl e, (job, s)) | Inr job' \<Rightarrow> (Inr (), (job', s)))"

definition attach_embedding :: "timestamp \<Rightarrow> embedding_vector option \<Rightarrow> chunk \<Rightarrow> chunk" where
  "attach_embedding now e c = (case e of
       Some v \<Rightarrow> set_embedding now v c | None \<Rightarrow> update now (c\<lparr>c_embedding := None\<rparr>))"

text \<open>\<open>zip(batch, embeddings, strict=True)\<close> raises once the shorter list is used up.\<close>

fun attach_all ::
  "'s proc_deps \<Rightarrow> chunk list \<Rightarrow> embedding_vector option list \<Rightarrow> ('s, exn, chunk list) eff" where
  "attach_all deps [] [] = returnM []"
| "attach_all deps (c # cs) (e # es) =
     (let c' = attach_embedding (pd_now deps) e c
      in thenM (modifyM (pd_mutate deps c'))
           (bindM (attach_all deps cs es) (\<lambda>cs'. returnM (c' # cs'))))"
| "attach_all deps [] (e # es) = raiseM (ValueError ''zip() argument 2 is longer than argument 1'')"
| "attach_all deps (c # cs) [] = raiseM (ValueError ''zip() argument 2 is shorter than argument 1'')"

function embed_batches ::
  "'s proc_deps \<Rightarrow> nat \<Rightarrow> nat \<Rightarrow> chunk list \<Rightarrow> int \<Rightarrow> ('s run, exn, chunk list \<times> int) eff" where
  "embed_batches deps n batch_start rest total_tokens =
     (if rest = [] then returnM ([], total_tokens)
      else let batch = take EMBEDDING_BATCH_SIZE rest
           in bindM (onR (pd_embed_batch deps (map c_content batch))) (\<lambda>embeddings.
              bindM (onR (attach_all deps batch embeddings)) (\<lambda>batch'.
              thenM (jobM (record_progress (pd_now deps)
                       (min (int (batch_start + length batch)) (int n)) (int n)))
              (bindM (embed_batches deps n (batch_start + EMBEDDING_BATCH_SIZE)
                        (drop EMBEDDING_BATCH_SIZE rest)
                        (total_tokens + sum_list (map c_token_count batch'))) (\<lambda>(cs, tot).
               returnM (batch' @ cs, tot))))))"
  by pat_completeness auto
termination
  by (relation "measure (\<lambda>(deps, n, batch_start, rest, tot). length rest)")
    (auto simp: EMBEDDING_BATCH_SIZE_def)

declare embed_batches.simps [simp del]

lemma embed_batches_Nil [simp]: "embed_batches deps n b [] tot = returnM ([], tot)"
  by (simp add: embed_batches.simps [of _ _ _ "[]"])

subsection \<open>Storing vectors\<close>

definition payload :: "document \<Rightarrow> chunk \<Rightarrow> dict" where
  "payload doc c = [(''document_id'', PStr (DocumentId_str (c_document_id c))),
     (''collection_id'', PStr (CollectionId_str (c_collection_id c))), (''content'', PStr (c_content c)),
     (''chunk_index'', PInt (c_chunk_index c)), (''document_title'', PStr (d_title doc))]"

definition vector_entries :: "document \<Rightarrow> chunk list \<Rightarrow> (chunk_id \<times> embedding_vector \<times> dict) list" where
  "vector_entries doc chunks =
     List.map_filter (\<lambda>c. case c_embedding c of
         None \<Rightarrow> None | Some e \<Rightarrow> Some (c_chunk_id c, e, payload doc c)) chunks"

subsection \<open>The run\<close>

definition store_and_complete ::
  "'s proc_deps \<Rightarrow> document \<Rightarrow> chunk list \<Rightarrow> int \<Rightarrow> ('s run, exn, unit) eff" where
  "store_and_complete deps doc chunks total_tokens =
     thenM (advance (pd_now deps) STORING)
     (thenM (onR (pd_upsert_many deps (vector_entries doc chunks)))
     (thenM (jobM (complete_job (pd_now deps)))
     (thenM (onR (pd_update deps (mark_completed (pd_now deps) (int (length chunks)) total_tokens doc)))
     (returnM ()))))"

definition chunk_and_embed :: "'s proc_deps \<Rightarrow> document \<Rightarrow> ('s run, exn, unit) eff" where
  "chunk_and_embed deps doc =
     thenM (advance (pd_now deps) CHUNKING)
     (bindM (liftM (pd_chunk deps (d_content doc) (pd_chunk_size deps) (pd_chunk_overlap deps))) (\<lambda>cds.
      bindM (onR (build_chunks deps doc 0 cds)) (\<lambda>built.
      bindM (onR (pd_save_many deps built)) (\<lambda>chunks.
      thenM (jobM (record_progress (pd_now deps) 0 (int (length chunks))))
      (thenM (advance (pd_now deps) EMBEDDING)
      (bindM (embed_batches deps (length chunks) 0 chunks 0) (\<lambda>(chunks', total_tokens).
       store_and_complete deps doc chunks' total_tokens)))))))"

definition run_pipeline :: "'s proc_deps \<Rightarrow> document_id \<Rightarrow> ('s run, exn, unit) eff" where
  "run_pipeline deps did =
     thenM (advance (pd_now deps) EXTRACTING)
     (bindM (onR (pd_get deps did)) (\<lambda>document. case document of
         None \<Rightarrow> jobM (fail_job (pd_now deps) (''Document '' @ DocumentId_str did @ '' not found''))
       | Some doc \<Rightarrow>
           if py_strip (d_content doc) = []
           then thenM (jobM (fail_job (pd_now deps) ''Document content is empty''))
                (thenM (onR (pd_update deps (mark_failed (pd_now deps) ''Document content is empty'' doc)))
                (returnM ()))
           else chunk_and_embed deps doc))"

definition record_failure :: "'s proc_deps \<Rightarrow> document_id \<Rightarrow> exn \<Rightarrow> ('s run, exn, unit) eff" where
  "record_failure deps did exc =
     (let error_msg = ''Pipeline failed: '' @ pd_str_exc deps exc
      in thenM (jobM (fail_job (pd_now deps) error_msg))
         (catchM (bindM (onR (pd_get deps did)) (\<lambda>document. case document of
              None \<Rightarrow> returnM ()
            | Some doc \<Rightarrow> thenM (onR (pd_update deps (mark_failed (pd_now deps) error_msg doc))) (returnM ())))
            (\<lambda>_. returnM ())))"

definition process_document :: "'s proc_deps \<Rightarrow> document_id \<Rightarrow> ('s run, exn, unit) eff" where
  "process_document deps did = catchM (run_pipeline deps did) (record_failure deps did)"

subsection \<open>Every run settles its job\<close>

lemma jobM_iff: "jobM f (job, s) = (r, (job', s')) \<longleftrightarrow> r = Inr () \<and> job' = f job \<and> s' = s"
  by (auto simp: jobM_def modifyM_def)

lemmas pipeline_iffs = bindM_Inr_iff thenM_Inr_iff onR_iff jobM_iff

text \<open>A job at rest: completed with a completion time and no error, or failed with a message.\<close>

definition settled :: "ingestion_job \<Rightarrow> bool" where
  "settled job \<longleftrightarrow> j_status job = COMPLETED \<and> j_error_message job = None \<and> j_completed_at job \<noteq> None \<or>
     j_status job = FAILED \<and> j_error_message job \<noteq> None"

lemma settled_simps [simp]: "settled (complete_job now job)" "settled (fail_job now err job)"
  by (simp_all add: settled_def complete_job_def fail_job_def update_def)

lemma job_status_simps [simp]:
  "j_status (complete_job now job) = COMPLETED" "j_status (fail_job now err job) = FAILED"
  "j_error_message (fail_job now err job) = Some err"
  by (simp_all add: complete_job_def fail_job_def update_def)

lemma store_and_complete_done:
  "store_and_complete deps doc cs tot (job, s) = (Inr (), (job', s')) \<Longrightarrow> settled job'"
  by (auto simp: store_and_complete_def pipeline_iffs returnM_def)

lemma chunk_and_embed_done:
  assumes "chunk_and_embed deps doc (job, s) = (Inr (), (job', s'))"
  shows "settled job'"
proof -
  from assms obtain cs tot st where "store_and_complete deps doc cs tot st = (Inr (), (job', s'))"
    by (auto simp: chunk_and_embed_def bindM_Inr_iff thenM_Inr_iff split: prod.splits)
  then show ?thesis by (cases st) (auto dest: store_and_complete_done)
qed

lemma run_pipeline_done:
  "run_pipeline deps did (job, s) = (Inr (), (job', s')) \<Longrightarrow> settled job'"
  by (auto simp: run_pipeline_def pipeline_iffs returnM_def split: option.splits if_splits
      dest: chunk_and_embed_done)

lemma catch_all: "\<exists>s'. catchM m (\<lambda>_. returnM ()) s = (Inr (), s') \<and> s' = snd (m s)" for m :: "('s, 'e, unit) eff"
  by (cases "m s"; cases "fst (m s)") (auto simp: catchM_def returnM_def)

lemma onR_bind_keeps: "fst (snd (bindM (onR m) (\<lambda>x. onR (f x)) (a, b))) = a"
  by (auto simp: bindM_def onR_def split: prod.splits sum.splits)

lemma record_failure_result:
  "\<exists>s'. record_failure deps did exc (job, s) =
     (Inr (), (fail_job (pd_now deps) (''Pipeline failed: '' @ pd_str_exc deps exc) job, s'))"
proof -
  let ?msg = "''Pipeline failed: '' @ pd_str_exc deps exc"
  let ?m = "bindM (onR (pd_get deps did)) (\<lambda>document. case document of
      None \<Rightarrow> returnM ()
    | Some doc \<Rightarrow> thenM (onR (pd_update deps (mark_failed (pd_now deps) ?msg doc))) (returnM ()))"
  have "fst (snd (?m (job1, s))) = job1" for job1
    by (auto simp: bindM_def thenM_def onR_def returnM_def split: prod.splits sum.splits option.splits)
  then obtain s' where "catchM ?m (\<lambda>_. returnM ()) (fail_job (pd_now deps) ?msg job, s) =
      (Inr (), (fail_job (pd_now deps) ?msg job, s'))"
    using catch_all [of ?m "(fail_job (pd_now deps) ?msg job, s)"] by (metis prod.collapse)
  then show ?thesis
    unfolding record_failure_def Let_def thenM_Inr_iff split_paired_Ex jobM_iff by blast
qed

subsection \<open>The embedding stage\<close>

definition embedded :: "timestamp \<Rightarrow> (string \<Rightarrow> embedding_vector) \<Rightarrow> chunk \<Rightarrow> chunk" where
  "embedded now E c = set_embedding now (E (c_content c)) c"

lemma embedded_simps [simp]:
  "c_token_count (embedded now E c) = c_token_count c" "c_content (embedded now E c) = c_content c"
  "c_chunk_id (embedded now E c) = c_chunk_id c" "c_document_id (embedded now E c) = c_document_id c"
  "c_collection_id (embedded now E c) = c_collection_id c" "c_chunk_index (embedded now E c) = c_chunk_index c"
  "c_embedding (embedded now E c) = Some (E (c_content c))"
  by (simp_all add: embedded_def set_embedding_def update_def)

text \<open>A provider that embeds with \<open>E\<close> in states that satisfy \<open>good\<close>.\<close>

definition embeds_with ::
  "'s proc_deps \<Rightarrow> ('s \<Rightarrow> bool) \<Rightarrow> (string \<Rightarrow> embedding_vector) \<Rightarrow> bool" where
  "embeds_with deps good E \<longleftrightarrow>
     (\<forall>ts s. good s \<longrightarrow> (\<exists>s'. pd_embed_batch deps ts s = (Inr (map (Some \<circ> E) ts), s') \<and> good s')) \<and>
     (\<forall>c s. good s \<longrightarrow> good (pd_mutate deps c s))"

lemma attach_all_embedded:
  assumes "embeds_with deps good E" "good s"
  shows "\<exists>s'. attach_all deps cs (map (Some \<circ> E) (map c_content cs)) s =
    (Inr (map (embedded (pd_now deps) E) cs), s') \<and> good s'"
  using assms(2)
proof (induction cs arbitrary: s)
  case (Cons c cs)
  let ?c = "embedded (pd_now deps) E c"
  have "good (pd_mutate deps ?c s)" using Cons.prems assms(1) unfolding embeds_with_def by blast
  from Cons.IH [OF this] show ?case
    by (auto simp: res_simps attach_embedding_def embedded_def Let_def)
qed (simp add: res_simps)

lemma embed_batches_embedded:
  assumes "embeds_with deps good E" "good s" "batch_start + length rest = n"
  shows "\<exists>job' s'. embed_batches deps n batch_start rest tot (job, s) =
    (Inr (map (embedded (pd_now deps) E) rest, tot + sum_list (map c_token_count rest)), (job', s')) \<and>
    good s' \<and> j_status job' = j_status job \<and> j_error_message job' = j_error_message job \<and>
    (rest \<noteq> [] \<longrightarrow> j_processed_chunks job' = int n \<and> j_total_chunks job' = int n) \<and>
    (rest = [] \<longrightarrow> job' = job)"
  using assms(2,3)
proof (induction "length rest" arbitrary: rest batch_start tot job s rule: less_induct)
  case less
  show ?case
  proof (cases "rest = []")
    case True
    with less.prems show ?thesis by (simp add: returnM_def)
  next
    case False
    let ?b = "take EMBEDDING_BATCH_SIZE rest" and ?r = "drop EMBEDDING_BATCH_SIZE rest"
    let ?job = "record_progress (pd_now deps) (min (int (batch_start + length ?b)) (int n)) (int n) job"
    obtain s1 where s1: "pd_embed_batch deps (map c_content ?b) s =
        (Inr (map (Some \<circ> E) (map c_content ?b)), s1)" "good s1"
      using assms(1) less.prems(1) unfolding embeds_with_def by blast
    obtain s2 where s2: "attach_all deps ?b (map (Some \<circ> E) (map c_content ?b)) s1 =
        (Inr (map (embedded (pd_now deps) E) ?b), s2)" "good s2"
      using attach_all_embedded [OF assms(1) s1(2)] by blast
    let ?tot = "tot + sum_list (map c_token_count ?b)"
    have one: "embed_batches deps n batch_start rest tot (job, s) =
        bindM (embed_batches deps n (batch_start + EMBEDDING_BATCH_SIZE) ?r ?tot)
          (\<lambda>(cs, t). returnM (map (embedded (pd_now deps) E) ?b @ cs, t)) (?job, s2)"
      using False s1(1) s2(1)
      by (subst embed_batches.simps)
        (simp add: bindM_def thenM_def onR_def jobM_def modifyM_def Let_def o_def)
    have job: "j_status ?job = j_status job" "j_error_message ?job = j_error_message job"
      "j_total_chunks ?job = int n"
      by (simp_all add: record_progress_def update_def)
    have sums: "?tot + sum_list (map c_token_count ?r) = tot + sum_list (map c_token_count rest)"
      by (metis add.assoc append_take_drop_id map_append sum_list_append)
    have maps: "map (embedded (pd_now deps) E) ?b @ map (embedded (pd_now deps) E) ?r =
        map (embedded (pd_now deps) E) rest"
      by (metis append_take_drop_id map_append)
    show ?thesis
    proof (cases "?r = []")
      case True
      then have "j_processed_chunks ?job = int n"
        using less.prems(2) by (simp add: record_progress_def update_def)
      with True one s2(2) job sums maps False show ?thesis
        by (simp add: bindM_def returnM_def)
    next
      case rest: False
      have len: "length ?r < length rest" using False by (simp add: EMBEDDING_BATCH_SIZE_def)
      have start: "batch_start + EMBEDDING_BATCH_SIZE + length ?r = n"
        using rest less.prems(2) by (simp add: EMBEDDING_BATCH_SIZE_def)
      obtain job' s' where
        "embed_batches deps n (batch_start + EMBEDDING_BATCH_SIZE) ?r ?tot (?job, s2) =
          (Inr (map (embedded (pd_now deps) E) ?r, ?tot + sum_list (map c_token_count ?r)), (job', s'))"
        "good s'" "j_status job' = j_status ?job" "j_error_message job' = j_error_message ?job"
        "j_processed_chunks job' = int n" "j_total_chunks job' = int n"
        using less.hyps [OF len s2(2) start, of ?tot ?job] rest by blast
      with one job sums maps False show ?thesis by (simp add: bindM_def returnM_def)
    qed
  qed
qed

lemma vector_entries_embedded:
  "vector_entries doc (map (embedded now E) cs) =
     map (\<lambda>c. (c_chunk_id c, E (c_content c), payload doc c)) cs"
  by (induction cs) (simp_all add: vector_entries_def List.map_filter_simps payload_def)

subsection \<open>A failing run\<close>

lemma chunks_need_tenant:
  assumes queued: "j_status job = QUEUED" and get: "pd_get deps did s = (Inr (Some doc), s)" "pd_get deps did s1 = (Inr (Some doc), s1)"
    and body: "py_strip (d_content doc) \<noteq> []"
    and chunk: "pd_chunk deps (d_content doc) (pd_chunk_size deps) (pd_chunk_overlap deps) = Inr (cd # cds)"
    and count: "pd_count deps (cd_content cd) ''gpt-4o'' s = (Inr tokens, s1)"
    and msg: "msg = ''Pipeline failed: '' @ pd_str_exc deps (ValidationError ''Chunk'' [''tenant_id''])"
  shows "\<exists>job'. process_document deps did (job, s) =
      (Inr (), (job', snd (pd_update deps (mark_failed (pd_now deps) msg doc) s1))) \<and>
    j_status job' = FAILED \<and> j_error_message job' = Some msg"
proof -
  let ?e = "ValidationError ''Chunk'' [''tenant_id'']" and ?now = "pd_now deps"
  obtain job1 where job1: "advance_status ?now EXTRACTING job = Inr job1" "j_status job1 = EXTRACTING"
    using queued by (simp add: advance_status_def update_def Let_def)
  obtain job2 where job2: "advance_status ?now CHUNKING job1 = Inr job2"
    using job1(2) by (simp add: advance_status_def Let_def)
  have "build_chunks deps doc 0 (cd # cds) s = (Inl ?e, s1)"
    using count by (simp add: res_simps Chunk_def)
  then have "run_pipeline deps did (job, s) = (Inl ?e, (job2, s1))"
    using job1(1) job2 get body chunk
    by (simp add: run_pipeline_def chunk_and_embed_def thenM_def bindM_def advance_def onR_def liftM_def)
  then have "process_document deps did (job, s) = record_failure deps did ?e (job2, s1)"
    by (simp only: process_document_def catchM_Inl)
  moreover have "record_failure deps did ?e (job2, s1) =
      (Inr (), (fail_job ?now msg job2, snd (pd_update deps (mark_failed ?now msg doc) s1)))"
    unfolding record_failure_def Let_def msg [symmetric]
    using get by (auto simp: thenM_def bindM_def catchM_def jobM_def modifyM_def onR_def returnM_def
        split: prod.splits sum.splits)
  ultimately show ?thesis by simp
qed

subsection \<open>Properties\<close>

text \<open>
  C20. The pipeline always ends the job: whatever the collaborators do or raise, a run returns
  without an exception and leaves the job either completed, with a completion time and no
  error, or failed with an error message.
\<close>

theorem pipeline_settles_job:
  "\<exists>job' s'. process_document deps did (job, s) = (Inr (), (job', s')) \<and> settled job'"
proof -
  obtain r job1 s1 where Pair: "run_pipeline deps did (job, s) = (r, (job1, s1))"
    by (metis prod.collapse)
  show ?thesis
  proof (cases r)
    case (Inl e)
    obtain s' where "record_failure deps did e (job1, s1) =
        (Inr (), (fail_job (pd_now deps) (''Pipeline failed: '' @ pd_str_exc deps e) job1, s'))"
      using record_failure_result [of deps did e job1 s1] by (elim exE)
    then have "process_document deps did (job, s) =
        (Inr (), (fail_job (pd_now deps) (''Pipeline failed: '' @ pd_str_exc deps e) job1, s'))"
      using Pair Inl by (simp only: process_document_def catchM_Inl)
    then show ?thesis using settled_simps(2) by blast
  next
    case (Inr u)
    with Pair have fin: "run_pipeline deps did (job, s) = (Inr (), (job1, s1))" by simp
    then have "process_document deps did (job, s) = (Inr (), (job1, s1))"
      by (simp only: process_document_def catchM_Inr)
    with run_pipeline_done [OF fin] show ?thesis by blast
  qed
qed

text \<open>
  As written the pipeline fails for every document that yields a chunk: the constructor
  of the first chunk is called without the required \<open>tenant_id\<close>, so the job fails with that
  validation error, the document is marked failed with the same message, and no chunk is
  saved, nothing is embedded and no vector is stored.
\<close>

theorem chunked_documents_always_fail:
  assumes queued: "j_status job = QUEUED" and get: "\<forall>s. pd_get deps did s = (Inr (Some doc), s)"
    and body: "py_strip (d_content doc) \<noteq> []"
    and chunk: "pd_chunk deps (d_content doc) (pd_chunk_size deps) (pd_chunk_overlap deps) = Inr (cd # cds)"
    and count: "pd_count deps (cd_content cd) ''gpt-4o'' s = (Inr tokens, s1)"
    and msg: "msg = ''Pipeline failed: '' @ pd_str_exc deps (ValidationError ''Chunk'' [''tenant_id''])"
  shows "\<exists>job'. process_document deps did (job, s) =
      (Inr (), (job', snd (pd_update deps (mark_failed (pd_now deps) msg doc) s1))) \<and>
    j_status job' = FAILED \<and> j_error_message job' = Some msg"
  by (rule chunks_need_tenant [OF queued _ _ body chunk count msg]) (simp_all add: get)

definition demo_deps :: "document list proc_deps" where
  "demo_deps = \<lparr>pd_get = (\<lambda>did s. (Inr (Some demo_document), s)), pd_update = (\<lambda>d s. (Inr d, s @ [d])),
     pd_save_many = (\<lambda>cs s. (Inr cs, s)), pd_mutate = (\<lambda>c s. s), pd_upsert_many = (\<lambda>es s. (Inr (), s)),
     pd_embed_batch = (\<lambda>ts s. (Inr (map (\<lambda>_. Some \<lparr>ev_values = [1], ev_model = ''m'', ev_dimensions = 1\<rparr>) ts), s)),
     pd_chunk = (\<lambda>content csize ovl. Inr [\<lparr>cd_content = content, cd_start_char = 0, cd_end_char = 10,
        cd_chunk_index = 0, cd_token_count = 2\<rparr>]),
     pd_count = (\<lambda>t m s. (Inr 2, s)), pd_chunk_size = 512, pd_chunk_overlap = 50, pd_now = 9,
     pd_uuid = of_nat, pd_str_exc = (\<lambda>e. ''tenant_id missing'')\<rparr>"

theorem chunked_documents_always_fail_witness:
  "\<exists>job'. process_document demo_deps (DocumentId 7)
      (new_job 0 0 (IngestionJobId 5) (DocumentId 7), []) =
      (Inr (), (job', snd (pd_update demo_deps (mark_failed (pd_now demo_deps)
        ''Pipeline failed: tenant_id missing'' demo_document) []))) \<and>
    j_status job' = FAILED \<and> j_error_message job' = Some ''Pipeline failed: tenant_id missing''"
  by (rule chunked_documents_always_fail [where cds = "[]" and tokens = 2])
    (simp_all add: demo_deps_def new_job_def demo_document_def new_document_def py_strip_def py_isspace_def)

text \<open>
  C28. The embedding stage: with a provider that embeds each text with \<open>E\<close>, any list of chunks
  goes through the batches of 50 with every chunk receiving the embedding of its own
  content, the token total being the sum of the chunks' counts and the job's progress
  reaching its end; the entries then stored hold each chunk once, in order, with that
  embedding.
\<close>

theorem embedding_stage_correct:
  assumes "embeds_with deps good E" and "good s" and "chunks \<noteq> []"
  shows "\<exists>chunks' job' s'. embed_batches deps (length chunks) 0 chunks 0 (job, s) =
      (Inr (chunks', sum_list (map c_token_count chunks)), (job', s')) \<and>
    vector_entries doc chunks' = map (\<lambda>c. (c_chunk_id c, E (c_content c), payload doc c)) chunks \<and>
    progress job' = 1 \<and> j_status job' = j_status job \<and> good s'"
proof -
  obtain job' s' where "embed_batches deps (length chunks) 0 chunks 0 (job, s) =
      (Inr (map (embedded (pd_now deps) E) chunks, sum_list (map c_token_count chunks)), (job', s'))"
    "good s'" "j_status job' = j_status job"
    "j_processed_chunks job' = int (length chunks)" "j_total_chunks job' = int (length chunks)"
    using embed_batches_embedded [OF assms(1,2), of 0 chunks "length chunks" 0 job] assms(3) by auto
  with assms(3) show ?thesis by (auto simp: vector_entries_embedded progress_def)
qed

theorem embedding_stage_correct_witness:
  "\<exists>chunks' job' s'. embed_batches demo_deps 2 0 [demo_chunk 1 0, demo_chunk 2 1] 0
      (new_job 0 0 (IngestionJobId 5) (DocumentId 7), []) = (Inr (chunks', 2), (job', s')) \<and>
    progress job' = 1 \<and> length (vector_entries demo_document chunks') = 2"
proof -
  let ?E = "\<lambda>_. \<lparr>ev_values = [1], ev_model = ''m'', ev_dimensions = 1\<rparr>"
  have "embeds_with demo_deps (\<lambda>_. True) ?E" by (simp add: embeds_with_def demo_deps_def o_def)
  moreover have "sum_list (map c_token_count [demo_chunk 1 0, demo_chunk 2 1]) = 2"
    by (simp add: demo_chunk_def)
  ultimately show ?thesis
    using embedding_stage_correct [of demo_deps "\<lambda>_. True" ?E "[]" "[demo_chunk 1 0, demo_chunk 2 1]"
        "new_job 0 0 (IngestionJobId 5) (DocumentId 7)" demo_document]
    by (auto simp: numeral_2_eq_2)
qed

end
