(* ===== verification/Ingestion.thy ===== *)
theory Ingestion
  imports Ingestion_Job Document_Repository
begin

section \<open>Ingestion and the background task\<close>

text \<open>
  \<open>src/app/application/use_cases/ingest_document.py\<close>, its DTOs
  (\<open>src/app/application/dto/document.py\<close>) and the ARQ task of
  \<open>src/app/infrastructure/queue/arq_worker.py\<close>. The repository and the ARQ pool are the
  operations of \<open>ingest_deps\<close>; \<open>pg_ingest_deps\<close> plugs in the PostgreSQL repository, with
  the queue as the second component of the state. New ids are arguments: \<open>uuids\<close> gives the
  entity, document, default collection and job ids of one call.
\<close>

subsection \<open>Requests\<close>

record ingest_request =
  iq_title :: string
  iq_content :: string
  iq_collection_id :: "string option"
  iq_content_type :: string
  iq_metadata :: dict

definition IngestDocumentRequest :: "ingest_request \<Rightarrow> ingest_request result" where
  "IngestDocumentRequest r =
     (let bad = (if iq_title r = [] \<or> length (iq_title r) > 500 then [''title''] else []) @
                (if iq_content r = [] then [''content''] else [])
      in if bad \<noteq> [] then Inl (ValidationError ''IngestDocumentRequest'' bad) else Inr r)"

record ingest_response =
  ir_document_id :: string
  ir_job_id :: string
  ir_status :: string

subsection \<open>IngestDocumentUseCase\<close>

record ingest_ids =
  fresh_entity :: uuid
  fresh_document :: uuid
  fresh_collection :: uuid
  fresh_job :: uuid

record 's ingest_deps =
  id_find_duplicate :: "(tenant_id \<Rightarrow> string \<Rightarrow> ('s, exn, document option) eff) option"
  id_save :: "document \<Rightarrow> ('s, exn, document) eff"
  id_update :: "document \<Rightarrow> ('s, exn, document) eff"
  id_enqueue_job :: "string list \<Rightarrow> ('s, exn, string option) eff"

definition new_collection_id :: "ingest_ids \<Rightarrow> string option \<Rightarrow> collection_id result" where
  "new_collection_id ids cid =
     (if opt_truthy cid then CollectionId_from_str (case cid of Some c \<Rightarrow> c | None \<Rightarrow> [])
      else Inr (CollectionId (fresh_collection ids)))"

definition persist_and_enqueue ::
  "'s ingest_deps \<Rightarrow> timestamp \<Rightarrow> ingest_ids \<Rightarrow> ingest_request \<Rightarrow> tenant_id \<Rightarrow> collection_id
   \<Rightarrow> ('s, exn, ingest_response) eff" where
  "persist_and_enqueue deps now ids request tid cid =
     bindM (id_save deps (new_document now (fresh_entity ids) (fresh_document ids) tid cid
              (iq_title request) (iq_content request) (iq_content_type request) (iq_metadata request)))
       (\<lambda>document.
     let job = new_job now (fresh_entity ids) (IngestionJobId (fresh_job ids)) (d_document_id document);
         document' = mark_processing now document
     in thenM (id_update deps document')
        (thenM (id_enqueue_job deps [''process_document_task'', TenantId_str tid,
                  DocumentId_str (d_document_id document'), IngestionJobId_str (j_job_id job)])
        (returnM \<lparr>ir_document_id = DocumentId_str (d_document_id document'),
                  ir_job_id = IngestionJobId_str (j_job_id job), ir_status = ''processing''\<rparr>)))"

definition ingest_execute ::
  "'s ingest_deps \<Rightarrow> timestamp \<Rightarrow> ingest_ids \<Rightarrow> ingest_request \<Rightarrow> tenant_id
   \<Rightarrow> ('s, exn, ingest_response) eff" where
  "ingest_execute deps now ids request tid =
     bindM (liftM (new_collection_id ids (iq_collection_id request))) (\<lambda>cid.
     bindM (case id_find_duplicate deps of
              None \<Rightarrow> returnM None | Some find_duplicate \<Rightarrow> find_duplicate tid (iq_content request))
       (\<lambda>existing. case existing of
          Some d \<Rightarrow> returnM \<lparr>ir_document_id = DocumentId_str (d_document_id d), ir_job_id = ''duplicate'',
                             ir_status = ''duplicate''\<rparr>
        | None \<Rightarrow> persist_and_enqueue deps now ids request tid cid))"

definition pg_ingest_deps ::
  "pylib \<Rightarrow> timestamp \<Rightarrow> uuid \<Rightarrow> (string list \<Rightarrow> ('q, exn, string option) eff)
   \<Rightarrow> (database \<times> 'q) ingest_deps" where
  "pg_ingest_deps lib now eid enqueue =
     \<lparr>id_find_duplicate = Some (\<lambda>tid content. onL (pg_find_duplicate lib eid tid content)),
      id_save = (\<lambda>d. onL (pg_save lib d)), id_update = (\<lambda>d. onL (pg_update lib now d)),
      id_enqueue_job = (\<lambda>args. onR (enqueue args))\<rparr>"

subsection \<open>The ARQ task\<close>

definition DLQ_KEY :: string where
  "DLQ_KEY = ''dlq:document_processing''"

text \<open>\<open>zadd\<close> is the Redis command on the worker's connection, \<open>clock\<close> the value of \<open>time.time()\<close>.\<close>

definition write_to_dlq ::
  "(string \<Rightarrow> string \<Rightarrow> real \<Rightarrow> ('s, exn, unit) eff) \<Rightarrow> pylib \<Rightarrow> real \<Rightarrow> string \<Rightarrow> string \<Rightarrow> string \<Rightarrow> string
   \<Rightarrow> ('s, exn, unit) eff" where
  "write_to_dlq zadd lib clock tenant document job err =
     catchM (zadd DLQ_KEY (json_dumps lib (PDict [(''tenant_id'', PStr tenant), (''document_id'', PStr document),
               (''job_id'', PStr job), (''error'', PStr err), (''failed_at'', PFloat clock)])) clock)
       (\<lambda>_. returnM ())"

text \<open>
  The call \<open>process_use_case.execute(doc_id, ingestion_job, tenant_id=t_id)\<close> against the signature
  \<open>execute(self, document_id, job)\<close>.
\<close>

definition call_process ::
  "(document_id \<Rightarrow> ingestion_job \<Rightarrow> ('s, exn, unit) eff) \<Rightarrow> document_id \<Rightarrow> ingestion_job
   \<Rightarrow> ('s, exn, unit) eff" where
  "call_process execute did job =
     (case py_bind_call ''execute'' [(''document_id'', False), (''job'', False)] 2 [''tenant_id''] of
        Some err \<Rightarrow> raiseM (TypeError err)
      | None \<Rightarrow> execute did job)"

definition process_document_task ::
  "(document_id \<Rightarrow> ingestion_job \<Rightarrow> ('s, exn, unit) eff)
   \<Rightarrow> (string \<Rightarrow> string \<Rightarrow> real \<Rightarrow> ('s, exn, unit) eff) \<Rightarrow> pylib \<Rightarrow> (exn \<Rightarrow> string) \<Rightarrow> timestamp \<Rightarrow> real \<Rightarrow> uuid
   \<Rightarrow> int \<Rightarrow> int \<Rightarrow> string \<Rightarrow> string \<Rightarrow> string \<Rightarrow> ('s, exn, string \<times> string) eff" where
  "process_document_task execute zadd lib str_exc now clock eid max_retries job_try tenant document job =
     bindM (liftM (DocumentId_from_str document)) (\<lambda>doc_id.
     bindM (liftM (TenantId_from_str tenant)) (\<lambda>t_id.
     bindM (liftM (IngestionJobId_from_str job)) (\<lambda>job_id.
     catchM
       (thenM (call_process execute doc_id (new_job now eid job_id doc_id))
          (returnM (document, ''completed'')))
       (\<lambda>exc. thenM (if job_try \<ge> max_retries
                      then write_to_dlq zadd lib clock tenant document job (str_exc exc)
                      else returnM ())
                (raiseM exc)))))"

subsection \<open>First and second ingestion on PostgreSQL\<close>

lemma new_document_simps [simp]:
  "d_document_id (new_document now eid u t c ti co ct m) = DocumentId u"
  "d_tenant_id (new_document now eid u t c ti co ct m) = t"
  "d_content (new_document now eid u t c ti co ct m) = co"
  by (simp_all add: new_document_def)

lemma mark_processing_simps [simp]:
  "d_document_id (mark_processing now d) = d_document_id d"
  "d_tenant_id (mark_processing now d) = d_tenant_id d" "d_content (mark_processing now d) = d_content d"
  "d_status (mark_processing now d) = DProcessing" "d_metadata (mark_processing now d) = d_metadata d"
  by (simp_all add: mark_processing_def update_def)

lemma mark_processing_storable:
  "pg_storable lib db (new_document now eid u t c ti co ct m) \<Longrightarrow>
     pg_storable lib db (mark_processing now (new_document now eid u t c ti co ct m))"
  by (simp add: pg_storable_def column_checks document_row_def content_hash_def mark_processing_def
      update_def new_document_def)

lemma find_map_fresh:
  assumes "find P xs = None" "\<And>x. P (g x) = P x"
  shows "find P (map g (xs @ [y])) = (if P y then Some (g y) else None)"
proof -
  have "find P (map g xs) = None" using assms by (auto simp: find_None_iff)
  then show ?thesis by (simp add: find_append assms(2))
qed

lemma pg_save_fresh:
  assumes "pg_inv lib db" "pg_storable lib db d" "pg_docs db (d_document_id d) = None"
  shows "pg_save lib d db = (Inr d, db\<lparr>db_documents := db_documents db @ [document_row lib d]\<rparr>)"
proof -
  have "r_document_id (document_row lib d) \<notin> r_document_id ` set (db_documents db)"
    using assms(3) by (simp add: pg_docs_def find_None_iff_key document_row_def)
  with assms(1,2) show ?thesis
    by (simp add: pg_save_def pool_run_def pg_inv_def insert_document_def pg_storable_def thenM_def
        bindM_def returnM_def document_row_def)
qed

lemma pg_update_keeps_hash:
  assumes "pg_inv lib db" "pg_update lib now d db = (Inr d', db')"
  shows "\<exists>g. db_documents db' = map g (db_documents db) \<and>
    (\<forall>r. r_tenant_id (g r) = r_tenant_id r \<and> r_content_hash (g r) = r_content_hash r \<and>
         r_document_id (g r) = r_document_id r)"
proof -
  let ?row = "document_row lib d"
  let ?g = "\<lambda>r. if r_document_id r = r_document_id ?row
    then r\<lparr>r_status := r_status ?row, r_chunk_count := r_chunk_count ?row,
           r_token_count := r_token_count ?row, r_error_message := r_error_message ?row,
           r_metadata := r_metadata ?row, r_updated_at := now\<rparr> else r"
  have "db_documents db' = map ?g (db_documents db)"
    using assms by (auto simp: pg_update_def pool_run_def pg_inv_def update_documents_def thenM_def
        bindM_def returnM_def split: if_splits)
  moreover have "\<forall>r. r_tenant_id (?g r) = r_tenant_id r \<and> r_content_hash (?g r) = r_content_hash r \<and>
         r_document_id (?g r) = r_document_id r"
    by simp
  ultimately show ?thesis by blast
qed

text \<open>
  The database after the document of a request has been saved and marked as processing: it is
  found by a load and by the duplicate search.
\<close>

lemma save_processing_find:
  fixes lib now eid u tid cid req
  defines "doc \<equiv> new_document now eid u tid cid (iq_title req) (iq_content req) (iq_content_type req)
      (iq_metadata req)"
  assumes inv: "pg_inv lib db" and st: "pg_storable lib db doc"
    and fresh: "pg_docs db (DocumentId u) = None"
    and nodup: "find (\<lambda>row. r_tenant_id row = tenant_id_value tid \<and>
      r_content_hash row = content_hash lib (iq_content req)) (db_documents db) = None"
  shows "\<exists>db1 db2. pg_save lib doc db = (Inr doc, db1) \<and>
    pg_update lib now (mark_processing now doc) db1 = (Inr (mark_processing now doc), db2) \<and> pg_inv lib db2 \<and>
    pg_docs db2 (DocumentId u) = Some (doc_view (mark_processing now doc)) \<and>
    (\<exists>d. pg_find_duplicate lib eid' tid (iq_content req) db2 = (Inr (Some d), db2) \<and>
         d_document_id d = DocumentId u)"
proof -
  let ?P = "\<lambda>row. r_tenant_id row = tenant_id_value tid \<and> r_content_hash row = content_hash lib (iq_content req)"
  let ?row = "document_row lib doc" and ?doc = "mark_processing now doc"
  have id: "d_document_id doc = DocumentId u" by (simp add: doc_def)
  let ?db1 = "db\<lparr>db_documents := db_documents db @ [?row]\<rparr>"
  have save: "pg_save lib doc db = (Inr doc, ?db1)" using pg_save_fresh [OF inv st] fresh id by simp
  have db1: "pg_inv lib ?db1" "pg_docs ?db1 = (pg_docs db)(DocumentId u \<mapsto> doc_view doc)"
    "pg_storable lib ?db1 = pg_storable lib db"
    using pg_repo.save_law [OF inv st] fresh id save by auto
  have st': "pg_storable lib ?db1 ?doc"
    using mark_processing_storable [OF st [unfolded doc_def]] unfolding doc_def [symmetric] db1(3) .
  have "same_core ?doc (doc_view doc)"
    by (simp add: same_core_def doc_view_def mark_processing_def update_def)
  then obtain db2 where db2: "pg_update lib now ?doc ?db1 = (Inr ?doc, db2)" "pg_inv lib db2"
    "pg_docs db2 (DocumentId u) = Some (doc_view ?doc)"
    using pg_repo.upd_law [OF db1(1) st', of "doc_view doc" now] db1(2) id by auto
  obtain g where g: "db_documents db2 = map g (db_documents db @ [?row])"
    "\<forall>r. r_tenant_id (g r) = r_tenant_id r \<and> r_content_hash (g r) = r_content_hash r \<and>
         r_document_id (g r) = r_document_id r"
    using pg_update_keeps_hash [OF db1(1) db2(1)] by auto
  have row: "?P ?row" "r_document_id ?row = u" by (simp_all add: document_row_def doc_def)
  have "find ?P (db_documents db2) = Some (g ?row)"
    using find_map_fresh [of ?P "db_documents db" g ?row] nodup g row(1) by simp
  then obtain d where d: "first_document lib eid' ?P db2 = (Inr (Some d), db2)"
    "row_to_document lib eid' (g ?row) = Inr d"
    using first_document_Some [OF db2(2), of ?P "g ?row" eid'] by blast
  have "d_document_id d = DocumentId u" using row_to_document_fields [OF d(2)] g(2) row(2) by simp
  with save db2 d(1) show ?thesis unfolding pg_find_duplicate_def by blast
qed

subsection \<open>The result of a task\<close>

lemma arq_task_result:
  "process_document_task execute zadd lib str_exc now clock eid max_retries job_try
      (TenantId_str tid) (DocumentId_str did) (IngestionJobId_str jid) s =
    (let e = TypeError (UnexpectedKeyword ''execute'' ''tenant_id'') in
     (Inl e, if job_try \<ge> max_retries
        then snd (write_to_dlq zadd lib clock (TenantId_str tid) (DocumentId_str did)
               (IngestionJobId_str jid) (str_exc e) s)
        else s))"
proof -
  have dlq: "fst (write_to_dlq zadd lib clock a b c d s) = Inr ()" for a b c d
    by (cases "zadd DLQ_KEY (json_dumps lib (PDict [(''tenant_id'', PStr a), (''document_id'', PStr b),
        (''job_id'', PStr c), (''error'', PStr d), (''failed_at'', PFloat clock)])) clock s")
      (auto simp: write_to_dlq_def catchM_def returnM_def split: sum.split)
  have call: "call_process execute d j s = (Inl (TypeError (UnexpectedKeyword ''execute'' ''tenant_id'')), s)" for d j
    by (simp add: call_process_def py_bind_call_def raiseM_def)
  show ?thesis
  proof (cases "job_try \<ge> max_retries")
    case True
    let ?w = "write_to_dlq zadd lib clock (TenantId_str tid) (DocumentId_str did) (IngestionJobId_str jid)
      (str_exc (TypeError (UnexpectedKeyword ''execute'' ''tenant_id'')))"
    have w: "?w s = (Inr (), snd (?w s))" using dlq by (metis prod.collapse)
    have "thenM ?w (raiseM e) s = (Inl e, snd (?w s))" for e :: exn
      by (subst thenM_Inr [where m = ?w, OF w]) (simp add: raiseM_def)
    with True call show ?thesis
      by (cases tid; cases did; cases jid)
        (simp add: process_document_task_def res_simps Let_def DocumentId_from_str_def
          TenantId_from_str_def IngestionJobId_from_str_def)
  next
    case False
    with call show ?thesis
      by (cases tid; cases did; cases jid)
        (simp add: process_document_task_def res_simps Let_def DocumentId_from_str_def
          TenantId_from_str_def IngestionJobId_from_str_def)
  qed
qed

subsection \<open>A first ingestion\<close>

lemma first_ingestion:
  assumes inv: "pg_inv lib db"
    and cid: "new_collection_id ids (iq_collection_id req) = Inr cid"
    and st: "pg_storable lib db (new_document now (fresh_entity ids) (fresh_document ids) tid cid
      (iq_title req) (iq_content req) (iq_content_type req) (iq_metadata req))"
    and fresh: "pg_docs db (DocumentId (fresh_document ids)) = None"
    and nodup: "find (\<lambda>row. r_tenant_id row = tenant_id_value tid \<and>
      r_content_hash row = content_hash lib (iq_content req)) (db_documents db) = None"
    and enq: "enqueue [''process_document_task'', TenantId_str tid, uuid_str (fresh_document ids),
      uuid_str (fresh_job ids)] q = (Inr j, q')"
  shows "\<exists>db' d. ingest_execute (pg_ingest_deps lib now eid enqueue) now ids req tid (db, q) =
      (Inr \<lparr>ir_document_id = uuid_str (fresh_document ids), ir_job_id = uuid_str (fresh_job ids),
            ir_status = ''processing''\<rparr>, (db', q')) \<and>
    (\<exists>d. pg_docs db' (DocumentId (fresh_document ids)) = Some d \<and> d_status d = DProcessing) \<and>
    pg_find_duplicate lib eid tid (iq_content req) db' = (Inr (Some d), db') \<and>
    d_document_id d = DocumentId (fresh_document ids)"
proof -
  let ?doc = "new_document now (fresh_entity ids) (fresh_document ids) tid cid
      (iq_title req) (iq_content req) (iq_content_type req) (iq_metadata req)"
  obtain db1 db2 d where r: "pg_save lib ?doc db = (Inr ?doc, db1)"
    "pg_update lib now (mark_processing now ?doc) db1 = (Inr (mark_processing now ?doc), db2)"
    "pg_docs db2 (DocumentId (fresh_document ids)) = Some (doc_view (mark_processing now ?doc))"
    "pg_find_duplicate lib eid tid (iq_content req) db2 = (Inr (Some d), db2)"
    "d_document_id d = DocumentId (fresh_document ids)"
    using save_processing_find [OF inv st fresh nodup, of eid] by blast
  have "pg_find_duplicate lib eid tid (iq_content req) db = (Inr None, db)"
    unfolding pg_find_duplicate_def by (rule first_document_None [OF inv nodup])
  then have "ingest_execute (pg_ingest_deps lib now eid enqueue) now ids req tid (db, q) =
      (Inr \<lparr>ir_document_id = uuid_str (fresh_document ids), ir_job_id = uuid_str (fresh_job ids),
            ir_status = ''processing''\<rparr>, (db2, q'))"
    using cid r(1,2) enq
    by (simp add: ingest_execute_def persist_and_enqueue_def pg_ingest_deps_def bindM_def thenM_def
        liftM_def onL_def onR_def returnM_def Let_def new_job_def)
  moreover have "d_status (doc_view (mark_processing now x)) = DProcessing" for x
    by (simp add: doc_view_def)
  ultimately show ?thesis using r(3-5) by blast
qed

subsection \<open>Properties\<close>

text \<open>
  C1. Ingestion is idempotent per tenant and content: a new document is stored once with
  status processing and one task naming its tenant, document and job ids is queued; a second
  ingestion of the same content by the same tenant, whatever its title, collection or
  metadata, answers \<open>duplicate\<close> with the first document's id and changes neither the
  database nor the queue.
\<close>

theorem ingest_is_idempotent:
  assumes inv: "pg_inv lib db"
    and cid: "new_collection_id ids (iq_collection_id req) = Inr cid"
    and cid2: "new_collection_id ids2 (iq_collection_id req2) = Inr cid2"
    and same: "iq_content req2 = iq_content req"
    and st: "pg_storable lib db (new_document now (fresh_entity ids) (fresh_document ids) tid cid
      (iq_title req) (iq_content req) (iq_content_type req) (iq_metadata req))"
    and fresh: "pg_docs db (DocumentId (fresh_document ids)) = None"
    and nodup: "find (\<lambda>row. r_tenant_id row = tenant_id_value tid \<and>
      r_content_hash row = content_hash lib (iq_content req)) (db_documents db) = None"
    and enq: "enqueue [''process_document_task'', TenantId_str tid, uuid_str (fresh_document ids),
      uuid_str (fresh_job ids)] q = (Inr j, q')"
  shows "\<exists>db'. ingest_execute (pg_ingest_deps lib now eid enqueue) now ids req tid (db, q) =
      (Inr \<lparr>ir_document_id = uuid_str (fresh_document ids), ir_job_id = uuid_str (fresh_job ids),
            ir_status = ''processing''\<rparr>, (db', q')) \<and>
    (\<exists>d. pg_docs db' (DocumentId (fresh_document ids)) = Some d \<and> d_status d = DProcessing) \<and>
    ingest_execute (pg_ingest_deps lib now2 eid enqueue) now2 ids2 req2 tid (db', q') =
      (Inr \<lparr>ir_document_id = uuid_str (fresh_document ids), ir_job_id = ''duplicate'',
            ir_status = ''duplicate''\<rparr>, (db', q'))"
proof -
  obtain db2 d where r: "ingest_execute (pg_ingest_deps lib now eid enqueue) now ids req tid (db, q) =
      (Inr \<lparr>ir_document_id = uuid_str (fresh_document ids), ir_job_id = uuid_str (fresh_job ids),
            ir_status = ''processing''\<rparr>, (db2, q'))"
    "\<exists>d. pg_docs db2 (DocumentId (fresh_document ids)) = Some d \<and> d_status d = DProcessing"
    "pg_find_duplicate lib eid tid (iq_content req) db2 = (Inr (Some d), db2)"
    "d_document_id d = DocumentId (fresh_document ids)"
    using first_ingestion [OF inv cid st fresh nodup, where enqueue = enqueue, OF enq, of eid] by blast
  have "ingest_execute (pg_ingest_deps lib now2 eid enqueue) now2 ids2 req2 tid (db2, q') =
      (Inr \<lparr>ir_document_id = uuid_str (fresh_document ids), ir_job_id = ''duplicate'',
            ir_status = ''duplicate''\<rparr>, (db2, q'))"
    using cid2 same r(3,4)
    by (simp add: ingest_execute_def pg_ingest_deps_def bindM_def liftM_def onL_def returnM_def)
  with r(1,2) show ?thesis by blast
qed

definition demo_ids :: ingest_ids where
  "demo_ids = \<lparr>fresh_entity = 0, fresh_document = 7, fresh_collection = 2, fresh_job = 5\<rparr>"

definition demo_ingest :: ingest_request where
  "demo_ingest = \<lparr>iq_title = ''Guide'', iq_content = ''Some text.'', iq_collection_id = None,
     iq_content_type = ''text/plain'', iq_metadata = []\<rparr>"

definition demo_enqueue :: "string list \<Rightarrow> (string list list, exn, string option) eff" where
  "demo_enqueue args q = (Inr None, q @ [args])"

theorem ingest_is_idempotent_witness:
  "\<exists>db'. ingest_execute (pg_ingest_deps demo_lib 5 3 demo_enqueue) 5 demo_ids demo_ingest
      (TenantId 1) (demo_db, []) =
      (Inr \<lparr>ir_document_id = uuid_str 7, ir_job_id = uuid_str 5, ir_status = ''processing''\<rparr>,
       (db', [[''process_document_task'', TenantId_str (TenantId 1), uuid_str 7, uuid_str 5]])) \<and>
    ingest_execute (pg_ingest_deps demo_lib 6 3 demo_enqueue) 6
      (demo_ids\<lparr>fresh_document := 8\<rparr>) (demo_ingest\<lparr>iq_title := ''Copy''\<rparr>) (TenantId 1)
      (db', [[''process_document_task'', TenantId_str (TenantId 1), uuid_str 7, uuid_str 5]]) =
      (Inr \<lparr>ir_document_id = uuid_str 7, ir_job_id = ''duplicate'', ir_status = ''duplicate''\<rparr>,
       (db', [[''process_document_task'', TenantId_str (TenantId 1), uuid_str 7, uuid_str 5]]))"
proof -
  have hyps: "pg_inv demo_lib demo_db"
    "new_collection_id demo_ids (iq_collection_id demo_ingest) = Inr (CollectionId 2)"
    "new_collection_id (demo_ids\<lparr>fresh_document := 8\<rparr>)
      (iq_collection_id (demo_ingest\<lparr>iq_title := ''Copy''\<rparr>)) = Inr (CollectionId 2)"
    "iq_content (demo_ingest\<lparr>iq_title := ''Copy''\<rparr>) = iq_content demo_ingest"
    "pg_storable demo_lib demo_db (new_document 5 (fresh_entity demo_ids) (fresh_document demo_ids)
      (TenantId 1) (CollectionId 2) (iq_title demo_ingest) (iq_content demo_ingest)
      (iq_content_type demo_ingest) (iq_metadata demo_ingest))"
    "pg_docs demo_db (DocumentId (fresh_document demo_ids)) = None"
    "find (\<lambda>row. r_tenant_id row = tenant_id_value (TenantId 1) \<and>
      r_content_hash row = content_hash demo_lib (iq_content demo_ingest)) (db_documents demo_db) = None"
    "demo_enqueue [''process_document_task'', TenantId_str (TenantId 1), uuid_str (fresh_document demo_ids),
      uuid_str (fresh_job demo_ids)] [] =
      (Inr None, [[''process_document_task'', TenantId_str (TenantId 1), uuid_str 7, uuid_str 5]])"
    by (simp_all add: pg_inv_def demo_db_def demo_lib_def demo_ids_def demo_ingest_def new_collection_id_def
        opt_truthy_def pg_storable_def document_row_def new_document_def column_checks
        content_hash_def load_metadata_def pg_docs_def demo_enqueue_def)
  have fd: "fresh_document demo_ids = 7" "fresh_job demo_ids = 5" by (simp_all add: demo_ids_def)
  show ?thesis
    using ingest_is_idempotent [where enqueue = demo_enqueue, OF hyps, of 3 6] unfolding fd by blast
qed

text \<open>
  The background task as written never runs the pipeline: for well-formed ids the call of
  the use case fails with a \<open>TypeError\<close> because of the extra \<open>tenant_id\<close> keyword, on every
  attempt; the only effect is one dead-letter entry on an attempt that reaches the retry limit.
\<close>

theorem arq_task_never_processes:
  "process_document_task execute zadd lib str_exc now clock eid max_retries job_try
      (TenantId_str tid) (DocumentId_str did) (IngestionJobId_str jid) s =
    (let e = TypeError (UnexpectedKeyword ''execute'' ''tenant_id'') in
     (Inl e, if job_try \<ge> max_retries
        then snd (write_to_dlq zadd lib clock (TenantId_str tid) (DocumentId_str did)
               (IngestionJobId_str jid) (str_exc e) s)
        else s))"
  by (rule arq_task_result)

end
