(* ===== verification/Vector_Search.thy ===== *)
theory Vector_Search
  imports Redis_Cache
begin

section \<open>Vector repository and semantic search\<close>

text \<open>
  \<open>src/app/infrastructure/vector_db/qdrant_adapter.py\<close>,
  \<open>src/app/application/use_cases/search_documents.py\<close> and the DTOs of
  \<open>src/app/application/dto/search.py\<close>. The Qdrant client is the parameter record \<open>qdrant\<close>;
  \<open>qd_match\<close> is the constructor of its \<open>MatchValue\<close> model, which may reject a value. What the
  adapter relies on is \<open>filter_law\<close>: a query returns at most \<open>limit\<close> stored points, and only
  points whose payload satisfies every condition of the filter.
\<close>

record scored_point =
  pt_id :: string
  pt_score :: real
  pt_payload :: "dict option"

type_synonym condition = "string \<times> pyval"

record 's qdrant =
  qd_match :: "pyval \<Rightarrow> pyval result"
  qd_upsert :: "string \<Rightarrow> (string \<times> real list \<times> dict) list \<Rightarrow> ('s, exn, unit) eff"
  qd_query_points :: "string \<Rightarrow> real list \<Rightarrow> int \<Rightarrow> condition list option \<Rightarrow> ('s, exn, scored_point list) eff"
  qd_delete_ids :: "string \<Rightarrow> string list \<Rightarrow> ('s, exn, bool) eff"
  qd_delete_filter :: "string \<Rightarrow> condition list \<Rightarrow> ('s, exn, unit) eff"
  qd_collection_exists :: "string \<Rightarrow> ('s, exn, bool) eff"
  qd_create_collection :: "string \<Rightarrow> int \<Rightarrow> ('s, exn, unit) eff"
  qd_create_payload_index :: "string \<Rightarrow> string \<Rightarrow> string \<Rightarrow> ('s, exn, unit) eff"

subsection \<open>QdrantVectorRepository\<close>

definition INDEXED_PAYLOAD_FIELDS :: "(string \<times> string) list" where
  "INDEXED_PAYLOAD_FIELDS =
     [(''tenant_id'', ''keyword''), (''collection_id'', ''keyword''), (''document_id'', ''keyword'')]"

definition upsert_many ::
  "'s qdrant \<Rightarrow> string \<Rightarrow> (chunk_id \<times> embedding_vector \<times> dict) list \<Rightarrow> ('s, exn, unit) eff" where
  "upsert_many qd coll entries =
     (if entries = [] then returnM ()
      else qd_upsert qd coll (map (\<lambda>(cid, e, meta). (ChunkId_str cid, ev_values e, meta)) entries))"

definition upsert ::
  "'s qdrant \<Rightarrow> string \<Rightarrow> chunk_id \<Rightarrow> embedding_vector \<Rightarrow> dict \<Rightarrow> ('s, exn, unit) eff" where
  "upsert qd coll cid e meta = upsert_many qd coll [(cid, e, meta)]"

definition field_condition :: "'s qdrant \<Rightarrow> string \<times> pyval \<Rightarrow> condition result" where
  "field_condition qd kv = bindE (qd_match qd (snd kv)) (\<lambda>v. Inr (fst kv, v))"

definition filter_conditions ::
  "'s qdrant \<Rightarrow> dict option \<Rightarrow> tenant_id option \<Rightarrow> condition list result" where
  "filter_conditions qd filters tenant =
     mapE (field_condition qd)
       ((case tenant of None \<Rightarrow> [] | Some tid \<Rightarrow> [(''tenant_id'', PStr (TenantId_str tid))]) @
        (case filters of None \<Rightarrow> [] | Some fs \<Rightarrow> filter (\<lambda>(k, v). k \<noteq> ''tenant_id'') fs))"

definition payload_str :: "pyval \<Rightarrow> string result" where
  "payload_str v = (case v of PStr s \<Rightarrow> Inr s | _ \<Rightarrow> Inl (AttributeError ''replace''))"

definition parse_point :: "pydantic \<Rightarrow> uuid \<Rightarrow> scored_point \<Rightarrow> search_result result" where
  "parse_point pyd fresh pt =
     (let payload = (case pt_payload pt of None \<Rightarrow> [] | Some p \<Rightarrow> p)
      in bindE (ChunkId_from_str (pt_id pt)) (\<lambda>cid.
         bindE (bindE (payload_str (dict_get payload ''document_id'' (PStr []))) DocumentId_from_str) (\<lambda>did.
         bindE (bindE (payload_str (dict_get payload ''collection_id'' (PStr (uuid_str fresh))))
                  CollectionId_from_str) (\<lambda>col.
           case (pyd_str pyd (dict_get payload ''content'' (PStr [])),
                 pyd_str pyd (dict_get payload ''document_title'' (PStr [])),
                 pyd_int pyd (dict_get payload ''chunk_index'' (PInt 0))) of
             (Some content, Some title, Some idx) \<Rightarrow>
               SearchResult cid did col content (pt_score pt)
                 (filter (\<lambda>(k, v). k \<notin> {''content'', ''document_title'', ''chunk_index''}) payload) title idx
           | _ \<Rightarrow> Inl (ValidationError ''SearchResult'' [])))))"

fun parse_points :: "pydantic \<Rightarrow> (nat \<Rightarrow> uuid) \<Rightarrow> nat \<Rightarrow> scored_point list \<Rightarrow> search_result list" where
  "parse_points pyd fresh i [] = []"
| "parse_points pyd fresh i (pt # pts) = (case parse_point pyd (fresh i) pt of
     Inr r \<Rightarrow> r # parse_points pyd fresh (Suc i) pts
   | Inl _ \<Rightarrow> parse_points pyd fresh (Suc i) pts)"

definition vector_search ::
  "'s qdrant \<Rightarrow> pydantic \<Rightarrow> (nat \<Rightarrow> uuid) \<Rightarrow> string \<Rightarrow> embedding_vector \<Rightarrow> int \<Rightarrow> dict option \<Rightarrow> tenant_id option
   \<Rightarrow> ('s, exn, search_result list) eff" where
  "vector_search qd pyd fresh coll e top_k filters tenant =
     bindM (liftM (filter_conditions qd filters tenant)) (\<lambda>conds.
     bindM (qd_query_points qd coll (ev_values e) top_k (if conds = [] then None else Some conds))
       (\<lambda>pts. returnM (parse_points pyd fresh 0 pts)))"

definition vector_delete :: "'s qdrant \<Rightarrow> string \<Rightarrow> chunk_id \<Rightarrow> ('s, exn, bool) eff" where
  "vector_delete qd coll cid = qd_delete_ids qd coll [ChunkId_str cid]"

definition vector_delete_by_document :: "'s qdrant \<Rightarrow> string \<Rightarrow> document_id \<Rightarrow> ('s, exn, int) eff" where
  "vector_delete_by_document qd coll did =
     bindM (liftM (mapE (field_condition qd) [(''document_id'', PStr (DocumentId_str did))])) (\<lambda>conds.
     thenM (qd_delete_filter qd coll conds) (returnM 0))"

fun create_indexes :: "'s qdrant \<Rightarrow> string \<Rightarrow> (string \<times> string) list \<Rightarrow> ('s, exn, unit) eff" where
  "create_indexes qd coll [] = returnM ()"
| "create_indexes qd coll ((field_name, schema) # rest) =
     thenM (qd_create_payload_index qd coll field_name schema) (create_indexes qd coll rest)"

definition ensure_collection :: "'s qdrant \<Rightarrow> string \<Rightarrow> int \<Rightarrow> ('s, exn, unit) eff" where
  "ensure_collection qd coll vector_size =
     bindM (qd_collection_exists qd coll) (\<lambda>exists.
       if \<not> exists
       then thenM (qd_create_collection qd coll vector_size) (create_indexes qd coll INDEXED_PAYLOAD_FIELDS)
       else returnM ())"

definition build_filter :: "'s qdrant \<Rightarrow> dict \<Rightarrow> condition list result" where
  "build_filter qd filters = mapE (field_condition qd) filters"

subsection \<open>SearchDocumentsUseCase\<close>

record search_request =
  sq_query :: string
  sq_collection_id :: "string option"
  sq_top_k :: int
  sq_filters :: "dict option"

definition SearchRequest :: "search_request \<Rightarrow> search_request result" where
  "SearchRequest r =
     (let bad = (if sq_query r = [] then [''query''] else []) @
                (if sq_top_k r < 1 \<or> sq_top_k r > 100 then [''top_k''] else [])
      in if bad \<noteq> [] then Inl (ValidationError ''SearchRequest'' bad) else Inr r)"

record search_result_dto =
  dto_chunk_id :: string
  dto_document_id :: string
  dto_content :: string
  dto_score :: real
  dto_metadata :: dict
  dto_document_title :: string
  dto_chunk_index :: int

record search_response =
  sp_results :: "search_result_dto list"
  sp_total :: int
  sp_query_tokens :: int

record 's search_deps =
  sd_count :: "string \<Rightarrow> string \<Rightarrow> ('s, exn, int) eff"
  sd_embed :: "string \<Rightarrow> ('s, exn, embedding_vector option) eff"
  sd_search :: "embedding_vector \<Rightarrow> int \<Rightarrow> dict option \<Rightarrow> tenant_id option \<Rightarrow> ('s, exn, search_result list) eff"

definition result_dto :: "search_result \<Rightarrow> search_result_dto" where
  "result_dto r = \<lparr>dto_chunk_id = ChunkId_str (sr_chunk_id r), dto_document_id = DocumentId_str (sr_document_id r),
     dto_content = sr_content r, dto_score = sr_score r, dto_metadata = sr_metadata r,
     dto_document_title = sr_document_title r, dto_chunk_index = sr_chunk_index r\<rparr>"

text \<open>\<open>dict(request.filters) if request.filters else None\<close>, then the collection entry.\<close>

definition request_filters :: "search_request \<Rightarrow> dict option" where
  "request_filters r =
     (let filters = (case sq_filters r of Some (kv # kvs) \<Rightarrow> Some (kv # kvs) | _ \<Rightarrow> None)
      in case sq_collection_id r of
           Some (c # cs) \<Rightarrow> Some (dict_set (case filters of None \<Rightarrow> [] | Some f \<Rightarrow> f) ''collection_id'' (PStr (c # cs)))
         | _ \<Rightarrow> filters)"

definition search_execute :: "'s search_deps \<Rightarrow> search_request \<Rightarrow> ('s, exn, search_response) eff" where
  "search_execute deps request =
     bindM (sd_count deps (sq_query request) ''gpt-4o'') (\<lambda>query_tokens.
     bindM (sd_embed deps (sq_query request)) (\<lambda>e. case e of
         None \<Rightarrow> raiseM (AttributeError ''values'')
       | Some query_embedding \<Rightarrow>
           bindM (sd_search deps query_embedding (sq_top_k request) (request_filters request) None) (\<lambda>results.
           returnM \<lparr>sp_results = map result_dto results, sp_total = int (length results),
                     sp_query_tokens = query_tokens\<rparr>)))"

subsection \<open>What the adapter relies on\<close>

definition matches_all :: "dict \<Rightarrow> condition list option \<Rightarrow> bool" where
  "matches_all payload flt = (case flt of
     None \<Rightarrow> True | Some conds \<Rightarrow> list_all (\<lambda>(k, v). map_of payload k = Some v) conds)"

text \<open>
  The answer to a query: at most \<open>k\<close> points, each a stored one whose payload meets every condition. A condition is
  met by the equal value; Qdrant also matches a value against the elements of an array, which no payload that the
  program stores or filters on has (ids, texts and numbers).
\<close>

definition filter_law :: "'s qdrant \<Rightarrow> ('s \<Rightarrow> (string \<times> real list \<times> dict) list) \<Rightarrow> bool" where
  "filter_law qd points \<longleftrightarrow> (\<forall>coll v k flt s pts s'. qd_query_points qd coll v k flt s = (Inr pts, s') \<longrightarrow>
     int (length pts) \<le> max 0 k \<and> (\<forall>pt \<in> set pts. \<exists>(i, vec, payload) \<in> set (points s).
        pt_id pt = i \<and> pt_payload pt = Some payload \<and> matches_all payload flt))"

definition match_keeps :: "'s qdrant \<Rightarrow> bool" where
  "match_keeps qd \<longleftrightarrow> (\<forall>v w. qd_match qd v = Inr w \<longrightarrow> w = v)"

subsection \<open>Filters and results\<close>

lemma filter_conditions_tenant:
  assumes "match_keeps qd" "filter_conditions qd filters (Some tid) = Inr conds"
  shows "\<exists>rest. conds = (''tenant_id'', PStr (TenantId_str tid)) # rest"
  using assms by (auto simp: filter_conditions_def field_condition_def match_keeps_def)

lemma parse_points_origin:
  "r \<in> set (parse_points pyd fresh i pts) \<Longrightarrow> \<exists>pt \<in> set pts. \<exists>j. parse_point pyd (fresh j) pt = Inr r"
  by (induction pyd fresh i pts rule: parse_points.induct) (auto split: sum.splits)

lemma length_parse_points: "length (parse_points pyd fresh i pts) \<le> length pts"
  by (induction pyd fresh i pts rule: parse_points.induct) (auto split: sum.splits)

lemma parse_point_fields:
  assumes "parse_point pyd fresh pt = Inr r" "pt_payload pt = Some payload"
  shows "sr_score r = pt_score pt \<and> 0 \<le> sr_score r \<and> sr_score r \<le> 1 \<and>
    ChunkId_from_str (pt_id pt) = Inr (sr_chunk_id r) \<and>
    sr_metadata r = filter (\<lambda>(k, v). k \<notin> {''content'', ''document_title'', ''chunk_index''}) payload"
  using assms
  by (cases "pyd_str pyd (dict_get payload ''content'' (PStr []))";
      cases "pyd_str pyd (dict_get payload ''document_title'' (PStr []))";
      cases "pyd_int pyd (dict_get payload ''chunk_index'' (PInt 0))")
    (auto simp: parse_point_def Let_def SearchResult_def split: if_splits)

lemma map_of_filter_key: "Q k \<Longrightarrow> map_of (filter (\<lambda>(k, v). Q k) d) k = map_of d k"
  by (induction d) auto

lemma effective_filters:
  "(case request_filters r of None \<Rightarrow> [] | Some fs \<Rightarrow> filter P fs) =
     filter P (case sq_collection_id r of
         Some (c # cs) \<Rightarrow> dict_set (case sq_filters r of None \<Rightarrow> [] | Some f \<Rightarrow> f) ''collection_id'' (PStr (c # cs))
       | _ \<Rightarrow> (case sq_filters r of None \<Rightarrow> [] | Some f \<Rightarrow> f))"
  by (auto simp: request_filters_def Let_def split: option.split list.split)

lemma tenant_search_origin:
  assumes laws: "filter_law qd points" "match_keeps qd"
    and run: "vector_search qd pyd fresh coll e top_k filters (Some tid) s = (Inr results, s')"
  shows "int (length results) \<le> max 0 top_k \<and>
    (\<forall>r \<in> set results. 0 \<le> sr_score r \<and> sr_score r \<le> 1 \<and>
       map_of (sr_metadata r) ''tenant_id'' = Some (PStr (TenantId_str tid)) \<and>
       (\<exists>(i, vec, payload) \<in> set (points s). ChunkId_from_str i = Inr (sr_chunk_id r) \<and>
          map_of payload ''tenant_id'' = Some (PStr (TenantId_str tid))))"
proof -
  obtain conds pts where c: "filter_conditions qd filters (Some tid) = Inr conds"
    and q: "qd_query_points qd coll (ev_values e) top_k (if conds = [] then None else Some conds) s = (Inr pts, s')"
    and results: "results = parse_points pyd fresh 0 pts"
    using run by (auto simp: vector_search_def bindM_Inr_iff liftM_def returnM_def)
  obtain rest where conds: "conds = (''tenant_id'', PStr (TenantId_str tid)) # rest"
    using filter_conditions_tenant [OF laws(2) c] by blast
  have len: "int (length pts) \<le> max 0 top_k" and pts: "\<forall>pt \<in> set pts. \<exists>(i, vec, payload) \<in> set (points s).
      pt_id pt = i \<and> pt_payload pt = Some payload \<and> matches_all payload (Some conds)"
    using laws(1) q conds unfolding filter_law_def by simp_all blast+
  have "0 \<le> sr_score r \<and> sr_score r \<le> 1 \<and>
       map_of (sr_metadata r) ''tenant_id'' = Some (PStr (TenantId_str tid)) \<and>
       (\<exists>(i, vec, payload) \<in> set (points s). ChunkId_from_str i = Inr (sr_chunk_id r) \<and>
          map_of payload ''tenant_id'' = Some (PStr (TenantId_str tid)))" if r: "r \<in> set results" for r
  proof -
    obtain pt j where pt: "pt \<in> set pts" "parse_point pyd (fresh j) pt = Inr r"
      using parse_points_origin r results by blast
    obtain i vec payload where p: "(i, vec, payload) \<in> set (points s)" "pt_id pt = i"
      "pt_payload pt = Some payload" "matches_all payload (Some conds)"
      using pts pt(1) by blast
    have t: "map_of payload ''tenant_id'' = Some (PStr (TenantId_str tid))"
      using p(4) conds by (simp add: matches_all_def)
    note f = parse_point_fields [OF pt(2) p(3)]
    have "map_of (sr_metadata r) ''tenant_id'' = map_of payload ''tenant_id''"
      using f map_of_filter_key [of "\<lambda>k. k \<notin> {''content'', ''document_title'', ''chunk_index''}"
          "''tenant_id''" payload] by simp
    with t f p(1,2) show ?thesis by auto
  qed
  with len length_parse_points [of pyd fresh 0 pts] results show ?thesis by auto
qed

subsection \<open>Properties\<close>

text \<open>
  C7. Tenant isolation of the vector search: when a tenant is given, every result comes from
  a stored point whose payload names that tenant, whatever filters the caller adds (even one
  on \<open>tenant_id\<close>), scores lie between 0 and 1, and there are at most \<open>top_k\<close> results.
\<close>

theorem tenant_search_isolated:
  assumes laws: "filter_law qd points" "match_keeps qd"
    and run: "vector_search qd pyd fresh coll e top_k filters (Some tid) s = (Inr results, s')"
  shows "int (length results) \<le> max 0 top_k \<and>
    (\<forall>r \<in> set results. 0 \<le> sr_score r \<and> sr_score r \<le> 1 \<and>
       map_of (sr_metadata r) ''tenant_id'' = Some (PStr (TenantId_str tid)) \<and>
       (\<exists>(i, vec, payload) \<in> set (points s). ChunkId_from_str i = Inr (sr_chunk_id r) \<and>
          map_of payload ''tenant_id'' = Some (PStr (TenantId_str tid))))"
  using tenant_search_origin [OF assms] .

text \<open>
  The search use case does not scope its queries to a tenant: it asks the vector
  repository for no tenant at all, and an entry on \<open>tenant_id\<close> among the caller's filters is
  dropped, so that the search runs exactly as if the caller had not asked for it.
\<close>

theorem search_ignores_tenant:
  assumes "sd_search deps = vector_search qd pyd fresh coll"
    and "sq_filters r2 = map_option (filter (\<lambda>(k, v). k \<noteq> ''tenant_id'')) (sq_filters r1)"
    and "sq_query r2 = sq_query r1" "sq_collection_id r2 = sq_collection_id r1" "sq_top_k r2 = sq_top_k r1"
  shows "search_execute deps r1 = search_execute deps r2"
proof -
  have upd: "filter (\<lambda>(k, v). k \<noteq> ''tenant_id'') (AList.update ''collection_id'' v d) =
      AList.update ''collection_id'' v (filter (\<lambda>(k, v). k \<noteq> ''tenant_id'') d)" for v and d :: dict
    by (induction d) auto
  have fl: "(case sq_filters r2 of None \<Rightarrow> [] | Some f \<Rightarrow> f) =
      filter (\<lambda>(k, v). k \<noteq> ''tenant_id'') (case sq_filters r1 of None \<Rightarrow> [] | Some f \<Rightarrow> f)"
    using assms(2) by (cases "sq_filters r1") simp_all
  have "filter_conditions qd (request_filters r1) None = filter_conditions qd (request_filters r2) None"
    unfolding filter_conditions_def effective_filters fl assms(4)
    by (simp add: dict_set_def upd split: option.split list.split)
  then have "sd_search deps e k (request_filters r1) None = sd_search deps e k (request_filters r2) None" for e k
    by (simp add: assms(1) vector_search_def)
  then show ?thesis using assms(3-5) by (simp add: search_execute_def cong: option.case_cong)
qed

text \<open>A store that ignores the query vector.\<close>

definition demo_qdrant :: "(string \<times> real list \<times> dict) list qdrant" where
  "demo_qdrant = \<lparr>qd_match = Inr, qd_upsert = (\<lambda>coll pts s. (Inr (), pts @ s)),
     qd_query_points = (\<lambda>coll v k flt s. (Inr (take (nat k) (map (\<lambda>(i, v, p). \<lparr>pt_id = i, pt_score = 1, pt_payload = Some p\<rparr>)
        (filter (\<lambda>(i, v, p). matches_all p flt) s))), s)),
     qd_delete_ids = (\<lambda>coll is s. (Inr True, filter (\<lambda>(i, _). i \<notin> set is) s)),
     qd_delete_filter = (\<lambda>coll cs s. (Inr (), filter (\<lambda>(i, v, p). \<not> matches_all p (Some cs)) s)),
     qd_collection_exists = (\<lambda>coll s. (Inr True, s)), qd_create_collection = (\<lambda>coll n s. (Inr (), s)),
     qd_create_payload_index = (\<lambda>coll f sc s. (Inr (), s))\<rparr>"

lemma demo_qdrant_laws: "filter_law demo_qdrant (\<lambda>s. s)" "match_keeps demo_qdrant"
  by (force simp: filter_law_def demo_qdrant_def dest!: in_set_takeD)
    (simp add: match_keeps_def demo_qdrant_def)

definition demo_payload :: "string \<Rightarrow> dict" where
  "demo_payload t = [(''tenant_id'', PStr t), (''document_id'', PStr (uuid_str 7)),
     (''collection_id'', PStr (uuid_str 2)), (''content'', PStr ''text''), (''chunk_index'', PInt 0),
     (''document_title'', PStr ''Guide'')]"

definition demo_points :: "(string \<times> real list \<times> dict) list" where
  "demo_points = [(uuid_str 1, [1], demo_payload (uuid_str 5)), (uuid_str 3, [1], demo_payload (uuid_str 6))]"

definition demo_query :: embedding_vector where
  "demo_query = \<lparr>ev_values = [1], ev_model = ''m'', ev_dimensions = 1\<rparr>"

lemma demo_search:
  "vector_search demo_qdrant demo_pydantic of_nat ''documents'' demo_query 10
     (Some [(''tenant_id'', PStr (uuid_str 6))]) (Some (TenantId 5)) demo_points =
   (Inr [\<lparr>sr_chunk_id = ChunkId 1, sr_document_id = DocumentId 7, sr_collection_id = CollectionId 2,
     sr_content = ''text'', sr_score = 1,
     sr_metadata = [(''tenant_id'', PStr (uuid_str 5)), (''document_id'', PStr (uuid_str 7)),
       (''collection_id'', PStr (uuid_str 2))],
     sr_document_title = ''Guide'', sr_chunk_index = 0\<rparr>], demo_points)"
  by (simp add: vector_search_def filter_conditions_def field_condition_def demo_qdrant_def bindM_def liftM_def
      returnM_def demo_points_def demo_payload_def matches_all_def parse_point_def dict_get_def payload_str_def
      ChunkId_from_str_def DocumentId_from_str_def CollectionId_from_str_def demo_pydantic_def SearchResult_def
      uuid_str_inj)

theorem tenant_search_isolated_witness:
  "vector_search demo_qdrant demo_pydantic of_nat ''documents'' demo_query 10
     (Some [(''tenant_id'', PStr (uuid_str 6))]) (Some (TenantId 5)) demo_points =
   (Inr [\<lparr>sr_chunk_id = ChunkId 1, sr_document_id = DocumentId 7, sr_collection_id = CollectionId 2,
     sr_content = ''text'', sr_score = 1,
     sr_metadata = [(''tenant_id'', PStr (uuid_str 5)), (''document_id'', PStr (uuid_str 7)),
       (''collection_id'', PStr (uuid_str 2))],
     sr_document_title = ''Guide'', sr_chunk_index = 0\<rparr>], demo_points) \<and>
   (\<exists>(i, vec, payload) \<in> set demo_points. ChunkId_from_str i = Inr (ChunkId 1) \<and>
      map_of payload ''tenant_id'' = Some (PStr (TenantId_str (TenantId 5))))"
  using demo_search tenant_search_isolated [OF demo_qdrant_laws demo_search] by simp

definition demo_search_deps :: "(string \<times> real list \<times> dict) list search_deps" where
  "demo_search_deps = \<lparr>sd_count = (\<lambda>t m s. (Inr 3, s)), sd_embed = (\<lambda>t s. (Inr (Some demo_query), s)),
     sd_search = vector_search demo_qdrant demo_pydantic of_nat ''documents''\<rparr>"

theorem search_ignores_tenant_witness:
  "search_execute demo_search_deps \<lparr>sq_query = ''q'', sq_collection_id = None, sq_top_k = 5,
      sq_filters = Some [(''tenant_id'', PStr (uuid_str 6)), (''lang'', PStr ''en'')]\<rparr> =
   search_execute demo_search_deps \<lparr>sq_query = ''q'', sq_collection_id = None, sq_top_k = 5,
      sq_filters = Some [(''lang'', PStr ''en'')]\<rparr>"
  by (rule search_ignores_tenant) (simp_all add: demo_search_deps_def)

end
