(* ===== verification/Chat_Service.thy ===== *)
theory Chat_Service
  imports Embedding_Service
begin

section \<open>The OpenAI chat service\<close>

text \<open>
  \<open>src/app/infrastructure/llm/openai_chat.py\<close>. The completions endpoint is a parameter: \<open>create\<close>
  for a complete answer, \<open>create_stream\<close> for a stream, which delivers its items and then ends
  normally or with an exception. A choice is the optional content of its message or delta.
\<close>

record completion =
  cp_choices :: "string option list"
  cp_usage :: "(int \<times> int \<times> int) option"

definition to_openai_messages :: "chat_message list \<Rightarrow> (string \<times> string) list" where
  "to_openai_messages messages = map (\<lambda>m. (role_value (m_role m), m_content m)) messages"

definition chat_error :: "float_lib \<Rightarrow> int \<Rightarrow> exn \<Rightarrow> exn" where
  "chat_error fl max_tokens e =
     (if isinstance e RateLimitErrorC
      then raise_rate_limit (show_float fl) (extract_retry_after (py_float fl) e)
      else if isinstance e APIConnectionErrorC then Domain (LLMConnectionException (openai_str e))
      else if isinstance e BadRequestErrorC
      then if py_contains ''maximum context length'' (py_lower (openai_str e)) \<or>
              py_contains ''max_tokens'' (py_lower (openai_str e))
           then Domain (TokenLimitExceededException 0 max_tokens)
           else Domain (LLMException (''OpenAI chat failed: '' @ openai_str e) ''LLM_ERROR'')
      else if isinstance e OpenAIErrorC
      then Domain (LLMException (''OpenAI chat failed: '' @ openai_str e) ''LLM_ERROR'')
      else e)"

definition completion_usage :: "(int \<times> int \<times> int) option \<Rightarrow> token_usage" where
  "completion_usage usage = (case usage of
       Some (p, c, t) \<Rightarrow> \<lparr>tu_prompt_tokens = p, tu_completion_tokens = c, tu_total_tokens = t, tu_estimated_cost = 0\<rparr>
     | None \<Rightarrow> \<lparr>tu_prompt_tokens = 0, tu_completion_tokens = 0, tu_total_tokens = 0, tu_estimated_cost = 0\<rparr>)"

definition complete ::
  "(string \<Rightarrow> (string \<times> string) list \<Rightarrow> ('s, exn, completion) eff) \<Rightarrow> float_lib \<Rightarrow> string \<Rightarrow> int
   \<Rightarrow> chat_message list \<Rightarrow> ('s, exn, chat_response) eff" where
  "complete create fl model max_tokens messages =
     bindM (catchM (create model (to_openai_messages messages)) (\<lambda>e. raiseM (chat_error fl max_tokens e)))
       (\<lambda>response. case cp_choices response of
          [] \<Rightarrow> raiseM IndexError
        | choice # _ \<Rightarrow> returnM
            \<lparr>cr_message = ChatMessage ASSISTANT (case choice of None \<Rightarrow> [] | Some c \<Rightarrow> c), cr_sources = [],
             cr_token_usage = Some (completion_usage (cp_usage response))\<rparr>)"

subsection \<open>Streaming\<close>

definition stream_open_error :: "float_lib \<Rightarrow> exn \<Rightarrow> exn" where
  "stream_open_error fl e =
     (if isinstance e RateLimitErrorC
      then raise_rate_limit (show_float fl) (extract_retry_after (py_float fl) e)
      else if isinstance e APIConnectionErrorC then Domain (LLMConnectionException (openai_str e))
      else if isinstance e OpenAIErrorC
      then Domain (LLMException (''OpenAI stream failed: '' @ openai_str e) ''LLM_ERROR'')
      else e)"

definition stream_break_error :: "exn \<Rightarrow> exn" where
  "stream_break_error e =
     (if isinstance e OpenAIErrorC
      then Domain (LLMException (''OpenAI stream interrupted: '' @ openai_str e) ''LLM_ERROR'') else e)"

text \<open>An item without choices or without content yields nothing.\<close>

fun stream_deltas :: "string option list list \<Rightarrow> string list" where
  "stream_deltas [] = []"
| "stream_deltas ([] # items) = stream_deltas items"
| "stream_deltas ((choice # _) # items) =
     (case choice of
        Some (c # cs) \<Rightarrow> (c # cs) # stream_deltas items
      | _ \<Rightarrow> stream_deltas items)"

definition chat_stream ::
  "(string \<Rightarrow> (string \<times> string) list \<Rightarrow> ('s, exn, string option list list \<times> exn option) eff) \<Rightarrow> float_lib
   \<Rightarrow> string \<Rightarrow> chat_message list \<Rightarrow> ('s, exn, string list \<times> exn option) eff" where
  "chat_stream create_stream fl model messages =
     bindM (catchM (create_stream model (to_openai_messages messages)) (\<lambda>e. raiseM (stream_open_error fl e)))
       (\<lambda>(items, broken). returnM (stream_deltas items, map_option stream_break_error broken))"

subsection \<open>What the service delivers\<close>

lemma stream_deltas_nonempty: "[] \<notin> set (stream_deltas items)"
  by (induction items rule: stream_deltas.induct) (auto split: option.splits list.splits)

lemma stream_deltas_concat:
  "concat (stream_deltas items) = concat (map (\<lambda>item. case item of Some c # _ \<Rightarrow> c | _ \<Rightarrow> []) items)"
  by (induction items rule: stream_deltas.induct) (auto split: option.splits list.splits)

subsection \<open>Property\<close>

text \<open>
  Errors of a completion: a connection error becomes an \<open>LLMConnectionException\<close>, a rejected
  request that mentions the context length or \<open>max_tokens\<close> (in any case) a
  \<open>TokenLimitExceededException\<close>, other OpenAI errors an \<open>LLMException\<close>; a rate limit surfaces as
  a \<open>TypeError\<close> because the exception is built with an unknown keyword, and an answer
  without choices as an \<open>IndexError\<close>.
\<close>

theorem completion_errors:
  assumes "create model (to_openai_messages ms) s = (r, s')"
    and "r \<in> {Inl (RateLimitError m h), Inl (APIConnectionError m), Inl (BadRequestError m), Inl (OpenAIError m),
           Inr \<lparr>cp_choices = [], cp_usage = u\<rparr>}"
  shows "complete create fl model max_tokens ms s = (Inl (
      if r = Inl (RateLimitError m h) then TypeError (UnexpectedKeyword ''LLMRateLimitException'' ''provider'')
      else if r = Inl (APIConnectionError m) then Domain (LLMConnectionException m)
      else if r = Inr \<lparr>cp_choices = [], cp_usage = u\<rparr> then IndexError
      else if r = Inl (BadRequestError m) \<and>
          (py_contains ''maximum context length'' (py_lower m) \<or> py_contains ''max_tokens'' (py_lower m))
      then Domain (TokenLimitExceededException 0 max_tokens)
      else Domain (LLMException (''OpenAI chat failed: '' @ m) ''LLM_ERROR'')), s')"
proof -
  note ev = complete_def bindM_def catchM_def raiseM_def chat_error_def isinstance_def is_subclass_def
    mro_def numeral_3_eq_3 raise_rate_limit_def py_bind_call_def
  from assms(2) consider "r = Inl (RateLimitError m h)" | "r = Inl (APIConnectionError m)"
    | "r = Inl (BadRequestError m)" | "r = Inl (OpenAIError m)" | "r = Inr \<lparr>cp_choices = [], cp_usage = u\<rparr>"
    by blast
  then show ?thesis
  proof cases
    case 3
    with assms(1) show ?thesis
      by (cases "py_contains ''maximum context length'' (py_lower m) \<or> py_contains ''max_tokens'' (py_lower m)")
        (simp_all add: ev)
  qed (use assms(1) in \<open>simp_all add: ev\<close>)
qed

theorem completion_errors_witness:
  "complete (\<lambda>_ _ s. (Inl (BadRequestError ''Maximum Context Length is 8192''), s)) demo_floats ''gpt-4o'' 4096
     [ChatMessage USER ''hi''] () = (Inl (Domain (TokenLimitExceededException 0 4096)), ())"
proof -
  let ?m = "''Maximum Context Length is 8192''"
  have "py_contains ''maximum context length'' (py_lower ?m)" by code_simp
  then show ?thesis
    using completion_errors [of "\<lambda>_ _ s. (Inl (BadRequestError ?m), s)" "''gpt-4o''"
        "[ChatMessage USER ''hi'']" "()" "Inl (BadRequestError ?m)" "()" ?m None None demo_floats 4096]
    by simp
qed

end
