(* ===== verification/RAG_Chat.thy ===== *)
theory RAG_Chat
  imports Context_Prompt Vector_Search
begin

section \<open>Retrieval-augmented chat\<close>

text \<open>
  \<open>src/app/application/use_cases/rag_chat.py\<close> and the DTOs of \<open>src/app/application/dto/chat.py\<close>. The
  collaborators are the operations of \<open>rag_deps\<close>. The asynchronous generator \<open>stream\<close> is a
  function of the number of times its consumer asks for the next chunk: the code after a
  \<open>yield\<close> runs only when the consumer asks again, so a consumer that stops early cuts it off.
  The model's stream is delivered as its list of deltas and an optional exception at the end.
\<close>

record chat_request =
  cq_message :: string
  cq_conversation_id :: "string option"
  cq_user_id :: "string option"
  cq_top_k :: int

definition ChatRequest :: "chat_request \<Rightarrow> chat_request result" where
  "ChatRequest r =
     (let bad = (if cq_message r = [] then [''message''] else []) @
                (if cq_top_k r < 1 \<or> cq_top_k r > 20 then [''top_k''] else [])
      in if bad \<noteq> [] then Inl (ValidationError ''ChatRequest'' bad) else Inr r)"

record source_dto =
  src_index :: int
  src_chunk_id :: string
  src_document_id :: string
  src_document_title :: string
  src_content :: string
  src_score :: real

record chat_response_dto =
  cd_message :: string
  cd_sources :: "source_dto list"
  cd_prompt_tokens :: int
  cd_completion_tokens :: int
  cd_total_tokens :: int

record stream_chunk =
  sc_content :: string
  sc_done :: bool
  sc_sources :: "source_dto list option"
  sc_prompt_tokens :: "int option"
  sc_completion_tokens :: "int option"
  sc_total_tokens :: "int option"

record 's rag_deps =
  rg_search :: "search_request \<Rightarrow> ('s, exn, search_response) eff"
  rg_complete :: "chat_message list \<Rightarrow> ('s, exn, chat_response) eff"
  rg_stream :: "chat_message list \<Rightarrow> ('s, exn, string list \<times> exn option) eff"
  rg_get_history :: "user_id \<Rightarrow> int \<Rightarrow> ('s, exn, chat_message list) eff"
  rg_save_message :: "user_id \<Rightarrow> chat_message \<Rightarrow> ('s, exn, unit) eff"
  rg_count :: "string \<Rightarrow> string \<Rightarrow> ('s, exn, int) eff"
  rg_max_context_tokens :: int
  rg_score_threshold :: real

subsection \<open>Sources\<close>

definition build_sources :: "search_result list \<Rightarrow> source_dto list" where
  "build_sources results = map (\<lambda>(i, r).
     \<lparr>src_index = int i + 1, src_chunk_id = ChunkId_str (sr_chunk_id r),
      src_document_id = DocumentId_str (sr_document_id r), src_document_title = sr_document_title r,
      src_content = py_slice (sr_content r) 0 200, src_score = sr_score r\<rparr>) (enumerate 0 results)"

subsection \<open>Search, context, history and prompt\<close>

text \<open>DTOs are mapped back to domain results; the collection id is a fresh one (\<open>CollectionId()\<close>).\<close>

definition dto_to_domain :: "uuid \<Rightarrow> search_result_dto \<Rightarrow> search_result result" where
  "dto_to_domain fresh r =
     bindE (ChunkId_from_str (dto_chunk_id r)) (\<lambda>cid.
     bindE (DocumentId_from_str (dto_document_id r)) (\<lambda>did.
     SearchResult cid did (CollectionId fresh) (dto_content r) (dto_score r) (dto_metadata r)
       (dto_document_title r) (dto_chunk_index r)))"

definition rag_history :: "'s rag_deps \<Rightarrow> chat_request \<Rightarrow> ('s, exn, chat_message list) eff" where
  "rag_history deps request =
     (case cq_user_id request of
        Some (c # cs) \<Rightarrow> bindM (liftM (UserId_from_str (c # cs))) (\<lambda>uid. rg_get_history deps uid 5)
      | _ \<Rightarrow> returnM [])"

definition rag_prepare ::
  "'s rag_deps \<Rightarrow> uuid \<Rightarrow> chat_request \<Rightarrow> ('s, exn, chat_message list \<times> search_result list) eff" where
  "rag_prepare deps fresh request =
     bindM (liftM (SearchRequest \<lparr>sq_query = cq_message request, sq_collection_id = cq_conversation_id request,
        sq_top_k = cq_top_k request, sq_filters = None\<rparr>)) (\<lambda>search_request.
     bindM (rg_search deps search_request) (\<lambda>search_response.
     bindM (liftM (mapE (dto_to_domain fresh) (sp_results search_response))) (\<lambda>domain_results.
     bindM (build_context (rg_count deps) (rg_max_context_tokens deps) (rg_score_threshold deps)
              domain_results ''gpt-4o'') (\<lambda>(ctx, used_results).
     bindM (rag_history deps request) (\<lambda>history.
     returnM (build_rag_prompt (cq_message request) ctx (Some history), used_results))))))"

definition save_exchange ::
  "'s rag_deps \<Rightarrow> chat_request \<Rightarrow> chat_message \<Rightarrow> ('s, exn, unit) eff" where
  "save_exchange deps request answer =
     (case cq_user_id request of
        Some (c # cs) \<Rightarrow>
          bindM (liftM (UserId_from_str (c # cs))) (\<lambda>uid.
          thenM (rg_save_message deps uid (ChatMessage USER (cq_message request)))
            (rg_save_message deps uid answer))
      | _ \<Rightarrow> returnM ())"

subsection \<open>Complete answers\<close>

definition rag_execute ::
  "'s rag_deps \<Rightarrow> uuid \<Rightarrow> chat_request \<Rightarrow> ('s, exn, chat_response_dto) eff" where
  "rag_execute deps fresh request =
     bindM (rag_prepare deps fresh request) (\<lambda>(messages, used_results).
     bindM (rg_complete deps messages) (\<lambda>reply.
     thenM (save_exchange deps request (cr_message reply))
     (returnM (let usage = cr_token_usage reply; get = (\<lambda>f. case usage of None \<Rightarrow> 0 | Some u \<Rightarrow> f u)
       in \<lparr>cd_message = m_content (cr_message reply), cd_sources = build_sources used_results,
           cd_prompt_tokens = get tu_prompt_tokens, cd_completion_tokens = get tu_completion_tokens,
           cd_total_tokens = get tu_total_tokens\<rparr>))))"

subsection \<open>Streamed answers\<close>

definition delta_chunk :: "string \<Rightarrow> stream_chunk" where
  "delta_chunk delta = \<lparr>sc_content = delta, sc_done = False, sc_sources = None, sc_prompt_tokens = None,
     sc_completion_tokens = None, sc_total_tokens = None\<rparr>"

definition final_chunk ::
  "'s rag_deps \<Rightarrow> chat_message list \<Rightarrow> search_result list \<Rightarrow> string \<Rightarrow> ('s, exn, stream_chunk) eff" where
  "final_chunk deps messages used full_content =
     bindM (rg_count deps (py_join '' '' (map m_content messages)) ''gpt-4o'') (\<lambda>prompt_tokens.
     bindM (rg_count deps full_content ''gpt-4o'') (\<lambda>completion_tokens.
     returnM \<lparr>sc_content = [], sc_done = True, sc_sources = Some (build_sources used),
       sc_prompt_tokens = Some prompt_tokens, sc_completion_tokens = Some completion_tokens,
       sc_total_tokens = Some (prompt_tokens + completion_tokens)\<rparr>))"

text \<open>
  The chunks seen by a consumer that asks \<open>pulls\<close> times, and the exception it meets, if any. The code asks the
  provider for each delta when the consumer asks; here \<open>rg_stream\<close> gives all deltas at once, up to the exception
  that breaks the stream. After a disconnect the two differ in the provider's part of the state alone: of what
  the program itself keeps, nothing is read or written between the first delta and the last.
\<close>

definition rag_stream ::
  "'s rag_deps \<Rightarrow> uuid \<Rightarrow> chat_request \<Rightarrow> nat \<Rightarrow> 's \<Rightarrow> (stream_chunk list \<times> exn option) \<times> 's" where
  "rag_stream deps fresh request pulls s =
     (if pulls = 0 then (([], None), s)
      else case bindM (rag_prepare deps fresh request) (\<lambda>(messages, used).
                  bindM (rg_stream deps messages) (\<lambda>(deltas, broken). returnM (messages, used, deltas, broken))) s of
          (Inl e, s1) \<Rightarrow> (([], Some e), s1)
        | (Inr (messages, used, deltas, broken), s1) \<Rightarrow>
            let out = map delta_chunk (take pulls deltas)
            in if pulls \<le> length deltas then ((out, None), s1)
               else case broken of
                   Some e \<Rightarrow> ((out, Some e), s1)
                 | None \<Rightarrow> (case final_chunk deps messages used (concat deltas) s1 of
                       (Inl e, s2) \<Rightarrow> ((out, Some e), s2)
                     | (Inr fin, s2) \<Rightarrow>
                         if pulls = Suc (length deltas) then ((out @ [fin], None), s2)
                         else (case save_exchange deps request (ChatMessage ASSISTANT (concat deltas)) s2 of
                             (Inl e, s3) \<Rightarrow> ((out @ [fin], Some e), s3)
                           | (Inr _, s3) \<Rightarrow> ((out @ [fin], None), s3))))"

subsection \<open>Results through the DTOs\<close>

lemma dto_to_domain_result:
  assumes "0 \<le> sr_score r" "sr_score r \<le> 1"
  shows "dto_to_domain fresh (result_dto r) = Inr (r\<lparr>sr_collection_id := CollectionId fresh\<rparr>)"
  using assms by (cases r; cases "sr_chunk_id r"; cases "sr_document_id r")
    (simp add: dto_to_domain_def result_dto_def ChunkId_from_str_def DocumentId_from_str_def SearchResult_def)

lemma context_loop_prefix:
  "context_loop cnt budget model i cur rs s = (Inr (blocks, used), s') \<Longrightarrow>
     blocks = blocks_from i used \<and> prefix used rs"
proof (induction rs arbitrary: i cur s blocks used)
  case Nil
  then show ?case by (simp add: returnM_def)
next
  case (Cons r rs)
  then show ?case
    by (fastforce simp: bindM_Inr_iff returnM_def blocks_from_Cons Let_def split: if_splits prod.splits)
qed

lemma build_context_prefix:
  assumes "build_context cnt budget threshold results model s = (Inr (ctx, used), s')"
  shows "ctx = py_join [newline, newline] (blocks_from 0 used) \<and>
    prefix used (filter (\<lambda>r. sr_score r \<ge> threshold) results)"
  using assms
  by (auto simp: build_context_def returnM_def bindM_Inr_iff Let_def split: if_splits prod.splits
      dest!: context_loop_prefix)

lemma length_build_sources [simp]: "length (build_sources rs) = length rs"
  by (simp add: build_sources_def)

lemma nth_build_sources:
  "i < length rs \<Longrightarrow> build_sources rs ! i =
     \<lparr>src_index = int i + 1, src_chunk_id = ChunkId_str (sr_chunk_id (rs ! i)),
      src_document_id = DocumentId_str (sr_document_id (rs ! i)), src_document_title = sr_document_title (rs ! i),
      src_content = py_slice (sr_content (rs ! i)) 0 200, src_score = sr_score (rs ! i)\<rparr>"
  by (simp add: build_sources_def nth_enumerate_eq)

lemma nth_blocks_from: "k < length rs \<Longrightarrow> blocks_from i rs ! k = format_block (i + 1 + int k) (rs ! k)"
  by (simp add: blocks_from_def nth_enumerate_eq)

lemma rag_stream_run:
  assumes prep: "rag_prepare deps fresh request s = (Inr (messages, used), s1)"
    and model: "rg_stream deps messages s1 = (Inr (deltas, None), s2)"
    and fin: "final_chunk deps messages used (concat deltas) s2 = (Inr last_chunk, s3)"
    and saved: "save_exchange deps request (ChatMessage ASSISTANT (concat deltas)) s3 = (Inr (), s4)"
    and pulls: "0 < pulls"
  shows "rag_stream deps fresh request pulls s =
      ((take pulls (map delta_chunk deltas @ [last_chunk]), None),
       if pulls \<le> length deltas then s2 else if pulls = Suc (length deltas) then s3 else s4) \<and>
    sc_done last_chunk \<and> sc_sources last_chunk = Some (build_sources used)"
proof -
  have last: "sc_done last_chunk" "sc_sources last_chunk = Some (build_sources used)"
    using fin by (auto simp: final_chunk_def bindM_Inr_iff returnM_def)
  have start: "bindM (rag_prepare deps fresh request) (\<lambda>(messages, used).
      bindM (rg_stream deps messages) (\<lambda>(deltas, broken). returnM (messages, used, deltas, broken))) s =
      (Inr (messages, used, deltas, None), s2)"
    using prep model by (simp add: bindM_def returnM_def)
  consider "pulls \<le> length deltas" | "pulls = Suc (length deltas)" | "Suc (length deltas) < pulls" by linarith
  then show ?thesis
  proof cases
    case 3
    then have "take pulls (map delta_chunk deltas @ [last_chunk]) = map delta_chunk deltas @ [last_chunk]"
      by simp
    with 3 start fin saved last show ?thesis by (simp add: rag_stream_def Let_def)
  qed (use start fin pulls last in \<open>simp_all add: rag_stream_def Let_def take_map\<close>)
qed

subsection \<open>Properties\<close>

text \<open>
  C8. Answers are grounded in what they cite: when a chat request succeeds, the model was
  called with the prompt that embeds numbered context blocks, the sources of the answer are
  these blocks in the same order and with the same numbers, each of them is a search result
  at or above the score threshold, and the answer is the model's text.
\<close>

theorem rag_answer_cites_its_context:
  assumes "rag_execute deps fresh request s = (Inr resp, s')"
  shows "\<exists>sresp used history reply s1 s2 s3.
    rg_search deps \<lparr>sq_query = cq_message request, sq_collection_id = cq_conversation_id request,
        sq_top_k = cq_top_k request, sq_filters = None\<rparr> s = (Inr sresp, s1) \<and>
    rg_complete deps (build_rag_prompt (cq_message request)
        (py_join [newline, newline] (blocks_from 0 used)) (Some history)) s2 = (Inr reply, s3) \<and>
    cd_message resp = m_content (cr_message reply) \<and> length (cd_sources resp) = length used \<and>
    (\<forall>i < length used. rg_score_threshold deps \<le> sr_score (used ! i) \<and>
       (\<exists>r \<in> set (sp_results sresp). dto_to_domain fresh r = Inr (used ! i)) \<and>
       blocks_from 0 used ! i = format_block (src_index (cd_sources resp ! i)) (used ! i) \<and>
       src_chunk_id (cd_sources resp ! i) = ChunkId_str (sr_chunk_id (used ! i)))"
proof -
  obtain sresp results ctx used history reply s1 s2 s3 s4 where
    search: "rg_search deps \<lparr>sq_query = cq_message request, sq_collection_id = cq_conversation_id request,
        sq_top_k = cq_top_k request, sq_filters = None\<rparr> s = (Inr sresp, s1)"
    and dom: "mapE (dto_to_domain fresh) (sp_results sresp) = Inr results"
    and ctx: "build_context (rg_count deps) (rg_max_context_tokens deps) (rg_score_threshold deps) results
        ''gpt-4o'' s1 = (Inr (ctx, used), s2)"
    and reply: "rg_complete deps (build_rag_prompt (cq_message request) ctx (Some history)) s3 = (Inr reply, s4)"
    and resp: "cd_message resp = m_content (cr_message reply)" "cd_sources resp = build_sources used"
    using assms
    by (auto simp: rag_execute_def rag_prepare_def bindM_Inr_iff thenM_Inr_iff liftM_def returnM_def
        SearchRequest_def Let_def split: prod.splits if_splits)
  have used: "ctx = py_join [newline, newline] (blocks_from 0 used)"
    "prefix used (filter (\<lambda>r. sr_score r \<ge> rg_score_threshold deps) results)"
    using build_context_prefix [OF ctx] by auto
  have "rg_score_threshold deps \<le> sr_score (used ! i) \<and>
      (\<exists>r \<in> set (sp_results sresp). dto_to_domain fresh r = Inr (used ! i))" if "i < length used" for i
  proof -
    have mem: "used ! i \<in> set (filter (\<lambda>r. sr_score r \<ge> rg_score_threshold deps) results)"
      using that set_mono_prefix [OF used(2)] nth_mem by blast
    then obtain j where "j < length results" "results ! j = used ! i" by (auto simp: in_set_conv_nth)
    then have "dto_to_domain fresh (sp_results sresp ! j) = Inr (used ! i)" "j < length (sp_results sresp)"
      using dom by (auto simp: mapE_Inr_list_all2 list_all2_conv_all_nth)
    with mem show ?thesis by auto
  qed
  with search reply resp used(1) show ?thesis
    by (intro exI [of _ sresp] exI [of _ used] exI [of _ history] exI [of _ reply] exI [of _ s1]
        exI [of _ s3] exI [of _ s4])
      (auto simp: nth_build_sources nth_blocks_from add.commute)
qed

text \<open>
  Streaming: the texts a consumer receives are the model's deltas in order, ending with
  one closing chunk that carries the sources; the exchange is written to the history only
  if the consumer asks once more after that closing chunk, and a consumer that leaves
  earlier leaves no trace of the exchange.
\<close>

theorem stream_history_needs_full_consumption:
  assumes prep: "rag_prepare deps fresh request s = (Inr (messages, used), s1)"
    and model: "rg_stream deps messages s1 = (Inr (deltas, None), s2)"
    and fin: "final_chunk deps messages used (concat deltas) s2 = (Inr last_chunk, s3)"
    and saved: "save_exchange deps request (ChatMessage ASSISTANT (concat deltas)) s3 = (Inr (), s4)"
    and pulls: "0 < pulls"
  shows "rag_stream deps fresh request pulls s =
      ((take pulls (map delta_chunk deltas @ [last_chunk]), None),
       if pulls \<le> length deltas then s2 else if pulls = Suc (length deltas) then s3 else s4) \<and>
    sc_done last_chunk \<and> sc_sources last_chunk = Some (build_sources used)"
  using rag_stream_run [OF assms] .

definition demo_source :: search_result where
  "demo_source = \<lparr>sr_chunk_id = ChunkId 1, sr_document_id = DocumentId 7, sr_collection_id = CollectionId 2,
     sr_content = ''Because.'', sr_score = 9 / 10, sr_metadata = [], sr_document_title = ''Guide'', sr_chunk_index = 0\<rparr>"

definition demo_rag :: "chat_message list rag_deps" where
  "demo_rag = \<lparr>rg_search = (\<lambda>r s. (Inr \<lparr>sp_results = [result_dto demo_source], sp_total = 1, sp_query_tokens = 2\<rparr>, s)),
     rg_complete = (\<lambda>ms s. (Inr \<lparr>cr_message = ChatMessage ASSISTANT ''See [1].'', cr_sources = [],
        cr_token_usage = None\<rparr>, s)),
     rg_stream = (\<lambda>ms s. (Inr ([''See '', ''[1].''], None), s)), rg_get_history = (\<lambda>u n s. (Inr s, s)),
     rg_save_message = (\<lambda>u m s. (Inr (), s @ [m])), rg_count = (\<lambda>t m s. (Inr 10, s)),
     rg_max_context_tokens = 20000, rg_score_threshold = 72 / 100\<rparr>"

definition demo_chat :: "string option \<Rightarrow> chat_request" where
  "demo_chat user = \<lparr>cq_message = ''why?'', cq_conversation_id = None, cq_user_id = user, cq_top_k = 5\<rparr>"

lemma demo_prepare:
  "rag_prepare demo_rag 9 (demo_chat None) s =
     (Inr (build_rag_prompt ''why?'' (format_block 1 (demo_source\<lparr>sr_collection_id := CollectionId 9\<rparr>)) (Some []),
       [demo_source\<lparr>sr_collection_id := CollectionId 9\<rparr>]), s)"
  by (simp add: rag_prepare_def demo_rag_def demo_chat_def SearchRequest_def bindM_def liftM_def returnM_def
      dto_to_domain_result demo_source_def build_context_def rag_history_def Let_def)

theorem rag_answer_cites_its_context_witness:
  "\<exists>resp. rag_execute demo_rag 9 (demo_chat None) [] = (Inr resp, []) \<and>
    cd_message resp = ''See [1].'' \<and> (\<exists>used :: search_result list. length (cd_sources resp) = length used \<and>
      (\<forall>i < length used. rg_score_threshold demo_rag \<le> sr_score (used ! i)))"
proof -
  have run: "\<exists>resp. rag_execute demo_rag 9 (demo_chat None) [] = (Inr resp, []) \<and> cd_message resp = ''See [1].''"
    by (simp add: rag_execute_def bindM_def demo_prepare thenM_def returnM_def save_exchange_def)
      (simp add: demo_rag_def demo_chat_def ChatMessage_def returnM_def)
  then obtain resp where r: "rag_execute demo_rag 9 (demo_chat None) [] = (Inr resp, [])"
    "cd_message resp = ''See [1].''" by blast
  from rag_answer_cites_its_context [OF r(1)] r show ?thesis by blast
qed

theorem stream_history_needs_full_consumption_witness:
  "\<exists>fin. rag_stream demo_rag 9 (demo_chat None) 3 [] =
     (([delta_chunk ''See '', delta_chunk ''[1].'', fin], None), []) \<and> sc_done fin"
proof -
  let ?m = "build_rag_prompt ''why?'' (format_block 1 (demo_source\<lparr>sr_collection_id := CollectionId 9\<rparr>)) (Some [])"
  let ?u = "[demo_source\<lparr>sr_collection_id := CollectionId 9\<rparr>]"
  have fin: "final_chunk demo_rag ?m ?u (concat [''See '', ''[1].'']) [] =
      (Inr \<lparr>sc_content = [], sc_done = True, sc_sources = Some (build_sources ?u), sc_prompt_tokens = Some 10,
         sc_completion_tokens = Some 10, sc_total_tokens = Some 20\<rparr>, [])"
    by (simp add: final_chunk_def demo_rag_def bindM_def returnM_def)
  have model: "rg_stream demo_rag ?m [] = (Inr ([''See '', ''[1].''], None), [])" by (simp add: demo_rag_def)
  have saved: "save_exchange demo_rag (demo_chat None) (ChatMessage ASSISTANT (concat [''See '', ''[1].''])) [] = (Inr (), [])"
    by (simp add: save_exchange_def demo_chat_def returnM_def)
  show ?thesis
    using stream_history_needs_full_consumption [OF demo_prepare model fin saved, of 3] by simp
qed

end
