(* ===== verification/Http.thy ===== *)
theory Http
  imports Entities
begin

section \<open>HTTP requests, error responses, authentication and request logging\<close>

text \<open>
  \<open>src/app/api/middleware/error_handler.py\<close>, \<open>src/app/api/middleware/request_logging.py\<close>,
  \<open>src/app/core/logging/context.py\<close>, \<open>src/app/core/security/api_key.py\<close> and the schema
  \<open>ErrorResponse\<close>. A response carries its JSON content as a \<open>pyval\<close>. The framework that looks up the
  handler of an exception is the parameter record \<open>starlette\<close>; \<open>starlette_laws\<close> states its documented
  rule, the handler of the nearest class in the method resolution order. The log lines that the
  code writes are left out; the context variables that they carry are not.
\<close>

record http_request =
  rq_method :: string
  rq_path :: string
  rq_api_key :: "string option"
  rq_client :: "string option"

record http_response =
  rs_status :: int
  rs_headers :: "(string \<times> string) list"
  rs_body :: pyval

type_synonym 's app = "http_request \<Rightarrow> ('s, exn, http_response) eff"

definition JSONResponse :: "int \<Rightarrow> pyval \<Rightarrow> http_response" where
  "JSONResponse status_code content = \<lparr>rs_status = status_code, rs_headers = [], rs_body = content\<rparr>"

definition set_header :: "string \<Rightarrow> string \<Rightarrow> http_response \<Rightarrow> http_response" where
  "set_header k v r = r\<lparr>rs_headers := AList.update k v (rs_headers r)\<rparr>"

subsection \<open>ErrorResponse\<close>

record error_response =
  er_detail :: string
  er_code :: string
  er_field :: "string option"

definition dump_opt :: "string option \<Rightarrow> pyval" where
  "dump_opt x = (case x of None \<Rightarrow> PNone | Some s \<Rightarrow> PStr s)"

definition dump_error :: "error_response \<Rightarrow> dict" where
  "dump_error e = [(''detail'', PStr (er_detail e)), (''code'', PStr (er_code e)), (''field'', dump_opt (er_field e))]"

definition exclude_none :: "dict \<Rightarrow> dict" where
  "exclude_none d = filter (\<lambda>(k, v). v \<noteq> PNone) d"

definition make_error_response :: "int \<Rightarrow> string \<Rightarrow> string \<Rightarrow> string option \<Rightarrow> http_response" where
  "make_error_response status_code detail code fld =
     JSONResponse status_code (PDict (exclude_none (dump_error \<lparr>er_detail = detail, er_code = code, er_field = fld\<rparr>)))"

subsection \<open>Exception handlers\<close>

text \<open>\<open>int(x)\<close> of a float truncates towards zero.\<close>

definition py_int :: "real \<Rightarrow> int" where
  "py_int x = (if x \<ge> 0 then \<lfloor>x\<rfloor> else \<lceil>x\<rceil>)"

definition entity_not_found_handler :: "domain_exception \<Rightarrow> http_response" where
  "entity_not_found_handler exc = make_error_response 404 (exc_message exc) (exc_code exc) None"

definition validation_exception_handler :: "domain_exception \<Rightarrow> http_response" where
  "validation_exception_handler exc = make_error_response 422 (exc_message exc) (exc_code exc) (exc_field exc)"

definition business_rule_handler :: "domain_exception \<Rightarrow> http_response" where
  "business_rule_handler exc = make_error_response 409 (exc_message exc) (exc_code exc) None"

definition llm_rate_limit_handler :: "domain_exception \<Rightarrow> http_response" where
  "llm_rate_limit_handler exc =
     (let response = make_error_response 429 (exc_message exc) (exc_code exc) None
      in case exc_retry_after exc of
           None \<Rightarrow> response
         | Some t \<Rightarrow> set_header ''Retry-After'' (py_str_int (py_int t)) response)"

definition llm_connection_handler :: "domain_exception \<Rightarrow> http_response" where
  "llm_connection_handler exc = make_error_response 502 (exc_message exc) (exc_code exc) None"

definition token_limit_handler :: "domain_exception \<Rightarrow> http_response" where
  "token_limit_handler exc = make_error_response 413 (exc_message exc) (exc_code exc) None"

definition domain_exception_handler :: "domain_exception \<Rightarrow> http_response" where
  "domain_exception_handler exc = make_error_response 400 (exc_message exc) (exc_code exc) None"

text \<open>The arrow between the parts of a location is written as its UTF-8 bytes.\<close>

definition loc_arrow :: string where
  "loc_arrow = '' '' @ [CHR 0xE2, CHR 0x86, CHR 0x92] @ '' ''"

definition request_validation_handler :: "(string list \<times> string) list \<Rightarrow> http_response" where
  "request_validation_handler errors =
     (let (loc, detail) = (case errors of [] \<Rightarrow> ([], ''Validation error'') | e # es \<Rightarrow> e);
          fld = py_join loc_arrow loc
      in make_error_response 422 (if fld \<noteq> [] then fld @ '': '' @ detail else detail) ''VALIDATION_ERROR'' (Some fld))"

definition global_exception_handler :: "exn \<Rightarrow> http_response" where
  "global_exception_handler exc = make_error_response 500 ''Internal server error'' ''INTERNAL_ERROR'' None"

fun on_domain :: "(domain_exception \<Rightarrow> http_response) \<Rightarrow> exn \<Rightarrow> http_response" where
  "on_domain h (Domain d) = h d"
| "on_domain h e = global_exception_handler e"

fun on_request_validation :: "((string list \<times> string) list \<Rightarrow> http_response) \<Rightarrow> exn \<Rightarrow> http_response" where
  "on_request_validation h (RequestValidationError es) = h es"
| "on_request_validation h e = global_exception_handler e"

type_synonym handlers = "(exc_class \<times> (exn \<Rightarrow> http_response)) list"

definition register_exception_handlers :: handlers where
  "register_exception_handlers =
     [(EntityNotFoundExceptionC, on_domain entity_not_found_handler),
      (ValidationExceptionC, on_domain validation_exception_handler),
      (BusinessRuleViolationC, on_domain business_rule_handler),
      (LLMRateLimitExceptionC, on_domain llm_rate_limit_handler),
      (LLMConnectionExceptionC, on_domain llm_connection_handler),
      (TokenLimitExceededExceptionC, on_domain token_limit_handler),
      (DomainExceptionC, on_domain domain_exception_handler),
      (RequestValidationErrorC, on_request_validation request_validation_handler),
      (ExceptionC, global_exception_handler)]"

subsection \<open>The framework\<close>

record 's starlette =
  exception_middleware :: "handlers \<Rightarrow> 's app \<Rightarrow> 's app"
  server_error_middleware :: "handlers \<Rightarrow> 's app \<Rightarrow> 's app"

fun first_handler :: "handlers \<Rightarrow> exc_class list \<Rightarrow> (exn \<Rightarrow> http_response) option" where
  "first_handler hs [] = None"
| "first_handler hs (c # cs) =
     (if c = ExceptionC then first_handler hs cs
      else case map_of hs c of Some h \<Rightarrow> Some h | None \<Rightarrow> first_handler hs cs)"

text \<open>
  The inner middleware answers with the handler of the first class of the resolution order
  that has one (the handler of \<open>Exception\<close> itself belongs to the outer one); an
  \<open>HTTPException\<close> has the framework's own handler; anything else is raised on. The outer
  middleware answers what is left with the handler of \<open>Exception\<close>.
\<close>

fun default_handler :: "exn \<Rightarrow> http_response option" where
  "default_handler (HTTPException status detail) =
     Some (JSONResponse (int status) (PDict [(''detail'', PStr detail)]))"
| "default_handler e = None"

definition starlette_laws :: "'s starlette \<Rightarrow> bool" where
  "starlette_laws st \<longleftrightarrow>
     (\<forall>hs app rq s. exception_middleware st hs app rq s =
        (case app rq s of
           (Inr r, s') \<Rightarrow> (Inr r, s')
         | (Inl e, s') \<Rightarrow> (case first_handler hs (mro (class_of e)) of
               Some h \<Rightarrow> (Inr (h e), s')
             | None \<Rightarrow> (case default_handler e of Some r \<Rightarrow> (Inr r, s') | None \<Rightarrow> (Inl e, s'))))) \<and>
     (\<forall>hs app rq s. server_error_middleware st hs app rq s =
        (case app rq s of
           (Inr r, s') \<Rightarrow> (Inr r, s')
         | (Inl e, s') \<Rightarrow> (case map_of hs ExceptionC of Some h \<Rightarrow> (Inr (h e), s') | None \<Rightarrow> (Inl e, s'))))"

subsection \<open>API keys\<close>

text \<open>
  A header value is decoded as Latin-1, so its characters are the code points below 256;
  \<open>utf8\<close> encodes them. \<open>hmac.compare_digest\<close> is equality of the byte strings.
\<close>

fun utf8_char :: "char \<Rightarrow> nat list" where
  "utf8_char c = (let n = of_char c in if n < 128 then [n] else [192 + n div 64, 128 + n mod 64])"

definition utf8 :: "string \<Rightarrow> nat list" where
  "utf8 s = concat (map utf8_char s)"

definition verify_api_key :: "string \<Rightarrow> string \<Rightarrow> bool" where
  "verify_api_key api_key expected_key = (utf8 api_key = utf8 expected_key)"

definition get_api_key :: "string \<Rightarrow> string option \<Rightarrow> string result" where
  "get_api_key settings_api_key api_key =
     (case api_key of
        None \<Rightarrow> Inl (HTTPException 401 ''Missing API key. Provide X-API-Key header.'')
      | Some k \<Rightarrow> if \<not> verify_api_key k settings_api_key then Inl (HTTPException 403 ''Invalid API key.'')
                 else Inr k)"

subsection \<open>Request logging\<close>

record request_context =
  ctx_request_id :: string
  ctx_method :: string
  ctx_path :: string
  ctx_user_id :: "string option"
  ctx_client_ip :: "string option"

text \<open>The context variables of the logging library are the first component of the state.\<close>

definition bind_request_context :: "request_context \<Rightarrow> (dict \<times> 's, exn, unit) eff" where
  "bind_request_context c = modifyM (\<lambda>(_, s).
     ([(''request_id'', PStr (ctx_request_id c)), (''method'', PStr (ctx_method c)), (''path'', PStr (ctx_path c)),
       (''user_id'', dump_opt (ctx_user_id c)), (''client_ip'', dump_opt (ctx_client_ip c))], s))"

definition clear_request_context :: "(dict \<times> 's, exn, unit) eff" where
  "clear_request_context = modifyM (\<lambda>(_, s). ([], s))"

definition request_logging_middleware :: "string \<Rightarrow> (dict \<times> 's) app \<Rightarrow> (dict \<times> 's) app" where
  "request_logging_middleware request_id call_next rq =
     (if rq_path rq = ''/health'' then call_next rq
      else thenM (bind_request_context \<lparr>ctx_request_id = request_id, ctx_method = rq_method rq, ctx_path = rq_path rq,
               ctx_user_id = None, ctx_client_ip = rq_client rq\<rparr>)
           (bindM (catchM (call_next rq) (\<lambda>e. thenM clear_request_context (raiseM e))) (\<lambda>response.
            thenM clear_request_context (returnM (set_header ''X-Request-ID'' request_id response)))))"

subsection \<open>Lemmas\<close>

lemma utf8_char_cancel: "utf8_char c @ xs = utf8_char d @ ys \<longleftrightarrow> c = d \<and> xs = ys"
proof -
  have "c = d" if "(of_char c :: nat) = of_char d" using that by simp
  moreover have "(of_char c :: nat) div 64 = of_char d div 64 \<Longrightarrow> (of_char c :: nat) mod 64 = of_char d mod 64 \<Longrightarrow>
      (of_char c :: nat) = of_char d" by (metis div_mult_mod_eq)
  ultimately show ?thesis by (auto simp: Let_def)
qed

lemma utf8_inj: "utf8 s = utf8 t \<longleftrightarrow> s = t"
proof (induction s arbitrary: t)
  case Nil
  then show ?case by (cases t) (auto simp: utf8_def Let_def)
next
  case (Cons c s)
  then show ?case
  proof (cases t)
    case Nil
    then show ?thesis by (simp add: utf8_def Let_def)
  next
    case t: (Cons d u)
    then have "utf8 (c # s) = utf8 t \<longleftrightarrow> utf8_char c @ utf8 s = utf8_char d @ utf8 u" by (simp add: utf8_def)
    then show ?thesis using Cons.IH [of u] t by (simp add: utf8_char_cancel del: utf8_char.simps)
  qed
qed

lemma verify_api_key_iff [simp]: "verify_api_key k e \<longleftrightarrow> k = e"
  by (simp add: verify_api_key_def utf8_inj)

lemma set_header_simps [simp]:
  "rs_status (set_header k v r) = rs_status r" "rs_body (set_header k v r) = rs_body r"
  "map_of (rs_headers (set_header k v r)) k = Some v"
  by (simp_all add: set_header_def update_conv)

lemma map_of_set_header_other: "k' \<noteq> k \<Longrightarrow> map_of (rs_headers (set_header k v r)) k' = map_of (rs_headers r) k'"
  by (simp add: set_header_def update_conv)

end
