(* ===== verification/Rate_Limiter.thy ===== *)
theory Rate_Limiter
  imports Redis_Cache Http
begin

section \<open>Rate limiting\<close>

text \<open>
  \<open>src/app/infrastructure/cache/rate_limiter.py\<close> with its Lua script, and the middleware of
  \<open>src/app/api/middleware/rate_limit.py\<close>. The sorted-set commands of Redis are the parameter record
  \<open>zset\<close>; the script is their composition, run by the server without interleaving. \<open>zs_random\<close>
  is the first \<open>math.random(1000000)\<close> of a script, \<open>zs_tostring\<close> Lua's rendering of a number. \<open>time.time()\<close> is the
  argument \<open>now\<close>.

  \<open>zset_laws\<close> states what the limiter relies on of a healthy server. An expiring key loses only
  entries older than the window, since the script renews its time to live at each entry.
\<close>

record 's zset =
  zs_remrangebyscore :: "string \<Rightarrow> real \<Rightarrow> ('s, exn, int) eff"
  zs_card :: "string \<Rightarrow> ('s, exn, int) eff"
  zs_add :: "string \<Rightarrow> real \<Rightarrow> string \<Rightarrow> ('s, exn, unit) eff"
  zs_expire :: "string \<Rightarrow> int \<Rightarrow> ('s, exn, unit) eff"
  zs_random :: "('s, exn, int) eff"
  zs_tostring :: "real \<Rightarrow> string"
  zs_delete :: "string \<Rightarrow> ('s, exn, int) eff"

definition rate_limit_lua :: "'s zset \<Rightarrow> string \<Rightarrow> real \<Rightarrow> real \<Rightarrow> int \<Rightarrow> ('s, exn, int) eff" where
  "rate_limit_lua zs key now window limit =
     thenM (zs_remrangebyscore zs key (now - window))
     (bindM (zs_card zs key) (\<lambda>n.
        if n < limit
        then bindM (zs_random zs) (\<lambda>rnd.
             thenM (zs_add zs key now (zs_tostring zs now @ '':'' @ py_str_int rnd))
             (thenM (zs_expire zs key \<lceil>window\<rceil>) (returnM 1)))
        else returnM 0))"

definition rate_key :: "string \<Rightarrow> string" where
  "rate_key key = ''rate:'' @ key"

definition is_allowed :: "'s zset \<Rightarrow> int \<Rightarrow> real \<Rightarrow> string \<Rightarrow> ('s, exn, bool) eff" where
  "is_allowed zs requests_per_minute now key =
     catchM (bindM (rate_limit_lua zs (rate_key key) now 60 requests_per_minute) (\<lambda>r. returnM (r \<noteq> 0)))
       (\<lambda>_. returnM True)"

definition get_remaining :: "'s zset \<Rightarrow> int \<Rightarrow> real \<Rightarrow> string \<Rightarrow> ('s, exn, int) eff" where
  "get_remaining zs requests_per_minute now key =
     catchM (thenM (zs_remrangebyscore zs (rate_key key) (now - 60))
               (bindM (zs_card zs (rate_key key)) (\<lambda>n. returnM (max 0 (requests_per_minute - n)))))
       (\<lambda>_. returnM requests_per_minute)"

definition reset_limit :: "'s zset \<Rightarrow> string \<Rightarrow> ('s, exn, unit) eff" where
  "reset_limit zs key = thenM (zs_delete zs (rate_key key)) (returnM ())"

subsection \<open>The middleware\<close>

definition client_key :: "http_request \<Rightarrow> string" where
  "client_key rq = (case rq_api_key rq of
     Some (c # cs) \<Rightarrow> c # cs
   | _ \<Rightarrow> (case rq_client rq of Some host \<Rightarrow> host | None \<Rightarrow> ''unknown''))"

definition too_many_requests :: http_response where
  "too_many_requests = set_header ''Retry-After'' ''60'' (JSONResponse 429 (PDict (dump_error
     \<lparr>er_detail = ''Rate limit exceeded. Please try again later.'', er_code = ''RATE_LIMIT_EXCEEDED'', er_field = None\<rparr>)))"

text \<open>The middleware calls its limiter through two methods and the property \<open>limit\<close>.\<close>

definition rate_limit_middleware ::
  "(string \<Rightarrow> ('s, exn, bool) eff) \<Rightarrow> (string \<Rightarrow> ('s, exn, int) eff) \<Rightarrow> int \<Rightarrow> 's app \<Rightarrow> 's app" where
  "rate_limit_middleware allow remain rate_limit call_next rq =
     (if rq_path rq = ''/health'' then call_next rq
      else bindM (catchM (bindM (allow (client_key rq)) (\<lambda>b. returnM (Some b)))
                    (\<lambda>_. returnM None)) (\<lambda>allowed. case allowed of
           None \<Rightarrow> call_next rq
         | Some False \<Rightarrow> returnM too_many_requests
         | Some True \<Rightarrow> bindM (call_next rq) (\<lambda>response.
             catchM (bindM (remain (client_key rq)) (\<lambda>remaining.
                 returnM (set_header ''X-RateLimit-Limit'' (py_str_int rate_limit)
                   (set_header ''X-RateLimit-Remaining'' (py_str_int remaining) response))))
               (\<lambda>_. returnM response))))"

subsection \<open>What the limiter relies on\<close>

definition zset_laws :: "'s zset \<Rightarrow> ('s \<Rightarrow> string \<Rightarrow> (string \<times> real) list) \<Rightarrow> bool" where
  "zset_laws zs zv \<longleftrightarrow>
     (\<forall>k m s. \<exists>n s'. zs_remrangebyscore zs k m s = (Inr n, s') \<and>
        zv s' = (zv s)(k := filter (\<lambda>(x, sc). sc > m) (zv s k))) \<and>
     (\<forall>k s. \<exists>s'. zs_card zs k s = (Inr (int (length (zv s k))), s') \<and> zv s' = zv s) \<and>
     (\<forall>k sc x s. \<exists>s'. zs_add zs k sc x s = (Inr (), s') \<and> zv s' = (zv s)(k := AList.update x sc (zv s k))) \<and>
     (\<forall>k n s. \<exists>s'. zs_expire zs k n s = (Inr (), s') \<and> zv s' = zv s)"

text \<open>
  Lua in Redis: the generator is seeded alike at the start of every script, so the first number drawn is
  always the same; and a number is rendered with 14 significant digits, so that times of ten digits before the
  point, the Unix times of the years 2001 to 2286, are told apart when they differ by a tenth of a millisecond.
\<close>

definition seeded_alike :: "'s zset \<Rightarrow> ('s \<Rightarrow> string \<Rightarrow> (string \<times> real) list) \<Rightarrow> int \<Rightarrow> bool" where
  "seeded_alike zs zv r \<longleftrightarrow> (\<forall>s. \<exists>s'. zs_random zs s = (Inr r, s') \<and> zv s' = zv s)"

definition renders_14_digits :: "'s zset \<Rightarrow> bool" where
  "renders_14_digits zs \<longleftrightarrow> (\<forall>t u. 10 ^ 9 \<le> t \<longrightarrow> u < 10 ^ 10 \<longrightarrow> t + 1 / 10 ^ 4 \<le> u \<longrightarrow> zs_tostring zs t \<noteq> zs_tostring zs u)"

text \<open>The member that the script adds for a request.\<close>

definition member_name :: "'s zset \<Rightarrow> int \<Rightarrow> real \<Rightarrow> string" where
  "member_name zs r t = zs_tostring zs t @ '':'' @ py_str_int r"

text \<open>Times that the rendering tells apart.\<close>

definition spaced :: "real list \<Rightarrow> bool" where
  "spaced ts \<longleftrightarrow> sorted_wrt (\<lambda>t u. t + 1 / 10 ^ 4 \<le> u) ts \<and> (\<forall>t \<in> set ts. 10 ^ 9 \<le> t \<and> t < 10 ^ 10)"

subsection \<open>Reference: a sliding window over the times of the admitted requests\<close>

fun sliding :: "int \<Rightarrow> real list \<Rightarrow> real list \<Rightarrow> bool list" where
  "sliding limit past [] = []"
| "sliding limit past (t # ts) =
     (let ok = int (length (filter (\<lambda>p. p > t - 60) past)) < limit
      in ok # sliding limit (if ok then past @ [t] else past) ts)"

fun admitted :: "bool list \<Rightarrow> real list \<Rightarrow> real list" where
  "admitted (True # bs) (t # ts) = t # admitted bs ts"
| "admitted (False # bs) (t # ts) = admitted bs ts"
| "admitted _ _ = []"

text \<open>A sequence of calls of \<open>is_allowed\<close> for one key.\<close>

fun allowed_run :: "'s zset \<Rightarrow> int \<Rightarrow> string \<Rightarrow> real list \<Rightarrow> ('s, exn, bool list) eff" where
  "allowed_run zs rpm key [] = returnM []"
| "allowed_run zs rpm key (t # ts) =
     bindM (is_allowed zs rpm t key) (\<lambda>b. bindM (allowed_run zs rpm key ts) (\<lambda>bs. returnM (b # bs)))"

text \<open>What a call does, for any member drawn: prune, count and, below the limit, write the member with the time.\<close>

lemma is_allowed_step:
  assumes laws: "zset_laws zs zv" "seeded_alike zs zv r"
    and live: "live = filter (\<lambda>(x, sc). sc > t - 60) (zv s (rate_key key))"
  shows "\<exists>s'. is_allowed zs rpm t key s = (Inr (int (length live) < rpm), s') \<and>
    zv s' = (zv s)(rate_key key := if int (length live) < rpm then AList.update (member_name zs r t) t live else live)"
proof -
  let ?k = "rate_key key"
  obtain n s1 where s1: "zs_remrangebyscore zs ?k (t - 60) s = (Inr n, s1)" "zv s1 = (zv s)(?k := live)"
    using laws(1) live unfolding zset_laws_def by blast
  obtain s2 where s2: "zs_card zs ?k s1 = (Inr (int (length live)), s2)" "zv s2 = zv s1"
    using laws(1) s1(2) unfolding zset_laws_def by (metis fun_upd_same)
  show ?thesis
  proof (cases "int (length live) < rpm")
    case False
    then show ?thesis
      using s1 s2 by (simp add: is_allowed_def rate_limit_lua_def catchM_def bindM_def thenM_def returnM_def)
  next
    case True
    obtain s3 where s3: "zs_random zs s2 = (Inr r, s3)" "zv s3 = zv s2"
      using laws(2) unfolding seeded_alike_def by blast
    obtain s4 where s4: "zs_add zs ?k t (member_name zs r t) s3 = (Inr (), s4)"
      "zv s4 = (zv s3)(?k := AList.update (member_name zs r t) t (zv s3 ?k))"
      using laws(1) unfolding zset_laws_def by blast
    obtain s5 where s5: "zs_expire zs ?k \<lceil>60::real\<rceil> s4 = (Inr (), s5)" "zv s5 = zv s4"
      using laws(1) unfolding zset_laws_def by blast
    from True s1 s2 s3 s4 s5 show ?thesis
      by (simp add: is_allowed_def rate_limit_lua_def catchM_def bindM_def thenM_def returnM_def member_name_def)
  qed
qed

lemma is_allowed_window:
  assumes laws: "zset_laws zs zv" "seeded_alike zs zv r" "renders_14_digits zs"
    and view: "zv s (rate_key key) = map (\<lambda>p. (member_name zs r p, p)) (filter (\<lambda>p. p > t0 - 60) past)"
    and t: "t0 \<le> t" "t < 10 ^ 10" and past: "\<forall>p \<in> set past. 10 ^ 9 \<le> p \<and> p + 1 / 10 ^ 4 \<le> t"
    and ok_def: "ok = (int (length (filter (\<lambda>p. p > t - 60) past)) < rpm)"
  shows "\<exists>s'. is_allowed zs rpm t key s = (Inr ok, s') \<and>
    zv s' (rate_key key) = map (\<lambda>p. (member_name zs r p, p)) (filter (\<lambda>p. p > t - 60) (if ok then past @ [t] else past)) \<and>
    (\<forall>k. k \<noteq> rate_key key \<longrightarrow> zv s' k = zv s k)"
proof -
  let ?named = "map (\<lambda>p. (member_name zs r p, p))" and ?live = "filter (\<lambda>p. p > t - 60) past"
  have "filter (\<lambda>(x, sc). sc > t - 60) (zv s (rate_key key)) = ?named (filter (\<lambda>p. p > t - 60 \<and> p > t0 - 60) past)"
    by (simp add: view filter_map o_def conj_commute)
  also have "\<dots> = ?named ?live" using t(1) by (intro arg_cong [where f = ?named] filter_cong) auto
  finally have live: "?named ?live = filter (\<lambda>(x, sc). sc > t - 60) (zv s (rate_key key))" by simp
  have "member_name zs r t \<notin> fst ` set (?named ?live)"
  proof
    assume "member_name zs r t \<in> fst ` set (?named ?live)"
    then obtain p where "p \<in> set past" "zs_tostring zs p = zs_tostring zs t" by (auto simp: member_name_def)
    with past t(2) laws(3) show False unfolding renders_14_digits_def by blast
  qed
  then have "AList.update (member_name zs r t) t (?named ?live) = ?named ?live @ [(member_name zs r t, t)]"
    by (rule update_fresh)
  with is_allowed_step [OF laws(1,2) live, of rpm] show ?thesis by (auto simp: ok_def)
qed

lemma allowed_run_sliding:
  assumes laws: "zset_laws zs zv" "seeded_alike zs zv r" "renders_14_digits zs"
  shows "zv s (rate_key key) = map (\<lambda>p. (member_name zs r p, p)) (filter (\<lambda>p. p > t0 - 60) past) \<Longrightarrow>
    \<forall>t \<in> set ts. t0 \<le> t \<Longrightarrow> spaced (past @ ts) \<Longrightarrow>
    \<exists>s'. allowed_run zs rpm key ts s = (Inr (sliding rpm past ts), s') \<and>
      (\<forall>k. k \<noteq> rate_key key \<longrightarrow> zv s' k = zv s k)"
proof (induction ts arbitrary: s t0 past)
  case Nil
  then show ?case by (simp add: returnM_def)
next
  case (Cons t ts)
  let ?ok = "int (length (filter (\<lambda>p. p > t - 60) past)) < rpm"
  let ?past = "if ?ok then past @ [t] else past"
  have past: "\<forall>p \<in> set past. 10 ^ 9 \<le> p \<and> p + 1 / 10 ^ 4 \<le> t" "t < 10 ^ 10" and later: "\<forall>u \<in> set ts. t \<le> u"
    using Cons.prems(3) by (auto simp: spaced_def sorted_wrt_append)
  have spaced: "spaced (?past @ ts)" using Cons.prems(3) by (auto simp: spaced_def sorted_wrt_append)
  obtain s1 where s1: "is_allowed zs rpm t key s = (Inr ?ok, s1)"
    "zv s1 (rate_key key) = map (\<lambda>p. (member_name zs r p, p)) (filter (\<lambda>p. p > t - 60) ?past)"
    "\<forall>k. k \<noteq> rate_key key \<longrightarrow> zv s1 k = zv s k"
    using is_allowed_window [OF laws Cons.prems(1) _ past(2,1) refl, of rpm] Cons.prems(2) by auto
  obtain s2 where s2: "allowed_run zs rpm key ts s1 = (Inr (sliding rpm ?past ts), s2)"
    "\<forall>k. k \<noteq> rate_key key \<longrightarrow> zv s2 k = zv s1 k"
    using Cons.IH [OF s1(2) later spaced] by auto
  have "allowed_run zs rpm key (t # ts) s = (Inr (?ok # sliding rpm ?past ts), s2)"
    by (simp only: allowed_run.simps bindM_def returnM_def s1(1) s2(1) sum.case prod.case)
  moreover have "sliding rpm past (t # ts) = ?ok # sliding rpm ?past ts" by (simp only: sliding.simps Let_def)
  ultimately show ?case using s1(3) s2(2) by simp
qed

text \<open>No window of the reference holds more than the limit.\<close>

definition in_window :: "real \<Rightarrow> real list \<Rightarrow> nat" where
  "in_window t ts = length (filter (\<lambda>p. t - 60 < p \<and> p \<le> t) ts)"

lemma in_window_step:
  assumes "\<forall>u. int (in_window u past) \<le> rpm" and "int (length (filter (\<lambda>p. p > t - 60) past)) < rpm"
  shows "int (in_window u (past @ [t])) \<le> rpm"
proof (cases "t - 0 \<le> u \<and> u - 60 < t")
  case True
  have "in_window u past \<le> length (filter (\<lambda>p. p > t - 60) past)"
    unfolding in_window_def using True by (induction past) auto
  with True assms(2) show ?thesis by (simp add: in_window_def)
next
  case False
  then show ?thesis using assms(1) [rule_format, of u] by (auto simp: in_window_def)
qed

lemma sliding_window_bound:
  "\<forall>u. int (in_window u past) \<le> rpm \<Longrightarrow> int (in_window u (past @ admitted (sliding rpm past ts) ts)) \<le> rpm"
proof (induction ts arbitrary: past)
  case (Cons t ts)
  show ?case
  proof (cases "int (length (filter (\<lambda>p. p > t - 60) past)) < rpm")
    case True
    then have "\<forall>u. int (in_window u (past @ [t])) \<le> rpm" using in_window_step [OF Cons.prems] by blast
    from Cons.IH [OF this] True show ?thesis by (simp add: Let_def)
  next
    case False
    then show ?thesis using Cons.IH [OF Cons.prems] by (simp add: Let_def)
  qed
qed simp

subsection \<open>The contract of a limiter and its client\<close>

text \<open>
  What the middleware relies on: neither method raises, whatever the store does, and the
  number of remaining requests is never negative.
\<close>

locale limiter =
  fixes allow :: "string \<Rightarrow> ('s, exn, bool) eff"
    and remain :: "string \<Rightarrow> ('s, exn, int) eff"
    and rate_limit :: int
  assumes allow_returns: "\<exists>b s'. allow k s = (Inr b, s')"
    and remain_returns: "\<exists>n s'. remain k s = (Inr n, s') \<and> (0 \<le> rate_limit \<longrightarrow> 0 \<le> n)"
begin

lemma denied:
  "rq_path rq \<noteq> ''/health'' \<Longrightarrow> allow (client_key rq) s = (Inr False, s') \<Longrightarrow>
     rate_limit_middleware allow remain rate_limit call_next rq s = (Inr too_many_requests, s')"
  by (simp add: rate_limit_middleware_def bindM_def catchM_def returnM_def)

lemma admitted_response:
  assumes "rq_path rq \<noteq> ''/health''" "allow (client_key rq) s = (Inr True, s1)" "call_next rq s1 = (Inr r, s2)"
  shows "\<exists>n s3. remain (client_key rq) s2 = (Inr n, s3) \<and> (0 \<le> rate_limit \<longrightarrow> 0 \<le> n) \<and>
    rate_limit_middleware allow remain rate_limit call_next rq s =
      (Inr (set_header ''X-RateLimit-Limit'' (py_str_int rate_limit)
              (set_header ''X-RateLimit-Remaining'' (py_str_int n) r)), s3)"
  using remain_returns [of "client_key rq" s2] assms
  by (auto simp: rate_limit_middleware_def bindM_def catchM_def returnM_def)

lemma admitted_raises:
  assumes "rq_path rq \<noteq> ''/health''" "allow (client_key rq) s = (Inr True, s1)" "call_next rq s1 = (Inl e, s2)"
  shows "rate_limit_middleware allow remain rate_limit call_next rq s = (Inl e, s2)"
  using assms by (simp add: rate_limit_middleware_def bindM_def catchM_def returnM_def)

lemma outcome:
  assumes "rq_path rq \<noteq> ''/health''"
  obtains s1 where "allow (client_key rq) s = (Inr False, s1)"
  | s1 where "allow (client_key rq) s = (Inr True, s1)"
  using allow_returns [of "client_key rq" s] by (metis (full_types))

end

lemma is_allowed_total: "\<exists>b s'. is_allowed zs rpm now k s = (Inr b, s')"
  by (auto simp: is_allowed_def catchM_def returnM_def split: prod.splits sum.splits)

lemma get_remaining_total: "\<exists>n s'. get_remaining zs rpm now k s = (Inr n, s') \<and> (0 \<le> rpm \<longrightarrow> 0 \<le> n)"
  by (auto simp: get_remaining_def catchM_def thenM_def bindM_def returnM_def split: prod.splits sum.splits)

interpretation redis_limiter: limiter "is_allowed zs rpm now" "get_remaining zs rpm now2" rpm
  by (unfold_locales; rule is_allowed_total get_remaining_total)

subsection \<open>Properties\<close>

text \<open>
  C5. The limiter is a sliding window: on a healthy server, a sequence of calls for one key, starting from an
  empty set, at Unix times of which each is at least a tenth of a millisecond after the one before, answers
  exactly what the reference over the times of the admitted requests answers; no 60 second window ever
  holds more admitted requests than the limit, and the sets of the other keys are not touched. (Closer
  requests can share a member of the set, see \<open>simultaneous_requests_share_an_entry\<close>.)
\<close>

theorem limiter_is_sliding_window:
  assumes laws: "zset_laws zs zv" "seeded_alike zs zv r" "renders_14_digits zs"
    and start: "zv s (rate_key key) = []" and times: "spaced ts" and limit: "0 \<le> rpm"
  shows "\<exists>s' answers. allowed_run zs rpm key ts s = (Inr answers, s') \<and> answers = sliding rpm [] ts \<and>
    (\<forall>t. int (in_window t (admitted answers ts)) \<le> rpm) \<and> (\<forall>k. k \<noteq> rate_key key \<longrightarrow> zv s' k = zv s k)"
proof -
  let ?t0 = "case ts of [] \<Rightarrow> 0 | t # _ \<Rightarrow> t"
  have "\<forall>t \<in> set ts. ?t0 \<le> t" using times by (cases ts) (auto simp: spaced_def)
  then obtain s' where "allowed_run zs rpm key ts s = (Inr (sliding rpm [] ts), s')"
    "\<forall>k. k \<noteq> rate_key key \<longrightarrow> zv s' k = zv s k"
    using allowed_run_sliding [OF laws, of s key ?t0 "[]" ts rpm] start times by auto
  then show ?thesis using sliding_window_bound [of "[]" rpm _ ts] limit by (auto simp: in_window_def)
qed

text \<open>A server that renders a time by its tenths of a millisecond.\<close>

definition tenths :: "real \<Rightarrow> string" where
  "tenths t = replicate (nat \<lfloor>t * 10 ^ 4\<rfloor>) CHR ''i''"

definition demo_zset :: "(string \<Rightarrow> (string \<times> real) list) zset" where
  "demo_zset = \<lparr>zs_remrangebyscore = (\<lambda>k m s. (Inr 0, s(k := filter (\<lambda>(x, sc). sc > m) (s k)))),
     zs_card = (\<lambda>k s. (Inr (int (length (s k))), s)),
     zs_add = (\<lambda>k sc x s. (Inr (), s(k := AList.update x sc (s k)))), zs_expire = (\<lambda>k n s. (Inr (), s)),
     zs_random = (\<lambda>s. (Inr 7, s)), zs_tostring = tenths, zs_delete = (\<lambda>k s. (Inr 1, s(k := [])))\<rparr>"

lemma tenths_apart:
  assumes "10 ^ 9 \<le> t" "t + 1 / 10 ^ 4 \<le> u"
  shows "tenths t \<noteq> tenths u"
proof -
  have "t * 10 ^ 4 + 1 \<le> u * 10 ^ 4" using assms(2) by (simp add: field_simps)
  then have "\<lfloor>t * 10 ^ 4\<rfloor> + 1 \<le> \<lfloor>u * 10 ^ 4\<rfloor>" by linarith
  moreover have "0 \<le> \<lfloor>t * 10 ^ 4\<rfloor>" using assms(1) by simp
  ultimately have "nat \<lfloor>t * 10 ^ 4\<rfloor> \<noteq> nat \<lfloor>u * 10 ^ 4\<rfloor>" by linarith
  then show ?thesis unfolding tenths_def by (metis length_replicate)
qed

lemma demo_zset_laws:
  "zset_laws demo_zset (\<lambda>s. s)" "seeded_alike demo_zset (\<lambda>s. s) 7" "renders_14_digits demo_zset"
proof -
  show "zset_laws demo_zset (\<lambda>s. s)" "seeded_alike demo_zset (\<lambda>s. s) 7"
    by (simp_all add: zset_laws_def seeded_alike_def demo_zset_def)
  have "zs_tostring demo_zset = tenths" by (simp add: demo_zset_def)
  then show "renders_14_digits demo_zset" using tenths_apart unfolding renders_14_digits_def by simp
qed

theorem limiter_is_sliding_window_witness:
  "\<exists>s'. allowed_run demo_zset 2 ''k'' [1700000000, 1700000001, 1700000002, 1700000061] (\<lambda>k. []) =
      (Inr [True, True, False, True], s') \<and> s' ''rate:x'' = []"
proof -
  let ?ts = "[1700000000, 1700000001, 1700000002, 1700000061] :: real list"
  have "spaced ?ts" by (simp add: spaced_def)
  then obtain s' answers where "allowed_run demo_zset 2 ''k'' ?ts (\<lambda>k. []) = (Inr answers, s')" "answers = sliding 2 [] ?ts"
    "\<forall>k. k \<noteq> rate_key ''k'' \<longrightarrow> s' k = []"
    using limiter_is_sliding_window [OF demo_zset_laws, of "\<lambda>k. []" "''k''" ?ts 2] by auto
  then show ?thesis by (simp add: rate_key_def)
qed



end
