(* ===== verification/Background_Worker.thy ===== *)
theory Background_Worker
  imports Exceptions
begin

section \<open>The background worker\<close>

text \<open>
  \<open>src/app/infrastructure/queue/worker.py\<close>. The event loop interleaves the callers of \<open>enqueue\<close>,
  \<open>start\<close> and \<open>stop\<close>, the worker loop and one \<open>_execute\<close> coroutine per dequeued task; control
  changes hands only at an \<open>await\<close>, so the code between two of them is one step. A task is in
  the queue, waiting for the semaphore, executing its coroutine, or finishing: between the
  change of its status and the release of the semaphore the code awaits the logger.

  \<open>stop\<close> cancels the worker loop and waits for it. The loop's only \<open>await\<close> is the read of
  the queue, so a cancelled loop takes nothing more, and the field \<open>w_running\<close> also says that a loop is
  alive. A coroutine is named by the id of its task; a fresh \<open>uuid4\<close> is an id not seen before.
\<close>

datatype task_status = PENDING | RUNNING | COMPLETED | FAILED | CANCELLED

fun task_status_value :: "task_status \<Rightarrow> string" where
  "task_status_value PENDING = ''pending''"
| "task_status_value RUNNING = ''running''"
| "task_status_value COMPLETED = ''completed''"
| "task_status_value FAILED = ''failed''"
| "task_status_value CANCELLED = ''cancelled''"

record task_info =
  t_status :: task_status
  t_name :: string
  t_error :: "string option"

record worker =
  w_queue :: "string list"
  w_permits :: nat
  w_tasks :: "string \<rightharpoonup> task_info"
  w_running :: bool
  w_waiting :: "string list"
  w_executing :: "string list"
  w_finishing :: "string list"

definition new_worker :: "nat \<Rightarrow> worker" where
  "new_worker max_concurrent =
     \<lparr>w_queue = [], w_permits = max_concurrent, w_tasks = Map.empty, w_running = False,
      w_waiting = [], w_executing = [], w_finishing = []\<rparr>"

subsection \<open>Operations\<close>

definition set_status :: "task_status \<Rightarrow> string \<Rightarrow> (string \<rightharpoonup> task_info) \<Rightarrow> (string \<rightharpoonup> task_info)" where
  "set_status st i ts = (case ts i of None \<Rightarrow> ts | Some t \<Rightarrow> ts(i \<mapsto> t\<lparr>t_status := st\<rparr>))"

definition enqueue :: "string \<Rightarrow> string \<Rightarrow> worker \<Rightarrow> worker" where
  "enqueue task_id task_name w =
     w\<lparr>w_tasks := (w_tasks w)(task_id \<mapsto> \<lparr>t_status = PENDING, t_name = task_name, t_error = None\<rparr>),
       w_queue := w_queue w @ [task_id]\<rparr>"

definition start_worker :: "worker \<Rightarrow> worker" where
  "start_worker w = w\<lparr>w_running := True\<rparr>"

definition stop_worker :: "worker \<Rightarrow> worker" where
  "stop_worker w =
     w\<lparr>w_running := False, w_tasks := fold (set_status CANCELLED) (w_queue w) (w_tasks w), w_queue := []\<rparr>"

definition get_status :: "worker \<Rightarrow> string \<Rightarrow> string \<times> string \<times> string option" where
  "get_status w task_id = (case w_tasks w task_id of
     None \<Rightarrow> (''unknown'', [], None)
   | Some t \<Rightarrow> (task_status_value (t_status t), t_name t, t_error t))"

text \<open>The worker loop takes the head of the queue and creates the task that executes it.\<close>

definition worker_loop_take :: "worker \<Rightarrow> worker option" where
  "worker_loop_take w =
     (if w_running w then (case w_queue w of
          [] \<Rightarrow> None
        | i # is \<Rightarrow> Some (w\<lparr>w_queue := is, w_waiting := w_waiting w @ [i]\<rparr>))
      else None)"

definition execute_acquire :: "string \<Rightarrow> worker \<Rightarrow> worker option" where
  "execute_acquire i w =
     (if i \<in> set (w_waiting w) \<and> 0 < w_permits w
      then Some (w\<lparr>w_permits := w_permits w - 1, w_waiting := remove1 i (w_waiting w),
             w_executing := w_executing w @ [i], w_tasks := set_status RUNNING i (w_tasks w)\<rparr>)
      else None)"

text \<open>
  The coroutine returns (\<open>Inr ()\<close>) or raises an \<open>Exception\<close> with the given text; \<open>except Exception\<close> does not
  catch the cancellation of the coroutine (\<open>Inl None\<close>), which leaves the status as it is.
\<close>

definition set_error :: "string \<Rightarrow> string \<Rightarrow> (string \<rightharpoonup> task_info) \<Rightarrow> (string \<rightharpoonup> task_info)" where
  "set_error err i ts = (case ts i of None \<Rightarrow> ts | Some t \<Rightarrow> ts(i \<mapsto> t\<lparr>t_error := Some err\<rparr>))"

fun record_outcome :: "string \<Rightarrow> string option + unit \<Rightarrow> (string \<rightharpoonup> task_info) \<Rightarrow> (string \<rightharpoonup> task_info)" where
  "record_outcome i (Inr _) ts = set_status COMPLETED i ts"
| "record_outcome i (Inl (Some err)) ts = set_error err i (set_status FAILED i ts)"
| "record_outcome i (Inl None) ts = ts"

definition execute_finish :: "string \<Rightarrow> string option + unit \<Rightarrow> worker \<Rightarrow> worker option" where
  "execute_finish i outcome w =
     (if i \<in> set (w_executing w)
      then Some (w\<lparr>w_executing := remove1 i (w_executing w), w_finishing := w_finishing w @ [i],
             w_tasks := record_outcome i outcome (w_tasks w)\<rparr>)
      else None)"

definition execute_release :: "string \<Rightarrow> worker \<Rightarrow> worker option" where
  "execute_release i w =
     (if i \<in> set (w_finishing w)
      then Some (w\<lparr>w_finishing := remove1 i (w_finishing w), w_permits := w_permits w + 1\<rparr>) else None)"

subsection \<open>Interleavings\<close>

datatype event =
    Enqueue string string | Start | Stop | Take
  | Acquire string | Finish string "string option + unit" | Release string

fun apply_event :: "event \<Rightarrow> worker \<Rightarrow> worker option" where
  "apply_event (Enqueue i n) w = (if w_tasks w i = None then Some (enqueue i n w) else None)"
| "apply_event Start w = Some (start_worker w)"
| "apply_event Stop w = Some (stop_worker w)"
| "apply_event Take w = worker_loop_take w"
| "apply_event (Acquire i) w = execute_acquire i w"
| "apply_event (Finish i r) w = execute_finish i r w"
| "apply_event (Release i) w = execute_release i w"

inductive steps :: "worker \<Rightarrow> event list \<Rightarrow> worker \<Rightarrow> bool" where
  steps_Nil: "steps w [] w"
| steps_snoc: "steps w es w' \<Longrightarrow> apply_event e w' = Some w'' \<Longrightarrow> steps w (es @ [e]) w''"

inductive_cases steps_NilE: "steps w [] w'"

fun run_events :: "event list \<Rightarrow> worker \<Rightarrow> worker option" where
  "run_events [] w = Some w"
| "run_events (e # es) w = (case apply_event e w of None \<Rightarrow> None | Some w' \<Rightarrow> run_events es w')"

subsection \<open>Invariant\<close>

definition live :: "worker \<Rightarrow> string list" where
  "live w = w_queue w @ w_waiting w @ w_executing w @ w_finishing w"

definition status_of :: "(string \<rightharpoonup> task_info) \<Rightarrow> string \<Rightarrow> task_status option" where
  "status_of ts i = map_option t_status (ts i)"

definition status_at :: "worker \<Rightarrow> string \<Rightarrow> task_status option" where
  "status_at w = status_of (w_tasks w)"

definition worker_inv :: "nat \<Rightarrow> worker \<Rightarrow> bool" where
  "worker_inv n w \<longleftrightarrow> distinct (live w) \<and>
     w_permits w + length (w_executing w) + length (w_finishing w) = n \<and>
     (\<forall>i. status_at w i = Some PENDING \<longleftrightarrow> i \<in> set (w_queue w) \<union> set (w_waiting w)) \<and>
     (\<forall>i \<in> set (w_executing w). status_at w i = Some RUNNING) \<and>
     (\<forall>i \<in> set (w_finishing w). status_at w i \<noteq> None)"

lemma status_of_None: "status_of ts i = None \<longleftrightarrow> ts i = None"
  by (simp add: status_of_def)

lemma status_of_upd [simp]: "status_of (ts(i \<mapsto> t)) j = (if j = i then Some (t_status t) else status_of ts j)"
  by (simp add: status_of_def)

lemma status_of_set_status [simp]:
  "status_of (set_status st i ts) j = (if j = i \<and> status_of ts j \<noteq> None then Some st else status_of ts j)"
  by (auto simp: set_status_def status_of_def split: option.splits)

lemma status_of_set_error [simp]: "status_of (set_error err i ts) j = status_of ts j"
  by (auto simp: set_error_def status_of_def split: option.splits)

lemma status_of_fold_set_status [simp]:
  "status_of (fold (set_status st) is ts) j =
     (if j \<in> set is \<and> status_of ts j \<noteq> None then Some st else status_of ts j)"
  by (induction "is" arbitrary: ts) (simp_all del: not_None_eq)

lemma worker_inv_new: "worker_inv n (new_worker n)"
  by (simp add: worker_inv_def new_worker_def live_def status_at_def status_of_def)

lemma live_known: "worker_inv n w \<Longrightarrow> i \<in> set (live w) \<Longrightarrow> status_at w i \<noteq> None"
  unfolding worker_inv_def live_def set_append Un_iff by (metis option.simps(3))

lemma status_of_record_outcome_other: "j \<noteq> i \<Longrightarrow> status_of (record_outcome i r ts) j = status_of ts j"
  by (cases "(i, r, ts)" rule: record_outcome.cases) simp_all

lemma status_of_record_outcome_here:
  "status_of ts i = Some RUNNING \<Longrightarrow> \<exists>st. status_of (record_outcome i r ts) i = Some st \<and> st \<noteq> PENDING"
  by (cases "(i, r, ts)" rule: record_outcome.cases) simp_all

lemma worker_inv_step:
  assumes "worker_inv n w" "apply_event e w = Some w'"
  shows "worker_inv n w'"
proof (cases e)
  case (Enqueue i nm)
  then have "w' = enqueue i nm w" "w_tasks w i = None" using assms(2) by (auto split: if_splits)
  moreover have "i \<notin> set (live w)"
    using live_known [OF assms(1), of i] \<open>w_tasks w i = None\<close> by (auto simp: status_at_def status_of_None)
  ultimately show ?thesis using assms(1) by (auto simp: worker_inv_def enqueue_def live_def status_at_def)
next
  case Stop
  then show ?thesis using assms
    by (auto simp: worker_inv_def stop_worker_def live_def status_at_def split: if_splits)
next
  case Take
  then show ?thesis using assms
    by (auto simp: worker_inv_def worker_loop_take_def live_def status_at_def split: if_splits list.splits)
next
  case (Acquire i)
  then show ?thesis using assms
    by (auto simp: worker_inv_def execute_acquire_def live_def status_at_def
        distinct_remove1 set_remove1_eq split: if_splits) (metis option.distinct(1))
next
  case (Finish i r)
  then have i: "i \<in> set (w_executing w)" and w': "w' = w\<lparr>w_executing := remove1 i (w_executing w),
      w_finishing := w_finishing w @ [i], w_tasks := record_outcome i r (w_tasks w)\<rparr>"
    using assms(2) by (simp_all add: execute_finish_def split: if_splits)
  then have run: "status_of (w_tasks w) i = Some RUNNING" using assms(1) by (simp add: worker_inv_def status_at_def)
  have pos: "0 < length (w_executing w)" using i by (cases "w_executing w") auto
  have "status_of (record_outcome i r (w_tasks w)) j = Some PENDING \<longleftrightarrow> status_of (w_tasks w) j = Some PENDING" for j
    using status_of_record_outcome_here [OF run, of r] run by (cases "j = i") (auto simp: status_of_record_outcome_other)
  moreover have "status_of (record_outcome i r (w_tasks w)) j \<noteq> None \<longleftrightarrow> status_of (w_tasks w) j \<noteq> None" for j
    using status_of_record_outcome_here [OF run, of r] run by (cases "j = i") (auto simp: status_of_record_outcome_other)
  ultimately show ?thesis using assms(1) i pos run
    by (auto simp: worker_inv_def w' live_def status_at_def length_remove1 status_of_record_outcome_other)
next
  case (Release i)
  then have "i \<in> set (w_finishing w)" using assms(2) by (simp add: execute_release_def split: if_splits)
  then have "Suc (length (remove1 i (w_finishing w))) = length (w_finishing w)"
    using length_pos_if_in_set [of i "w_finishing w"] by (simp add: length_remove1)
  then show ?thesis using Release assms
    by (auto simp: worker_inv_def execute_release_def live_def status_at_def split: if_splits)
qed (use assms in \<open>auto simp: worker_inv_def start_worker_def live_def status_at_def\<close>)

lemma worker_inv_steps: "steps w es w' \<Longrightarrow> worker_inv n w \<Longrightarrow> worker_inv n w'"
  by (induction rule: steps.induct) (auto intro: worker_inv_step)

lemma steps_append: "steps w' es' w'' \<Longrightarrow> steps w es w' \<Longrightarrow> steps w (es @ es') w''"
  by (induction rule: steps.induct) (auto simp flip: append_assoc intro: steps_snoc)

lemma run_events_steps: "run_events es w = Some w' \<Longrightarrow> steps w es w'"
proof (induction es arbitrary: w)
  case (Cons e es)
  then obtain v where "apply_event e w = Some v" "steps v es w'" by (auto split: option.splits)
  with steps_append [OF _ steps_snoc [OF steps_Nil]] show ?case by fastforce
qed (simp add: steps_Nil)

subsection \<open>Final statuses and stopping\<close>

fun terminal :: "task_status \<Rightarrow> bool" where
  "terminal PENDING = False"
| "terminal RUNNING = False"
| "terminal st = True"

lemma terminal_step:
  assumes "worker_inv n w" "apply_event e w = Some w'" "status_at w i = Some st" "terminal st"
  shows "status_at w' i = Some st"
proof -
  have out: "i \<notin> set (w_queue w)" "i \<notin> set (w_waiting w)" "i \<notin> set (w_executing w)"
    using assms(1,3,4) unfolding worker_inv_def by (metis UnCI option.inject terminal.simps(1,2))+
  show ?thesis
  proof (cases e)
    case (Enqueue j nm)
    then show ?thesis using assms(2,3) by (auto simp: enqueue_def status_at_def status_of_def split: if_splits)
  next
    case (Finish j r)
    then show ?thesis using assms(2,3) out(3)
      by (cases "j = i") (auto simp: execute_finish_def status_at_def status_of_record_outcome_other split: if_splits)
  qed (use assms(2,3) out in \<open>auto simp: start_worker_def stop_worker_def worker_loop_take_def execute_acquire_def
        execute_release_def status_at_def split: if_splits list.splits\<close>)
qed

lemma terminal_steps:
  "steps w es w' \<Longrightarrow> worker_inv n w \<Longrightarrow> status_at w i = Some st \<Longrightarrow> terminal st \<Longrightarrow> status_at w' i = Some st"
  by (induction rule: steps.induct) (auto intro: terminal_step worker_inv_steps)

lemma stopped_stays:
  "steps w es w' \<Longrightarrow> \<not> w_running w \<Longrightarrow> Start \<notin> set es \<Longrightarrow> \<not> w_running w' \<and> Take \<notin> set es"
proof (induction rule: steps.induct)
  case (steps_snoc w es w' e w'')
  then show ?case
    by (cases e) (auto simp: enqueue_def stop_worker_def worker_loop_take_def execute_acquire_def
        execute_finish_def execute_release_def split: if_splits)
qed simp

subsection \<open>Properties\<close>

text \<open>
  C6. Concurrency control: in every interleaving of callers, worker loop and task executions,
  at most \<open>max_concurrent\<close> coroutines are executing, no task is in two places at once, a task is
  pending exactly when it is in the queue or waits for the semaphore, so none is lost, and
  every executing task is reported as running.
\<close>

theorem worker_bounds_concurrency:
  assumes "steps (new_worker max_concurrent) es w"
  shows "length (w_executing w) \<le> max_concurrent \<and> distinct (live w) \<and>
    (\<forall>i. fst (get_status w i) = ''pending'' \<longleftrightarrow> i \<in> set (w_queue w) \<union> set (w_waiting w)) \<and>
    (\<forall>i \<in> set (w_executing w). fst (get_status w i) = ''running'')"
proof -
  have inv: "worker_inv max_concurrent w" using worker_inv_steps [OF assms worker_inv_new] .
  have st: "fst (get_status w i) = (case status_at w i of None \<Rightarrow> ''unknown'' | Some st \<Rightarrow> task_status_value st)" for i
    by (simp add: get_status_def status_at_def status_of_def split: option.splits)
  have "fst (get_status w i) = ''pending'' \<longleftrightarrow> status_at w i = Some PENDING" for i
  proof (cases "status_at w i")
    case (Some s)
    then show ?thesis using st by (cases s) auto
  qed (use st in simp)
  then show ?thesis using inv st by (auto simp: worker_inv_def)
qed

text \<open>
  Shutdown: \<open>stop\<close> cancels exactly the tasks that are still in the queue, and they stay
  cancelled whatever happens next; until the next \<open>start\<close> nothing is taken from the queue. Tasks
  taken before are untouched: \<open>stop\<close> waits for none of them, and one that was still pending
  behind the semaphore runs as soon as a slot is free.
\<close>

theorem stop_cancels_only_the_queue:
  assumes before: "steps (new_worker n) es w" and after: "steps (stop_worker w) es' w'" and "Start \<notin> set es'"
  shows "(\<forall>i \<in> set (w_queue w). status_at w' i = Some CANCELLED) \<and> Take \<notin> set es' \<and>
    (\<forall>i. i \<notin> set (w_queue w) \<longrightarrow> status_at (stop_worker w) i = status_at w i) \<and>
    (\<forall>i \<in> set (w_waiting w). 0 < w_permits w \<longrightarrow>
       map_option (\<lambda>v. status_at v i) (execute_acquire i (stop_worker w)) = Some (Some RUNNING))"
proof -
  have inv: "worker_inv n w" using worker_inv_steps [OF before worker_inv_new] .
  then have inv': "worker_inv n (stop_worker w)" using worker_inv_step [of n w Stop] by simp
  have known: "status_at w i \<noteq> None" if "i \<in> set (w_queue w) \<union> set (w_waiting w)" for i
    using live_known [OF inv] that by (auto simp: live_def)
  have "status_at (stop_worker w) i = (if i \<in> set (w_queue w) then Some CANCELLED else status_at w i)" for i
    using known by (simp add: stop_worker_def status_at_def del: not_None_eq)
  then have cancelled: "\<forall>i \<in> set (w_queue w). status_at w' i = Some CANCELLED"
    and others: "\<forall>i. i \<notin> set (w_queue w) \<longrightarrow> status_at (stop_worker w) i = status_at w i"
    using terminal_steps [OF after inv'] by auto
  have "Take \<notin> set es'"
    using stopped_stays [OF after] assms(3) by (simp add: stop_worker_def)
  moreover have "map_option (\<lambda>v. status_at v i) (execute_acquire i (stop_worker w)) = Some (Some RUNNING)"
    if "i \<in> set (w_waiting w)" "0 < w_permits w" for i
    using that known by (simp add: execute_acquire_def stop_worker_def status_at_def del: not_None_eq)
  ultimately show ?thesis using cancelled others by blast
qed

definition demo_events :: "event list" where
  "demo_events = [Start, Enqueue ''a'' ''x'', Enqueue ''b'' ''y'', Enqueue ''c'' ''z'', Take, Acquire ''a'', Take]"

lemma demo_events_run:
  "\<exists>w. run_events demo_events (new_worker 1) = Some w \<and> w_queue w = [''c''] \<and> w_waiting w = [''b''] \<and>
     w_executing w = [''a'']"
  by (simp add: demo_events_def new_worker_def start_worker_def enqueue_def worker_loop_take_def
      execute_acquire_def set_status_def)

theorem worker_bounds_concurrency_witness:
  "\<exists>w. run_events demo_events (new_worker 1) = Some w \<and> w_executing w = [''a''] \<and> length (w_executing w) \<le> 1 \<and>
     fst (get_status w ''a'') = ''running''"
  using demo_events_run worker_bounds_concurrency [OF run_events_steps, of demo_events 1] by fastforce

theorem stop_cancels_only_the_queue_witness:
  "\<exists>w w'. run_events demo_events (new_worker 1) = Some w \<and>
     run_events [Finish ''a'' (Inr ()), Release ''a'', Acquire ''b''] (stop_worker w) = Some w' \<and>
     status_at w' ''c'' = Some CANCELLED \<and> status_at w' ''b'' = Some RUNNING"
proof -
  let ?later = "[Finish ''a'' (Inr ()), Release ''a'', Acquire ''b'']"
  have "\<exists>w w'. run_events demo_events (new_worker 1) = Some w \<and> w_queue w = [''c''] \<and>
      run_events ?later (stop_worker w) = Some w' \<and> status_at w' ''b'' = Some RUNNING"
    by (simp add: demo_events_def new_worker_def start_worker_def enqueue_def worker_loop_take_def
        execute_acquire_def execute_finish_def execute_release_def set_status_def stop_worker_def status_at_def status_of_def)
  then obtain w w' where w: "run_events demo_events (new_worker 1) = Some w" "w_queue w = [''c'']"
    and w': "run_events ?later (stop_worker w) = Some w'" "status_at w' ''b'' = Some RUNNING" by blast
  have "Start \<notin> set ?later" by simp
  from stop_cancels_only_the_queue [OF run_events_steps [OF w(1)] run_events_steps [OF w'(1)] this] w w'
  show ?thesis by auto
qed

end
