(* ===== verification/Settings.thy ===== *)
theory Settings
  imports Chunking Rate_Limiter Context_Prompt
begin

section \<open>Settings\<close>

text \<open>
  \<open>src/app/core/config/settings.py\<close>. Each settings group is a record; the groups with declared
  bounds have a constructor that rejects values outside them, and \<open>make_settings\<close> validates the groups
  and then runs the model validator. Reading the environment is the library's and is left out. A
  dumped model is a tree whose leaves are plain values or \<open>SecretStr\<close> objects; \<open>SecretStr\<close> is falsy
  exactly when it is empty.
\<close>

record openai_settings =
  oa_api_key :: string
  oa_model :: string
  oa_embedding_model :: string
  oa_max_retries :: int
  oa_embedding_dimensions :: int
  oa_max_tokens :: int
  oa_temperature :: real

record redis_settings =
  rd_host :: string
  rd_port :: int
  rd_db :: int
  rd_password :: "string option"

definition redis_url :: "redis_settings \<Rightarrow> string" where
  "redis_url r =
     (let address = rd_host r @ '':'' @ py_str_int (rd_port r) @ ''/'' @ py_str_int (rd_db r)
      in case rd_password r of
           Some (c # cs) \<Rightarrow> ''redis://:'' @ (c # cs) @ ''@'' @ address
         | _ \<Rightarrow> ''redis://'' @ address)"

record database_settings =
  db_host :: string
  db_port :: int
  db_user :: string
  db_password :: string
  db_name :: string
  db_pool_min_size :: int
  db_pool_max_size :: int

definition database_url :: "database_settings \<Rightarrow> string" where
  "database_url d = ''postgresql://'' @ db_user d @ '':'' @ db_password d @ ''@'' @ db_host d @ '':'' @
     py_str_int (db_port d) @ ''/'' @ db_name d"

record qdrant_settings =
  qs_host :: string
  qs_port :: int
  qs_grpc_port :: int
  qs_collection_name :: string
  qs_prefer_grpc :: bool

record chunking_settings =
  ck_chunk_size :: int
  ck_chunk_overlap :: int

record rate_limit_settings =
  rl_requests_per_minute :: int
  rl_burst_size :: int

record worker_settings =
  wk_max_jobs :: int
  wk_job_timeout :: int
  wk_max_retries :: int
  wk_retry_delay :: int

record rag_settings =
  rg_threshold :: real
  rg_context_tokens :: int
  rg_top_k :: int

record settings =
  st_app_name :: string
  st_debug :: bool
  st_log_level :: string
  st_api_key :: string
  st_openai :: openai_settings
  st_redis :: redis_settings
  st_database :: database_settings
  st_qdrant :: qdrant_settings
  st_chunking :: chunking_settings
  st_rate_limit :: rate_limit_settings
  st_worker :: worker_settings
  st_rag :: rag_settings

subsection \<open>Defaults\<close>

text \<open>What the settings are when the environment sets only the two keys.\<close>

definition default_openai :: "string \<Rightarrow> openai_settings" where
  "default_openai api_key = \<lparr>oa_api_key = api_key, oa_model = ''gpt-4o'', oa_embedding_model = ''text-embedding-3-small'',
     oa_max_retries = 3, oa_embedding_dimensions = 1536, oa_max_tokens = 4096, oa_temperature = 7 / 10\<rparr>"

definition default_redis :: redis_settings where
  "default_redis = \<lparr>rd_host = ''localhost'', rd_port = 6379, rd_db = 0, rd_password = None\<rparr>"

definition default_database :: database_settings where
  "default_database = \<lparr>db_host = ''localhost'', db_port = 5432, db_user = ''postgres'', db_password = ''postgres'',
     db_name = ''ai_backend'', db_pool_min_size = 2, db_pool_max_size = 10\<rparr>"

definition default_qdrant :: qdrant_settings where
  "default_qdrant = \<lparr>qs_host = ''localhost'', qs_port = 6333, qs_grpc_port = 6334, qs_collection_name = ''documents'',
     qs_prefer_grpc = True\<rparr>"

definition default_chunking :: chunking_settings where
  "default_chunking = \<lparr>ck_chunk_size = 512, ck_chunk_overlap = 50\<rparr>"

definition default_rate_limit :: rate_limit_settings where
  "default_rate_limit = \<lparr>rl_requests_per_minute = 60, rl_burst_size = 10\<rparr>"

definition default_worker :: worker_settings where
  "default_worker = \<lparr>wk_max_jobs = 10, wk_job_timeout = 300, wk_max_retries = 3, wk_retry_delay = 30\<rparr>"

definition default_rag :: rag_settings where
  "default_rag = \<lparr>rg_threshold = 72 / 100, rg_context_tokens = 20000, rg_top_k = 10\<rparr>"

definition default_settings :: "string option \<Rightarrow> string \<Rightarrow> settings" where
  "default_settings api_key openai_key =
     \<lparr>st_app_name = ''AI Backend API'', st_debug = False, st_log_level = ''INFO'',
      st_api_key = (case api_key of None \<Rightarrow> ''change-me-in-production'' | Some k \<Rightarrow> k),
      st_openai = default_openai openai_key, st_redis = default_redis, st_database = default_database,
      st_qdrant = default_qdrant, st_chunking = default_chunking, st_rate_limit = default_rate_limit,
      st_worker = default_worker, st_rag = default_rag\<rparr>"

lemmas default_defs = default_settings_def default_openai_def default_redis_def default_database_def default_qdrant_def
  default_chunking_def default_rate_limit_def default_worker_def default_rag_def

subsection \<open>Validation\<close>

definition bad_fields :: "(string \<times> bool) list \<Rightarrow> string list" where
  "bad_fields checks = map fst (filter (\<lambda>(f, ok). \<not> ok) checks)"

definition ChunkingSettings :: "chunking_settings \<Rightarrow> string list" where
  "ChunkingSettings c = bad_fields [(''chunk_size'', 100 \<le> ck_chunk_size c \<and> ck_chunk_size c \<le> 8192),
     (''chunk_overlap'', 0 \<le> ck_chunk_overlap c \<and> ck_chunk_overlap c \<le> 512)]"

definition RateLimitSettings :: "rate_limit_settings \<Rightarrow> string list" where
  "RateLimitSettings r = bad_fields [(''requests_per_minute'', 1 \<le> rl_requests_per_minute r),
     (''burst_size'', 1 \<le> rl_burst_size r)]"

definition RAGSettings :: "rag_settings \<Rightarrow> string list" where
  "RAGSettings r = bad_fields [(''score_threshold'', 0 \<le> rg_threshold r \<and> rg_threshold r \<le> 1),
     (''max_context_tokens'', 1000 \<le> rg_context_tokens r), (''top_k'', 1 \<le> rg_top_k r \<and> rg_top_k r \<le> 50)]"

definition sentinel :: string where
  "sentinel = ''change-me-in-production''"

definition validate_secrets :: "settings \<Rightarrow> settings result" where
  "validate_secrets s =
     (if \<not> st_debug s \<and> st_api_key s = sentinel then Inl (ValidationError ''Settings'' []) else Inr s)"

definition make_settings :: "settings \<Rightarrow> settings result" where
  "make_settings s =
     (let bad = ChunkingSettings (st_chunking s) @ RateLimitSettings (st_rate_limit s) @ RAGSettings (st_rag s)
      in if bad \<noteq> [] then Inl (ValidationError ''Settings'' bad) else validate_secrets s)"

subsection \<open>Dumping\<close>

datatype dump = Plain pyval | SecretStr string | Group "(string \<times> dump) list"

definition secret_opt :: "string option \<Rightarrow> dump" where
  "secret_opt x = (case x of None \<Rightarrow> Plain PNone | Some p \<Rightarrow> SecretStr p)"

definition model_dump :: "settings \<Rightarrow> (string \<times> dump) list" where
  "model_dump s =
     [(''app_name'', Plain (PStr (st_app_name s))), (''debug'', Plain (PBool (st_debug s))),
      (''log_level'', Plain (PStr (st_log_level s))), (''api_key'', SecretStr (st_api_key s)),
      (''openai'', let a = st_openai s in Group [(''api_key'', SecretStr (oa_api_key a)), (''model'', Plain (PStr (oa_model a))),
         (''embedding_model'', Plain (PStr (oa_embedding_model a))), (''max_retries'', Plain (PInt (oa_max_retries a))),
         (''embedding_dimensions'', Plain (PInt (oa_embedding_dimensions a))), (''max_tokens'', Plain (PInt (oa_max_tokens a))),
         (''temperature'', Plain (PFloat (oa_temperature a)))]),
      (''redis'', let r = st_redis s in Group [(''host'', Plain (PStr (rd_host r))), (''port'', Plain (PInt (rd_port r))),
         (''db'', Plain (PInt (rd_db r))), (''password'', secret_opt (rd_password r))]),
      (''database'', let d = st_database s in Group [(''host'', Plain (PStr (db_host d))), (''port'', Plain (PInt (db_port d))),
         (''user'', Plain (PStr (db_user d))), (''password'', SecretStr (db_password d)), (''db_name'', Plain (PStr (db_name d))),
         (''pool_min_size'', Plain (PInt (db_pool_min_size d))), (''pool_max_size'', Plain (PInt (db_pool_max_size d)))]),
      (''qdrant'', let q = st_qdrant s in Group [(''host'', Plain (PStr (qs_host q))), (''port'', Plain (PInt (qs_port q))),
         (''grpc_port'', Plain (PInt (qs_grpc_port q))), (''collection_name'', Plain (PStr (qs_collection_name q))),
         (''prefer_grpc'', Plain (PBool (qs_prefer_grpc q)))]),
      (''chunking'', let c = st_chunking s in Group [(''chunk_size'', Plain (PInt (ck_chunk_size c))),
         (''chunk_overlap'', Plain (PInt (ck_chunk_overlap c)))]),
      (''rate_limit'', let r = st_rate_limit s in Group [(''requests_per_minute'', Plain (PInt (rl_requests_per_minute r))),
         (''burst_size'', Plain (PInt (rl_burst_size r)))]),
      (''worker'', let w = st_worker s in Group [(''max_jobs'', Plain (PInt (wk_max_jobs w))),
         (''job_timeout'', Plain (PInt (wk_job_timeout w))), (''max_retries'', Plain (PInt (wk_max_retries w))),
         (''retry_delay'', Plain (PInt (wk_retry_delay w)))]),
      (''rag'', let r = st_rag s in Group [(''score_threshold'', Plain (PFloat (rg_threshold r))),
         (''max_context_tokens'', Plain (PInt (rg_context_tokens r))), (''top_k'', Plain (PInt (rg_top_k r)))])]"

fun truthy :: "dump option \<Rightarrow> bool" where
  "truthy None = False"
| "truthy (Some (Plain v)) = (v \<noteq> PNone)"
| "truthy (Some (SecretStr p)) = (p \<noteq> [])"
| "truthy (Some (Group g)) = (g \<noteq> [])"

fun update_group :: "((string \<times> dump) list \<Rightarrow> (string \<times> dump) list) \<Rightarrow> dump \<Rightarrow> dump" where
  "update_group f (Group g) = Group (f g)"
| "update_group f d = d"

definition in_group ::
  "string \<Rightarrow> ((string \<times> dump) list \<Rightarrow> (string \<times> dump) list) \<Rightarrow> (string \<times> dump) list \<Rightarrow> (string \<times> dump) list" where
  "in_group k f data = map (\<lambda>(j, d). (j, if j = k then update_group f d else d)) data"

definition mask :: "string \<Rightarrow> (string \<times> dump) list \<Rightarrow> (string \<times> dump) list" where
  "mask k data = AList.update k (Plain (PStr ''***'')) data"

definition mask_if_set :: "string \<Rightarrow> (string \<times> dump) list \<Rightarrow> (string \<times> dump) list" where
  "mask_if_set k data = (if truthy (map_of data k) then mask k data else data)"

definition to_safe_dict :: "settings \<Rightarrow> (string \<times> dump) list" where
  "to_safe_dict s =
     in_group ''database'' (mask_if_set ''password'') (in_group ''redis'' (mask_if_set ''password'')
       (in_group ''openai'' (mask ''api_key'') (mask ''api_key'' (model_dump s))))"

subsection \<open>Lemmas\<close>

fun secrets :: "dump \<Rightarrow> string list" where
  "secrets (Plain v) = []"
| "secrets (SecretStr p) = [p]"
| "secrets (Group g) = concat (map (\<lambda>(k, d). secrets d) g)"

lemma bad_fields_Nil [simp]: "bad_fields cs = [] \<longleftrightarrow> (\<forall>(f, ok) \<in> set cs. ok)"
  by (auto simp: bad_fields_def filter_empty_conv)

lemma make_settings_ok:
  assumes "make_settings s = Inr s'"
  shows "s' = s" "100 \<le> ck_chunk_size (st_chunking s)" "0 \<le> ck_chunk_overlap (st_chunking s)"
    "1 \<le> rl_requests_per_minute (st_rate_limit s)" "st_debug s \<or> st_api_key s \<noteq> sentinel"
    "0 \<le> rg_threshold (st_rag s)" "1000 \<le> rg_context_tokens (st_rag s)"
  using assms
  by (auto simp: make_settings_def ChunkingSettings_def RateLimitSettings_def RAGSettings_def validate_secrets_def Let_def
      split: if_splits)

text \<open>The defaults alone are accepted exactly when the key of the API is set to something else.\<close>

lemma default_settings_accepted:
  "is_ok (make_settings (default_settings api_key openai_key)) \<longleftrightarrow> (case api_key of None \<Rightarrow> False | Some k \<Rightarrow> k \<noteq> sentinel)"
  by (auto simp: make_settings_def default_defs ChunkingSettings_def RateLimitSettings_def RAGSettings_def
      validate_secrets_def sentinel_def split: option.splits)

subsection \<open>Properties\<close>

text \<open>
  The safe dump hides the secrets: every key of the settings is still there and the groups
  without secrets are unchanged, but no secret string is left in it apart from empty passwords.
\<close>

theorem safe_dict_masks_secrets:
  "map fst (to_safe_dict s) = map fst (model_dump s) \<and> set (secrets (Group (to_safe_dict s))) \<subseteq> {[]} \<and>
   filter (\<lambda>(k, d). k \<notin> {''api_key'', ''openai'', ''redis'', ''database''}) (to_safe_dict s) =
   filter (\<lambda>(k, d). k \<notin> {''api_key'', ''openai'', ''redis'', ''database''}) (model_dump s)"
  by (simp add: to_safe_dict_def in_group_def mask_def mask_if_set_def model_dump_def secret_opt_def Let_def
      split: option.splits)

end
