(* ===== verification/Container.thy ===== *)
theory Container
  imports Settings Exceptions
begin

section \<open>The dependency injection container\<close>

text \<open>
  \<open>src/app/container.py\<close>: the graph of providers as data. A provider names the class or function it calls
  and, per keyword, the injected value, which is another provider or an attribute path of the
  settings object (\<open>settings.provided...\<close>). The constructors' parameters are read from the classes,
  each with whether it has a default, and calls are bound with \<^const>\<open>py_bind_call\<close>.

  How the library combines awaitable values is a parameter: \<open>async_mode flags\<close> says whether a provider
  whose injected values are awaitable as in \<open>flags\<close> returns an awaitable itself. The documented rule
  (a provider with an awaitable injection switches to asynchronous mode and returns awaitables) is
  \<open>async_law\<close>.
\<close>

subsection \<open>Constructors\<close>

type_synonym params = "(string \<times> bool) list"

definition TokenAwareChunkingStrategy_init :: params where
  "TokenAwareChunkingStrategy_init = [(''model'', True)]"

definition TiktokenService_init :: params where
  "TiktokenService_init = []"

definition PostgresPool_init :: params where
  "PostgresPool_init = [(''settings'', False)]"

definition PostgresDocumentRepository_init :: params where
  "PostgresDocumentRepository_init = [(''pool'', False)]"

definition InMemoryChunkRepository_init :: params where
  "InMemoryChunkRepository_init = []"

definition RedisCache_init :: params where
  "RedisCache_init = [(''url'', False)]"

definition RedisRateLimiter_init :: params where
  "RedisRateLimiter_init = [(''redis_cache'', False), (''requests_per_minute'', True), (''burst_size'', True)]"

definition OpenAIEmbeddingService_init :: params where
  "OpenAIEmbeddingService_init = [(''settings'', False), (''cache'', True)]"

definition OpenAIChatService_init :: params where
  "OpenAIChatService_init = [(''settings'', False)]"

definition QdrantVectorRepository_init :: params where
  "QdrantVectorRepository_init = [(''settings'', False)]"

definition RedisChatHistoryRepository_init :: params where
  "RedisChatHistoryRepository_init = [(''redis_cache'', False)]"

definition PromptService_init :: params where
  "PromptService_init = []"

definition ContextService_init :: params where
  "ContextService_init = [(''token_service'', False), (''max_context_tokens'', True), (''score_threshold'', True)]"

definition ProcessDocumentUseCase_init :: params where
  "ProcessDocumentUseCase_init =
     [(''document_repository'', False), (''chunk_repository'', False), (''vector_repository'', False),
      (''embedding_provider'', False), (''chunking_strategy'', False), (''token_service'', False),
      (''chunk_size'', True), (''chunk_overlap'', True)]"

definition IngestDocumentUseCase_init :: params where
  "IngestDocumentUseCase_init = [(''document_repository'', False), (''arq_pool'', False)]"

definition SearchDocumentsUseCase_init :: params where
  "SearchDocumentsUseCase_init =
     [(''embedding_provider'', False), (''vector_repository'', False), (''token_service'', False)]"

definition RAGChatUseCase_init :: params where
  "RAGChatUseCase_init =
     [(''search_use_case'', False), (''chat_provider'', False), (''prompt_service'', False),
      (''context_service'', False), (''chat_history_repository'', False), (''token_service'', False)]"

definition get_settings_params :: params where
  "get_settings_params = []"

definition create_arq_pool_params :: params where
  "create_arq_pool_params = [(''redis_url'', False)]"

subsection \<open>The graph\<close>

datatype injection = Provided string | Attr "string list"

text \<open>A provider: how it is called, the name and the parameters of what it calls, the injections.\<close>

datatype kind = Singleton | Factory | Callable

record provider =
  pv_kind :: kind
  pv_calls :: string
  pv_params :: params
  pv_inject :: "(string \<times> injection) list"

definition mk_provider :: "kind \<Rightarrow> string \<Rightarrow> params \<Rightarrow> (string \<times> injection) list \<Rightarrow> provider" where
  "mk_provider k f ps dep = \<lparr>pv_kind = k, pv_calls = f, pv_params = ps, pv_inject = dep\<rparr>"

definition create_arq_pool_name :: string where
  "create_arq_pool_name = ''_create_arq_pool''"

text \<open>What the coroutine of \<open>_create_arq_pool\<close> does when it is awaited; both calls are the library's.\<close>

definition create_arq_pool ::
  "(string \<Rightarrow> 'cfg result) \<Rightarrow> ('cfg \<Rightarrow> ('s, exn, 'pool) eff) \<Rightarrow> string \<Rightarrow> ('s, exn, 'pool) eff" where
  "create_arq_pool from_dsn create_pool url = bindM (liftM (from_dsn url)) create_pool"

definition Container :: "(string \<times> provider) list" where
  "Container =
    [(''settings'', mk_provider Singleton ''get_settings'' get_settings_params []),
     (''chunking_strategy'', mk_provider Singleton ''TokenAwareChunkingStrategy'' TokenAwareChunkingStrategy_init
        [(''model'', Attr [''openai'', ''model''])]),
     (''token_service'', mk_provider Singleton ''TiktokenService'' TiktokenService_init []),
     (''postgres_pool'', mk_provider Singleton ''PostgresPool'' PostgresPool_init
        [(''settings'', Attr [''database''])]),
     (''document_repository'', mk_provider Singleton ''PostgresDocumentRepository'' PostgresDocumentRepository_init
        [(''pool'', Provided ''postgres_pool'')]),
     (''chunk_repository'', mk_provider Singleton ''InMemoryChunkRepository'' InMemoryChunkRepository_init []),
     (''redis_cache'', mk_provider Singleton ''RedisCache'' RedisCache_init [(''url'', Attr [''redis'', ''url''])]),
     (''rate_limiter'', mk_provider Singleton ''RedisRateLimiter'' RedisRateLimiter_init
        [(''redis_cache'', Provided ''redis_cache''),
         (''requests_per_minute'', Attr [''rate_limit'', ''requests_per_minute'']),
         (''burst_size'', Attr [''rate_limit'', ''burst_size''])]),
     (''arq_pool'', mk_provider Callable create_arq_pool_name create_arq_pool_params
        [(''redis_url'', Attr [''redis'', ''url''])]),
     (''embedding_provider'', mk_provider Singleton ''OpenAIEmbeddingService'' OpenAIEmbeddingService_init
        [(''settings'', Attr [''openai'']), (''cache'', Provided ''redis_cache'')]),
     (''chat_provider'', mk_provider Singleton ''OpenAIChatService'' OpenAIChatService_init
        [(''settings'', Attr [''openai''])]),
     (''vector_repository'', mk_provider Singleton ''QdrantVectorRepository'' QdrantVectorRepository_init
        [(''settings'', Attr [''qdrant''])]),
     (''chat_history_repository'', mk_provider Singleton ''RedisChatHistoryRepository'' RedisChatHistoryRepository_init
        [(''redis_cache'', Provided ''redis_cache'')]),
     (''prompt_service'', mk_provider Singleton ''PromptService'' PromptService_init []),
     (''context_service'', mk_provider Singleton ''ContextService'' ContextService_init
        [(''token_service'', Provided ''token_service''),
         (''max_context_tokens'', Attr [''rag'', ''max_context_tokens'']),
         (''score_threshold'', Attr [''rag'', ''score_threshold''])]),
     (''process_document'', mk_provider Factory ''ProcessDocumentUseCase'' ProcessDocumentUseCase_init
        [(''document_repository'', Provided ''document_repository''),
         (''chunk_repository'', Provided ''chunk_repository''),
         (''vector_repository'', Provided ''vector_repository''),
         (''embedding_provider'', Provided ''embedding_provider''),
         (''chunking_strategy'', Provided ''chunking_strategy''),
         (''token_service'', Provided ''token_service''),
         (''chunk_size'', Attr [''chunking'', ''chunk_size'']),
         (''chunk_overlap'', Attr [''chunking'', ''chunk_overlap''])]),
     (''ingest_document'', mk_provider Factory ''IngestDocumentUseCase'' IngestDocumentUseCase_init
        [(''document_repository'', Provided ''document_repository''), (''arq_pool'', Provided ''arq_pool'')]),
     (''search_documents'', mk_provider Factory ''SearchDocumentsUseCase'' SearchDocumentsUseCase_init
        [(''embedding_provider'', Provided ''embedding_provider''),
         (''vector_repository'', Provided ''vector_repository''), (''token_service'', Provided ''token_service'')]),
     (''rag_chat'', mk_provider Factory ''RAGChatUseCase'' RAGChatUseCase_init
        [(''search_use_case'', Provided ''search_documents''), (''chat_provider'', Provided ''chat_provider''),
         (''prompt_service'', Provided ''prompt_service''), (''context_service'', Provided ''context_service''),
         (''chat_history_repository'', Provided ''chat_history_repository''),
         (''token_service'', Provided ''token_service'')])]"

subsection \<open>Attributes of the settings\<close>

fun lookup :: "dump \<Rightarrow> string list \<Rightarrow> dump option" where
  "lookup d [] = Some d"
| "lookup (Group g) (k # ks) = (case map_of g k of None \<Rightarrow> None | Some d \<Rightarrow> lookup d ks)"
| "lookup d (k # ks) = None"

text \<open>The fields of the models and the two \<open>url\<close> properties.\<close>

definition settings_attr :: "settings \<Rightarrow> string list \<Rightarrow> dump option" where
  "settings_attr cfg path =
     (if path = [''redis'', ''url''] then Some (Plain (PStr (redis_url (st_redis cfg))))
      else if path = [''database'', ''url''] then Some (Plain (PStr (database_url (st_database cfg))))
      else lookup (Group (model_dump cfg)) path)"

subsection \<open>Well-formed graphs\<close>

text \<open>
  A provider is well formed after \<open>earlier\<close> ones when each injection is one of them or an attribute that
  the settings have, and its call binds.
\<close>

definition injection_ok :: "settings \<Rightarrow> string list \<Rightarrow> injection \<Rightarrow> bool" where
  "injection_ok cfg earlier dep = (case dep of
       Provided n \<Rightarrow> n \<in> set earlier
     | Attr path \<Rightarrow> ''settings'' \<in> set earlier \<and> settings_attr cfg path \<noteq> None)"

definition provider_ok :: "settings \<Rightarrow> string list \<Rightarrow> provider \<Rightarrow> bool" where
  "provider_ok cfg earlier p \<longleftrightarrow>
     list_all (injection_ok cfg earlier \<circ> snd) (pv_inject p) \<and>
     py_bind_call (pv_calls p) (pv_params p) 0 (map fst (pv_inject p)) = None"

fun graph_ok :: "settings \<Rightarrow> string list \<Rightarrow> (string \<times> provider) list \<Rightarrow> bool" where
  "graph_ok cfg earlier [] = True"
| "graph_ok cfg earlier ((n, p) # ps) \<longleftrightarrow>
     n \<notin> set earlier \<and> provider_ok cfg earlier p \<and> graph_ok cfg (n # earlier) ps"

text \<open>The providers a provider reaches, through its injections; a well-formed graph has no cycle.\<close>

inductive reaches :: "(string \<times> provider) list \<Rightarrow> string \<Rightarrow> string \<Rightarrow> bool" for g where
  direct: "map_of g n = Some p \<Longrightarrow> (k, Provided m) \<in> set (pv_inject p) \<Longrightarrow> reaches g n m"
| step: "reaches g n m \<Longrightarrow> reaches g m l \<Longrightarrow> reaches g n l"

definition position :: "(string \<times> provider) list \<Rightarrow> string \<Rightarrow> nat" where
  "position g n = length (takeWhile (\<lambda>(m, p). m \<noteq> n) g)"

lemma position_Cons: "position ((m, p) # g) n = (if m = n then 0 else Suc (position g n))"
  by (simp add: position_def)

lemma graph_ok_names: "graph_ok cfg earlier g \<Longrightarrow> n \<in> set (map fst g) \<Longrightarrow> n \<notin> set earlier"
  by (induction cfg earlier g rule: graph_ok.induct) auto

lemma graph_ok_direct:
  assumes "graph_ok cfg earlier g" "map_of g n = Some p" "(k, Provided m) \<in> set (pv_inject p)"
  shows "m \<in> set earlier \<or> position g m < position g n \<and> m \<in> set (map fst g)"
  using assms
proof (induction cfg earlier g rule: graph_ok.induct)
  case (2 cfg earlier m' p' ps)
  show ?case
  proof (cases "n = m'")
    case True
    with "2.prems" show ?thesis
      by (auto simp: provider_ok_def list_all_iff injection_ok_def)
  next
    case False
    with 2 have IH: "m \<in> set (m' # earlier) \<or> position ps m < position ps n \<and> m \<in> set (map fst ps)" by auto
    have "m' \<notin> set (map fst ps)"
      using graph_ok_names [of cfg "m' # earlier" ps m'] 2(2) by auto
    with IH False show ?thesis by (auto simp: position_Cons)
  qed
qed simp

lemma graph_ok_acyclic:
  assumes "graph_ok cfg [] g" "reaches g n m"
  shows "position g m < position g n"
  using assms(2,1) by induction (auto dest: graph_ok_direct)

subsection \<open>Awaitable values\<close>

datatype handle = Instance | Awaitable

text \<open>\<open>_create_arq_pool\<close> is the one \<open>async def\<close> among the called functions: a call returns a coroutine.\<close>

definition is_async_def :: "string \<Rightarrow> bool" where
  "is_async_def f = (f = create_arq_pool_name)"

definition async_law :: "(bool list \<Rightarrow> bool) \<Rightarrow> bool" where
  "async_law async_mode \<longleftrightarrow> (\<forall>flags. async_mode flags = (True \<in> set flags))"

definition injected_flag :: "(string \<times> handle) list \<Rightarrow> injection \<Rightarrow> bool" where
  "injected_flag known dep = (case dep of Provided n \<Rightarrow> map_of known n = Some Awaitable | Attr _ \<Rightarrow> False)"

definition provide :: "(bool list \<Rightarrow> bool) \<Rightarrow> (string \<times> handle) list \<Rightarrow> provider \<Rightarrow> handle" where
  "provide async_mode known p =
     (if is_async_def (pv_calls p) \<or> async_mode (map (injected_flag known \<circ> snd) (pv_inject p))
      then Awaitable else Instance)"

fun resolve :: "(bool list \<Rightarrow> bool) \<Rightarrow> (string \<times> handle) list \<Rightarrow> (string \<times> provider) list \<Rightarrow> (string \<times> handle) list" where
  "resolve async_mode known [] = known"
| "resolve async_mode known ((n, p) # ps) = resolve async_mode ((n, provide async_mode known p) # known) ps"

text \<open>What \<open>container.<name>()\<close> returns.\<close>

definition container_get :: "(bool list \<Rightarrow> bool) \<Rightarrow> string \<Rightarrow> handle option" where
  "container_get async_mode n = map_of (resolve async_mode [] Container) n"

text \<open>An attribute of an instance is looked up there; a coroutine or future has no method of the application.\<close>

definition get_method :: "handle option \<Rightarrow> string \<Rightarrow> ('s, exn, 'a) eff \<Rightarrow> ('s, exn, 'a) eff" where
  "get_method h name body = (case h of
       Some Instance \<Rightarrow> body | Some Awaitable \<Rightarrow> raiseM (AttributeError name) | None \<Rightarrow> raiseM (AttributeError name))"

text \<open>The dependency functions of the routers, \<open>src/app/api/dependencies/container.py\<close>.\<close>

definition get_ingest_use_case :: "(bool list \<Rightarrow> bool) \<Rightarrow> handle option" where
  "get_ingest_use_case async_mode = container_get async_mode ''ingest_document''"

definition get_search_use_case :: "(bool list \<Rightarrow> bool) \<Rightarrow> handle option" where
  "get_search_use_case async_mode = container_get async_mode ''search_documents''"

definition get_rag_chat_use_case :: "(bool list \<Rightarrow> bool) \<Rightarrow> handle option" where
  "get_rag_chat_use_case async_mode = container_get async_mode ''rag_chat''"

definition get_rate_limiter :: "(bool list \<Rightarrow> bool) \<Rightarrow> handle option" where
  "get_rate_limiter async_mode = container_get async_mode ''rate_limiter''"

lemma async_law_iff: "async_law am \<longleftrightarrow> am = (\<lambda>flags. True \<in> set flags)"
  unfolding async_law_def fun_eq_iff ..

lemma resolve_Container:
  assumes "async_law am"
  shows "map fst (filter (\<lambda>(n, h). h = Awaitable) (rev (resolve am [] Container))) = [''arq_pool'', ''ingest_document'']"
  unfolding assms [unfolded async_law_iff] by code_simp

lemma container_get_handles:
  assumes "async_law am"
  shows "container_get am ''arq_pool'' = Some Awaitable" "container_get am ''ingest_document'' = Some Awaitable"
    "container_get am ''process_document'' = Some Instance" "container_get am ''search_documents'' = Some Instance"
    "container_get am ''rag_chat'' = Some Instance" "container_get am ''rate_limiter'' = Some Instance"
  unfolding assms [unfolded async_law_iff] by code_simp+

lemma Container_ok: "graph_ok cfg [] Container"
  by code_simp

subsection \<open>Properties\<close>

text \<open>
  C21. The container's wiring is well typed: for all settings, every provider is named once, injects only
  providers declared before it and attributes that the settings object has, passes its class exactly
  keywords that the constructor takes and every required one, and no provider depends on itself.
\<close>

theorem container_is_well_formed: "graph_ok cfg [] Container \<and> \<not> reaches Container n n"
  using Container_ok graph_ok_acyclic [OF Container_ok] by blast

text \<open>
  The pool for queueing is made by an \<open>async def\<close>, so the container hands out awaitables for
  \<open>arq_pool\<close> and, through it, for \<open>ingest_document\<close>, and for no other provider: calling \<open>execute\<close> on what
  \<open>get_ingest_use_case\<close> returns raises \<open>AttributeError\<close> without touching the state, while the search and
  chat use cases are instances whose methods run.
\<close>

theorem ingest_use_case_is_awaitable:
  assumes "async_law am"
  shows "map fst (filter (\<lambda>(n, h). h = Awaitable) (rev (resolve am [] Container))) = [''arq_pool'', ''ingest_document''] \<and>
    get_method (get_ingest_use_case am) ''execute'' body s = (Inl (AttributeError ''execute''), s) \<and>
    get_method (get_search_use_case am) ''execute'' body s = body s \<and>
    get_method (get_rag_chat_use_case am) ''execute'' body s = body s \<and> get_rate_limiter am = Some Instance"
  using resolve_Container [OF assms]
  by (simp add: container_get_handles [OF assms] get_method_def raiseM_def get_ingest_use_case_def get_search_use_case_def
      get_rag_chat_use_case_def get_rate_limiter_def)

theorem ingest_use_case_is_awaitable_witness:
  "get_method (get_ingest_use_case (\<lambda>flags. True \<in> set flags)) ''execute'' (returnM (5 :: int)) (0 :: nat) =
     (Inl (AttributeError ''execute''), 0)"
  using ingest_use_case_is_awaitable [of "\<lambda>flags. True \<in> set flags" "returnM (5 :: int)" "0 :: nat"]
  by (simp add: async_law_def)

end
