(* ===== verification/Api.thy ===== *)
theory Api
  imports Rate_Limiter Ingestion RAG_Chat Container
begin

section \<open>The HTTP interface\<close>

text \<open>
  The request schemas of \<open>src/app/api/schemas/\<close>, the routers of \<open>src/app/api/routers/\<close>, and the
  application of \<open>src/app/main.py\<close>: its stack of middlewares and the health check. The
  framework validates a body with the schema and reports the bad fields in a
  \<open>RequestValidationError\<close>; \<open>msg\<close> is pydantic's text for a field, \<open>security\<close> what the
  \<open>APIKeyHeader\<close> scheme extracts from the header. A router's dependency on \<open>get_api_key\<close> is solved before its
  endpoint runs. The schemas of documents and searches have the fields of the DTOs and use
  their records.
\<close>

subsection \<open>Schemas\<close>

definition schema_check :: "(string \<Rightarrow> string) \<Rightarrow> string list \<Rightarrow> 'a \<Rightarrow> 'a result" where
  "schema_check msg bad r =
     (if bad = [] then Inr r else Inl (RequestValidationError (map (\<lambda>f. ([''body'', f], msg f)) bad)))"

definition ApiIngestRequest :: "(string \<Rightarrow> string) \<Rightarrow> ingest_request \<Rightarrow> ingest_request result" where
  "ApiIngestRequest msg r = schema_check msg
     ((if iq_title r = [] \<or> length (iq_title r) > 500 then [''title''] else []) @
      (if iq_content r = [] \<or> length (iq_content r) > 500000 then [''content''] else [])) r"

definition ApiSearchRequest :: "(string \<Rightarrow> string) \<Rightarrow> search_request \<Rightarrow> search_request result" where
  "ApiSearchRequest msg r = schema_check msg
     ((if sq_query r = [] then [''query''] else []) @
      (if sq_top_k r < 1 \<or> sq_top_k r > 100 then [''top_k''] else [])) r"

record api_chat_request =
  ac_message :: string
  ac_conversation_id :: "string option"
  ac_user_id :: "string option"
  ac_top_k :: int
  ac_stream :: bool

definition ApiChatRequest :: "(string \<Rightarrow> string) \<Rightarrow> api_chat_request \<Rightarrow> api_chat_request result" where
  "ApiChatRequest msg r = schema_check msg
     ((if ac_message r = [] \<or> length (ac_message r) > 4000 then [''message''] else []) @
      (if ac_top_k r < 1 \<or> ac_top_k r > 20 then [''top_k''] else [])) r"

definition ingest_json :: "ingest_response \<Rightarrow> pyval" where
  "ingest_json r = PDict [(''document_id'', PStr (ir_document_id r)), (''job_id'', PStr (ir_job_id r)),
     (''status'', PStr (ir_status r))]"

definition search_result_json :: "search_result_dto \<Rightarrow> pyval" where
  "search_result_json r = PDict [(''chunk_id'', PStr (dto_chunk_id r)), (''document_id'', PStr (dto_document_id r)),
     (''content'', PStr (dto_content r)), (''score'', PFloat (dto_score r)), (''metadata'', PDict (dto_metadata r)),
     (''document_title'', PStr (dto_document_title r)), (''chunk_index'', PInt (dto_chunk_index r))]"

definition search_json :: "search_response \<Rightarrow> pyval" where
  "search_json r = PDict [(''results'', PList (map search_result_json (sp_results r))), (''total'', PInt (sp_total r)),
     (''query_tokens'', PInt (sp_query_tokens r))]"

definition source_json :: "source_dto \<Rightarrow> pyval" where
  "source_json s = PDict [(''index'', PInt (src_index s)), (''chunk_id'', PStr (src_chunk_id s)),
     (''document_id'', PStr (src_document_id s)), (''document_title'', PStr (src_document_title s)),
     (''content'', PStr (src_content s)), (''score'', PFloat (src_score s))]"

definition chat_json :: "chat_response_dto \<Rightarrow> pyval" where
  "chat_json r = PDict [(''message'', PStr (cd_message r)), (''sources'', PList (map source_json (cd_sources r))),
     (''prompt_tokens'', PInt (cd_prompt_tokens r)), (''completion_tokens'', PInt (cd_completion_tokens r)),
     (''total_tokens'', PInt (cd_total_tokens r))]"

definition dump_int_opt :: "int option \<Rightarrow> pyval" where
  "dump_int_opt x = (case x of None \<Rightarrow> PNone | Some n \<Rightarrow> PInt n)"

definition stream_event :: "stream_chunk \<Rightarrow> dict" where
  "stream_event c = exclude_none [(''content'', PStr (sc_content c)), (''done'', PBool (sc_done c)),
     (''sources'', case sc_sources c of None \<Rightarrow> PNone | Some ss \<Rightarrow> PList (map source_json ss)),
     (''prompt_tokens'', dump_int_opt (sc_prompt_tokens c)), (''completion_tokens'', dump_int_opt (sc_completion_tokens c)),
     (''total_tokens'', dump_int_opt (sc_total_tokens c))]"

subsection \<open>Endpoints\<close>

text \<open>
  \<open>execute\<close> of the ingestion use case is declared with the parameters \<open>request\<close> and \<open>tenant_id\<close>;
  \<open>call_ingest\<close> is a call with one positional argument and, if given, the keyword \<open>tenant_id\<close>. The
  endpoint gets what the container returned as its \<open>use_case\<close>, an instance or an awaitable.
\<close>

definition call_ingest ::
  "(ingest_request \<Rightarrow> tenant_id \<Rightarrow> ('s, exn, ingest_response) eff) \<Rightarrow> ingest_request \<Rightarrow> tenant_id option
   \<Rightarrow> ('s, exn, ingest_response) eff" where
  "call_ingest execute dto tid =
     (case (py_bind_call ''execute'' [(''request'', False), (''tenant_id'', False)] 1
              (if tid = None then [] else [''tenant_id'']), tid) of
        (Some err, _) \<Rightarrow> raiseM (TypeError err)
      | (None, Some t) \<Rightarrow> execute dto t
      | (None, None) \<Rightarrow> raiseM (TypeError (MissingArguments ''execute'' [''tenant_id''])))"

definition ingest_document ::
  "handle option \<Rightarrow> (ingest_request \<Rightarrow> tenant_id \<Rightarrow> ('s, exn, ingest_response) eff) \<Rightarrow> ingest_request
   \<Rightarrow> ('s, exn, http_response) eff" where
  "ingest_document use_case execute request =
     bindM (liftM (IngestDocumentRequest request)) (\<lambda>dto_request.
     bindM (get_method use_case ''execute'' (call_ingest execute dto_request None)) (\<lambda>dto_response.
     returnM (JSONResponse 202 (ingest_json dto_response))))"

definition search_documents ::
  "(search_request \<Rightarrow> ('s, exn, search_response) eff) \<Rightarrow> search_request \<Rightarrow> ('s, exn, http_response) eff" where
  "search_documents execute request =
     bindM (liftM (SearchRequest request)) (\<lambda>dto_request.
     bindM (execute dto_request) (\<lambda>dto_response. returnM (JSONResponse 200 (search_json dto_response))))"

definition chat_dto :: "api_chat_request \<Rightarrow> chat_request result" where
  "chat_dto request = ChatRequest \<lparr>cq_message = ac_message request, cq_conversation_id = ac_conversation_id request,
     cq_user_id = ac_user_id request, cq_top_k = ac_top_k request\<rparr>"

text \<open>
  The generator of server-sent events, bounded by \<open>fuel\<close> turns of its loop. \<open>disconnected k\<close> is the
  answer of \<open>is_disconnected()\<close> after chunk \<open>k\<close> has been received.
\<close>

definition stream_pulls :: "(nat \<Rightarrow> bool) \<Rightarrow> nat \<Rightarrow> nat" where
  "stream_pulls disconnected fuel =
     (case find disconnected [0..<fuel] of Some k \<Rightarrow> Suc k | None \<Rightarrow> fuel)"

definition stream_generator ::
  "'s rag_deps \<Rightarrow> uuid \<Rightarrow> chat_request \<Rightarrow> (nat \<Rightarrow> bool) \<Rightarrow> nat \<Rightarrow> 's \<Rightarrow> (dict list \<times> exn option) \<times> 's" where
  "stream_generator deps fresh request disconnected fuel s =
     (case rag_stream deps fresh request (stream_pulls disconnected fuel) s of
        ((chunks, err), s') \<Rightarrow>
          ((map stream_event (case find disconnected [0..<fuel] of Some k \<Rightarrow> take k chunks | None \<Rightarrow> chunks), err), s'))"

text \<open>A reply is a JSON response or an event stream, whose generator runs once the response has started.\<close>

datatype 's chat_reply =
    JsonReply http_response
  | EventStream "(nat \<Rightarrow> bool) \<Rightarrow> nat \<Rightarrow> 's \<Rightarrow> (dict list \<times> exn option) \<times> 's"

definition chat_endpoint :: "'s rag_deps \<Rightarrow> uuid \<Rightarrow> api_chat_request \<Rightarrow> ('s, exn, 's chat_reply) eff" where
  "chat_endpoint deps fresh request =
     bindM (liftM (chat_dto request)) (\<lambda>dto_request.
     if ac_stream request then returnM (EventStream (stream_generator deps fresh dto_request))
     else bindM (rag_execute deps fresh dto_request) (\<lambda>dto_response.
          returnM (JsonReply (JSONResponse 200 (chat_json dto_response)))))"

subsection \<open>Routes\<close>

definition protected ::
  "string \<Rightarrow> (string option \<Rightarrow> string option) \<Rightarrow> ('s, exn, 'a) eff \<Rightarrow> http_request \<Rightarrow> ('s, exn, 'a) eff" where
  "protected settings_api_key security endpoint rq =
     thenM (liftM (get_api_key settings_api_key (security (rq_api_key rq)))) endpoint"

definition documents_route ::
  "string \<Rightarrow> (string option \<Rightarrow> string option) \<Rightarrow> (string \<Rightarrow> string) \<Rightarrow> handle option
   \<Rightarrow> (ingest_request \<Rightarrow> tenant_id \<Rightarrow> ('s, exn, ingest_response) eff) \<Rightarrow> ingest_request \<Rightarrow> 's app" where
  "documents_route key security msg use_case execute body = protected key security
     (bindM (liftM (ApiIngestRequest msg body)) (ingest_document use_case execute))"

definition search_route ::
  "string \<Rightarrow> (string option \<Rightarrow> string option) \<Rightarrow> (string \<Rightarrow> string)
   \<Rightarrow> (search_request \<Rightarrow> ('s, exn, search_response) eff) \<Rightarrow> search_request \<Rightarrow> 's app" where
  "search_route key security msg execute body = protected key security
     (bindM (liftM (ApiSearchRequest msg body)) (search_documents execute))"

definition chat_route ::
  "string \<Rightarrow> (string option \<Rightarrow> string option) \<Rightarrow> (string \<Rightarrow> string) \<Rightarrow> 's rag_deps \<Rightarrow> uuid \<Rightarrow> api_chat_request
   \<Rightarrow> http_request \<Rightarrow> ('s, exn, 's chat_reply) eff" where
  "chat_route key security msg deps fresh body = protected key security
     (bindM (liftM (ApiChatRequest msg body)) (chat_endpoint deps fresh))"

subsection \<open>Health check\<close>

definition probe :: "(exn \<Rightarrow> string) \<Rightarrow> ('s, exn, unit) eff \<Rightarrow> ('s, exn, pyval \<times> bool) eff" where
  "probe str_exc check =
     catchM (thenM check (returnM (PStr ''ok'', True))) (\<lambda>e. returnM (PStr (''error: '' @ str_exc e), False))"

definition health_check ::
  "(exn \<Rightarrow> string) \<Rightarrow> string \<Rightarrow> ('s, exn, unit) eff \<Rightarrow> ('s, exn, unit) eff \<Rightarrow> ('s, exn, unit) eff \<Rightarrow> 's app" where
  "health_check str_exc app_name redis_ping qdrant_collections postgres_select rq =
     bindM (probe str_exc redis_ping) (\<lambda>(redis, ok1).
     bindM (probe str_exc qdrant_collections) (\<lambda>(qdrant, ok2).
     bindM (probe str_exc postgres_select) (\<lambda>(postgres, ok3).
     let healthy = ok1 \<and> ok2 \<and> ok3
     in returnM (JSONResponse (if healthy then 200 else 503)
          (PDict [(''status'', PStr (if healthy then ''healthy'' else ''degraded'')), (''version'', PStr ''1.0.0''),
             (''app_name'', PStr app_name),
             (''checks'', PDict [(''redis'', redis), (''qdrant'', qdrant), (''postgres'', postgres)])])))))"

subsection \<open>The application\<close>

text \<open>Middlewares run in the reverse order of their registration, the exception handlers innermost.\<close>

definition create_app ::
  "(dict \<times> 's) starlette \<Rightarrow> (string \<Rightarrow> (dict \<times> 's, exn, bool) eff) \<Rightarrow> (string \<Rightarrow> (dict \<times> 's, exn, int) eff) \<Rightarrow> int
   \<Rightarrow> string \<Rightarrow> (dict \<times> 's) app \<Rightarrow> (dict \<times> 's) app" where
  "create_app st allow remain rate_limit request_id router =
     server_error_middleware st register_exception_handlers
       (request_logging_middleware request_id
         (rate_limit_middleware allow remain rate_limit
           (exception_middleware st register_exception_handlers router)))"

subsection \<open>Statuses of the domain exceptions\<close>

definition domain_status :: "exc_class \<Rightarrow> int" where
  "domain_status c =
     (if is_subclass c EntityNotFoundExceptionC then 404 else if is_subclass c ValidationExceptionC then 422
      else if is_subclass c BusinessRuleViolationC then 409 else if is_subclass c LLMRateLimitExceptionC then 429
      else if is_subclass c LLMConnectionExceptionC then 502 else if is_subclass c TokenLimitExceededExceptionC then 413
      else 400)"

definition domain_body :: "domain_exception \<Rightarrow> pyval" where
  "domain_body d = PDict ([(''detail'', PStr (exc_message d)), (''code'', PStr (exc_code d))] @
     (case exc_field d of Some f \<Rightarrow> if is_subclass (exc_cls d) ValidationExceptionC then [(''field'', PStr f)] else []
      | None \<Rightarrow> []))"

lemma make_error_response_simps [simp]:
  "rs_status (make_error_response n d c f) = n"
  "rs_body (make_error_response n d c f) =
     PDict ([(''detail'', PStr d), (''code'', PStr c)] @ (case f of None \<Rightarrow> [] | Some x \<Rightarrow> [(''field'', PStr x)]))"
  by (simp_all add: make_error_response_def JSONResponse_def exclude_none_def dump_error_def dump_opt_def split: option.splits)

lemmas mro_simps = mro_def eval_nat_numeral mro_upto.simps parent.simps

lemmas handler_defs = entity_not_found_handler_def validation_exception_handler_def business_rule_handler_def
  llm_connection_handler_def token_limit_handler_def domain_exception_handler_def

lemma llm_rate_limit_handler_simps [simp]:
  "rs_status (llm_rate_limit_handler d) = 429"
  "rs_body (llm_rate_limit_handler d) = PDict [(''detail'', PStr (exc_message d)), (''code'', PStr (exc_code d))]"
  by (simp_all add: llm_rate_limit_handler_def Let_def split: option.splits)

lemma domain_handler_found:
  assumes "is_subclass (exc_cls d) DomainExceptionC"
  shows "\<exists>h. first_handler register_exception_handlers (mro (exc_cls d)) = Some h \<and>
    rs_status (h (Domain d)) = domain_status (exc_cls d) \<and> rs_body (h (Domain d)) = domain_body d"
  using assms
  by (cases "exc_cls d"; cases "exc_field d")
    (simp_all add: mro_simps is_subclass_def register_exception_handlers_def domain_status_def domain_body_def
      handler_defs)

lemma other_handlers:
  "first_handler register_exception_handlers (mro (class_of (RequestValidationError es))) =
     Some (on_request_validation request_validation_handler)"
  "first_handler register_exception_handlers (mro (class_of (HTTPException n m))) = None"
  by (simp_all add: mro_simps register_exception_handlers_def)

fun answered :: "exn \<Rightarrow> bool" where
  "answered (Domain d) = True"
| "answered (RequestValidationError es) = True"
| "answered (HTTPException n m) = True"
| "answered e = False"

lemma unanswered:
  "\<not> answered e \<Longrightarrow> first_handler register_exception_handlers (mro (class_of e)) = None \<and> default_handler e = None"
  by (cases e) (simp_all add: mro_simps register_exception_handlers_def)

text \<open>
  The call in the ingestion endpoint never reaches the use case: an awaitable has no method \<open>execute\<close>,
  and an instance is called without the required \<open>tenant_id\<close>.
\<close>

lemma ApiIngestRequest_dto: "ApiIngestRequest msg body = Inr body \<Longrightarrow> IngestDocumentRequest body = Inr body"
  by (simp add: ApiIngestRequest_def schema_check_def IngestDocumentRequest_def split: if_splits)

lemma ingest_document_raises:
  "\<exists>e. ingest_document use_case execute body s = (Inl e, s) \<and> (IngestDocumentRequest body = Inr body \<longrightarrow> \<not> answered e)"
  by (cases "IngestDocumentRequest body")
    (auto simp: ingest_document_def call_ingest_def py_bind_call_def get_method_def bindM_def liftM_def raiseM_def
      split: option.split handle.split)

subsection \<open>The stack\<close>

definition log_context :: "string \<Rightarrow> http_request \<Rightarrow> dict" where
  "log_context rid rq = [(''request_id'', PStr rid), (''method'', PStr (rq_method rq)), (''path'', PStr (rq_path rq)),
     (''user_id'', PNone), (''client_ip'', dump_opt (rq_client rq))]"

lemma logging_outcome:
  assumes "rq_path rq \<noteq> ''/health''"
  shows "request_logging_middleware rid next rq s = (case next rq (log_context rid rq, snd s) of
     (Inr r, s') \<Rightarrow> (Inr (set_header ''X-Request-ID'' rid r), ([], snd s')) | (Inl e, s') \<Rightarrow> (Inl e, ([], snd s')))"
  using assms
  by (cases s) (auto simp: request_logging_middleware_def bind_request_context_def clear_request_context_def thenM_def
      bindM_def catchM_def raiseM_def returnM_def modifyM_def log_context_def dump_opt_def split: prod.splits sum.splits)

lemma global_handler_registered: "map_of register_exception_handlers ExceptionC = Some global_exception_handler"
  by (simp add: register_exception_handlers_def)

lemma server_error_outcome:
  assumes "starlette_laws st"
  shows "server_error_middleware st register_exception_handlers app rq s =
    (case app rq s of (Inr r, s') \<Rightarrow> (Inr r, s') | (Inl e, s') \<Rightarrow> (Inr (global_exception_handler e), s'))"
  using assms by (simp add: starlette_laws_def global_handler_registered split: prod.splits sum.splits)

lemma exception_outcome:
  assumes "starlette_laws st" "app rq s = (Inl e, s')"
  shows "exception_middleware st register_exception_handlers app rq s =
    (case first_handler register_exception_handlers (mro (class_of e)) of
       Some h \<Rightarrow> (Inr (h e), s')
     | None \<Rightarrow> (case default_handler e of Some r \<Rightarrow> (Inr r, s') | None \<Rightarrow> (Inl e, s')))"
  using assms unfolding starlette_laws_def by simp

lemma exception_passes:
  "starlette_laws st \<Longrightarrow> app rq s = (Inr r, s') \<Longrightarrow> exception_middleware st hs app rq s = (Inr r, s')"
  by (simp add: starlette_laws_def)

lemma create_app_health:
  assumes "starlette_laws st" "rq_path rq = ''/health''" "router rq s = (Inr r, s')"
  shows "create_app st allow remain rate_limit rid router rq s = (Inr r, s')"
  using assms exception_passes [where app = router, OF assms(1,3)]
  by (simp add: create_app_def server_error_outcome request_logging_middleware_def rate_limit_middleware_def)

lemma create_app_answers:
  assumes st: "starlette_laws st" and path: "rq_path rq \<noteq> ''/health''"
    and allowed: "is_allowed zs rpm now (client_key rq) (log_context rid rq, snd s) = (Inr True, s1)"
    and inner: "exception_middleware st register_exception_handlers router rq s1 = (Inr r, s2)"
  shows "\<exists>resp s3. create_app st (is_allowed zs rpm now) (get_remaining zs rpm now2) rpm rid router rq s =
      (Inr resp, ([], s3)) \<and> rs_status resp = rs_status r \<and> rs_body resp = rs_body r \<and>
    map_of (rs_headers resp) ''X-Request-ID'' = Some rid \<and> s3 = snd (snd (get_remaining zs rpm now2 (client_key rq) s2))"
proof -
  obtain n s3 where "get_remaining zs rpm now2 (client_key rq) s2 = (Inr n, s3)"
    "rate_limit_middleware (is_allowed zs rpm now) (get_remaining zs rpm now2) rpm
      (exception_middleware st register_exception_handlers router) rq (log_context rid rq, snd s) =
      (Inr (set_header ''X-RateLimit-Limit'' (py_str_int rpm)
              (set_header ''X-RateLimit-Remaining'' (py_str_int n) r)), s3)"
    using redis_limiter.admitted_response [where call_next = "exception_middleware st register_exception_handlers router",
        OF path allowed inner] by blast
  then show ?thesis
    by (simp add: create_app_def server_error_outcome [OF st] logging_outcome [OF path])
qed

lemma create_app_raises:
  assumes st: "starlette_laws st" and path: "rq_path rq \<noteq> ''/health''"
    and allowed: "is_allowed zs rpm now (client_key rq) (log_context rid rq, snd s) = (Inr True, s1)"
    and inner: "exception_middleware st register_exception_handlers router rq s1 = (Inl e, s2)"
  shows "create_app st (is_allowed zs rpm now) (get_remaining zs rpm now2) rpm rid router rq s =
      (Inr (global_exception_handler e), ([], snd s2))"
  using redis_limiter.admitted_raises [where call_next = "exception_middleware st register_exception_handlers router",
        OF path allowed inner]
  by (simp add: create_app_def server_error_outcome [OF st] logging_outcome [OF path])

subsection \<open>Properties\<close>

text \<open>
  C12. Errors become responses: when the endpoint raises, the application still answers, and the
  logging context of the request is cleared. A domain exception gives the status of the most
  specific registered class, its message and its code; every other unexpected exception
  gives the same fixed 500 response, which says nothing of the exception.
\<close>

theorem endpoint_errors_become_responses:
  assumes st: "starlette_laws st" and path: "rq_path rq \<noteq> ''/health''"
    and allowed: "is_allowed zs rpm now (client_key rq) (log_context rid rq, snd s) = (Inr True, s1)"
    and raises: "router rq s1 = (Inl e, s2)"
  shows "\<exists>resp s3. create_app st (is_allowed zs rpm now) (get_remaining zs rpm now2) rpm rid router rq s =
      (Inr resp, ([], s3)) \<and>
    (\<forall>d. e = Domain d \<longrightarrow> is_subclass (exc_cls d) DomainExceptionC \<longrightarrow>
       rs_status resp = domain_status (exc_cls d) \<and> rs_body resp = domain_body d \<and>
       map_of (rs_headers resp) ''X-Request-ID'' = Some rid) \<and>
    (\<not> answered e \<longrightarrow> s3 = snd s2 \<and> resp = JSONResponse 500 (PDict [(''detail'', PStr ''Internal server error''),
       (''code'', PStr ''INTERNAL_ERROR'')]))"
proof -
  obtain r s2' where Pair: "exception_middleware st register_exception_handlers router rq s1 = (r, s2')"
    by (cases "exception_middleware st register_exception_handlers router rq s1")
  note inner = Pair exception_outcome [where app = router, OF st raises]
  show ?thesis
  proof (cases r)
    case (Inl e')
    then have "e' = e" "s2' = s2" using inner by (auto split: option.splits)
    moreover have "\<not> (e = Domain d \<and> is_subclass (exc_cls d) DomainExceptionC)" for d
      using inner Inl domain_handler_found [of d] by auto
    ultimately show ?thesis
      using create_app_raises [OF st path allowed] Pair Inl
      by (auto simp: global_exception_handler_def make_error_response_def exclude_none_def dump_error_def dump_opt_def)
  next
    case (Inr resp)
    then have "answered e" using inner unanswered [of e] by (cases "answered e") auto
    moreover have "rs_status resp = domain_status (exc_cls d) \<and> rs_body resp = domain_body d"
      if "e = Domain d" "is_subclass (exc_cls d) DomainExceptionC" for d
      using inner Inr that domain_handler_found [OF that(2)] by auto
    ultimately show ?thesis
      using create_app_answers [OF st path allowed Pair [unfolded Inr], of now2] by auto
  qed
qed

text \<open>
  Authentication guards the three routers: unless the header carries exactly the configured
  key, the request is answered with 401 (no key) or 403 (another key) and neither the body
  is looked at nor a use case called, so that the state is unchanged.
\<close>

theorem unauthenticated_requests_do_nothing:
  assumes st: "starlette_laws st" and wrong: "security (rq_api_key rq) \<noteq> Some key"
  shows "\<exists>resp e. exception_middleware st register_exception_handlers (documents_route key security msg uc ingest doc) rq s = (Inr resp, s) \<and>
    exception_middleware st register_exception_handlers (search_route key security msg look query) rq s = (Inr resp, s) \<and>
    chat_route key security msg deps fresh question rq t = (Inl e, t) \<and> default_handler e = Some resp \<and>
    rs_status resp = (if security (rq_api_key rq) = None then 401 else 403)"
proof -
  define e where "e = (if security (rq_api_key rq) = None
    then HTTPException 401 ''Missing API key. Provide X-API-Key header.'' else HTTPException 403 ''Invalid API key.'')"
  have key: "get_api_key key (security (rq_api_key rq)) = Inl e"
    using wrong by (auto simp: get_api_key_def e_def split: option.splits)
  then have raises: "documents_route key security msg uc ingest doc rq s = (Inl e, s)"
    "search_route key security msg look query rq s = (Inl e, s)" "chat_route key security msg deps fresh question rq t = (Inl e, t)"
    by (simp_all add: documents_route_def search_route_def chat_route_def protected_def thenM_def bindM_def liftM_def)
  obtain n m where e: "e = HTTPException n m" "n = (if security (rq_api_key rq) = None then 401 else 403)"
    by (cases "security (rq_api_key rq)") (auto simp: e_def)
  let ?resp = "JSONResponse (int n) (PDict [(''detail'', PStr m)])"
  have "exception_middleware st register_exception_handlers (documents_route key security msg uc ingest doc) rq s = (Inr ?resp, s)"
    "exception_middleware st register_exception_handlers (search_route key security msg look query) rq s = (Inr ?resp, s)"
    using exception_outcome [where app = "documents_route key security msg uc ingest doc", OF st raises(1)]
      exception_outcome [where app = "search_route key security msg look query", OF st raises(2)]
    by (simp_all only: e other_handlers option.case default_handler.simps)
  then show ?thesis using raises(3) e by (auto simp: JSONResponse_def)
qed

text \<open>
  No document can be ingested over HTTP: whatever the container returns as the use case, the endpoint
  calls it without its \<open>tenant_id\<close>, so an authenticated request with a valid body is answered with the
  500 of an unexpected exception; the use case does not run.
\<close>

theorem documents_endpoint_never_ingests:
  assumes st: "starlette_laws st" and path: "rq_path rq = ''/v1/documents''"
    and key: "security (rq_api_key rq) = Some key" and valid: "ApiIngestRequest msg body = Inr body"
    and allowed: "is_allowed zs rpm now (client_key rq) (log_context rid rq, snd s) = (Inr True, s1)"
  shows "create_app st (is_allowed zs rpm now) (get_remaining zs rpm now2) rpm rid
      (documents_route key security msg use_case execute body) rq s =
    (Inr (make_error_response 500 ''Internal server error'' ''INTERNAL_ERROR'' None), ([], snd s1))"
proof -
  obtain e where e: "ingest_document use_case execute body s1 = (Inl e, s1)" "\<not> answered e"
    using ingest_document_raises [of use_case execute body s1] ApiIngestRequest_dto [OF valid] by auto
  then have "documents_route key security msg use_case execute body rq s1 = (Inl e, s1)"
    using key valid by (simp add: documents_route_def protected_def get_api_key_def thenM_def bindM_def liftM_def)
  from exception_outcome [where app = "documents_route key security msg use_case execute body", OF st this]
  have "exception_middleware st register_exception_handlers (documents_route key security msg use_case execute body) rq s1 = (Inl e, s1)"
    using unanswered [OF e(2)] by simp
  from create_app_raises [OF st _ allowed this] path show ?thesis by (simp add: global_exception_handler_def)
qed

text \<open>
  The schemas of the API are at least as strict as the DTOs they are mapped to: a body that
  the API accepts is never rejected by the DTO's own validation, neither by the search
  request that a chat request gives rise to.
\<close>

theorem accepted_bodies_make_valid_dtos:
  "(ApiIngestRequest msg doc = Inr doc \<longrightarrow> IngestDocumentRequest doc = Inr doc) \<and>
   (ApiSearchRequest msg query = Inr query \<longrightarrow> SearchRequest query = Inr query) \<and>
   (ApiChatRequest msg question = Inr question \<longrightarrow> (\<exists>dto. chat_dto question = Inr dto \<and>
      SearchRequest \<lparr>sq_query = cq_message dto, sq_collection_id = cq_conversation_id dto, sq_top_k = cq_top_k dto,
        sq_filters = None\<rparr> = Inr \<lparr>sq_query = cq_message dto, sq_collection_id = cq_conversation_id dto,
        sq_top_k = cq_top_k dto, sq_filters = None\<rparr>))"
  by (simp add: ApiIngestRequest_def IngestDocumentRequest_def ApiSearchRequest_def SearchRequest_def
      ApiChatRequest_def chat_dto_def ChatRequest_def schema_check_def Let_def)

text \<open>
  C38. A client that disconnects: if the poll after chunk \<open>k\<close> is the first to report it, exactly the
  first \<open>k\<close> events were sent and the exchange is not written to the history; a client that stays
  receives every delta and the closing event with the sources, and the exchange is
  written, as soon as the loop may turn twice more than there are deltas.
\<close>

theorem disconnect_cuts_stream:
  assumes prep: "rag_prepare deps fresh request s = (Inr (messages, used), s1)"
    and model: "rg_stream deps messages s1 = (Inr (deltas, None), s2)"
    and fin: "final_chunk deps messages used (concat deltas) s2 = (Inr last_chunk, s3)"
    and saved: "save_exchange deps request (ChatMessage ASSISTANT (concat deltas)) s3 = (Inr (), s4)"
    and fuel: "length deltas + 2 \<le> fuel"
    and gone: "(\<forall>k < fuel. \<not> disconnected k) \<or> (k \<le> length deltas \<and> disconnected k \<and> (\<forall>j < k. \<not> disconnected j))"
  shows "stream_generator deps fresh request disconnected fuel s =
    (let events = map stream_event (map delta_chunk deltas @ [last_chunk])
     in if \<forall>k < fuel. \<not> disconnected k then ((events, None), s4)
        else ((take k events, None), if k < length deltas then s2 else s3))"
proof (cases "\<forall>k < fuel. \<not> disconnected k")
  case True
  then have "find disconnected [0..<fuel] = None" by (simp add: find_None_iff)
  then show ?thesis
    using True fuel rag_stream_run [OF prep model fin saved, of fuel]
    by (simp add: stream_generator_def stream_pulls_def Let_def)
next
  case False
  then have k: "k \<le> length deltas" "disconnected k" "\<forall>j < k. \<not> disconnected j" using gone by auto
  then have "find disconnected [0..<fuel] = Some k" using fuel by (auto simp: find_Some_iff intro!: exI [of _ k])
  then show ?thesis
    using False k fuel rag_stream_run [OF prep model fin saved, of "Suc k"]
    by (auto simp: stream_generator_def stream_pulls_def Let_def take_map)
qed

text \<open>
  Health: the check never raises and is exempt from rate limiting and request logging; it
  answers 200 if all three dependencies answered and 503 otherwise, reports each of them
  under its name, and probes the later ones even when an earlier one fails.
\<close>

theorem health_reports_dependencies:
  assumes st: "starlette_laws st" and path: "rq_path rq = ''/health''"
    and probes: "redis s = (r1, s1)" "qdrant s1 = (r2, s2)" "postgres s2 = (r3, s3)"
  shows "\<exists>resp checks. create_app st allow remain rate_limit rid (health_check str_exc name redis qdrant postgres) rq s =
      (Inr resp, s3) \<and>
    rs_status resp = (if is_ok r1 \<and> is_ok r2 \<and> is_ok r3 then 200 else 503) \<and>
    rs_body resp = PDict [(''status'', PStr (if is_ok r1 \<and> is_ok r2 \<and> is_ok r3 then ''healthy'' else ''degraded'')),
       (''version'', PStr ''1.0.0''), (''app_name'', PStr name), (''checks'', PDict checks)] \<and>
    map fst checks = [''redis'', ''qdrant'', ''postgres''] \<and>
    map (\<lambda>(k, v). v = PStr ''ok'') checks = [is_ok r1, is_ok r2, is_ok r3]"
proof -
  let ?v = "\<lambda>r. case r of Inl e \<Rightarrow> PStr (''error: '' @ str_exc e) | Inr _ \<Rightarrow> PStr ''ok''"
  have probe: "probe str_exc c t = (Inr (?v r, is_ok r), t')" if "c t = (r, t')" for c r t t'
    using that by (cases r) (simp_all add: probe_def catchM_def thenM_def bindM_def returnM_def)
  let ?ok = "is_ok r1 \<and> is_ok r2 \<and> is_ok r3"
  have "health_check str_exc name redis qdrant postgres rq s =
      (Inr (JSONResponse (if ?ok then 200 else 503) (PDict [(''status'', PStr (if ?ok then ''healthy'' else ''degraded'')),
         (''version'', PStr ''1.0.0''), (''app_name'', PStr name),
         (''checks'', PDict [(''redis'', ?v r1), (''qdrant'', ?v r2), (''postgres'', ?v r3)])])), s3)" (is "_ = (Inr ?resp, _)")
    by (simp add: health_check_def bindM_def probe [of redis, OF probes(1)] probe [of qdrant, OF probes(2)]
        probe [of postgres, OF probes(3)] returnM_def Let_def)
  then have "create_app st allow remain rate_limit rid (health_check str_exc name redis qdrant postgres) rq s = (Inr ?resp, s3)"
    by (rule create_app_health [where router = "health_check str_exc name redis qdrant postgres", OF st path])
  moreover have "?v r = PStr ''ok'' \<longleftrightarrow> is_ok r" for r :: "exn + unit" by (cases r) simp_all
  ultimately show ?thesis
    by (intro exI [of _ ?resp] exI [of _ "[(''redis'', ?v r1), (''qdrant'', ?v r2), (''postgres'', ?v r3)]"])
      (simp add: JSONResponse_def)
qed

subsection \<open>Witnesses\<close>

definition demo_starlette :: "'s starlette" where
  "demo_starlette =
     \<lparr>exception_middleware = (\<lambda>hs app rq s. case app rq s of
        (Inr r, s') \<Rightarrow> (Inr r, s')
      | (Inl e, s') \<Rightarrow> (case first_handler hs (mro (class_of e)) of
            Some h \<Rightarrow> (Inr (h e), s')
          | None \<Rightarrow> (case default_handler e of Some r \<Rightarrow> (Inr r, s') | None \<Rightarrow> (Inl e, s')))),
      server_error_middleware = (\<lambda>hs app rq s. case app rq s of
        (Inr r, s') \<Rightarrow> (Inr r, s')
      | (Inl e, s') \<Rightarrow> (case map_of hs ExceptionC of Some h \<Rightarrow> (Inr (h e), s') | None \<Rightarrow> (Inl e, s')))\<rparr>"

lemma demo_starlette_laws: "starlette_laws demo_starlette"
  by (simp add: starlette_laws_def demo_starlette_def)

definition demo_request :: "string \<Rightarrow> http_request" where
  "demo_request path = \<lparr>rq_method = ''POST'', rq_path = path, rq_api_key = Some ''secret'', rq_client = None\<rparr>"

text \<open>A sorted set server whose script always fails: the limiter lets every request through.\<close>

definition down_zset :: "(dict \<times> nat) zset" where
  "down_zset = \<lparr>zs_remrangebyscore = (\<lambda>k m s. (Inl (ClientError ''down''), s)), zs_card = (\<lambda>k s. (Inr 0, s)),
     zs_add = (\<lambda>k sc x s. (Inr (), s)), zs_expire = (\<lambda>k n s. (Inr (), s)), zs_random = (\<lambda>s. (Inr 1, s)),
     zs_tostring = (\<lambda>x. []), zs_delete = (\<lambda>k s. (Inr 0, s))\<rparr>"

lemma down_zset_allows: "is_allowed down_zset rpm now k s = (Inr True, s)"
  by (simp add: is_allowed_def rate_limit_lua_def down_zset_def thenM_def bindM_def catchM_def returnM_def)

theorem endpoint_errors_become_responses_witness:
  "\<exists>resp s3. create_app demo_starlette (is_allowed down_zset 60 0) (get_remaining down_zset 60 1) 60 ''id''
      (\<lambda>rq s. (Inl (Domain (DocumentNotFoundException ''7'')), s)) (demo_request ''/v1/search'') ([], 3) =
      (Inr resp, ([], s3)) \<and> rs_status resp = 404"
proof -
  let ?d = "DocumentNotFoundException ''7''"
  have sub: "is_subclass (exc_cls ?d) DomainExceptionC" and status: "domain_status (exc_cls ?d) = 404"
    by (simp_all add: is_subclass_def mro_simps exception_defs domain_status_def)
  have path: "rq_path (demo_request ''/v1/search'') \<noteq> ''/health''" by (simp add: demo_request_def)
  from endpoint_errors_become_responses [where router = "\<lambda>rq s. (Inl (Domain ?d), s)" and e = "Domain ?d"
      and rid = "''id''" and s = "([], 3)" and rpm = 60 and now = 0 and ?now2.0 = 1, OF demo_starlette_laws path down_zset_allows refl]
    sub status
  show ?thesis by auto
qed

theorem unauthenticated_requests_do_nothing_witness:
  "\<exists>resp. exception_middleware demo_starlette register_exception_handlers
      (search_route ''other'' (\<lambda>h. h) (\<lambda>f. ''bad'') (\<lambda>r s. (Inl IndexError, s))
        \<lparr>sq_query = ''q'', sq_collection_id = None, sq_top_k = 5, sq_filters = None\<rparr>)
      (demo_request ''/v1/search'') (5 :: nat) = (Inr resp, 5) \<and> rs_status resp = 403"
proof -
  have "(\<lambda>h. h) (rq_api_key (demo_request ''/v1/search'')) \<noteq> Some ''other''" by (simp add: demo_request_def)
  from unauthenticated_requests_do_nothing [where security = "\<lambda>h. h" and msg = "\<lambda>f. ''bad''" and s = "5 :: nat"
      and ingest = "\<lambda>r t s. (Inl IndexError, s)" and doc = demo_ingest and deps = demo_rag and fresh = 9 and t = "[]"
      and question = "\<lparr>ac_message = ''why?'', ac_conversation_id = None, ac_user_id = None, ac_top_k = 5, ac_stream = False\<rparr>"
      and look = "\<lambda>r s. (Inl IndexError, s)"
      and query = "\<lparr>sq_query = ''q'', sq_collection_id = None, sq_top_k = 5, sq_filters = None\<rparr>",
      OF demo_starlette_laws this]
  show ?thesis by (auto simp: demo_request_def)
qed

theorem documents_endpoint_never_ingests_witness:
  "create_app demo_starlette (is_allowed down_zset 60 0) (get_remaining down_zset 60 1) 60 ''id''
      (documents_route ''secret'' (\<lambda>h. h) (\<lambda>f. ''bad'') (Some Instance)
         (\<lambda>r t s. (Inr \<lparr>ir_document_id = [], ir_job_id = [], ir_status = ''processing''\<rparr>, s)) demo_ingest)
      (demo_request ''/v1/documents'') ([], 3) =
   (Inr (make_error_response 500 ''Internal server error'' ''INTERNAL_ERROR'' None), ([], 3))"
proof -
  have "rq_path (demo_request ''/v1/documents'') = ''/v1/documents''"
    "(\<lambda>h. h) (rq_api_key (demo_request ''/v1/documents'')) = Some ''secret''"
    by (simp_all add: demo_request_def)
  moreover have "ApiIngestRequest (\<lambda>f. ''bad'') demo_ingest = Inr demo_ingest"
    by (simp add: ApiIngestRequest_def schema_check_def demo_ingest_def)
  ultimately show ?thesis
    using documents_endpoint_never_ingests [OF demo_starlette_laws _ _ _ down_zset_allows] by fastforce
qed

theorem health_reports_dependencies_witness:
  "\<exists>resp. create_app demo_starlette (\<lambda>k s. (Inr False, s)) (\<lambda>k s. (Inr 0, s)) 60 ''id''
      (health_check (\<lambda>e. ''down'') ''api'' (\<lambda>s. (Inl IndexError, s)) (\<lambda>s. (Inr (), s)) (\<lambda>s. (Inr (), s)))
      (demo_request ''/health'') ([], 3 :: nat) = (Inr resp, ([], 3)) \<and> rs_status resp = 503"
proof -
  have path: "rq_path (demo_request ''/health'') = ''/health''" by (simp add: demo_request_def)
  show ?thesis
    using health_reports_dependencies [where redis = "\<lambda>s. (Inl IndexError, s)" and qdrant = "\<lambda>s. (Inr (), s)"
        and postgres = "\<lambda>s. (Inr (), s)" and s = "([], 3 :: nat)" and allow = "\<lambda>k s. (Inr False, s)"
        and remain = "\<lambda>k s. (Inr 0, s)" and rate_limit = 60 and rid = "''id''" and str_exc = "\<lambda>e. ''down''"
        and name = "''api''", OF demo_starlette_laws path refl refl refl]
    by auto
qed

theorem accepted_bodies_make_valid_dtos_witness:
  "IngestDocumentRequest demo_ingest = Inr demo_ingest \<and>
   (\<exists>dto. chat_dto \<lparr>ac_message = ''why?'', ac_conversation_id = None, ac_user_id = None, ac_top_k = 20, ac_stream = True\<rparr> = Inr dto)"
proof -
  let ?c = "\<lparr>ac_message = ''why?'', ac_conversation_id = None, ac_user_id = None, ac_top_k = 20, ac_stream = True\<rparr>"
  have "ApiIngestRequest (\<lambda>f. []) demo_ingest = Inr demo_ingest" "ApiChatRequest (\<lambda>f. []) ?c = Inr ?c"
    by (simp_all add: ApiIngestRequest_def ApiChatRequest_def schema_check_def demo_ingest_def)
  then show ?thesis using accepted_bodies_make_valid_dtos [of "\<lambda>f. []" demo_ingest _ ?c] by blast
qed

theorem disconnect_cuts_stream_witness:
  "stream_generator demo_rag 9 (demo_chat None) (\<lambda>k. k \<ge> 1) 9 [] = (([stream_event (delta_chunk ''See '')], None), [])"
proof -
  let ?m = "build_rag_prompt ''why?'' (format_block 1 (demo_source\<lparr>sr_collection_id := CollectionId 9\<rparr>)) (Some [])"
  let ?u = "[demo_source\<lparr>sr_collection_id := CollectionId 9\<rparr>]"
  have fin: "\<exists>c. final_chunk demo_rag ?m ?u (concat [''See '', ''[1].'']) [] = (Inr c, [])"
    by (simp add: final_chunk_def demo_rag_def bindM_def returnM_def)
  then obtain c where fin: "final_chunk demo_rag ?m ?u (concat [''See '', ''[1].'']) [] = (Inr c, [])" by blast
  have model: "rg_stream demo_rag ?m [] = (Inr ([''See '', ''[1].''], None), [])" by (simp add: demo_rag_def)
  have saved: "save_exchange demo_rag (demo_chat None) (ChatMessage ASSISTANT (concat [''See '', ''[1].''])) [] = (Inr (), [])"
    by (simp add: save_exchange_def demo_chat_def returnM_def)
  have never: "\<not> (\<forall>k < (9::nat). \<not> k \<ge> 1)" by (auto intro: exI [of _ 1])
  show ?thesis
    using disconnect_cuts_stream [OF demo_prepare model fin saved, of 9 "\<lambda>k. k \<ge> 1" 1] never
    by (simp add: Let_def)
qed

end
