(* ===== verification/Lifecycle.thy ===== *)
theory Lifecycle
  imports Vector_Search Container
begin

section \<open>Clients and their life cycle\<close>

text \<open>
  When the connections are opened and closed: the lazily created clients of
  \<open>src/app/infrastructure/cache/redis_cache.py\<close>, \<open>src/app/infrastructure/vector_db/qdrant_adapter.py\<close> and
  the pool of \<open>src/app/infrastructure/db/postgres_pool.py\<close>, the \<open>lifespan\<close> of \<open>src/app/main.py\<close> and the
  start and stop hooks of \<open>src/app/infrastructure/queue/arq_worker.py\<close>. A client is present or absent; \<open>io\<close>
  says which of the libraries' calls raise.
\<close>

record clients =
  cl_pool :: bool
  cl_redis :: bool
  cl_qdrant :: bool

record 's io =
  io_create_pool :: "('s, exn, unit) eff"
  io_pool_close :: "('s, exn, unit) eff"
  io_redis_close :: "('s, exn, unit) eff"
  io_qdrant_close :: "('s, exn, unit) eff"
  io_arq_close :: "('s, exn, unit) eff"

type_synonym 's sys = "clients \<times> 's"

subsection \<open>The three clients\<close>

definition db_connect :: "'s io \<Rightarrow> ('s sys, exn, unit) eff" where
  "db_connect io = thenM (onR (io_create_pool io)) (modifyM (\<lambda>(c, s). (c\<lparr>cl_pool := True\<rparr>, s)))"

definition db_close :: "'s io \<Rightarrow> ('s sys, exn, unit) eff" where
  "db_close io = bindM (getM (\<lambda>(c, s). cl_pool c)) (\<lambda>present.
     if present then thenM (onR (io_pool_close io)) (modifyM (\<lambda>(c, s). (c\<lparr>cl_pool := False\<rparr>, s))) else returnM ())"

definition redis_client :: "('s sys, exn, unit) eff" where
  "redis_client = modifyM (\<lambda>(c, s). (c\<lparr>cl_redis := True\<rparr>, s))"

definition redis_close :: "'s io \<Rightarrow> ('s sys, exn, unit) eff" where
  "redis_close io = bindM (getM (\<lambda>(c, s). cl_redis c)) (\<lambda>present.
     if present then thenM (onR (io_redis_close io)) (modifyM (\<lambda>(c, s). (c\<lparr>cl_redis := False\<rparr>, s))) else returnM ())"

definition qdrant_client :: "('s sys, exn, unit) eff" where
  "qdrant_client = modifyM (\<lambda>(c, s). (c\<lparr>cl_qdrant := True\<rparr>, s))"

definition qdrant_close :: "'s io \<Rightarrow> ('s sys, exn, unit) eff" where
  "qdrant_close io = bindM (getM (\<lambda>(c, s). cl_qdrant c)) (\<lambda>present.
     if present then thenM (onR (io_qdrant_close io)) (modifyM (\<lambda>(c, s). (c\<lparr>cl_qdrant := False\<rparr>, s))) else returnM ())"

subsection \<open>The application and the worker process\<close>

definition lifespan_startup :: "'s io \<Rightarrow> 's qdrant \<Rightarrow> string \<Rightarrow> int \<Rightarrow> ('s sys, exn, unit) eff" where
  "lifespan_startup io qd collection_name vector_size =
     thenM (db_connect io) (thenM qdrant_client (onR (ensure_collection qd collection_name vector_size)))"

text \<open>\<open>arq_pool\<close> is what \<open>container.arq_pool()\<close> returns at that moment.\<close>

definition lifespan_shutdown :: "'s io \<Rightarrow> handle option \<Rightarrow> ('s sys, exn, unit) eff" where
  "lifespan_shutdown io arq_pool =
     thenM (db_close io) (thenM (redis_close io) (thenM (qdrant_close io)
       (get_method arq_pool ''aclose'' (onR (io_arq_close io)))))"

definition worker_startup :: "'s io \<Rightarrow> ('s sys, exn, unit) eff" where
  "worker_startup io = db_connect io"

text \<open>\<open>shutdown\<close> of the worker does nothing when the start hook left no container in the context.\<close>

definition worker_shutdown :: "'s io \<Rightarrow> bool \<Rightarrow> ('s sys, exn, unit) eff" where
  "worker_shutdown io has_container =
     (if has_container then thenM (db_close io) (thenM (redis_close io) (qdrant_close io)) else returnM ())"

subsection \<open>What closing leaves behind\<close>

definition no_clients :: clients where
  "no_clients = \<lparr>cl_pool = False, cl_redis = False, cl_qdrant = False\<rparr>"

lemmas close_defs = db_close_def redis_close_def qdrant_close_def thenM_def bindM_def getM_def modifyM_def returnM_def
  onR_def

lemma db_close_ok: "db_close io (c, s) = (Inr (), (c', s')) \<Longrightarrow> c' = c\<lparr>cl_pool := False\<rparr>"
  by (auto simp: close_defs split: if_splits prod.splits sum.splits)

lemma redis_close_ok: "redis_close io (c, s) = (Inr (), (c', s')) \<Longrightarrow> c' = c\<lparr>cl_redis := False\<rparr>"
  by (auto simp: close_defs split: if_splits prod.splits sum.splits)

lemma qdrant_close_ok: "qdrant_close io (c, s) = (Inr (), (c', s')) \<Longrightarrow> c' = c\<lparr>cl_qdrant := False\<rparr>"
  by (auto simp: close_defs split: if_splits prod.splits sum.splits)

text \<open>A shutdown that returns leaves no client open; this holds for both processes.\<close>

lemma lifespan_shutdown_closes:
  assumes "lifespan_shutdown io h (c, s) = (Inr (), (c', s'))"
  shows "c' = no_clients"
  using assms
  by (auto dest!: db_close_ok redis_close_ok qdrant_close_ok
      simp: lifespan_shutdown_def thenM_Inr_iff onR_iff no_clients_def get_method_def raiseM_def
      split: option.splits handle.splits)

lemma worker_shutdown_closes:
  assumes "worker_shutdown io True (c, s) = (Inr (), (c', s'))"
  shows "c' = no_clients"
  using assms
  by (auto dest!: db_close_ok redis_close_ok qdrant_close_ok simp: worker_shutdown_def thenM_Inr_iff no_clients_def)

text \<open>The steps are not protected: when the pool fails to close, the other clients stay open.\<close>

lemma failed_close_leaves_clients:
  assumes "cl_pool c" "io_pool_close io s = (Inl e, s')"
  shows "lifespan_shutdown io h (c, s) = (Inl e, (c, s'))"
  using assms by (simp add: lifespan_shutdown_def close_defs)

lemma startup_opens_pool:
  assumes "lifespan_startup io qd coll n (c, s) = (r, (c', s'))" "io_create_pool io s = (Inr (), s1)"
  shows "cl_pool c' \<and> cl_qdrant c'"
  using assms by (auto simp: lifespan_startup_def db_connect_def qdrant_client_def close_defs split: prod.splits sum.splits)

text \<open>The steps before the last one, which the wired shutdown shares with the worker's.\<close>

lemma lifespan_shutdown_awaitable:
  assumes "worker_shutdown io True (c, s) = (Inr (), (c', s'))"
  shows "lifespan_shutdown io (Some Awaitable) (c, s) = (Inl (AttributeError ''aclose''), (c', s'))"
  using assms
  by (auto simp: worker_shutdown_def lifespan_shutdown_def get_method_def raiseM_def thenM_def bindM_def
      split: prod.splits sum.splits)

lemma lifespan_shutdown_failed:
  assumes "worker_shutdown io True (c, s) = (Inl e, (c', s'))"
  shows "lifespan_shutdown io h (c, s) = (Inl e, (c', s'))"
  using assms
  by (auto simp: worker_shutdown_def lifespan_shutdown_def thenM_def bindM_def split: prod.splits sum.splits)

subsection \<open>Properties\<close>

text \<open>
  C36. The application never shuts down cleanly: \<open>container.arq_pool()\<close> gives a fresh coroutine, which has no
  \<open>aclose\<close>. If a step before fails, its exception is raised; otherwise the pool, Redis and Qdrant clients
  are all closed and the shutdown then raises \<open>AttributeError\<close>.
\<close>

theorem shutdown_always_raises:
  assumes "async_law am"
  shows "case worker_shutdown io True cs of
      (Inl e, cs') \<Rightarrow> lifespan_shutdown io (container_get am ''arq_pool'') cs = (Inl e, cs')
    | (Inr _, cs') \<Rightarrow> fst cs' = no_clients \<and>
        lifespan_shutdown io (container_get am ''arq_pool'') cs = (Inl (AttributeError ''aclose''), cs')"
proof (cases cs)
  case (Pair c s)
  obtain r c' s' where w: "worker_shutdown io True (c, s) = (r, (c', s'))" by (metis prod.collapse)
  show ?thesis
  proof (cases r)
    case (Inl e)
    with w Pair show ?thesis by (simp add: lifespan_shutdown_failed)
  next
    case (Inr u)
    with w Pair show ?thesis
      by (simp add: container_get_handles [OF assms] lifespan_shutdown_awaitable worker_shutdown_closes)
  qed
qed

theorem shutdown_always_raises_witness:
  "let io = \<lparr>io_create_pool = returnM (), io_pool_close = returnM (), io_redis_close = returnM (),
      io_qdrant_close = returnM (), io_arq_close = returnM ()\<rparr>;
     cs = (\<lparr>cl_pool = True, cl_redis = True, cl_qdrant = False\<rparr>, ())
   in lifespan_shutdown io (container_get (\<lambda>flags. True \<in> set flags) ''arq_pool'') cs =
     (Inl (AttributeError ''aclose''), (no_clients, ()))"
  unfolding Let_def
  by (insert shutdown_always_raises [of "\<lambda>flags. True \<in> set flags" "\<lparr>io_create_pool = returnM (), io_pool_close = returnM (),
      io_redis_close = returnM (), io_qdrant_close = returnM (), io_arq_close = returnM ()\<rparr>"
      "(\<lparr>cl_pool = True, cl_redis = True, cl_qdrant = False\<rparr>, ())"])
    (simp add: async_law_def worker_shutdown_def close_defs no_clients_def)

end
