(* ===== verification/State_Parts.thy ===== *)
theory State_Parts
  imports Prelude
begin

section \<open>Parts of a state and what an effect preserves\<close>

text \<open>
  The components are modelled on their own state; the running system has one state with a part for each.
  \<open>focus\<close> runs an effect of a component on its part, and the locale \<open>state_part\<close> gives the laws of a
  part and that \<open>focus\<close> respects the effect combinators. \<open>preserves\<close> is the invariant reasoning used for
  the wired system: an effect that keeps a predicate whether it returns or raises.
\<close>

named_theorems preserving \<open>introduction rules for preserved predicates\<close>

subsection \<open>Parts\<close>

definition focus :: "('s \<Rightarrow> 'a) \<Rightarrow> ('a \<Rightarrow> 's \<Rightarrow> 's) \<Rightarrow> ('a, 'e, 'b) eff \<Rightarrow> ('s, 'e, 'b) eff" where
  "focus get put m = (\<lambda>s. case m (get s) of (r, a) \<Rightarrow> (r, put a s))"

lemma fst_focus [simp]: "fst (focus get put m s) = fst (m (get s))"
  and snd_focus [simp]: "snd (focus get put m s) = put (snd (m (get s))) s"
  by (simp_all add: focus_def split_beta)

locale state_part =
  fixes get :: "'s \<Rightarrow> 'a" and put :: "'a \<Rightarrow> 's \<Rightarrow> 's"
  assumes get_put: "get (put a s) = a" and put_get: "put (get s) s = s" and put_put: "put b (put a s) = put b s"
begin

lemma focus_iff: "focus get put m s = (r, s') \<longleftrightarrow> m (get s) = (r, get s') \<and> s' = put (get s') s"
  by (auto simp: focus_def get_put split: prod.splits)

lemma focus_return: "focus get put (returnM x) = returnM x"
  by (simp add: focus_def returnM_def put_get)

lemma focus_raise: "focus get put (raiseM e) = raiseM e"
  by (simp add: focus_def raiseM_def put_get)

lemma focus_bind: "focus get put (bindM m f) = bindM (focus get put m) (\<lambda>x. focus get put (f x))"
  by (auto simp: focus_def bindM_def get_put put_put fun_eq_iff split: prod.splits sum.splits)

lemma focus_catch: "focus get put (catchM m h) = catchM (focus get put m) (\<lambda>e. focus get put (h e))"
  by (auto simp: focus_def catchM_def get_put put_put fun_eq_iff split: prod.splits sum.splits)

lemma focus_frame:
  assumes "\<And>a s. obs (put a s) = obs s"
  shows "obs (snd (focus get put m s)) = obs s"
  by (simp add: assms)

end

text \<open>The two sides of a pair, where the prelude's combinators are the focused effects.\<close>

interpretation left_part: state_part fst "\<lambda>a (x, y). (a, y)"
  by unfold_locales auto

interpretation right_part: state_part snd "\<lambda>b (x, y). (x, b)"
  by unfold_locales auto

lemma onL_focus: "onL m = focus fst (\<lambda>a (x, y). (a, y)) m"
  by (auto simp: onL_def focus_def fun_eq_iff split: prod.splits)

lemma onR_focus: "onR m = focus snd (\<lambda>b (x, y). (x, b)) m"
  by (auto simp: onR_def focus_def fun_eq_iff split: prod.splits)

lemma onL_bind: "onL (bindM m f) = bindM (onL m) (\<lambda>x. onL (f x))"
  unfolding onL_focus by (rule left_part.focus_bind)

subsection \<open>Preserved predicates\<close>

definition preserves :: "('s \<Rightarrow> bool) \<Rightarrow> ('s, 'e, 'a) eff \<Rightarrow> bool" where
  "preserves P m \<longleftrightarrow> (\<forall>s. P s \<longrightarrow> P (snd (m s)))"

lemma preservesD: "preserves P m \<Longrightarrow> P s \<Longrightarrow> P (snd (m s))"
  by (simp add: preserves_def)

lemma preserves_result: "preserves P m \<Longrightarrow> P s \<Longrightarrow> m s = (r, s') \<Longrightarrow> P s'"
  by (metis preservesD snd_conv)

lemma preserves_return [preserving]: "preserves P (returnM x)"
  and preserves_raise [preserving]: "preserves P (raiseM e)"
  and preserves_lift [preserving]: "preserves P (liftM r)"
  and preserves_get [preserving]: "preserves P (getM f)"
  by (simp_all add: preserves_def eff_defs)

lemma preserves_bind [preserving]: "preserves P m \<Longrightarrow> (\<And>x. preserves P (f x)) \<Longrightarrow> preserves P (bindM m f)"
  by (fastforce simp: preserves_def bindM_def split: prod.splits sum.splits)

lemma preserves_then [preserving]: "preserves P m \<Longrightarrow> preserves P n \<Longrightarrow> preserves P (thenM m n)"
  unfolding thenM_def by (rule preserves_bind)

lemma preserves_catch [preserving]: "preserves P m \<Longrightarrow> (\<And>e. preserves P (h e)) \<Longrightarrow> preserves P (catchM m h)"
  by (fastforce simp: preserves_def catchM_def split: prod.splits sum.splits)

lemma preserves_if [preserving]: "preserves P m \<Longrightarrow> preserves P n \<Longrightarrow> preserves P (if b then m else n)"
  by simp

lemma preserves_option [preserving]:
  "preserves P m \<Longrightarrow> (\<And>x. preserves P (f x)) \<Longrightarrow> preserves P (case v of None \<Rightarrow> m | Some x \<Rightarrow> f x)"
  by (cases v) auto

lemma preserves_list [preserving]:
  "preserves P m \<Longrightarrow> (\<And>x xs. preserves P (f x xs)) \<Longrightarrow> preserves P (case v of [] \<Rightarrow> m | x # xs \<Rightarrow> f x xs)"
  by (cases v) auto

lemma preserves_prod [preserving]: "(\<And>x y. preserves P (f x y)) \<Longrightarrow> preserves P (case v of (x, y) \<Rightarrow> f x y)"
  by (cases v) auto

lemma preserves_sum [preserving]:
  "(\<And>x. preserves P (f x)) \<Longrightarrow> (\<And>y. preserves P (g y)) \<Longrightarrow> preserves P (case v of Inl x \<Rightarrow> f x | Inr y \<Rightarrow> g y)"
  by (cases v) auto

lemma preserves_modify [preserving]: "(\<And>s. P s \<Longrightarrow> P (g s)) \<Longrightarrow> preserves P (modifyM g)"
  by (simp add: preserves_def modifyM_def)

lemma preserves_onR [preserving]: "preserves P m \<Longrightarrow> preserves (\<lambda>(x, s). P s) (onR m)"
  by (auto simp: preserves_def onR_def split: prod.splits)

text \<open>An effect on a part keeps a predicate of that part, and every predicate that does not look at it.\<close>

context state_part
begin

lemma preserves_focus_same: "preserves Q m \<Longrightarrow> preserves (\<lambda>s. Q (get s)) (focus get put m)"
  by (simp add: preserves_def get_put)

lemma preserves_focus_other: "(\<And>a s. P (put a s) = P s) \<Longrightarrow> preserves P (focus get put m)"
  by (simp add: preserves_def)

end

end
