(* ===== verification/Wiring.thy ===== *)
theory Wiring
  imports State_Parts Settings Process_Document Ingestion RAG_Chat Chat_Service Chat_History
begin

section \<open>The wired system\<close>

text \<open>
  The use cases as \<open>src/app/container.py\<close> builds them: each collaborator is the concrete component, run on
  its part of one system state, with the constants taken from the settings. \<open>services\<close> holds what is not
  in the repository (Redis, Qdrant, OpenAI, tiktoken, the ARQ pool, JSON and hashing); their states are the
  type parameters of \<open>system\<close>. Singletons share state, so the embedding cache and the chat
  history are on the same Redis part. Times and new ids are arguments of a call.
\<close>

subsection \<open>State and services\<close>

record ('enc, 'r, 'v, 'q, 'o) system =
  sys_db :: database
  sys_encodings :: "'enc encodings"
  sys_chunks :: chunk_store
  sys_redis :: 'r
  sys_qdrant :: 'v
  sys_queue :: 'q
  sys_openai :: 'o

record ('enc, 'r, 'v, 'q, 'o) services =
  sv_tiktoken :: "'enc tiktoken"
  sv_lib :: pylib
  sv_pydantic :: pydantic
  sv_floats :: float_lib
  sv_redis :: "'r redis"
  sv_qdrant :: "'v qdrant"
  sv_embeddings :: "string \<Rightarrow> string list \<Rightarrow> ('o, exn, real list list) eff"
  sv_completions :: "string \<Rightarrow> (string \<times> string) list \<Rightarrow> ('o, exn, completion) eff"
  sv_streams :: "string \<Rightarrow> (string \<times> string) list \<Rightarrow> ('o, exn, string option list list \<times> exn option) eff"
  sv_enqueue :: "string list \<Rightarrow> ('q, exn, string option) eff"
  sv_zadd :: "string \<Rightarrow> string \<Rightarrow> real \<Rightarrow> ('q, exn, unit) eff"
  sv_str_exc :: "exn \<Rightarrow> string"

definition on_db where "on_db = focus sys_db (\<lambda>a. sys_db_update (\<lambda>_. a))"
definition on_encodings where "on_encodings = focus sys_encodings (\<lambda>a. sys_encodings_update (\<lambda>_. a))"
definition on_chunks where "on_chunks = focus sys_chunks (\<lambda>a. sys_chunks_update (\<lambda>_. a))"
definition on_redis where "on_redis = focus sys_redis (\<lambda>a. sys_redis_update (\<lambda>_. a))"
definition on_qdrant where "on_qdrant = focus sys_qdrant (\<lambda>a. sys_qdrant_update (\<lambda>_. a))"
definition on_queue where "on_queue = focus sys_queue (\<lambda>a. sys_queue_update (\<lambda>_. a))"
definition on_openai where "on_openai = focus sys_openai (\<lambda>a. sys_openai_update (\<lambda>_. a))"

lemmas on_defs = on_db_def on_encodings_def on_chunks_def on_redis_def on_qdrant_def on_queue_def on_openai_def

interpretation db_part: state_part sys_db "\<lambda>a. sys_db_update (\<lambda>_. a)"
  by unfold_locales simp_all

interpretation encodings_part: state_part sys_encodings "\<lambda>a. sys_encodings_update (\<lambda>_. a)"
  by unfold_locales simp_all

interpretation chunks_part: state_part sys_chunks "\<lambda>a. sys_chunks_update (\<lambda>_. a)"
  by unfold_locales simp_all

interpretation redis_part: state_part sys_redis "\<lambda>a. sys_redis_update (\<lambda>_. a)"
  by unfold_locales simp_all

interpretation qdrant_part: state_part sys_qdrant "\<lambda>a. sys_qdrant_update (\<lambda>_. a)"
  by unfold_locales simp_all

interpretation queue_part: state_part sys_queue "\<lambda>a. sys_queue_update (\<lambda>_. a)"
  by unfold_locales simp_all

interpretation openai_part: state_part sys_openai "\<lambda>a. sys_openai_update (\<lambda>_. a)"
  by unfold_locales simp_all

subsection \<open>Clients on the system state\<close>

definition redis_cache :: "('enc, 'r, 'v, 'q, 'o) services \<Rightarrow> ('enc, 'r, 'v, 'q, 'o) system redis" where
  "redis_cache sv = (let rd = sv_redis sv in
     \<lparr>rd_get = (\<lambda>k. on_redis (rd_get rd k)), rd_set = (\<lambda>k v ttl. on_redis (rd_set rd k v ttl)),
      rd_delete = (\<lambda>k. on_redis (rd_delete rd k)), rd_transaction = (\<lambda>cmds. on_redis (rd_transaction rd cmds)),
      rd_lrange = (\<lambda>k a b. on_redis (rd_lrange rd k a b))\<rparr>)"

definition qdrant_client_of :: "('enc, 'r, 'v, 'q, 'o) services \<Rightarrow> ('enc, 'r, 'v, 'q, 'o) system qdrant" where
  "qdrant_client_of sv = (let qd = sv_qdrant sv in
     \<lparr>qd_match = qd_match qd, qd_upsert = (\<lambda>c pts. on_qdrant (qd_upsert qd c pts)),
      qd_query_points = (\<lambda>c v k f. on_qdrant (qd_query_points qd c v k f)),
      qd_delete_ids = (\<lambda>c ids. on_qdrant (qd_delete_ids qd c ids)),
      qd_delete_filter = (\<lambda>c conds. on_qdrant (qd_delete_filter qd c conds)),
      qd_collection_exists = (\<lambda>c. on_qdrant (qd_collection_exists qd c)),
      qd_create_collection = (\<lambda>c n. on_qdrant (qd_create_collection qd c n)),
      qd_create_payload_index = (\<lambda>c f t. on_qdrant (qd_create_payload_index qd c f t))\<rparr>)"

subsection \<open>Providers\<close>

text \<open>The chunker always returns (\<open>chunking_strategy_returns\<close> below), so the last case is not reached.\<close>

definition chunking_strategy :: "('enc, 'r, 'v, 'q, 'o) services \<Rightarrow> settings \<Rightarrow> string \<Rightarrow> int \<Rightarrow> int \<Rightarrow> chunk_data list result" where
  "chunking_strategy sv cfg content csize ovl =
     (let tk = sv_tiktoken sv; encoder = resolve_encoding tk (oa_model (st_openai cfg))
      in case token_chunk (enc_encode tk encoder) (enc_decode tk encoder) content csize ovl of
           Some r \<Rightarrow> r | None \<Rightarrow> Inr [])"

definition token_service ::
  "('enc, 'r, 'v, 'q, 'o) services \<Rightarrow> string \<Rightarrow> string \<Rightarrow> (('enc, 'r, 'v, 'q, 'o) system, exn, int) eff" where
  "token_service sv t model = on_encodings (count_tokens (sv_tiktoken sv) t model)"

definition embedding_provider_batch ::
  "('enc, 'r, 'v, 'q, 'o) services \<Rightarrow> settings \<Rightarrow> string list
   \<Rightarrow> (('enc, 'r, 'v, 'q, 'o) system, exn, embedding_vector option list) eff" where
  "embedding_provider_batch sv cfg texts =
     embed_batch (Some (redis_cache sv)) (sv_lib sv) (sv_pydantic sv) (\<lambda>m ts. on_openai (sv_embeddings sv m ts))
       (sv_floats sv) (oa_embedding_model (st_openai cfg)) (oa_embedding_dimensions (st_openai cfg)) texts"

definition embedding_provider ::
  "('enc, 'r, 'v, 'q, 'o) services \<Rightarrow> settings \<Rightarrow> string
   \<Rightarrow> (('enc, 'r, 'v, 'q, 'o) system, exn, embedding_vector option) eff" where
  "embedding_provider sv cfg t =
     embed (Some (redis_cache sv)) (sv_lib sv) (sv_pydantic sv) (\<lambda>m ts. on_openai (sv_embeddings sv m ts))
       (sv_floats sv) (oa_embedding_model (st_openai cfg)) (oa_embedding_dimensions (st_openai cfg)) t"

definition chat_provider_complete ::
  "('enc, 'r, 'v, 'q, 'o) services \<Rightarrow> settings \<Rightarrow> chat_message list
   \<Rightarrow> (('enc, 'r, 'v, 'q, 'o) system, exn, chat_response) eff" where
  "chat_provider_complete sv cfg messages =
     complete (\<lambda>m ms. on_openai (sv_completions sv m ms)) (sv_floats sv) (oa_model (st_openai cfg))
       (oa_max_tokens (st_openai cfg)) messages"

definition chat_provider_stream ::
  "('enc, 'r, 'v, 'q, 'o) services \<Rightarrow> settings \<Rightarrow> chat_message list
   \<Rightarrow> (('enc, 'r, 'v, 'q, 'o) system, exn, string list \<times> exn option) eff" where
  "chat_provider_stream sv cfg messages =
     chat_stream (\<lambda>m ms. on_openai (sv_streams sv m ms)) (sv_floats sv) (oa_model (st_openai cfg)) messages"

definition process_document_provider ::
  "('enc, 'r, 'v, 'q, 'o) services \<Rightarrow> settings \<Rightarrow> timestamp \<Rightarrow> (nat \<Rightarrow> uuid)
   \<Rightarrow> ('enc, 'r, 'v, 'q, 'o) system proc_deps" where
  "process_document_provider sv cfg now uuids =
     \<lparr>pd_get = (\<lambda>did. on_db (pg_get_by_id (sv_lib sv) (uuids 0) did)),
      pd_update = (\<lambda>d. on_db (pg_update (sv_lib sv) now d)),
      pd_save_many = (\<lambda>cs. on_chunks (save_many cs)),
      pd_mutate = (\<lambda>c. sys_chunks_update (write_through c)),
      pd_upsert_many = (\<lambda>es. upsert_many (qdrant_client_of sv) (qs_collection_name (st_qdrant cfg)) es),
      pd_embed_batch = embedding_provider_batch sv cfg, pd_chunk = chunking_strategy sv cfg,
      pd_count = token_service sv, pd_chunk_size = ck_chunk_size (st_chunking cfg),
      pd_chunk_overlap = ck_chunk_overlap (st_chunking cfg), pd_now = now,
      pd_uuid = uuids, pd_str_exc = sv_str_exc sv\<rparr>"

definition ingest_document_provider ::
  "('enc, 'r, 'v, 'q, 'o) services \<Rightarrow> timestamp \<Rightarrow> uuid \<Rightarrow> ('enc, 'r, 'v, 'q, 'o) system ingest_deps" where
  "ingest_document_provider sv now eid =
     \<lparr>id_find_duplicate = Some (\<lambda>tid content. on_db (pg_find_duplicate (sv_lib sv) eid tid content)),
      id_save = (\<lambda>d. on_db (pg_save (sv_lib sv) d)), id_update = (\<lambda>d. on_db (pg_update (sv_lib sv) now d)),
      id_enqueue_job = (\<lambda>args. on_queue (sv_enqueue sv args))\<rparr>"

definition search_documents_provider ::
  "('enc, 'r, 'v, 'q, 'o) services \<Rightarrow> settings \<Rightarrow> (nat \<Rightarrow> uuid) \<Rightarrow> ('enc, 'r, 'v, 'q, 'o) system search_deps" where
  "search_documents_provider sv cfg uuids =
     \<lparr>sd_count = token_service sv, sd_embed = embedding_provider sv cfg,
      sd_search = vector_search (qdrant_client_of sv) (sv_pydantic sv) uuids (qs_collection_name (st_qdrant cfg))\<rparr>"

definition rag_chat_provider ::
  "('enc, 'r, 'v, 'q, 'o) services \<Rightarrow> settings \<Rightarrow> (nat \<Rightarrow> uuid) \<Rightarrow> ('enc, 'r, 'v, 'q, 'o) system rag_deps" where
  "rag_chat_provider sv cfg uuids =
     \<lparr>rg_search = search_execute (search_documents_provider sv cfg uuids), rg_complete = chat_provider_complete sv cfg,
      rg_stream = chat_provider_stream sv cfg,
      rg_get_history = get_history (redis_cache sv) (sv_lib sv) (sv_pydantic sv),
      rg_save_message = save_message (redis_cache sv) (sv_lib sv), rg_count = token_service sv,
      rg_max_context_tokens = rg_context_tokens (st_rag cfg), rg_score_threshold = rg_threshold (st_rag cfg)\<rparr>"

text \<open>\<open>execute\<close> of the pipeline as the worker calls it: the job object lives only during the call.\<close>

definition process_execute ::
  "('enc, 'r, 'v, 'q, 'o) services \<Rightarrow> settings \<Rightarrow> timestamp \<Rightarrow> (nat \<Rightarrow> uuid) \<Rightarrow> document_id \<Rightarrow> ingestion_job
   \<Rightarrow> (('enc, 'r, 'v, 'q, 'o) system, exn, unit) eff" where
  "process_execute sv cfg now uuids did job = (\<lambda>s.
     case process_document (process_document_provider sv cfg now uuids) did (job, s) of (r, (job', s')) \<Rightarrow> (r, s'))"

subsection \<open>Running the use cases\<close>

datatype request =
    Ingest timestamp ingest_ids ingest_request tenant_id
  | Process timestamp "nat \<Rightarrow> uuid" document_id ingestion_job
  | Search "nat \<Rightarrow> uuid" search_request
  | Chat uuid "nat \<Rightarrow> uuid" chat_request
  | Stream uuid "nat \<Rightarrow> uuid" chat_request nat
  | Task timestamp real "nat \<Rightarrow> uuid" int string string string

fun run_request ::
  "('enc, 'r, 'v, 'q, 'o) services \<Rightarrow> settings \<Rightarrow> request \<Rightarrow> ('enc, 'r, 'v, 'q, 'o) system
   \<Rightarrow> ('enc, 'r, 'v, 'q, 'o) system" where
  "run_request sv cfg (Ingest now ids rq tid) s =
     snd (ingest_execute (ingest_document_provider sv now (fresh_entity ids)) now ids rq tid s)"
| "run_request sv cfg (Process now uuids did job) s = snd (process_execute sv cfg now uuids did job s)"
| "run_request sv cfg (Search uuids rq) s = snd (search_execute (search_documents_provider sv cfg uuids) rq s)"
| "run_request sv cfg (Chat fresh uuids rq) s = snd (rag_execute (rag_chat_provider sv cfg uuids) fresh rq s)"
| "run_request sv cfg (Stream fresh uuids rq pulls) s =
     snd (rag_stream (rag_chat_provider sv cfg uuids) fresh rq pulls s)"
| "run_request sv cfg (Task now clock uuids job_try tenant document job) s =
     snd (process_document_task (process_execute sv cfg now uuids) (\<lambda>k m sc. on_queue (sv_zadd sv k m sc)) (sv_lib sv)
       (sv_str_exc sv) now clock (uuids 0) (wk_max_retries (st_worker cfg)) job_try tenant document job s)"

lemma chunking_strategy_returns:
  assumes "1 \<le> csize"
  shows "\<exists>r. token_chunk encode decode content csize ovl = Some r"
proof (cases "encode content")
  case (Inl e)
  then show ?thesis by (simp add: token_chunk_def)
next
  case (Inr ids)
  then show ?thesis using token_chunk_windows [of csize encode content ids decode ovl] assms by blast
qed

subsection \<open>What the components preserve\<close>

text \<open>For any collaborators that preserve a predicate, so does the component built on them.\<close>

lemma preserves_cache_lookups:
  "(\<And>t. preserves P (get t)) \<Longrightarrow> preserves P (cache_lookups get i ts results idx txts)"
  by (induction ts arbitrary: i results idx txts) (auto intro!: preserving)

lemma preserves_write_back:
  "(\<And>p t e. put = Some p \<Longrightarrow> preserves P (p t e)) \<Longrightarrow> preserves P (write_back put items results)"
proof (induction put items results rule: write_back.induct)
  case (2 put original_idx t e rest results)
  then show ?case by (cases put) (auto intro!: preserving)
qed (auto intro: preserving)

lemma preserves_embed_batch:
  assumes "\<And>k. preserves P (rd_get rd k)" "\<And>t v ttl. preserves P (rd_set rd (embedding_key lib t model) v ttl)"
    and "\<And>ts. preserves P (create model ts)"
  shows "preserves P (embed_batch (Some rd) lib pyd create fl model dims texts)"
proof -
  have "preserves P (get_embedding rd lib pyd t model)" for t
    unfolding get_embedding_def get_json_def cache_get_def
    by (intro preserving assms) (auto split: pyval.split intro!: preserving)
  moreover have "preserves P (cache_set_embedding rd lib t model e ttl)" for t e ttl
    by (simp add: cache_set_embedding_def set_json_def cache_set_def assms)
  ultimately show ?thesis
    unfolding embed_batch_def embed_batch_with_def call_openai_def option.map option.case prod.case snd_conv
    by (intro preserving preserves_cache_lookups preserves_write_back assms) auto
qed

lemma preserves_embed:
  assumes "\<And>texts. preserves P (embed_batch rd lib pyd create fl model dims texts)"
  shows "preserves P (embed rd lib pyd create fl model dims t)"
  unfolding embed_def by (intro preserving assms)

lemma preserves_context_loop:
  "(\<And>t. preserves P (cnt t model)) \<Longrightarrow> preserves P (context_loop cnt budget model i cur rs)"
  by (induction rs arbitrary: i cur) (auto simp: Let_def intro!: preserving)

lemma preserves_build_context:
  "(\<And>t. preserves P (cnt t model)) \<Longrightarrow> preserves P (build_context cnt budget threshold rs model)"
  unfolding build_context_def Let_def by (intro preserving preserves_context_loop)

lemma preserves_search_execute:
  assumes "\<And>t m. preserves P (sd_count deps t m)" "\<And>t. preserves P (sd_embed deps t)"
    and "\<And>e k f t. preserves P (sd_search deps e k f t)"
  shows "preserves P (search_execute deps rq)"
  unfolding search_execute_def by (intro preserving assms)

lemma preserves_rag_prepare:
  assumes "\<And>rq. preserves P (rg_search deps rq)" "\<And>t m. preserves P (rg_count deps t m)"
    and "\<And>u n. preserves P (rg_get_history deps u n)"
  shows "preserves P (rag_prepare deps fresh rq)"
  unfolding rag_prepare_def rag_history_def by (intro preserving preserves_build_context assms)

lemma preserves_save_exchange:
  "(\<And>u m. preserves P (rg_save_message deps u m)) \<Longrightarrow> preserves P (save_exchange deps rq answer)"
  unfolding save_exchange_def by (intro preserving)

lemma preserves_rag_execute:
  assumes "preserves P (rag_prepare deps fresh rq)" "\<And>ms. preserves P (rg_complete deps ms)"
    and "\<And>u m. preserves P (rg_save_message deps u m)"
  shows "preserves P (rag_execute deps fresh rq)"
  unfolding rag_execute_def by (intro preserving preserves_save_exchange assms)

lemma preserves_rag_stream:
  assumes prep: "preserves P (rag_prepare deps fresh rq)" and str: "\<And>ms. preserves P (rg_stream deps ms)"
    and cnt: "\<And>t m. preserves P (rg_count deps t m)" and sav: "\<And>u m. preserves P (rg_save_message deps u m)"
    and "P s"
  shows "P (snd (rag_stream deps fresh rq pulls s))"
proof -
  let ?open = "bindM (rag_prepare deps fresh rq) (\<lambda>(messages, used).
     bindM (rg_stream deps messages) (\<lambda>(deltas, broken). returnM (messages, used, deltas, broken)))"
  have op: "preserves P ?open" by (intro preserving prep str)
  have fin: "preserves P (final_chunk deps messages used full)" for messages used full
    unfolding final_chunk_def by (intro preserving cnt)
  have ex: "preserves P (save_exchange deps rq answer)" for answer
    by (rule preserves_save_exchange) (rule sav)
  obtain r s1 where o1: "?open s = (r, s1)" by fastforce
  have P1: "P s1" using preserves_result [OF op \<open>P s\<close> o1] .
  show ?thesis
  proof (cases r)
    case (Inl e)
    with o1 P1 \<open>P s\<close> show ?thesis by (simp add: rag_stream_def)
  next
    case (Inr v)
    obtain messages used deltas broken where v: "v = (messages, used, deltas, broken)" by (cases v)
    obtain r2 s2 where o2: "final_chunk deps messages used (concat deltas) s1 = (r2, s2)" by fastforce
    obtain r3 s3 where o3: "save_exchange deps rq (ChatMessage ASSISTANT (concat deltas)) s2 = (r3, s3)" by fastforce
    have "P s2" using preserves_result [OF fin P1 o2] .
    then have "P s3" using preserves_result [OF ex _ o3] by blast
    with o1 Inr v o2 o3 P1 \<open>P s\<close> \<open>P s2\<close> show ?thesis
      by (simp add: rag_stream_def Let_def split: option.split sum.split)
  qed
qed

lemma preserves_ingest_execute:
  assumes "\<And>f tid c. id_find_duplicate deps = Some f \<Longrightarrow> preserves P (f tid c)"
    and "\<And>d. preserves P (id_save deps d)" "\<And>d. preserves P (id_update deps d)"
    and "\<And>args. preserves P (id_enqueue_job deps args)"
  shows "preserves P (ingest_execute deps now ids rq tid)"
proof -
  have dup: "preserves P (case id_find_duplicate deps of None \<Rightarrow> returnM None | Some f \<Rightarrow> f tid (iq_content rq))"
    using assms(1) by (cases "id_find_duplicate deps") (auto intro: preserving)
  show ?thesis
    unfolding ingest_execute_def persist_and_enqueue_def Let_def
    by (rule preserves_bind [OF preserves_lift preserves_bind [OF dup]]) (intro preserving assms(2-4))
qed

subsubsection \<open>The pipeline\<close>

text \<open>\<open>on_run P\<close> looks at the shared state of a run, not at its job.\<close>

definition on_run :: "('s \<Rightarrow> bool) \<Rightarrow> 's run \<Rightarrow> bool" where
  "on_run P = (\<lambda>(job, s). P s)"

lemma preserves_run_parts:
  "preserves (on_run P) (jobM f)" "preserves (on_run P) (advance now st)"
  "preserves P m \<Longrightarrow> preserves (on_run P) (onR m)"
  by (auto simp: preserves_def on_run_def jobM_def modifyM_def advance_def onR_def split: prod.splits sum.splits)

definition deps_preserve :: "('s \<Rightarrow> bool) \<Rightarrow> 's proc_deps \<Rightarrow> bool" where
  "deps_preserve P deps \<longleftrightarrow> (\<forall>did. preserves P (pd_get deps did)) \<and> (\<forall>d. preserves P (pd_update deps d)) \<and>
     (\<forall>cs. preserves P (pd_save_many deps cs)) \<and> (\<forall>c s. P s \<longrightarrow> P (pd_mutate deps c s)) \<and>
     (\<forall>es. preserves P (pd_upsert_many deps es)) \<and> (\<forall>ts. preserves P (pd_embed_batch deps ts)) \<and>
     (\<forall>t m. preserves P (pd_count deps t m))"

lemma deps_preserveD:
  assumes "deps_preserve P deps"
  shows "preserves P (pd_get deps did)" "preserves P (pd_update deps d)" "preserves P (pd_save_many deps cs)"
    "preserves P (modifyM (pd_mutate deps c))" "preserves P (pd_upsert_many deps es)" "preserves P (pd_embed_batch deps ts)"
    "preserves P (pd_count deps t m)"
  using assms by (simp_all add: deps_preserve_def preserves_modify)

lemma preserves_attach_all: "deps_preserve P deps \<Longrightarrow> preserves P (attach_all deps cs es)"
  by (induction deps cs es rule: attach_all.induct)
    (simp_all add: Let_def preserves_then preserves_bind preserves_return preserves_raise deps_preserveD)

lemma preserves_build_chunks: "deps_preserve P deps \<Longrightarrow> preserves P (build_chunks deps doc i cds)"
  by (induction deps doc i cds rule: build_chunks.induct)
    (simp_all add: preserves_bind preserves_lift preserves_return deps_preserveD)

lemma preserves_embed_batches:
  "deps_preserve P deps \<Longrightarrow> preserves (on_run P) (embed_batches deps n b rest tot)"
proof (induction deps n b rest tot rule: embed_batches.induct)
  case (1 deps n b rest tot)
  show ?case
  proof (cases "rest = []")
    case False
    show ?thesis
      unfolding embed_batches.simps [of deps n b rest tot] Let_def
      by (intro preserving preserves_run_parts preserves_attach_all deps_preserveD "1.IH" [OF False refl] "1.prems")
  qed (simp add: preserves_return)
qed

lemma preserves_process_document:
  assumes "deps_preserve P deps"
  shows "preserves (on_run P) (process_document deps did)"
  unfolding process_document_def run_pipeline_def chunk_and_embed_def store_and_complete_def record_failure_def Let_def
  by (intro preserving preserves_run_parts preserves_build_chunks preserves_embed_batches deps_preserveD assms)

lemma preserves_task:
  assumes "\<And>did job. preserves P (execute did job)" "\<And>k m sc. preserves P (zadd k m sc)"
  shows "preserves P (process_document_task execute zadd lib str_exc now clock eid n job_try tenant document job)"
  unfolding process_document_task_def write_to_dlq_def call_process_def by (intro preserving assms)

subsection \<open>The invariant of the system\<close>

text \<open>
  Documents have distinct ids, the hash of their content, an existing tenant and values that fit their
  columns; cached encodings are those tiktoken resolves; chunks are stored under their own id.
\<close>

definition rows_ok :: "pylib \<Rightarrow> database \<Rightarrow> bool" where
  "rows_ok lib db \<longleftrightarrow> distinct (map r_document_id (db_documents db)) \<and> hashes_ok lib db \<and>
     (\<forall>row \<in> set (db_documents db). widths_ok row \<and> r_tenant_id row \<in> tr_tenant_id ` set (db_tenants db))"

definition system_inv ::
  "(database \<Rightarrow> bool) \<Rightarrow> ('enc, 'r, 'v, 'q, 'o) services \<Rightarrow> ('enc, 'r, 'v, 'q, 'o) system \<Rightarrow> bool" where
  "system_inv D sv s \<longleftrightarrow> D (sys_db s) \<and> encodings_ok (sv_tiktoken sv) (sys_encodings s) \<and> chunk_store_ok (sys_chunks s)"

definition system_ok :: "('enc, 'r, 'v, 'q, 'o) services \<Rightarrow> ('enc, 'r, 'v, 'q, 'o) system \<Rightarrow> bool" where
  "system_ok sv = system_inv (rows_ok (sv_lib sv)) sv"

text \<open>What of a row never changes once it is stored.\<close>

definition row_core :: "doc_row \<Rightarrow> uuid \<times> uuid \<times> uuid \<times> string \<times> string \<times> string \<times> string \<times> timestamp" where
  "row_core r = (r_document_id r, r_tenant_id r, r_collection_id r, r_title r, r_content r, r_content_type r,
     r_content_hash r, r_created_at r)"

definition has_core :: "uuid \<times> uuid \<times> uuid \<times> string \<times> string \<times> string \<times> string \<times> timestamp \<Rightarrow> database \<Rightarrow> bool" where
  "has_core c db \<longleftrightarrow> c \<in> row_core ` set (db_documents db)"

lemma preserves_pool_run:
  assumes "preserves P stmt" "\<And>db fs. P (db\<lparr>db_faults := fs\<rparr>) = P db"
  shows "preserves P (pool_run stmt)"
  using assms by (auto simp: preserves_def pool_run_def split: list.split option.split)

lemma rows_ok_faults: "rows_ok lib (db\<lparr>db_faults := fs\<rparr>) = rows_ok lib db"
  by (simp add: rows_ok_def hashes_ok_def)

lemma rows_ok_insert: "preserves (rows_ok lib) (insert_document (document_row lib d))"
  by (auto simp: preserves_def insert_document_def rows_ok_def hashes_ok_def document_row_def content_hash_def)

lemma rows_ok_map:
  assumes "rows_ok lib db" "\<And>r. widths_ok r \<Longrightarrow> widths_ok (g r)"
    and "\<And>r. r_document_id (g r) = r_document_id r \<and> r_tenant_id (g r) = r_tenant_id r \<and>
      r_content (g r) = r_content r \<and> r_content_hash (g r) = r_content_hash r"
  shows "rows_ok lib (db\<lparr>db_documents := map g (db_documents db)\<rparr>)"
  using assms by (simp add: rows_ok_def hashes_ok_def o_def)

lemma rows_ok_update_documents: "preserves (rows_ok lib) (update_documents now row)"
  by (auto simp: preserves_def update_documents_def column_checks intro!: rows_ok_map)

lemma preserves_pg:
  "preserves (rows_ok lib) (pg_save lib d)" "preserves (rows_ok lib) (pg_update lib now d)"
  "preserves (rows_ok lib) (pg_get_by_id lib eid did)" "preserves (rows_ok lib) (pg_find_duplicate lib eid tid c)"
proof -
  have sel: "preserves (rows_ok lib) (pool_run (select_documents Q))" for Q
    by (rule preserves_pool_run) (simp_all add: preserves_def select_documents_def rows_ok_faults)
  show "preserves (rows_ok lib) (pg_save lib d)" "preserves (rows_ok lib) (pg_update lib now d)"
    "preserves (rows_ok lib) (pg_get_by_id lib eid did)" "preserves (rows_ok lib) (pg_find_duplicate lib eid tid c)"
    unfolding pg_save_def pg_update_def pg_get_by_id_def pg_find_duplicate_def first_document_def
    by (intro preserving preserves_pool_run rows_ok_insert rows_ok_update_documents rows_ok_faults sel)+
qed

lemma preserves_count_tokens: "preserves (encodings_ok tk) (count_tokens tk t model)"
  unfolding preserves_def using tiktoken_counter.count_inv by blast

lemma preserves_save_many: "preserves chunk_store_ok (save_many cs)"
  by (simp add: preserves_def save_many_ok)

lemma has_core_insert: "preserves (has_core c) (insert_document row)"
  by (auto simp: preserves_def insert_document_def has_core_def)

lemma has_core_update: "preserves (has_core c) (update_documents now row)"
proof -
  have "has_core c (db\<lparr>db_documents := map g (db_documents db)\<rparr>)"
    if "has_core c db" "\<And>r. row_core (g r) = row_core r" for db g
    using that by (simp add: has_core_def image_image)
  then show ?thesis by (auto simp: preserves_def update_documents_def row_core_def)
qed

lemma preserves_pg_core:
  "preserves (has_core c) (pg_save lib d)" "preserves (has_core c) (pg_update lib now d)"
  "preserves (has_core c) (pg_get_by_id lib eid did)" "preserves (has_core c) (pg_find_duplicate lib eid tid t)"
proof -
  have faults: "has_core c (db\<lparr>db_faults := fs\<rparr>) = has_core c db" for db fs
    by (simp add: has_core_def)
  have sel: "preserves (has_core c) (pool_run (select_documents Q))" for Q
    by (rule preserves_pool_run) (simp_all add: preserves_def select_documents_def faults)
  show "preserves (has_core c) (pg_save lib d)" "preserves (has_core c) (pg_update lib now d)"
    "preserves (has_core c) (pg_get_by_id lib eid did)" "preserves (has_core c) (pg_find_duplicate lib eid tid t)"
    unfolding pg_save_def pg_update_def pg_get_by_id_def pg_find_duplicate_def first_document_def
    by (intro preserving preserves_pool_run has_core_insert has_core_update faults sel)+
qed

subsubsection \<open>From the components to the whole system\<close>

text \<open>
  Searching and chatting reach the state only through the token service, Redis, Qdrant and OpenAI: a
  predicate that these preserve is preserved by the two use cases.
\<close>

locale query_invariant =
  fixes sv :: "('enc, 'r, 'v, 'q, 'o) services" and P :: "('enc, 'r, 'v, 'q, 'o) system \<Rightarrow> bool"
  assumes other_parts: "P (s\<lparr>sys_redis := r\<rparr>) = P s" "P (s\<lparr>sys_qdrant := v\<rparr>) = P s" "P (s\<lparr>sys_openai := w\<rparr>) = P s"
    and query_tokens: "preserves P (token_service sv t model)"
begin

lemma query_externals: "preserves P (on_redis m1)" "preserves P (on_qdrant m2)" "preserves P (on_openai m3)"
  by (simp_all add: preserves_def on_defs other_parts)

lemma inv_embedding_batch: "preserves P (embedding_provider_batch sv cfg texts)"
  unfolding embedding_provider_batch_def
  by (rule preserves_embed_batch) (simp_all add: redis_cache_def Let_def query_externals)

lemma inv_embedding: "preserves P (embedding_provider sv cfg t)"
  unfolding embedding_provider_def
  by (rule preserves_embed) (rule inv_embedding_batch [unfolded embedding_provider_batch_def])

lemma inv_chat: "preserves P (chat_provider_complete sv cfg ms)" "preserves P (chat_provider_stream sv cfg ms)"
  unfolding chat_provider_complete_def chat_provider_stream_def complete_def chat_stream_def
  by (intro preserving query_externals)+

lemma inv_history:
  "preserves P (get_history (redis_cache sv) lib pyd u n)" "preserves P (save_message (redis_cache sv) lib u msg)"
  unfolding get_history_def save_message_def redis_cache_def Let_def
  by (simp_all add: preserves_bind query_externals preserves_lift)

lemma inv_search: "preserves P (search_execute (search_documents_provider sv cfg uuids) rq)"
proof (rule preserves_search_execute)
  show "preserves P (sd_search (search_documents_provider sv cfg uuids) e k f t)" for e k f t
    unfolding search_documents_provider_def vector_search_def qdrant_client_of_def Let_def
    by (simp add: preserves_bind preserves_lift preserves_return query_externals)
qed (simp_all add: search_documents_provider_def query_tokens inv_embedding)

lemma inv_rag_prepare: "preserves P (rag_prepare (rag_chat_provider sv cfg uuids) fresh rq)"
  by (rule preserves_rag_prepare)
    (simp_all add: rag_chat_provider_def inv_search query_tokens inv_history)

lemma inv_rag_execute: "preserves P (rag_execute (rag_chat_provider sv cfg uuids) fresh rq)"
  by (rule preserves_rag_execute [OF inv_rag_prepare])
    (simp_all add: rag_chat_provider_def inv_chat inv_history)

lemma inv_rag_stream: "P s \<Longrightarrow> P (snd (rag_stream (rag_chat_provider sv cfg uuids) fresh rq pulls s))"
  by (rule preserves_rag_stream [OF inv_rag_prepare])
    (simp_all add: rag_chat_provider_def inv_chat inv_history query_tokens)

end

text \<open>
  The use cases rely on the document repository only through its operations: a predicate of the database
  that the four operations they call preserve is preserved by every use case, whatever the other services
  return or raise.
\<close>

locale database_invariant =
  fixes sv :: "('enc, 'r, 'v, 'q, 'o) services" and D :: "database \<Rightarrow> bool"
  assumes db_laws: "preserves D (pg_save (sv_lib sv) d)" "preserves D (pg_update (sv_lib sv) now d)"
    "preserves D (pg_get_by_id (sv_lib sv) eid did)" "preserves D (pg_find_duplicate (sv_lib sv) eid tid t)"
begin

lemma inv_parts:
  "preserves D m1 \<Longrightarrow> preserves (system_inv D sv) (on_db m1)"
  "preserves (encodings_ok (sv_tiktoken sv)) m2 \<Longrightarrow> preserves (system_inv D sv) (on_encodings m2)"
  "preserves chunk_store_ok m3 \<Longrightarrow> preserves (system_inv D sv) (on_chunks m3)"
  by (simp_all add: preserves_def system_inv_def on_defs)

lemma inv_externals:
  "preserves (system_inv D sv) (on_redis m4)" "preserves (system_inv D sv) (on_qdrant m5)"
  "preserves (system_inv D sv) (on_queue m6)" "preserves (system_inv D sv) (on_openai m7)"
  by (simp_all add: preserves_def system_inv_def on_defs)

lemma inv_token_service: "preserves (system_inv D sv) (token_service sv t model)"
  unfolding token_service_def by (intro inv_parts preserves_count_tokens)

end

sublocale database_invariant \<subseteq> query_invariant sv "system_inv D sv"
  by unfold_locales (simp_all add: system_inv_def inv_token_service)

context database_invariant
begin

lemma inv_ingest: "preserves (system_inv D sv) (ingest_execute (ingest_document_provider sv now eid) now ids rq tid)"
  by (rule preserves_ingest_execute)
    (auto simp: ingest_document_provider_def intro!: inv_parts inv_externals db_laws)

lemma inv_pipeline: "deps_preserve (system_inv D sv) (process_document_provider sv cfg now uuids)"
proof -
  have "preserves (system_inv D sv) (upsert_many (qdrant_client_of sv) coll es)" for coll es
    unfolding upsert_many_def qdrant_client_of_def Let_def by (simp add: inv_externals preserves_return)
  moreover have "system_inv D sv (sys_chunks_update (write_through c) s)" if "system_inv D sv s" for c s
    using that by (simp add: system_inv_def write_through_ok)
  ultimately show ?thesis
    by (simp add: deps_preserve_def process_document_provider_def inv_parts db_laws preserves_save_many
        inv_embedding_batch inv_token_service)
qed

lemma inv_process_execute: "preserves (system_inv D sv) (process_execute sv cfg now uuids did job)"
  unfolding preserves_def
proof (intro allI impI)
  fix s
  assume "system_inv D sv s"
  then have "on_run (system_inv D sv) (snd (process_document (process_document_provider sv cfg now uuids) did (job, s)))"
    by (intro preservesD [OF preserves_process_document [OF inv_pipeline]]) (simp add: on_run_def)
  then show "system_inv D sv (snd (process_execute sv cfg now uuids did job s))"
    by (simp add: process_execute_def on_run_def split_beta)
qed

lemma inv_task:
  "preserves (system_inv D sv) (process_document_task (process_execute sv cfg now uuids) (\<lambda>k m sc. on_queue (sv_zadd sv k m sc))
     lib str_exc now clock eid n job_try tenant document job)"
  by (intro preserves_task inv_process_execute inv_externals)

lemma inv_request: "system_inv D sv s \<Longrightarrow> system_inv D sv (run_request sv cfg rq s)"
  by (cases rq) (simp_all add: preservesD inv_ingest inv_process_execute inv_search
      inv_rag_execute inv_rag_stream inv_task)

lemma inv_requests: "system_inv D sv s \<Longrightarrow> system_inv D sv (fold (run_request sv cfg) rqs s)"
  by (induction rqs arbitrary: s) (simp_all add: inv_request)

end

interpretation rows_invariant: database_invariant sv "rows_ok (sv_lib sv)" for sv
  by unfold_locales (rule preserves_pg)+

interpretation core_invariant: database_invariant sv "has_core c" for sv c
  by unfold_locales (rule preserves_pg_core)+

subsection \<open>The pipeline on PostgreSQL\<close>

lemma pg_docs_id: "pg_docs db did = Some d \<Longrightarrow> d_document_id d = did"
  by (cases did) (auto simp: pg_docs_def row_view_def dest!: find_Some_mem)

lemma mark_failed_storable: "pg_storable lib db d \<Longrightarrow> pg_storable lib db (mark_failed now msg d)"
  by (simp add: pg_storable_def column_checks document_row_def mark_failed_def update_def)

lemma pg_mark_failed:
  assumes inv: "pg_inv lib db" and get: "pg_get_by_id lib eid did db = (Inr (Some doc), db)" and st: "pg_storable lib db doc"
  shows "\<exists>db'. pg_update lib now (mark_failed now msg doc) db = (Inr (mark_failed now msg doc), db') \<and>
    pg_docs db' = (pg_docs db)(did \<mapsto> doc_view (mark_failed now msg doc))"
proof -
  have docs: "pg_docs db did = Some (doc_view doc)" using pg_repo.get_law [OF inv, of eid did] get by auto
  then have id: "d_document_id doc = did" using pg_docs_id [OF docs] by (simp add: doc_view_def)
  have st': "pg_storable lib db (mark_failed now msg doc)" using st by (rule mark_failed_storable)
  have "same_core (mark_failed now msg doc) (doc_view doc)"
    by (simp add: same_core_def doc_view_def mark_failed_def update_def)
  moreover have id': "d_document_id (mark_failed now msg doc) = did"
    using id by (simp add: mark_failed_def update_def)
  ultimately show ?thesis
    using pg_repo.upd_law [OF inv st', of "doc_view doc" now] docs by auto
qed

lemma token_service_counts:
  assumes "encodings_ok (sv_tiktoken sv) (sys_encodings s)"
    and "enc_encode (sv_tiktoken sv) (resolve_encoding (sv_tiktoken sv) model) t = Inr ids"
  shows "\<exists>es. token_service sv t model s = (Inr (int (length ids)), s\<lparr>sys_encodings := es\<rparr>)"
  using tiktoken_counter.count_spec [OF assms(1), of t model] assms(2)
  by (cases "count_tokens (sv_tiktoken sv) t model (sys_encodings s)")
    (auto simp: token_service_def on_encodings_def focus_def token_count_spec_def)

subsection \<open>The chat history beside the embedding cache\<close>

text \<open>Redis keeps string and list keys apart: \<open>GET\<close> changes no list and \<open>SET\<close> none but that of its key.\<close>

definition list_frame_law :: "'s redis \<Rightarrow> ('s \<Rightarrow> string \<Rightarrow> string list) \<Rightarrow> bool" where
  "list_frame_law rd lview \<longleftrightarrow> (\<forall>k s. lview (snd (rd_get rd k s)) = lview s) \<and>
     (\<forall>k v ttl s k'. k' \<noteq> k \<longrightarrow> lview (snd (rd_set rd k v ttl s)) k' = lview s k')"

definition same_history ::
  "('r \<Rightarrow> string \<Rightarrow> string list) \<Rightarrow> (user_id \<Rightarrow> string list) \<Rightarrow> ('enc, 'r, 'v, 'q, 'o) system \<Rightarrow> bool" where
  "same_history lview h s \<longleftrightarrow> (\<forall>v. lview (sys_redis s) (history_key v) = h v)"

lemma keys_apart: "history_key v \<noteq> embedding_key lib t model"
  by (simp add: history_key_def embedding_key_def Let_def)

lemma same_history_externals:
  "preserves (same_history lview h) (on_db m1)" "preserves (same_history lview h) (on_encodings m2)"
  "preserves (same_history lview h) (on_qdrant m5)" "preserves (same_history lview h) (on_openai m7)"
  by (simp_all add: preserves_def same_history_def on_defs)

lemma same_history_redis:
  assumes "list_laws (sv_redis sv) lview" "list_frame_law (sv_redis sv) lview"
  shows "preserves (same_history lview h) (rd_get (redis_cache sv) k)"
    "preserves (same_history lview h) (rd_set (redis_cache sv) (embedding_key lib t model) v ttl)"
    "preserves (same_history lview h) (rd_lrange (redis_cache sv) k a b)"
proof -
  have "lview (snd (rd_lrange (sv_redis sv) k a b r)) = lview r" for r
    using assms(1) unfolding list_laws_def by (metis snd_conv)
  with assms(2) show "preserves (same_history lview h) (rd_get (redis_cache sv) k)"
    "preserves (same_history lview h) (rd_set (redis_cache sv) (embedding_key lib t model) v ttl)"
    "preserves (same_history lview h) (rd_lrange (redis_cache sv) k a b)"
    by (simp_all add: preserves_def same_history_def redis_cache_def Let_def on_defs list_frame_law_def keys_apart)
qed

lemma same_history_prepare:
  assumes "list_laws (sv_redis sv) lview" "list_frame_law (sv_redis sv) lview"
  shows "preserves (same_history lview h) (rag_prepare (rag_chat_provider sv cfg uuids) fresh rq)"
proof (rule preserves_rag_prepare)
  note redis = same_history_redis [OF assms]
  have cnt: "preserves (same_history lview h) (token_service sv t model)" for t model
    unfolding token_service_def by (rule same_history_externals)
  then show "preserves (same_history lview h) (rg_count (rag_chat_provider sv cfg uuids) t model)" for t model
    by (simp add: rag_chat_provider_def)
  have emb: "preserves (same_history lview h) (embedding_provider sv cfg t)" for t
    unfolding embedding_provider_def
    by (intro preserves_embed preserves_embed_batch redis same_history_externals)
  have vec: "preserves (same_history lview h) (vector_search (qdrant_client_of sv) pyd uuids coll e k f t)" for pyd coll e k f t
    unfolding vector_search_def qdrant_client_of_def Let_def
    by (simp add: preserves_bind preserves_lift preserves_return same_history_externals)
  show "preserves (same_history lview h) (rg_search (rag_chat_provider sv cfg uuids) srq)" for srq
    unfolding rag_chat_provider_def
    by (simp, rule preserves_search_execute) (simp_all add: search_documents_provider_def cnt emb vec)
  show "preserves (same_history lview h) (rg_get_history (rag_chat_provider sv cfg uuids) u n)" for u n
    by (simp add: rag_chat_provider_def get_history_def preserves_bind redis preserves_lift)
qed

lemma list_laws_system:
  fixes sv :: "('enc, 'r, 'v, 'q, 'o) services"
  assumes "list_laws (sv_redis sv) lview"
  shows "list_laws (redis_cache sv) (lview \<circ> sys_redis)"
  unfolding list_laws_def
proof (intro conjI allI)
  fix cmds :: "redis_cmd list" and s :: "('enc, 'r, 'v, 'q, 'o) system"
  obtain r' where "rd_transaction (sv_redis sv) cmds (sys_redis s) = (Inr (), r')"
    "lview r' = fold exec_cmd cmds (lview (sys_redis s))"
    using assms unfolding list_laws_def by blast
  then show "\<exists>s'. rd_transaction (redis_cache sv) cmds s = (Inr (), s') \<and>
      (lview \<circ> sys_redis) s' = fold exec_cmd cmds ((lview \<circ> sys_redis) s)"
    by (simp add: redis_cache_def Let_def on_redis_def focus_def)
next
  fix k a b and s :: "('enc, 'r, 'v, 'q, 'o) system"
  obtain r' where "rd_lrange (sv_redis sv) k a b (sys_redis s) = (Inr (redis_range (lview (sys_redis s) k) a b), r')"
    "lview r' = lview (sys_redis s)"
    using assms unfolding list_laws_def by blast
  then show "\<exists>s'. rd_lrange (redis_cache sv) k a b s = (Inr (redis_range ((lview \<circ> sys_redis) s k) a b), s') \<and>
      (lview \<circ> sys_redis) s' = (lview \<circ> sys_redis) s"
    by (simp add: redis_cache_def Let_def on_redis_def focus_def)
qed

lemma holds_system:
  "list_laws (sv_redis sv) lview \<Longrightarrow> redis_holds (redis_cache sv) lib pyd (lview \<circ> sys_redis) S s u ms =
     redis_holds (sv_redis sv) lib pyd lview S (sys_redis s) u ms"
  by (simp add: redis_holds_def list_laws_system)

lemma complete_role:
  assumes "complete create fl model n ms s = (Inr reply, s')"
  shows "cr_message reply = ChatMessage ASSISTANT (m_content (cr_message reply))"
  using assms unfolding complete_def bindM_Inr_iff
  by (elim exE conjE) (auto simp: returnM_def raiseM_def ChatMessage_def split: list.split_asm)

subsection \<open>Ingestion and the worker on one state\<close>

text \<open>Ingestion works on the database and the queue, which together are a part of the system.\<close>

interpretation ingest_part: state_part "\<lambda>s. (sys_db s, sys_queue s)" "\<lambda>(db, q) s. s\<lparr>sys_db := db, sys_queue := q\<rparr>"
  by unfold_locales (auto split: prod.splits)

abbreviation on_ingest where
  "on_ingest \<equiv> focus (\<lambda>s. (sys_db s, sys_queue s)) (\<lambda>(db, q) s. s\<lparr>sys_db := db, sys_queue := q\<rparr>)"

lemma on_ingest_parts: "on_db m = on_ingest (onL m)" "on_queue n = on_ingest (onR n)"
  by (auto simp: on_defs focus_def onL_def onR_def fun_eq_iff split: prod.splits)

lemma on_ingest_option: "on_ingest (case v of None \<Rightarrow> m | Some x \<Rightarrow> f x) = (case v of None \<Rightarrow> on_ingest m | Some x \<Rightarrow> on_ingest (f x))"
  by (cases v) auto

lemma on_ingest_lift: "on_ingest (liftM r) = liftM r"
  by (simp add: focus_def liftM_def ingest_part.put_get)

lemma wired_ingest:
  "ingest_execute (ingest_document_provider sv now eid) now ids rq tid =
     on_ingest (ingest_execute (pg_ingest_deps (sv_lib sv) now eid (sv_enqueue sv)) now ids rq tid)"
  by (simp add: ingest_execute_def persist_and_enqueue_def ingest_document_provider_def pg_ingest_deps_def on_ingest_parts
      ingest_part.focus_bind ingest_part.focus_return on_ingest_lift on_ingest_option thenM_def Let_def
      cong: option.case_cong)

lemma task_keeps_database:
  "sys_db (run_request sv cfg (Task now clock uuids k (TenantId_str tid) (DocumentId_str did) (IngestionJobId_str jid)) s) = sys_db s"
  by (auto simp: arq_task_result Let_def write_to_dlq_def catchM_def returnM_def on_queue_def split: prod.splits sum.splits
      dest!: arg_cong [where f = snd] simp del: TenantId_str.simps DocumentId_str.simps IngestionJobId_str.simps)

subsection \<open>Properties\<close>

text \<open>
  C2. The system invariant: after any sequence of ingestions, pipeline runs, worker tasks, searches, chats
  and streams, with any failures of the database, Redis, Qdrant, OpenAI or the queue on the way, the
  documents still have distinct ids, the hash of their content, an existing tenant and values that fit
  their columns, the encoding cache and the chunk store are consistent, and every document stored before
  is still there with its owner, title, content and creation time.
\<close>

theorem system_invariant:
  assumes "system_ok sv s"
  shows "system_ok sv (fold (run_request sv cfg) rqs s) \<and>
    row_core ` set (db_documents (sys_db s)) \<subseteq> row_core ` set (db_documents (sys_db (fold (run_request sv cfg) rqs s)))"
proof
  show "system_ok sv (fold (run_request sv cfg) rqs s)"
    using assms unfolding system_ok_def by (rule rows_invariant.inv_requests)
  show "row_core ` set (db_documents (sys_db s)) \<subseteq> row_core ` set (db_documents (sys_db (fold (run_request sv cfg) rqs s)))"
  proof
    fix c
    assume "c \<in> row_core ` set (db_documents (sys_db s))"
    then have "system_inv (has_core c) sv s"
      using assms by (simp add: system_ok_def system_inv_def has_core_def)
    from core_invariant.inv_requests [OF this]
    show "c \<in> row_core ` set (db_documents (sys_db (fold (run_request sv cfg) rqs s)))"
      by (simp add: system_inv_def has_core_def)
  qed
qed

text \<open>
  C29. End to end, a document whose content yields a chunk is never indexed: run by the wired pipeline, its
  job ends failed, its row in PostgreSQL is marked failed with the pipeline's error message and keeps
  everything else, the other documents are unchanged, and the chunk store, Redis, the vectors, the OpenAI
  account and the queue are exactly as before.
\<close>

theorem wired_pipeline_never_indexes:
  assumes inv: "pg_inv (sv_lib sv) (sys_db s)" and enc: "encodings_ok (sv_tiktoken sv) (sys_encodings s)"
    and queued: "j_status job = QUEUED"
    and get: "pg_get_by_id (sv_lib sv) (uuids 0) did (sys_db s) = (Inr (Some doc), sys_db s)"
    and st: "pg_storable (sv_lib sv) (sys_db s) doc" and body: "py_strip (d_content doc) \<noteq> []"
    and chunk: "chunking_strategy sv cfg (d_content doc) (ck_chunk_size (st_chunking cfg)) (ck_chunk_overlap (st_chunking cfg)) =
      Inr (cd # cds)"
    and count: "enc_encode (sv_tiktoken sv) (resolve_encoding (sv_tiktoken sv) ''gpt-4o'') (cd_content cd) = Inr ids"
    and msg: "msg = ''Pipeline failed: '' @ sv_str_exc sv (ValidationError ''Chunk'' [''tenant_id''])"
  shows "\<exists>job' s'. process_document (process_document_provider sv cfg now uuids) did (job, s) = (Inr (), (job', s')) \<and>
    j_status job' = FAILED \<and> j_error_message job' = Some msg \<and>
    pg_docs (sys_db s') = (pg_docs (sys_db s))(did \<mapsto> doc_view (mark_failed now msg doc)) \<and>
    (\<exists>es db'. s' = s\<lparr>sys_encodings := es, sys_db := db'\<rparr>)"
proof -
  let ?deps = "process_document_provider sv cfg now uuids"
  obtain es where es: "token_service sv (cd_content cd) ''gpt-4o'' s = (Inr (int (length ids)), s\<lparr>sys_encodings := es\<rparr>)"
    using token_service_counts [OF enc count] by blast
  let ?s1 = "s\<lparr>sys_encodings := es\<rparr>"
  obtain db' where db': "pg_update (sv_lib sv) now (mark_failed now msg doc) (sys_db s) = (Inr (mark_failed now msg doc), db')"
    "pg_docs db' = (pg_docs (sys_db s))(did \<mapsto> doc_view (mark_failed now msg doc))"
    using pg_mark_failed [OF inv get st] by blast
  have gets: "pd_get ?deps did s = (Inr (Some doc), s)" "pd_get ?deps did ?s1 = (Inr (Some doc), ?s1)"
    using get by (simp_all add: process_document_provider_def on_db_def focus_def)
  have upd: "snd (pd_update ?deps (mark_failed (pd_now ?deps) msg doc) ?s1) = ?s1\<lparr>sys_db := db'\<rparr>"
    using db'(1) by (simp add: process_document_provider_def on_db_def)
  obtain job' where "process_document ?deps did (job, s) = (Inr (), (job', ?s1\<lparr>sys_db := db'\<rparr>))"
    "j_status job' = FAILED" "j_error_message job' = Some msg"
    using chunks_need_tenant [OF queued gets body, of cd cds "int (length ids)" msg] chunk es msg upd
    by (auto simp: process_document_provider_def)
  with db'(2) show ?thesis by auto
qed

text \<open>
  C10. The wired chat records the conversation: when a chat of user \<open>u\<close> returns, the Redis history of \<open>u\<close> is
  the old one followed by the question and the answer that was returned, cut to the last 100 messages,
  and the history of every other user is unchanged, although the search behind the chat reads and
  writes the embedding cache in the same Redis.
\<close>

theorem wired_chat_records_exchange:
  assumes held: "redis_holds (sv_redis sv) (sv_lib sv) (sv_pydantic sv) lview S (sys_redis s) u ms"
    and frame: "list_frame_law (sv_redis sv) lview"
    and user: "cq_user_id rq = Some uid" "uid \<noteq> []" "UserId_from_str uid = Inr u"
    and run: "rag_execute (rag_chat_provider sv cfg uuids) fresh rq s = (Inr resp, s')"
    and storable: "ChatMessage USER (cq_message rq) \<in> S" "ChatMessage ASSISTANT (cd_message resp) \<in> S"
  shows "redis_holds (sv_redis sv) (sv_lib sv) (sv_pydantic sv) lview S (sys_redis s') u
      (last_n 100 (ms @ [ChatMessage USER (cq_message rq), ChatMessage ASSISTANT (cd_message resp)])) \<and>
    (\<forall>v ns. v \<noteq> u \<longrightarrow> redis_holds (sv_redis sv) (sv_lib sv) (sv_pydantic sv) lview S (sys_redis s) v ns \<longrightarrow>
      redis_holds (sv_redis sv) (sv_lib sv) (sv_pydantic sv) lview S (sys_redis s') v ns)"
proof -
  let ?deps = "rag_chat_provider sv cfg uuids"
  let ?holds = "redis_holds (redis_cache sv) (sv_lib sv) (sv_pydantic sv) (lview \<circ> sys_redis) S"
  have laws: "list_laws (sv_redis sv) lview" "list_frame_law (sv_redis sv) lview"
    using held frame by (simp_all add: redis_holds_def)
  note sys = holds_system [OF laws(1), symmetric]
  obtain messages used s1 reply s2 where prep: "rag_prepare ?deps fresh rq s = (Inr (messages, used), s1)"
    and rep: "rg_complete ?deps messages s1 = (Inr reply, s2)"
    and sav: "save_exchange ?deps rq (cr_message reply) s2 = (Inr (), s')"
    and msg: "cd_message resp = m_content (cr_message reply)"
    using run by (auto simp: rag_execute_def bindM_Inr_iff thenM_Inr_iff returnM_def Let_def)
  let ?h = "\<lambda>v. lview (sys_redis s) (history_key v)"
  have "same_history lview ?h s" by (simp add: same_history_def)
  then have "same_history lview ?h s1" using preserves_result [OF same_history_prepare [OF laws] _ prep] by blast
  moreover have "preserves (same_history lview ?h) (rg_complete ?deps messages)"
    unfolding rag_chat_provider_def by (simp add: chat_provider_complete_def complete_def)
      (intro preserving same_history_externals)
  ultimately have "same_history lview ?h s2" using rep by (metis preserves_result)
  then have same: "?holds s2 v ns = ?holds s v ns" for v ns
    by (simp add: redis_holds_def same_history_def)
  have role: "cr_message reply = ChatMessage ASSISTANT (cd_message resp)"
    using complete_role [of _ _ _ _ messages s1 reply s2] rep msg by (auto simp: rag_chat_provider_def chat_provider_complete_def)
  have both: "thenM (save_message (redis_cache sv) (sv_lib sv) u (ChatMessage USER (cq_message rq)))
      (save_message (redis_cache sv) (sv_lib sv) u (ChatMessage ASSISTANT (cd_message resp))) s2 = (Inr (), s')"
    using sav user role by (cases uid) (simp_all add: save_exchange_def rag_chat_provider_def bindM_def liftM_def)
  have "?holds s2 u ms" using held unfolding same sys .
  from redis_history.save_both [OF this storable] both show ?thesis unfolding same sys by auto
qed

text \<open>
  C30. Ingestion and worker together: a new document is answered \<open>processing\<close> and its task is queued, and
  however often the worker then tries that task, at whatever attempt numbers, the document stays in
  status \<open>processing\<close> for ever: no try reaches the pipeline, and none records the failure in the database.
\<close>

theorem ingested_documents_stay_processing:
  assumes inv: "pg_inv (sv_lib sv) (sys_db s)" and cid: "new_collection_id ids (iq_collection_id rq) = Inr cid"
    and st: "pg_storable (sv_lib sv) (sys_db s) (new_document now (fresh_entity ids) (fresh_document ids) tid cid
      (iq_title rq) (iq_content rq) (iq_content_type rq) (iq_metadata rq))"
    and fresh: "pg_docs (sys_db s) (DocumentId (fresh_document ids)) = None"
    and nodup: "find (\<lambda>row. r_tenant_id row = tenant_id_value tid \<and>
      r_content_hash row = content_hash (sv_lib sv) (iq_content rq)) (db_documents (sys_db s)) = None"
    and enq: "sv_enqueue sv [''process_document_task'', TenantId_str tid, uuid_str (fresh_document ids),
      uuid_str (fresh_job ids)] (sys_queue s) = (Inr j, q')"
  shows "fst (ingest_execute (ingest_document_provider sv now (fresh_entity ids)) now ids rq tid s) =
      Inr \<lparr>ir_document_id = uuid_str (fresh_document ids), ir_job_id = uuid_str (fresh_job ids), ir_status = ''processing''\<rparr> \<and>
    (\<exists>d. pg_docs (sys_db (fold (run_request sv cfg) (Ingest now ids rq tid # map (\<lambda>(now2, clock, uuids, k). Task now2 clock uuids k
        (TenantId_str tid) (uuid_str (fresh_document ids)) (uuid_str (fresh_job ids))) tries) s)) (DocumentId (fresh_document ids)) = Some d \<and>
      d_status d = DProcessing)"
proof -
  obtain db' where db': "ingest_execute (pg_ingest_deps (sv_lib sv) now (fresh_entity ids) (sv_enqueue sv)) now ids rq tid
      (sys_db s, sys_queue s) = (Inr \<lparr>ir_document_id = uuid_str (fresh_document ids), ir_job_id = uuid_str (fresh_job ids),
            ir_status = ''processing''\<rparr>, (db', q'))"
    "\<exists>d. pg_docs db' (DocumentId (fresh_document ids)) = Some d \<and> d_status d = DProcessing"
    using first_ingestion [OF inv cid st fresh nodup, where enqueue = "sv_enqueue sv", OF enq, of "fresh_entity ids"] by blast
  have run: "ingest_execute (ingest_document_provider sv now (fresh_entity ids)) now ids rq tid s =
      (Inr \<lparr>ir_document_id = uuid_str (fresh_document ids), ir_job_id = uuid_str (fresh_job ids), ir_status = ''processing''\<rparr>,
       s\<lparr>sys_db := db', sys_queue := q'\<rparr>)"
    unfolding wired_ingest by (simp add: focus_def db'(1))
  have "sys_db (fold (run_request sv cfg) (map (\<lambda>(now2, clock, uuids, k). Task now2 clock uuids k (TenantId_str tid)
      (uuid_str (fresh_document ids)) (uuid_str (fresh_job ids))) tries) s1) = sys_db s1" for s1
    using task_keeps_database [of sv cfg _ _ _ _ tid "DocumentId (fresh_document ids)" "IngestionJobId (fresh_job ids)"]
    by (induction tries arbitrary: s1) auto
  with run db'(2) show ?thesis by simp
qed

subsection \<open>A concrete system\<close>

definition demo_services :: "(unit, string \<Rightarrow> string list, (string \<times> real list \<times> dict) list, string list list, unit) services" where
  "demo_services = \<lparr>sv_tiktoken = demo_tiktoken, sv_lib = demo_chat_lib, sv_pydantic = demo_chat_pydantic,
     sv_floats = demo_floats, sv_redis = demo_list_redis, sv_qdrant = demo_qdrant,
     sv_embeddings = (\<lambda>m ts s. (Inr (map (\<lambda>_. [1]) ts), s)),
     sv_completions = (\<lambda>m ms s. (Inr \<lparr>cp_choices = [Some ''hello''], cp_usage = None\<rparr>, s)),
     sv_streams = (\<lambda>m ms s. (Inr ([[Some ''hello'']], None), s)), sv_enqueue = demo_enqueue,
     sv_zadd = (\<lambda>k m sc q. (Inr (), q)), sv_str_exc = (\<lambda>_. ''tenant_id missing'')\<rparr>"

definition demo_config :: settings where
  "demo_config = (default_settings None ''key'')\<lparr>st_openai := (default_openai ''key'')\<lparr>oa_embedding_dimensions := 1\<rparr>\<rparr>"

definition demo_system :: "(unit, string \<Rightarrow> string list, (string \<times> real list \<times> dict) list, string list list, unit) system" where
  "demo_system = \<lparr>sys_db = demo_db, sys_encodings = [], sys_chunks = [], sys_redis = (\<lambda>_. []), sys_qdrant = [],
     sys_queue = [], sys_openai = ()\<rparr>"

lemma demo_system_ok: "system_ok demo_services demo_system"
  by (simp add: system_ok_def system_inv_def rows_ok_def hashes_ok_def demo_system_def demo_db_def encodings_ok_def chunk_store_ok_def)

theorem system_invariant_witness:
  "system_ok demo_services (fold (run_request demo_services demo_config)
     [Ingest 5 demo_ids demo_ingest (TenantId 1), Process 6 of_nat (DocumentId 7) (new_job 6 0 (IngestionJobId 5) (DocumentId 7))]
     demo_system)"
  using system_invariant [OF demo_system_ok] by blast

definition demo_stored :: "(unit, string \<Rightarrow> string list, (string \<times> real list \<times> dict) list, string list list, unit) system" where
  "demo_stored = demo_system\<lparr>sys_db := demo_db\<lparr>db_documents := [document_row demo_lib demo_document]\<rparr>\<rparr>"

lemma demo_chunks:
  "chunking_strategy demo_services demo_config ''Some text.'' 512 50 = Inr [\<lparr>cd_content = ''Some text.'', cd_start_char = 0,
     cd_end_char = 10, cd_chunk_index = 0, cd_token_count = 10\<rparr>]"
proof -
  have "token_chunk (\<lambda>s. Inr (map of_char s)) (map char_of) ''Some text.'' 512 50 = Some (Inr [\<lparr>cd_content = ''Some text.'',
      cd_start_char = 0, cd_end_char = 10, cd_chunk_index = 0, cd_token_count = 10\<rparr>])"
    by code_simp
  then show ?thesis by (simp add: chunking_strategy_def demo_services_def demo_tiktoken_def Let_def)
qed

lemma demo_stored_get: "pg_get_by_id demo_lib 0 (DocumentId 7) (sys_db demo_stored) = (Inr (Some demo_document), sys_db demo_stored)"
  by (simp add: demo_stored_def demo_system_def pg_get_by_id_def first_document_def pool_run_def demo_db_def select_documents_def
      bindM_def liftM_def row_to_document_def document_row_def demo_document_def new_document_def demo_lib_def load_metadata_def
      DocumentStatus_def)

theorem wired_pipeline_never_indexes_witness:
  "\<exists>job' s'. process_document (process_document_provider (demo_services\<lparr>sv_lib := demo_lib\<rparr>) demo_config 6 of_nat) (DocumentId 7)
      (new_job 6 0 (IngestionJobId 5) (DocumentId 7), demo_stored) = (Inr (), (job', s')) \<and> j_status job' = FAILED \<and>
    sys_qdrant s' = []"
proof -
  have "pg_inv demo_lib (sys_db demo_stored)" "pg_storable demo_lib (sys_db demo_stored) demo_document"
    by (simp_all add: pg_inv_def pg_storable_def readable_def demo_stored_def demo_system_def demo_db_def document_row_def
        demo_document_def new_document_def demo_lib_def load_metadata_def column_checks content_hash_def DocumentStatus_def
        row_to_document_def)
  moreover have "chunking_strategy (demo_services\<lparr>sv_lib := demo_lib\<rparr>) demo_config = chunking_strategy demo_services demo_config"
    by (simp add: chunking_strategy_def fun_eq_iff)
  ultimately show ?thesis
    using wired_pipeline_never_indexes [of "demo_services\<lparr>sv_lib := demo_lib\<rparr>" demo_stored
        "new_job 6 0 (IngestionJobId 5) (DocumentId 7)" of_nat "DocumentId 7" demo_document demo_config _ "[]" _ _ 6]
      demo_stored_get demo_chunks
    by (fastforce simp: new_job_def demo_stored_def demo_system_def encodings_ok_def demo_services_def demo_tiktoken_def
        demo_document_def new_document_def py_strip_def py_isspace_def demo_config_def default_settings_def default_chunking_def)
qed

definition demo_question :: chat_request where
  "demo_question = \<lparr>cq_message = ''hi'', cq_conversation_id = None, cq_user_id = Some (uuid_str 1), cq_top_k = 5\<rparr>"

definition demo_answer :: chat_response_dto where
  "demo_answer = \<lparr>cd_message = ''hello'', cd_sources = [], cd_prompt_tokens = 0, cd_completion_tokens = 0, cd_total_tokens = 0\<rparr>"

lemma demo_wired_search:
  "\<exists>s'. search_execute (search_documents_provider demo_services demo_config of_nat)
      \<lparr>sq_query = ''hi'', sq_collection_id = None, sq_top_k = 5, sq_filters = None\<rparr> demo_system =
     (Inr \<lparr>sp_results = [], sp_total = 0, sp_query_tokens = 2\<rparr>, s') \<and> sys_redis s' = (\<lambda>_. [])"
  by (simp add: search_execute_def search_documents_provider_def token_service_def on_defs focus_def count_tokens_def
      get_encoding_def demo_services_def demo_system_def demo_tiktoken_def bindM_def embedding_provider_def embed_def embed_batch_def
      embed_batch_with_def get_embedding_def get_json_def cache_get_def redis_cache_def demo_list_redis_def returnM_def
      call_openai_def catchM_def liftM_def demo_config_def EmbeddingVector_def cache_set_embedding_def set_json_def cache_set_def
      vector_search_def request_filters_def filter_conditions_def qdrant_client_of_def demo_qdrant_def Let_def)

lemma uuid_str_not_Nil: "uuid_str u \<noteq> []"
proof
  assume "uuid_str u = []"
  with uuid_roundtrip [of u] have "uuid_parse [] = Inr u" by simp
  then show False by (simp add: uuid_parse_def py_strip_chars_def)
qed

lemma demo_chat_run:
  "\<exists>s'. rag_execute (rag_chat_provider demo_services demo_config of_nat) 9 demo_question demo_system = (Inr demo_answer, s')"
proof -
  obtain s1 where s1: "search_execute (search_documents_provider demo_services demo_config of_nat)
      \<lparr>sq_query = ''hi'', sq_collection_id = None, sq_top_k = 5, sq_filters = None\<rparr> demo_system =
     (Inr \<lparr>sp_results = [], sp_total = 0, sp_query_tokens = 2\<rparr>, s1)" "sys_redis s1 = (\<lambda>_. [])"
    using demo_wired_search by blast
  obtain c cs where uid: "uuid_str 1 = c # cs" using uuid_str_not_Nil [of 1] by (cases "uuid_str 1") auto
  have id: "UserId_from_str (c # cs) = Inr (UserId 1)" by (simp flip: uid add: UserId_from_str_def)
  let ?deps = "rag_chat_provider demo_services demo_config of_nat"
  have hist: "rg_get_history ?deps u 5 s1 = (Inr [], s1)" for u
    using s1(2) by (simp add: rag_chat_provider_def get_history_def bindM_def liftM_def redis_cache_def on_redis_def focus_def
        demo_services_def demo_list_redis_def redis_range_def Let_def)
  have "rg_search ?deps = search_execute (search_documents_provider demo_services demo_config of_nat)"
    by (simp add: rag_chat_provider_def)
  with s1(1) have "rag_prepare ?deps 9 demo_question demo_system = (Inr (build_rag_prompt ''hi'' [] (Some []), []), s1)"
    using uid id hist
    by (simp add: rag_prepare_def demo_question_def SearchRequest_def bindM_def liftM_def build_context_def returnM_def rag_history_def)
  moreover have "\<exists>s2. rg_complete ?deps ms s1 = (Inr \<lparr>cr_message = ChatMessage ASSISTANT ''hello'', cr_sources = [],
      cr_token_usage = Some (completion_usage None)\<rparr>, s2)" for ms
    by (simp add: rag_chat_provider_def chat_provider_complete_def complete_def catchM_def on_openai_def focus_def demo_services_def
        bindM_def returnM_def)
  moreover have "\<exists>s3. save_exchange ?deps demo_question m s2 = (Inr (), s3)" for m s2
    using uid id by (simp add: save_exchange_def demo_question_def bindM_def liftM_def thenM_def rag_chat_provider_def save_message_def
        redis_cache_def on_redis_def focus_def demo_services_def demo_list_redis_def Let_def)
  ultimately show ?thesis
    unfolding rag_execute_def bindM_Inr_iff thenM_Inr_iff
    by (fastforce simp: demo_answer_def completion_usage_def build_sources_def ChatMessage_def returnM_def Let_def bindM_Inr_iff thenM_Inr_iff)
qed

theorem wired_chat_records_exchange_witness:
  "\<exists>s'. rag_execute (rag_chat_provider demo_services demo_config of_nat) 9 demo_question demo_system = (Inr demo_answer, s') \<and>
    redis_holds demo_list_redis demo_chat_lib demo_chat_pydantic (\<lambda>r. r) {ChatMessage USER ''hi'', ChatMessage ASSISTANT ''hello''}
      (sys_redis s') (UserId 1) [ChatMessage USER ''hi'', ChatMessage ASSISTANT ''hello'']"
proof -
  let ?S = "{ChatMessage USER ''hi'', ChatMessage ASSISTANT ''hello''}"
  obtain s' where s': "rag_execute (rag_chat_provider demo_services demo_config of_nat) 9 demo_question demo_system = (Inr demo_answer, s')"
    using demo_chat_run by blast
  have "json_laws demo_chat_lib (message_json ` ?S)"
    by (simp add: json_laws_def demo_chat_lib_def message_json_def ChatMessage_def)
  then have held: "redis_holds (sv_redis demo_services) (sv_lib demo_services) (sv_pydantic demo_services) (\<lambda>r. r) ?S
      (sys_redis demo_system) (UserId 1) []"
    by (simp add: redis_holds_def demo_services_def demo_system_def list_laws_def demo_list_redis_def pydantic_laws_def
        demo_chat_pydantic_def o_def)
  have frame: "list_frame_law (sv_redis demo_services) (\<lambda>r. r)"
    by (simp add: list_frame_law_def demo_services_def demo_list_redis_def)
  have uid: "uuid_str 1 \<noteq> []" "UserId_from_str (uuid_str 1) = Inr (UserId 1)"
    using uuid_roundtrip [of 1] by (auto simp: uuid_str_not_Nil UserId_from_str_def)
  show ?thesis
    using wired_chat_records_exchange [OF held frame _ uid s'] s'
    by (simp add: demo_question_def demo_answer_def demo_services_def last_n_def)
qed

theorem ingested_documents_stay_processing_witness:
  "\<exists>d. pg_docs (sys_db (fold (run_request (demo_services\<lparr>sv_lib := demo_lib\<rparr>) demo_config)
     (Ingest 5 demo_ids demo_ingest (TenantId 1) # map (\<lambda>(now2, clock, uuids, k). Task now2 clock uuids k
        (TenantId_str (TenantId 1)) (uuid_str (fresh_document demo_ids)) (uuid_str (fresh_job demo_ids)))
        [(6, 6, of_nat, 1), (7, 7, of_nat, 3)]) demo_system)) (DocumentId (fresh_document demo_ids)) = Some d \<and> d_status d = DProcessing"
proof -
  have "pg_inv demo_lib (sys_db demo_system)" "pg_docs (sys_db demo_system) did = None" for did
    by (simp_all add: pg_inv_def demo_system_def demo_db_def pg_docs_def)
  moreover have "new_collection_id demo_ids (iq_collection_id demo_ingest) = Inr (CollectionId 2)"
    by (simp add: demo_ids_def demo_ingest_def new_collection_id_def opt_truthy_def)
  moreover have "pg_storable demo_lib (sys_db demo_system) (new_document 5 (fresh_entity demo_ids) (fresh_document demo_ids) (TenantId 1)
      (CollectionId 2) (iq_title demo_ingest) (iq_content demo_ingest) (iq_content_type demo_ingest) (iq_metadata demo_ingest))"
    by (simp add: pg_storable_def demo_system_def demo_db_def demo_lib_def demo_ids_def demo_ingest_def new_document_def
        document_row_def column_checks content_hash_def load_metadata_def)
  moreover have "find P (db_documents (sys_db demo_system)) = None" for P by (simp add: demo_system_def demo_db_def)
  ultimately show ?thesis
    using ingested_documents_stay_processing [of "demo_services\<lparr>sv_lib := demo_lib\<rparr>" demo_system demo_ids demo_ingest "CollectionId 2" 5
        "TenantId 1" None _ demo_config "[(6, 6, of_nat, 1), (7, 7, of_nat, 3)]"]
    by (simp add: demo_services_def demo_enqueue_def del: fold.simps list.map)
qed

end
