(* ===== verification/Concurrent_Ingestion.thy ===== *)
theory Concurrent_Ingestion
  imports Ingestion
begin

section \<open>Concurrent ingestion\<close>

text \<open>
  The API serves requests concurrently: \<open>execute\<close> of \<open>src/app/application/use_cases/ingest_document.py\<close> gives
  up control at every \<open>await\<close>. \<open>ingest_step\<close> is the code between two such points, with the local variables
  in the program counter; each repository call is one SQL statement and so atomic. \<open>interleaved\<close> lets any
  of a list of requests take the next step.
\<close>

subsection \<open>One request\<close>

record call =
  ic_now :: timestamp
  ic_ids :: ingest_ids
  ic_request :: ingest_request
  ic_tenant :: tenant_id

datatype pc = Start | Saving collection_id | Updating document | Queueing document | Finished "ingest_response result"

definition new_request_document :: "call \<Rightarrow> collection_id \<Rightarrow> document" where
  "new_request_document c cid = new_document (ic_now c) (fresh_entity (ic_ids c)) (fresh_document (ic_ids c)) (ic_tenant c) cid
     (iq_title (ic_request c)) (iq_content (ic_request c)) (iq_content_type (ic_request c)) (iq_metadata (ic_request c))"

definition task_of :: "call \<Rightarrow> document \<Rightarrow> string list" where
  "task_of c d = [''process_document_task'', TenantId_str (ic_tenant c), DocumentId_str (d_document_id d),
     IngestionJobId_str (IngestionJobId (fresh_job (ic_ids c)))]"

fun ingest_step :: "'s ingest_deps \<Rightarrow> call \<Rightarrow> pc \<Rightarrow> 's \<Rightarrow> pc \<times> 's" where
  "ingest_step deps c Start s =
     (case new_collection_id (ic_ids c) (iq_collection_id (ic_request c)) of
        Inl e \<Rightarrow> (Finished (Inl e), s)
      | Inr cid \<Rightarrow>
          (case (case id_find_duplicate deps of
                   None \<Rightarrow> returnM None | Some find_duplicate \<Rightarrow> find_duplicate (ic_tenant c) (iq_content (ic_request c))) s of
             (Inl e, s') \<Rightarrow> (Finished (Inl e), s')
           | (Inr (Some d), s') \<Rightarrow> (Finished (Inr \<lparr>ir_document_id = DocumentId_str (d_document_id d),
                 ir_job_id = ''duplicate'', ir_status = ''duplicate''\<rparr>), s')
           | (Inr None, s') \<Rightarrow> (Saving cid, s')))"
| "ingest_step deps c (Saving cid) s =
     (case id_save deps (new_request_document c cid) s of
        (Inl e, s') \<Rightarrow> (Finished (Inl e), s')
      | (Inr document, s') \<Rightarrow> (Updating (mark_processing (ic_now c) document), s'))"
| "ingest_step deps c (Updating document) s =
     (case id_update deps document s of
        (Inl e, s') \<Rightarrow> (Finished (Inl e), s')
      | (Inr _, s') \<Rightarrow> (Queueing document, s'))"
| "ingest_step deps c (Queueing document) s =
     (case id_enqueue_job deps (task_of c document) s of
        (Inl e, s') \<Rightarrow> (Finished (Inl e), s')
      | (Inr _, s') \<Rightarrow> (Finished (Inr \<lparr>ir_document_id = DocumentId_str (d_document_id document),
            ir_job_id = IngestionJobId_str (IngestionJobId (fresh_job (ic_ids c))), ir_status = ''processing''\<rparr>), s'))"
| "ingest_step deps c (Finished r) s = (Finished r, s)"

fun run_steps :: "'s ingest_deps \<Rightarrow> call \<Rightarrow> nat \<Rightarrow> pc \<Rightarrow> 's \<Rightarrow> pc \<times> 's" where
  "run_steps deps c 0 pc s = (pc, s)"
| "run_steps deps c (Suc n) pc s = (case ingest_step deps c pc s of (pc', s') \<Rightarrow> run_steps deps c n pc' s')"

subsection \<open>Interleaved requests on PostgreSQL\<close>

definition call_deps ::
  "pylib \<Rightarrow> (string list \<Rightarrow> ('q, exn, string option) eff) \<Rightarrow> call \<Rightarrow> (database \<times> 'q) ingest_deps" where
  "call_deps lib enqueue c = pg_ingest_deps lib (ic_now c) (fresh_entity (ic_ids c)) enqueue"

type_synonym 'q world = "(call \<times> pc) list \<times> database \<times> 'q"

inductive interleaved :: "pylib \<Rightarrow> (string list \<Rightarrow> ('q, exn, string option) eff) \<Rightarrow> 'q world \<Rightarrow> 'q world \<Rightarrow> bool"
  for lib enqueue where
  move: "i < length ts \<Longrightarrow> ts ! i = (c, pc) \<Longrightarrow> ingest_step (call_deps lib enqueue c) c pc s = (pc', s') \<Longrightarrow>
    interleaved lib enqueue (ts, s) (ts[i := (c, pc')], s')"

inductive_cases interleavedE: "interleaved lib enqueue w w'"

text \<open>The pool's contract: queueing either fails and leaves the queue, or appends the task.\<close>

definition queue_law :: "(string list \<Rightarrow> ('q, exn, string option) eff) \<Rightarrow> ('q \<Rightarrow> string list list) \<Rightarrow> bool" where
  "queue_law enqueue tasks \<longleftrightarrow> (\<forall>args q r q'. enqueue args q = (r, q') \<longrightarrow>
     (case r of Inl _ \<Rightarrow> tasks q' = tasks q | Inr _ \<Rightarrow> tasks q' = tasks q @ [args]))"

subsection \<open>Without interference\<close>

lemma run_steps_Finished [simp]: "run_steps deps c n (Finished r) s = (Finished r, s)"
  by (induction n) auto

lemma steps_from_Saving:
  "run_steps deps c 3 (Saving cid) s =
     (case persist_and_enqueue deps (ic_now c) (ic_ids c) (ic_request c) (ic_tenant c) cid s of (r, s') \<Rightarrow> (Finished r, s'))"
  by (simp add: numeral_3_eq_3 persist_and_enqueue_def new_request_document_def task_of_def thenM_def bindM_def Let_def
      returnM_def new_job_def split: prod.split sum.split)

lemma steps_are_execute:
  "run_steps deps c 4 Start s =
     (case ingest_execute deps (ic_now c) (ic_ids c) (ic_request c) (ic_tenant c) s of (r, s') \<Rightarrow> (Finished r, s'))"
proof -
  have "run_steps deps c 4 Start s = (case ingest_step deps c Start s of (pc, s') \<Rightarrow> run_steps deps c 3 pc s')"
    using run_steps.simps(2) [of deps c 3 Start s] by simp
  then show ?thesis
    by (simp add: ingest_execute_def bindM_def liftM_def steps_from_Saving returnM_def
        split: prod.split sum.split option.split)
qed


subsection \<open>What every interleaving keeps\<close>

definition ids_of :: "database \<Rightarrow> string set" where
  "ids_of db = (\<lambda>r. uuid_str (r_document_id r)) ` set (db_documents db)"

lemma ids_of_faults [simp]: "ids_of (db\<lparr>db_faults := fs\<rparr>) = ids_of db"
  by (simp add: ids_of_def)

lemma pool_run_ids:
  assumes "\<And>db. ids_of db \<subseteq> ids_of (snd (stmt db))"
  shows "ids_of db \<subseteq> ids_of (snd (pool_run stmt db))"
  using assms [of db] assms [of "db\<lparr>db_faults := fs\<rparr>" for fs]
  by (auto simp: pool_run_def split: list.split option.split)

lemma insert_ids:
  "ids_of db \<subseteq> ids_of (snd (insert_document row db))"
  "fst (insert_document row db) = Inr () \<Longrightarrow> uuid_str (r_document_id row) \<in> ids_of (snd (insert_document row db))"
  by (auto simp: insert_document_def ids_of_def split: if_splits)

lemma ids_of_map:
  "(\<And>r. r_document_id (g r) = r_document_id r) \<Longrightarrow> ids_of (db\<lparr>db_documents := map g (db_documents db)\<rparr>) = ids_of db"
  by (simp add: ids_of_def image_image)

lemma update_ids: "ids_of (snd (update_documents now row db)) = ids_of db"
  by (simp add: update_documents_def ids_of_map)

lemma pool_run_post: "pool_run stmt db = (Inr x, db') \<Longrightarrow> \<exists>db0. stmt db0 = (Inr x, db')"
  by (auto simp: pool_run_def split: if_splits list.splits option.splits)

lemma pg_save_ids:
  assumes "pg_save lib d db = (r, db')"
  shows "ids_of db \<subseteq> ids_of db'" and "r = Inr d' \<Longrightarrow> d' = d \<and> DocumentId_str (d_document_id d) \<in> ids_of db'"
proof -
  have snd: "db' = snd (pool_run (insert_document (document_row lib d)) db)"
    using assms by (metis pg_save_def snd_conv snd_thenM_returnM)
  then show "ids_of db \<subseteq> ids_of db'" using pool_run_ids [of "insert_document (document_row lib d)"] insert_ids(1) by blast
  assume r: "r = Inr d'"
  then have ins: "pool_run (insert_document (document_row lib d)) db = (Inr (), db')" "d' = d"
    using assms by (auto simp: pg_save_def thenM_Inr_iff returnM_def)
  then obtain db0 where "insert_document (document_row lib d) db0 = (Inr (), db')"
    using pool_run_post [OF ins(1)] by auto
  with ins(2) show "d' = d \<and> DocumentId_str (d_document_id d) \<in> ids_of db'"
    using insert_ids(2) [of "document_row lib d" db0] by (cases "d_document_id d") (simp add: document_row_def)
qed


lemma pg_update_ids: "ids_of db \<subseteq> ids_of (snd (pg_update lib now d db))"
  unfolding pg_update_def snd_thenM_returnM by (rule pool_run_ids) (simp add: update_ids)

lemma pg_find_ids: "ids_of (snd (pg_find_duplicate lib eid tid t db)) = ids_of db"
  by (auto simp: pg_find_duplicate_def first_document_def bindM_def pool_run_def select_documents_def returnM_def liftM_def
      split: list.split option.split)

text \<open>
  The invariant: a request that has saved its document, or says that it is processing, has it in the
  table, and so does every task queued since the start, of which each request has queued at most one.
\<close>

fun pc_ok :: "database \<Rightarrow> pc \<Rightarrow> bool" where
  "pc_ok db (Updating d) \<longleftrightarrow> DocumentId_str (d_document_id d) \<in> ids_of db"
| "pc_ok db (Queueing d) \<longleftrightarrow> DocumentId_str (d_document_id d) \<in> ids_of db"
| "pc_ok db (Finished (Inr resp)) \<longleftrightarrow> (ir_status resp = ''processing'' \<longrightarrow> ir_document_id resp \<in> ids_of db)"
| "pc_ok db pc = True"

fun queued :: "pc \<Rightarrow> nat" where
  "queued (Finished (Inr resp)) = (if ir_status resp = ''processing'' then 1 else 0)"
| "queued pc = 0"

definition world_ok :: "('q \<Rightarrow> string list list) \<Rightarrow> string list list \<Rightarrow> 'q world \<Rightarrow> bool" where
  "world_ok tasks old w = (case w of (ts, db, q) \<Rightarrow> (\<forall>(c, pc) \<in> set ts. pc_ok db pc) \<and>
     (\<exists>new. tasks q = old @ new \<and> length new = sum_list (map (queued \<circ> snd) ts) \<and>
        (\<forall>task \<in> set new. \<exists>d. task ! 2 = d \<and> d \<in> ids_of db)))"

lemma pc_ok_mono: "pc_ok db pc \<Longrightarrow> ids_of db \<subseteq> ids_of db' \<Longrightarrow> pc_ok db' pc"
  by (cases "(db, pc)" rule: pc_ok.cases) auto

lemma call_deps_simps:
  "id_find_duplicate (call_deps lib enqueue c) = Some (\<lambda>tid t. onL (pg_find_duplicate lib (fresh_entity (ic_ids c)) tid t))"
  "id_save (call_deps lib enqueue c) d = onL (pg_save lib d)"
  "id_update (call_deps lib enqueue c) d = onL (pg_update lib (ic_now c) d)"
  "id_enqueue_job (call_deps lib enqueue c) args = onR (enqueue args)"
  by (simp_all add: call_deps_def pg_ingest_deps_def)

text \<open>One step: the table only grows, the new program counter is justified, and at most one task is queued.\<close>

definition step_ok ::
  "('q \<Rightarrow> string list list) \<Rightarrow> database \<Rightarrow> 'q \<Rightarrow> pc \<Rightarrow> database \<Rightarrow> 'q \<Rightarrow> pc \<Rightarrow> bool" where
  "step_ok tasks db q pc db' q' pc' \<longleftrightarrow> ids_of db \<subseteq> ids_of db' \<and> pc_ok db' pc' \<and>
     (\<exists>new. tasks q' = tasks q @ new \<and> queued pc + length new = queued pc' \<and> (\<forall>task \<in> set new. task ! 2 \<in> ids_of db'))"

lemma step_ok_quiet:
  "ids_of db \<subseteq> ids_of db' \<Longrightarrow> pc_ok db' pc' \<Longrightarrow> queued pc' = queued pc \<Longrightarrow> step_ok tasks db q pc db' q pc'"
  by (auto simp: step_ok_def intro: exI [of _ "[]"])

lemma step_ok_Start:
  assumes "ingest_step (call_deps lib enqueue c) c Start (db, q) = (pc', (db', q'))"
  shows "step_ok tasks db q Start db' q' pc'"
  using assms pg_find_ids [of lib "fresh_entity (ic_ids c)" "ic_tenant c" "iq_content (ic_request c)" db]
  by (auto simp: call_deps_simps onL_def intro!: step_ok_quiet split: sum.splits prod.splits option.splits)

lemma step_ok_Saving:
  assumes "ingest_step (call_deps lib enqueue c) c (Saving cid) (db, q) = (pc', (db', q'))"
  shows "step_ok tasks db q (Saving cid) db' q' pc'"
proof -
  obtain r db1 where r: "pg_save lib (new_request_document c cid) db = (r, db1)" by fastforce
  note facts = pg_save_ids [OF r]
  from assms r show ?thesis
  proof (cases r)
    case (Inr d)
    with assms r facts show ?thesis by (auto simp: call_deps_simps onL_def intro!: step_ok_quiet)
  qed (use facts(1) in \<open>auto simp: call_deps_simps onL_def intro!: step_ok_quiet\<close>)
qed

lemma step_ok_Updating:
  assumes "ingest_step (call_deps lib enqueue c) c (Updating d) (db, q) = (pc', (db', q'))" "pc_ok db (Updating d)"
  shows "step_ok tasks db q (Updating d) db' q' pc'"
  using assms pg_update_ids [of db lib "ic_now c" d]
  by (auto simp: call_deps_simps onL_def intro!: step_ok_quiet split: sum.splits prod.splits)

lemma step_ok_Queueing:
  assumes law: "queue_law enqueue tasks"
    and "ingest_step (call_deps lib enqueue c) c (Queueing d) (db, q) = (pc', (db', q'))" "pc_ok db (Queueing d)"
  shows "step_ok tasks db q (Queueing d) db' q' pc'"
proof -
  obtain r q1 where r: "enqueue (task_of c d) q = (r, q1)" by fastforce
  then have "case r of Inl _ \<Rightarrow> tasks q1 = tasks q | Inr _ \<Rightarrow> tasks q1 = tasks q @ [task_of c d]"
    using law unfolding queue_law_def by blast
  with assms r show ?thesis
    by (cases r) (auto simp: call_deps_simps onR_def step_ok_def task_of_def)
qed

lemma ingest_step_ok:
  assumes "queue_law enqueue tasks" "ingest_step (call_deps lib enqueue c) c pc (db, q) = (pc', (db', q'))" "pc_ok db pc"
  shows "step_ok tasks db q pc db' q' pc'"
proof (cases pc)
  case (Finished r)
  with assms show ?thesis by (auto intro!: step_ok_quiet)
next
  case Start
  then show ?thesis using step_ok_Start [OF assms(2) [unfolded Start]] by simp
next
  case (Saving cid)
  then show ?thesis using step_ok_Saving [OF assms(2) [unfolded Saving]] by simp
next
  case (Updating d)
  then show ?thesis using step_ok_Updating [OF assms(2,3) [unfolded Updating]] by simp
next
  case (Queueing d)
  then show ?thesis using step_ok_Queueing [OF assms(1) assms(2,3) [unfolded Queueing]] by simp
qed

lemma world_ok_step:
  assumes "queue_law enqueue tasks" "interleaved lib enqueue w w'" "world_ok tasks old w"
  shows "world_ok tasks old w'"
  using assms(2)
proof (cases rule: interleaved.cases)
  case (move i ts c pc s pc' s')
  obtain db q db' q' where s: "s = (db, q)" "s' = (db', q')" by fastforce
  have ok: "\<forall>(c, pc) \<in> set ts. pc_ok db pc" using assms(3) move s by (simp add: world_ok_def)
  obtain new where new: "tasks q = old @ new" "length new = sum_list (map (queued \<circ> snd) ts)" "\<forall>task \<in> set new. task ! 2 \<in> ids_of db"
    using assms(3) move s by (auto simp: world_ok_def)
  have "pc_ok db pc" using ok move nth_mem [of i ts] by fastforce
  then have st: "step_ok tasks db q pc db' q' pc'" using ingest_step_ok [OF assms(1) move(5) [unfolded s]] by blast
  then obtain more where more: "tasks q' = tasks q @ more" "queued pc + length more = queued pc'"
    "\<forall>task \<in> set more. task ! 2 \<in> ids_of db'" and grow: "ids_of db \<subseteq> ids_of db'" and "pc_ok db' pc'"
    by (auto simp: step_ok_def)
  have "\<forall>(c, pc) \<in> set (ts[i := (c, pc')]). pc_ok db' pc"
    using ok grow \<open>pc_ok db' pc'\<close> by (auto dest!: set_update_subset_insert [THEN subsetD] intro: pc_ok_mono)
  moreover have "sum_list (map (queued \<circ> snd) (ts[i := (c, pc')])) = sum_list (map (queued \<circ> snd) ts) + length more"
    using move(3,4) more(2) by (simp add: map_update sum_list_update)
  ultimately show ?thesis
    using new more grow move(1,2) s by (auto simp: world_ok_def intro!: exI [of _ "new @ more"])
qed

lemma world_ok_reachable:
  "(interleaved lib enqueue)\<^sup>*\<^sup>* w w' \<Longrightarrow> queue_law enqueue tasks \<Longrightarrow> world_ok tasks old w \<Longrightarrow> world_ok tasks old w'"
  by (induction rule: rtranclp_induct) (blast intro: world_ok_step)+

lemma world_ok_start: "list_all (\<lambda>(c, pc). pc = Start) ts \<Longrightarrow> world_ok tasks (tasks q) (ts, db, q)"
  by (auto simp: world_ok_def list_all_iff intro!: exI [of _ "[]"] sum_list_0 [symmetric] split: prod.splits)

subsection \<open>A schedule that races\<close>

fun run_schedule :: "pylib \<Rightarrow> (string list \<Rightarrow> ('q, exn, string option) eff) \<Rightarrow> nat list \<Rightarrow> 'q world \<Rightarrow> 'q world" where
  "run_schedule lib enqueue [] w = w"
| "run_schedule lib enqueue (i # is) (ts, s) =
     (if i < length ts
      then case ts ! i of (c, pc) \<Rightarrow> (case ingest_step (call_deps lib enqueue c) c pc s of
             (pc', s') \<Rightarrow> run_schedule lib enqueue is (ts[i := (c, pc')], s'))
      else run_schedule lib enqueue is (ts, s))"

lemma run_schedule_reachable: "(interleaved lib enqueue)\<^sup>*\<^sup>* w (run_schedule lib enqueue is w)"
proof (induction lib enqueue "is" w rule: run_schedule.induct)
  case (2 lib enqueue i "is" ts s)
  show ?case
  proof (cases "i < length ts")
    case True
    obtain c pc where c: "ts ! i = (c, pc)" by fastforce
    obtain pc' s' where st: "ingest_step (call_deps lib enqueue c) c pc s = (pc', s')"
      by (cases "ingest_step (call_deps lib enqueue c) c pc s")
    have "interleaved lib enqueue (ts, s) (ts[i := (c, pc')], s')" using True c st by (rule interleaved.move)
    moreover have "(interleaved lib enqueue)\<^sup>*\<^sup>* (ts[i := (c, pc')], s') (run_schedule lib enqueue is (ts[i := (c, pc')], s'))"
      using "2.IH"(1) [OF True c [symmetric] st [symmetric]] .
    ultimately show ?thesis using True c st by (simp add: converse_rtranclp_into_rtranclp)
  qed (use "2.IH"(2) in simp)
qed simp

text \<open>The rows of a tenant with a given content.\<close>

definition copies :: "pylib \<Rightarrow> tenant_id \<Rightarrow> string \<Rightarrow> database \<Rightarrow> nat" where
  "copies lib tid content db = length (filter (\<lambda>row. r_tenant_id row = tenant_id_value tid \<and>
     r_content_hash row = content_hash lib content) (db_documents db))"

lemma copies_none: "copies lib tid content db = 0 \<Longrightarrow> pg_inv lib db \<Longrightarrow> pg_find_duplicate lib eid tid content db = (Inr None, db)"
  by (simp add: copies_def pg_find_duplicate_def first_document_None filter_Nil_find)

lemma copies_update:
  assumes "pg_inv lib db" "pg_update lib now d db = (Inr d', db')"
  shows "copies lib tid content db' = copies lib tid content db"
proof -
  obtain g where "db_documents db' = map g (db_documents db)"
    "\<forall>r. r_tenant_id (g r) = r_tenant_id r \<and> r_content_hash (g r) = r_content_hash r \<and> r_document_id (g r) = r_document_id r"
    using pg_update_keeps_hash [OF assms] by blast
  then show ?thesis by (simp add: copies_def filter_map o_def)
qed

lemma new_request_document_simps [simp]:
  "d_document_id (new_request_document c cid) = DocumentId (fresh_document (ic_ids c))"
  "d_tenant_id (new_request_document c cid) = ic_tenant c"
  "d_content (new_request_document c cid) = iq_content (ic_request c)"
  by (simp_all add: new_request_document_def)

lemma save_adds_copy:
  assumes inv: "pg_inv lib db" and st: "pg_storable lib db (new_request_document c cid)"
    and fresh: "pg_docs db (DocumentId (fresh_document (ic_ids c))) = None"
  shows "\<exists>db'. pg_save lib (new_request_document c cid) db = (Inr (new_request_document c cid), db') \<and> pg_inv lib db' \<and>
    pg_docs db' = (pg_docs db)(DocumentId (fresh_document (ic_ids c)) \<mapsto> doc_view (new_request_document c cid)) \<and>
    pg_storable lib db' = pg_storable lib db \<and>
    copies lib (ic_tenant c) (iq_content (ic_request c)) db' = Suc (copies lib (ic_tenant c) (iq_content (ic_request c)) db)"
  using pg_repo.save_law [OF inv st] pg_save_fresh [OF inv st] fresh
  by (auto simp: copies_def document_row_def content_hash_def)

lemma update_new_document:
  assumes inv: "pg_inv lib db" and st: "pg_storable lib db (new_request_document c cid)"
    and docs: "pg_docs db (DocumentId (fresh_document (ic_ids c))) = Some (doc_view (new_request_document c cid))"
  shows "\<exists>db'. pg_update lib now (mark_processing now (new_request_document c cid)) db =
      (Inr (mark_processing now (new_request_document c cid)), db') \<and> pg_inv lib db' \<and>
    pg_storable lib db' = pg_storable lib db \<and>
    pg_docs db' = (pg_docs db)(DocumentId (fresh_document (ic_ids c)) \<mapsto> doc_view (mark_processing now (new_request_document c cid)))"
proof -
  have st': "pg_storable lib db (mark_processing now (new_request_document c cid))"
    using st by (simp add: pg_storable_def column_checks document_row_def mark_processing_def update_def)
  have "same_core (mark_processing now (new_request_document c cid)) (doc_view (new_request_document c cid))"
    by (simp add: same_core_def doc_view_def mark_processing_def update_def)
  then show ?thesis using pg_repo.upd_law [OF inv st', of "doc_view (new_request_document c cid)" now] docs by auto
qed

definition processing_response :: "call \<Rightarrow> ingest_response" where
  "processing_response c = \<lparr>ir_document_id = uuid_str (fresh_document (ic_ids c)), ir_job_id = uuid_str (fresh_job (ic_ids c)),
     ir_status = ''processing''\<rparr>"

lemma step_Start_none:
  assumes "new_collection_id (ic_ids c) (iq_collection_id (ic_request c)) = Inr cid" "pg_inv lib db"
    and "copies lib (ic_tenant c) (iq_content (ic_request c)) db = 0"
  shows "ingest_step (call_deps lib enqueue c) c Start (db, q) = (Saving cid, (db, q))"
  using assms by (simp add: call_deps_simps onL_def copies_none)

lemma step_Saving_ok:
  "pg_save lib (new_request_document c cid) db = (Inr (new_request_document c cid), db') \<Longrightarrow>
     ingest_step (call_deps lib enqueue c) c (Saving cid) (db, q) =
       (Updating (mark_processing (ic_now c) (new_request_document c cid)), (db', q))"
  by (simp add: call_deps_simps onL_def)

lemma step_Updating_ok:
  "pg_update lib (ic_now c) d db = (Inr d', db') \<Longrightarrow>
     ingest_step (call_deps lib enqueue c) c (Updating d) (db, q) = (Queueing d, (db', q))"
  by (simp add: call_deps_simps onL_def)

lemma step_Queueing_ok:
  "enqueue (task_of c d) q = (Inr j, q') \<Longrightarrow> d_document_id d = DocumentId (fresh_document (ic_ids c)) \<Longrightarrow>
     ingest_step (call_deps lib enqueue c) c (Queueing d) (db, q) = (Finished (Inr (processing_response c)), (db, q'))"
  by (simp add: call_deps_simps onR_def processing_response_def)

text \<open>Two requests past their checks: what their saves and updates leave.\<close>

lemma two_saves:
  fixes a b :: call and ca cb :: collection_id
  defines "da \<equiv> new_request_document a ca" and "db1 \<equiv> new_request_document b cb"
  assumes inv: "pg_inv lib db" and same: "ic_tenant b = ic_tenant a" "iq_content (ic_request b) = iq_content (ic_request a)"
    and st: "pg_storable lib db da" "pg_storable lib db db1"
    and ids: "fresh_document (ic_ids a) \<noteq> fresh_document (ic_ids b)"
    and fresh: "pg_docs db (DocumentId (fresh_document (ic_ids a))) = None" "pg_docs db (DocumentId (fresh_document (ic_ids b))) = None"
  shows "\<exists>s1 s2 s3 s4. pg_save lib da db = (Inr da, s1) \<and> pg_save lib db1 s1 = (Inr db1, s2) \<and>
    pg_update lib (ic_now a) (mark_processing (ic_now a) da) s2 = (Inr (mark_processing (ic_now a) da), s3) \<and>
    pg_update lib (ic_now b) (mark_processing (ic_now b) db1) s3 = (Inr (mark_processing (ic_now b) db1), s4) \<and>
    copies lib (ic_tenant a) (iq_content (ic_request a)) s4 = copies lib (ic_tenant a) (iq_content (ic_request a)) db + 2"
proof -
  let ?n = "copies lib (ic_tenant a) (iq_content (ic_request a))"
  obtain s1 where s1: "pg_save lib da db = (Inr da, s1)" "pg_inv lib s1" "pg_storable lib s1 = pg_storable lib db"
    "pg_docs s1 = (pg_docs db)(DocumentId (fresh_document (ic_ids a)) \<mapsto> doc_view da)" "?n s1 = Suc (?n db)"
    using save_adds_copy [OF inv, of a ca] st(1) fresh(1) unfolding da_def by blast
  have f: "pg_docs s1 (DocumentId (fresh_document (ic_ids b))) = None" using s1(4) fresh(2) ids by simp
  obtain s2 where s2: "pg_save lib db1 s1 = (Inr db1, s2)" "pg_inv lib s2" "pg_storable lib s2 = pg_storable lib s1"
    "pg_docs s2 = (pg_docs s1)(DocumentId (fresh_document (ic_ids b)) \<mapsto> doc_view db1)" "?n s2 = Suc (?n s1)"
    using save_adds_copy [OF s1(2), of b cb] st(2) f s1(3) same unfolding db1_def by auto
  obtain s3 where s3: "pg_update lib (ic_now a) (mark_processing (ic_now a) da) s2 = (Inr (mark_processing (ic_now a) da), s3)"
    "pg_inv lib s3" "pg_storable lib s3 = pg_storable lib s2"
    "pg_docs s3 = (pg_docs s2)(DocumentId (fresh_document (ic_ids a)) \<mapsto> doc_view (mark_processing (ic_now a) da))"
    using update_new_document [OF s2(2), of a ca "ic_now a"] st(1) s1(3,4) s2(3,4) ids unfolding da_def by auto
  obtain s4 where s4: "pg_update lib (ic_now b) (mark_processing (ic_now b) db1) s3 = (Inr (mark_processing (ic_now b) db1), s4)"
    using update_new_document [OF s3(2), of b cb "ic_now b"] st(2) s1(3) s2(3,4) s3(3,4) ids unfolding db1_def by auto
  have "?n s4 = ?n db + 2"
    using copies_update [OF s3(2) s4] copies_update [OF s2(2) s3(1)] s1(5) s2(5) by simp
  with s1(1) s2(1) s3(1) s4 show ?thesis by blast
qed

subsection \<open>Properties\<close>

text \<open>
  C3. Safety of concurrent ingestion: for any requests in any interleaving, with failing statements and a
  failing queue included, a request that answers \<open>processing\<close> has its document in the table, the tasks
  queued since the start are as many as those answers, and each of them names a stored document.
\<close>

theorem interleavings_are_safe:
  assumes law: "queue_law enqueue tasks" and start: "list_all (\<lambda>(c, pc). pc = Start) ts"
    and run: "(interleaved lib enqueue)\<^sup>*\<^sup>* (ts, db, q) (ts', db', q')"
  shows "(\<exists>new. tasks q' = tasks q @ new \<and>
      length new = length (filter (\<lambda>(c, pc). queued pc = 1) ts') \<and> (\<forall>task \<in> set new. task ! 2 \<in> ids_of db')) \<and>
    (\<forall>c resp. (c, Finished (Inr resp)) \<in> set ts' \<longrightarrow> ir_status resp = ''processing'' \<longrightarrow> ir_document_id resp \<in> ids_of db')"
proof -
  have ok: "world_ok tasks (tasks q) (ts', db', q')"
    using world_ok_reachable [OF run law world_ok_start [OF start]] .
  have "queued pc \<noteq> 1 \<Longrightarrow> queued pc = 0" for pc
    by (cases pc rule: queued.cases) (auto split: if_splits)
  then have "sum_list (map (queued \<circ> snd) ts') = length (filter (\<lambda>(c, pc). queued pc = 1) ts')"
    by (induction ts') auto
  with ok show ?thesis by (fastforce simp: world_ok_def)
qed

text \<open>
  C34. The duplicate check is not atomic: two requests of one tenant with the same content, run with their
  checks before their saves, are both answered \<open>processing\<close>, store two documents with that content and
  queue two tasks, although run one after the other the second is answered \<open>duplicate\<close>.
\<close>

theorem concurrent_requests_duplicate:
  assumes inv: "pg_inv lib db" and same: "ic_tenant b = ic_tenant a" "iq_content (ic_request b) = iq_content (ic_request a)"
    and cids: "new_collection_id (ic_ids a) (iq_collection_id (ic_request a)) = Inr ca"
      "new_collection_id (ic_ids b) (iq_collection_id (ic_request b)) = Inr cb"
    and none: "copies lib (ic_tenant a) (iq_content (ic_request a)) db = 0"
    and st: "pg_storable lib db (new_request_document a ca)" "pg_storable lib db (new_request_document b cb)"
    and ids: "fresh_document (ic_ids a) \<noteq> fresh_document (ic_ids b)"
    and fresh: "pg_docs db (DocumentId (fresh_document (ic_ids a))) = None" "pg_docs db (DocumentId (fresh_document (ic_ids b))) = None"
    and law: "queue_law enqueue tasks" and up: "\<forall>args q. is_ok (fst (enqueue args q))"
  shows "\<exists>db' q'. (interleaved lib enqueue)\<^sup>*\<^sup>* ([(a, Start), (b, Start)], db, q)
      ([(a, Finished (Inr (processing_response a))), (b, Finished (Inr (processing_response b)))], db', q') \<and>
    copies lib (ic_tenant a) (iq_content (ic_request a)) db' = 2 \<and> length (tasks q') = length (tasks q) + 2"
proof -
  let ?da = "new_request_document a ca" and ?db = "new_request_document b cb"
  let ?pa = "mark_processing (ic_now a) ?da" and ?pb = "mark_processing (ic_now b) ?db"
  obtain s1 s2 s3 s4 where s: "pg_save lib ?da db = (Inr ?da, s1)" "pg_save lib ?db s1 = (Inr ?db, s2)"
    "pg_update lib (ic_now a) ?pa s2 = (Inr ?pa, s3)" "pg_update lib (ic_now b) ?pb s3 = (Inr ?pb, s4)"
    and n: "copies lib (ic_tenant a) (iq_content (ic_request a)) s4 = 2"
    using two_saves [OF inv same st ids fresh] none by auto
  have enq: "\<exists>j q'. enqueue args q = (Inr j, q') \<and> tasks q' = tasks q @ [args]" for args q
    using up law unfolding queue_law_def is_ok_iff by (metis (mono_tags, lifting) prod.collapse sum.case(2))
  obtain j1 q1 where q1: "enqueue (task_of a ?pa) q = (Inr j1, q1)" "tasks q1 = tasks q @ [task_of a ?pa]" using enq by blast
  obtain j2 q2 where q2: "enqueue (task_of b ?pb) q1 = (Inr j2, q2)" "tasks q2 = tasks q1 @ [task_of b ?pb]" using enq by blast
  have none_b: "copies lib (ic_tenant b) (iq_content (ic_request b)) db = 0" using none same by simp
  have "run_schedule lib enqueue [0, 1, 0, 1, 0, 1, 0, 1] ([(a, Start), (b, Start)], db, q) =
      ([(a, Finished (Inr (processing_response a))), (b, Finished (Inr (processing_response b)))], s4, q2)"
    by (simp add: step_Start_none [OF cids(1) inv none] step_Start_none [OF cids(2) inv none_b] step_Saving_ok [OF s(1)]
        step_Saving_ok [OF s(2)] step_Updating_ok [OF s(3)] step_Updating_ok [OF s(4)] step_Queueing_ok [of enqueue, OF q1(1)]
        step_Queueing_ok [of enqueue, OF q2(1)] del: ingest_step.simps)
  moreover have "length (tasks q2) = length (tasks q) + 2" using q1(2) q2(2) by simp
  ultimately show ?thesis
    using run_schedule_reachable [of lib enqueue "([(a, Start), (b, Start)], db, q)" "[0, 1, 0, 1, 0, 1, 0, 1]"] n by auto
qed

definition demo_call :: "uuid \<Rightarrow> uuid \<Rightarrow> call" where
  "demo_call document job = \<lparr>ic_now = 5, ic_ids = demo_ids\<lparr>fresh_document := document, fresh_job := job\<rparr>, ic_request = demo_ingest,
     ic_tenant = TenantId 1\<rparr>"

lemma demo_call_simps [simp]:
  "ic_tenant (demo_call u j) = TenantId 1" "iq_content (ic_request (demo_call u j)) = ''Some text.''"
  "fresh_document (ic_ids (demo_call u j)) = u"
  by (simp_all add: demo_call_def demo_ids_def demo_ingest_def)

lemma demo_queue_law: "queue_law demo_enqueue (\<lambda>q. q)"
  by (simp add: queue_law_def demo_enqueue_def)

lemma demo_call_storable:
  "pg_storable demo_lib demo_db (new_request_document (demo_call u j) cid)"
  by (simp add: pg_storable_def demo_db_def demo_lib_def demo_call_def demo_ids_def demo_ingest_def new_request_document_def
      new_document_def document_row_def column_checks content_hash_def load_metadata_def)

theorem concurrent_requests_duplicate_witness:
  "\<exists>db' q'. (interleaved demo_lib demo_enqueue)\<^sup>*\<^sup>* ([(demo_call 7 5, Start), (demo_call 8 6, Start)], demo_db, [])
      ([(demo_call 7 5, Finished (Inr (processing_response (demo_call 7 5)))),
        (demo_call 8 6, Finished (Inr (processing_response (demo_call 8 6))))], db', q') \<and>
    copies demo_lib (TenantId 1) ''Some text.'' db' = 2 \<and> length q' = 2"
proof -
  have "pg_inv demo_lib demo_db" "pg_docs demo_db did = None" "copies demo_lib tid t demo_db = 0" for did tid t
    by (simp_all add: pg_inv_def demo_db_def pg_docs_def copies_def)
  moreover have "new_collection_id (ic_ids (demo_call u j)) (iq_collection_id (ic_request (demo_call u j))) = Inr (CollectionId 2)" for u j
    by (simp add: demo_call_def demo_ids_def demo_ingest_def new_collection_id_def opt_truthy_def)
  moreover have "\<forall>args q. is_ok (fst (demo_enqueue args q))" by (simp add: demo_enqueue_def)
  ultimately show ?thesis
    using concurrent_requests_duplicate [of demo_lib demo_db "demo_call 8 6" "demo_call 7 5" "CollectionId 2" "CollectionId 2"
        demo_enqueue "\<lambda>q. q" "[]", OF _ _ _ _ _ _ _ _ _ _ _ demo_queue_law]
    by (simp add: demo_call_storable numeral_2_eq_2)
qed

theorem interleavings_are_safe_witness:
  "case run_schedule demo_lib demo_enqueue [0, 0, 0, 0, 1] ([(demo_call 7 5, Start), (demo_call 8 6, Start)], demo_db, []) of
     (ts', db', q') \<Rightarrow> (\<exists>new. q' = new \<and> length new = length (filter (\<lambda>(c, pc). queued pc = 1) ts') \<and>
        (\<forall>task \<in> set new. task ! 2 \<in> ids_of db'))"
proof -
  let ?w = "run_schedule demo_lib demo_enqueue [0, 0, 0, 0, 1] ([(demo_call 7 5, Start), (demo_call 8 6, Start)], demo_db, [])"
  obtain ts' db' q' where w: "?w = (ts', db', q')" by (metis prod.collapse)
  have "(interleaved demo_lib demo_enqueue)\<^sup>*\<^sup>* ([(demo_call 7 5, Start), (demo_call 8 6, Start)], demo_db, []) (ts', db', q')"
    using run_schedule_reachable [of demo_lib demo_enqueue "([(demo_call 7 5, Start), (demo_call 8 6, Start)], demo_db, [])" "[0, 0, 0, 0, 1]"]
    unfolding w .
  from interleavings_are_safe [OF demo_queue_law _ this] show ?thesis unfolding w by simp
qed

end
