(* ===== verification/Arq_Queue.thy ===== *)
theory Arq_Queue
  imports Ingestion Settings
begin

section \<open>The ARQ queue: settings, tries and the dead letter queue\<close>

text \<open>
  \<open>ArqWorkerSettings\<close> of \<open>src/app/infrastructure/queue/arq_worker.py\<close> and what becomes of a task over its tries.
  The worker itself is the library's: which tries it makes is a parameter, and \<open>arq_rules\<close> states what its
  documentation says of them. A task is tried with \<open>job_try\<close> 1, 2, \<open>\<dots>\<close>; another try follows only an
  exception that asks for one (\<open>retry\<close>: the library's own \<open>Retry\<close>, which no code of the repository raises),
  and there are at most \<open>max_tries\<close>.
\<close>

record arq_redis =
  ar_host :: string
  ar_port :: int
  ar_password :: "string option"
  ar_database :: int

record arq_settings =
  aq_functions :: "string list"
  aq_on_startup :: string
  aq_on_shutdown :: string
  aq_redis :: arq_redis
  aq_max_jobs :: int
  aq_job_timeout :: int
  aq_max_tries :: int
  aq_poll_delay :: real
  aq_queue_read_limit :: int

text \<open>A \<open>SecretStr\<close> is falsy when it is empty.\<close>

definition ArqWorkerSettings :: "settings \<Rightarrow> arq_settings" where
  "ArqWorkerSettings cfg =
     \<lparr>aq_functions = [''process_document_task''], aq_on_startup = ''startup'', aq_on_shutdown = ''shutdown'',
      aq_redis = \<lparr>ar_host = rd_host (st_redis cfg), ar_port = rd_port (st_redis cfg),
        ar_password = (if opt_truthy (rd_password (st_redis cfg)) then rd_password (st_redis cfg) else None),
        ar_database = rd_db (st_redis cfg)\<rparr>,
      aq_max_jobs = wk_max_jobs (st_worker cfg), aq_job_timeout = wk_job_timeout (st_worker cfg),
      aq_max_tries = wk_max_retries (st_worker cfg), aq_poll_delay = 1 / 2, aq_queue_read_limit = 10\<rparr>"

subsection \<open>Tries\<close>

text \<open>The outcomes of successive tries of a task.\<close>

fun run_tries :: "(int \<Rightarrow> ('s, exn, 'a) eff) \<Rightarrow> int list \<Rightarrow> 's \<Rightarrow> exn option list \<times> 's" where
  "run_tries task [] s = ([], s)"
| "run_tries task (k # ks) s = (case task k s of (r, s1) \<Rightarrow>
     (case run_tries task ks s1 of (os, s2) \<Rightarrow> ((case r of Inl e \<Rightarrow> Some e | Inr _ \<Rightarrow> None) # os, s2)))"

definition arq_rules :: "(exn \<Rightarrow> bool) \<Rightarrow> int \<Rightarrow> exn option list \<Rightarrow> int list \<Rightarrow> bool" where
  "arq_rules retry max_tries outcomes tries \<longleftrightarrow>
     tries \<noteq> [] \<and> tries = map int [1..<Suc (length tries)] \<and> length outcomes = length tries \<and>
     (\<forall>outcome \<in> set (butlast outcomes). \<exists>e. outcome = Some e \<and> retry e) \<and>
     (case last outcomes of None \<Rightarrow> True | Some e \<Rightarrow> retry e \<longrightarrow> int (length tries) \<ge> max_tries) \<and>
     (tries = [1] \<or> int (length tries) \<le> max_tries)"

text \<open>The task of the worker on the state of the use case and, beside it, that of the worker's Redis.\<close>

definition worker_task ::
  "(document_id \<Rightarrow> ingestion_job \<Rightarrow> ('s, exn, unit) eff) \<Rightarrow> (string \<Rightarrow> string \<Rightarrow> real \<Rightarrow> ('d, exn, unit) eff) \<Rightarrow> pylib
   \<Rightarrow> (exn \<Rightarrow> string) \<Rightarrow> timestamp \<Rightarrow> real \<Rightarrow> uuid \<Rightarrow> settings \<Rightarrow> string \<Rightarrow> string \<Rightarrow> string \<Rightarrow> int
   \<Rightarrow> ('s \<times> 'd, exn, string \<times> string) eff" where
  "worker_task execute zadd lib str_exc now clock eid cfg tenant document job job_try =
     process_document_task (\<lambda>did j. onL (execute did j)) (\<lambda>k m sc. onR (zadd k m sc)) lib str_exc now clock eid
       (wk_max_retries (st_worker cfg)) job_try tenant document job"

definition dlq_entry :: "pylib \<Rightarrow> (exn \<Rightarrow> string) \<Rightarrow> real \<Rightarrow> string \<Rightarrow> string \<Rightarrow> string \<Rightarrow> exn \<Rightarrow> string" where
  "dlq_entry lib str_exc clock tenant document job e =
     json_dumps lib (PDict [(''tenant_id'', PStr tenant), (''document_id'', PStr document), (''job_id'', PStr job),
       (''error'', PStr (str_exc e)), (''failed_at'', PFloat clock)])"

subsection \<open>Lemmas\<close>

definition call_mismatch :: exn where
  "call_mismatch = TypeError (UnexpectedKeyword ''execute'' ''tenant_id'')"

lemma worker_task_result:
  "worker_task execute zadd lib str_exc now clock eid cfg (TenantId_str tid) (DocumentId_str did) (IngestionJobId_str jid) k (s, d) =
    (Inl call_mismatch, (s, if k \<ge> wk_max_retries (st_worker cfg)
       then snd (zadd DLQ_KEY (dlq_entry lib str_exc clock (TenantId_str tid) (DocumentId_str did) (IngestionJobId_str jid)
                   call_mismatch) clock d)
       else d))"
  unfolding worker_task_def arq_task_result
  by (auto simp: Let_def write_to_dlq_def catchM_def returnM_def onR_def dlq_entry_def call_mismatch_def
      split: prod.splits sum.splits)

lemma run_tries_append:
  "run_tries task (ks @ ls) s = (case run_tries task ks s of (os, s1) \<Rightarrow>
     (case run_tries task ls s1 of (ps, s2) \<Rightarrow> (os @ ps, s2)))"
  by (induction ks arbitrary: s) (auto split: prod.split)

lemma run_tries_length: "run_tries task ks s = (os, s') \<Longrightarrow> length os = length ks"
  by (induction ks arbitrary: s os) (auto split: prod.splits)

lemma early_tries:
  assumes "\<forall>k \<in> set ks. k < wk_max_retries (st_worker cfg)"
  shows "run_tries (worker_task execute zadd lib str_exc now clock eid cfg (TenantId_str tid) (DocumentId_str did) (IngestionJobId_str jid))
    ks (s, d) = (replicate (length ks) (Some call_mismatch), (s, d))"
  using assms by (induction ks) (auto simp: worker_task_result)

lemma no_retry_one_try:
  assumes "arq_rules retry n outcomes tries" "\<forall>e. \<not> retry e"
  shows "tries = [1]"
proof -
  have "butlast outcomes = []" "length outcomes = length tries" "tries \<noteq> []" "tries = map int [1..<Suc (length tries)]"
    using assms by (auto simp: arq_rules_def)
  then have "length tries = 1" by (cases outcomes rule: rev_cases) auto
  with \<open>tries = map int [1..<Suc (length tries)]\<close> show ?thesis by simp
qed

text \<open>The worker's Redis after a try that writes to the dead letter queue.\<close>

definition with_dead_letter ::
  "(string \<Rightarrow> string \<Rightarrow> real \<Rightarrow> ('d, exn, unit) eff) \<Rightarrow> pylib \<Rightarrow> (exn \<Rightarrow> string) \<Rightarrow> real \<Rightarrow> tenant_id \<Rightarrow> document_id
   \<Rightarrow> ingestion_job_id \<Rightarrow> 'd \<Rightarrow> 'd" where
  "with_dead_letter zadd lib str_exc clock tid did jid d = snd (zadd DLQ_KEY
     (dlq_entry lib str_exc clock (TenantId_str tid) (DocumentId_str did) (IngestionJobId_str jid) call_mismatch) clock d)"

lemma tried_once:
  assumes run: "run_tries (worker_task execute zadd lib str_exc now clock eid cfg (TenantId_str tid) (DocumentId_str did)
      (IngestionJobId_str jid)) tries (s, d) = (outcomes, (s', d'))"
    and rules: "arq_rules retry (aq_max_tries (ArqWorkerSettings cfg)) outcomes tries" and never: "\<forall>e. \<not> retry e"
  shows "tries = [1] \<and> outcomes = [Some call_mismatch] \<and> s' = s \<and>
    d' = (if wk_max_retries (st_worker cfg) \<le> 1 then with_dead_letter zadd lib str_exc clock tid did jid d else d)"
proof -
  have "tries = [1]" by (rule no_retry_one_try [OF rules never])
  with run show ?thesis by (auto simp: worker_task_result with_dead_letter_def)
qed

lemma retried_to_the_limit:
  assumes run: "run_tries (worker_task execute zadd lib str_exc now clock eid cfg (TenantId_str tid) (DocumentId_str did)
      (IngestionJobId_str jid)) tries (s, d) = (outcomes, (s', d'))"
    and rules: "arq_rules retry (aq_max_tries (ArqWorkerSettings cfg)) outcomes tries" and always: "\<forall>e. retry e"
  shows "length tries = max 1 (nat (wk_max_retries (st_worker cfg))) \<and>
    outcomes = replicate (length tries) (Some call_mismatch) \<and> s' = s \<and>
    d' = with_dead_letter zadd lib str_exc clock tid did jid d"
proof -
  let ?task = "worker_task execute zadd lib str_exc now clock eid cfg (TenantId_str tid) (DocumentId_str did) (IngestionJobId_str jid)"
  let ?n = "length tries"
  have tries: "tries \<noteq> []" "tries = map int [1..<Suc ?n]" using rules by (auto simp: arq_rules_def)
  then have pos: "1 \<le> ?n" by (cases tries) auto
  have split: "tries = map int [Suc 0..<?n] @ [int ?n]"
    using tries by (cases "?n") auto
  have most: "?n = 1 \<or> int ?n \<le> wk_max_retries (st_worker cfg)"
    using rules by (auto simp: arq_rules_def ArqWorkerSettings_def)
  then have "\<forall>k \<in> set (map int [Suc 0..<?n]). k < wk_max_retries (st_worker cfg)" by auto
  then have early: "run_tries ?task (map int [Suc 0..<?n]) (s, d) = (replicate (?n - 1) (Some call_mismatch), (s, d))"
    using early_tries [of "map int [Suc 0..<?n]" cfg] by auto
  have res: "run_tries ?task tries (s, d) = (replicate (?n - 1) (Some call_mismatch) @ [Some call_mismatch],
      snd (?task (int ?n) (s, d)))"
    by (subst split) (simp add: run_tries_append early worker_task_result)
  have "last outcomes = Some call_mismatch" using res run by auto
  then have full: "int ?n \<ge> wk_max_retries (st_worker cfg)"
    using rules always by (auto simp: arq_rules_def ArqWorkerSettings_def)
  moreover have "replicate (?n - 1) (Some call_mismatch) @ [Some call_mismatch] = replicate ?n (Some call_mismatch)"
    using pos by (cases ?n) (auto simp: replicate_append_same)
  moreover have "?n = max 1 (nat (wk_max_retries (st_worker cfg)))" using full most pos by linarith
  ultimately show ?thesis
    using res run by (auto simp: worker_task_result with_dead_letter_def)
qed

subsection \<open>Properties\<close>

text \<open>
  C35. What becomes of a queued job, for any retry limit. As no exception of the application asks the library for
  a retry, the job is tried once and fails: it is not retried, the database is as before, and it is written to
  the dead letter queue if the limit is at most one and lost otherwise. With a worker that retried every
  failure it would be tried up to the limit, at least once, and the last try alone would add one entry to the
  dead letter queue, scored with the time and naming tenant, document, job and error.
\<close>

theorem dead_letters_need_retries:
  assumes "run_tries (worker_task execute zadd lib str_exc now clock eid cfg (TenantId_str tid) (DocumentId_str did)
      (IngestionJobId_str jid)) tries (s, d) = (outcomes, (s', d'))"
    and "arq_rules retry (aq_max_tries (ArqWorkerSettings cfg)) outcomes tries"
  shows "((\<forall>e. \<not> retry e) \<longrightarrow> tries = [1] \<and> outcomes = [Some call_mismatch] \<and> s' = s \<and>
       d' = (if wk_max_retries (st_worker cfg) \<le> 1 then with_dead_letter zadd lib str_exc clock tid did jid d else d)) \<and>
    ((\<forall>e. retry e) \<longrightarrow> length tries = max 1 (nat (wk_max_retries (st_worker cfg))) \<and>
       outcomes = replicate (length tries) (Some call_mismatch) \<and> s' = s \<and>
       d' = with_dead_letter zadd lib str_exc clock tid did jid d)"
  using tried_once [OF assms] retried_to_the_limit [OF assms] by auto

text \<open>A worker's Redis that lists what is added.\<close>

definition demo_zadd :: "string \<Rightarrow> string \<Rightarrow> real \<Rightarrow> ((string \<times> string) list, exn, unit) eff" where
  "demo_zadd k m sc z = (Inr (), z @ [(k, m)])"

lemma default_retries: "wk_max_retries (st_worker (default_settings k o1)) = 3"
  by (simp add: default_settings_def default_worker_def)

definition demo_task :: "int \<Rightarrow> (nat \<times> (string \<times> string) list, exn, string \<times> string) eff" where
  "demo_task = worker_task (\<lambda>did j. returnM ()) demo_zadd demo_lib (\<lambda>_. ''error'') 5 5 0 (default_settings None ''key'')
     (TenantId_str (TenantId 1)) (DocumentId_str (DocumentId 7)) (IngestionJobId_str (IngestionJobId 5))"

lemma demo_task_result: "\<exists>m. \<forall>k s d. demo_task k (s, d) = (Inl call_mismatch, (s, if k \<ge> 3 then d @ [(DLQ_KEY, m)] else d))"
  unfolding demo_task_def worker_task_result default_retries demo_zadd_def by auto

theorem dead_letters_need_retries_witness:
  "arq_rules (\<lambda>_. False) (aq_max_tries (ArqWorkerSettings (default_settings None ''key''))) [Some call_mismatch] [1] \<and>
   run_tries demo_task [1] (0, []) = ([Some call_mismatch], (0, []))"
proof -
  obtain m where m: "\<And>k s d. demo_task k (s, d) = (Inl call_mismatch, (s, if k \<ge> 3 then d @ [(DLQ_KEY, m)] else d))"
    using demo_task_result by blast
  have run: "run_tries demo_task [1] (0, []) = ([Some call_mismatch], (0, []))" by (simp add: m)
  have rules: "arq_rules (\<lambda>_. False) (aq_max_tries (ArqWorkerSettings (default_settings None ''key''))) [Some call_mismatch] [1]"
    by (simp add: arq_rules_def)
  show ?thesis
    using dead_letters_need_retries [OF run [unfolded demo_task_def] rules] run rules by (simp add: default_retries)
qed

text \<open>With retries the three tries of the default limit leave one entry.\<close>

lemma demo_retried: "length (snd (snd (run_tries demo_task [1, 2, 3] (0, [])))) = 1"
  using demo_task_result by auto

end
