(* ===== verification/Logging.thy ===== *)
theory Logging
  imports Entities
begin

section \<open>Logging set-up\<close>

text \<open>
  \<open>src/app/core/logging/setup.py\<close> on the state it configures: the processor chain of structlog and the part
  of the standard library's \<open>logging\<close> it touches, the handlers of the root logger and the loggers' levels
  (0 is \<open>NOTSET\<close>, the root logger has the name \<open>root\<close>). Processors are opaque values; \<open>logging_attr\<close> is the
  upper-case names of the \<open>logging\<close> module that \<open>getattr\<close> can find.
\<close>

datatype processor =
    MergeContextvars | AddLogLevel | AddLoggerName | TimeStamper string | StackInfoRenderer | FormatExcInfo
  | UnicodeDecoder | WrapForFormatter | RemoveProcessorsMeta | ConsoleRenderer bool | JSONRenderer

record handler =
  hd_stream :: string
  hd_processors :: "processor list"

record log_state =
  lg_structlog :: "processor list"
  lg_cache_loggers :: bool
  lg_root_handlers :: "handler list"
  lg_level :: "string \<Rightarrow> int"

text \<open>\<open>str.upper\<close>; the three Latin-1 letters whose capital is outside Latin-1 or longer occur in no name.\<close>

fun py_upper_char :: "char \<Rightarrow> char" where
  "py_upper_char c = (let n = (of_char c :: nat)
     in if 97 \<le> n \<and> n \<le> 122 \<or> 224 \<le> n \<and> n \<le> 254 \<and> n \<noteq> 247 then char_of (n - 32) else c)"

definition py_upper :: "string \<Rightarrow> string" where
  "py_upper s = map py_upper_char s"

definition logging_attr :: "string \<Rightarrow> pyval option" where
  "logging_attr = map_of [(''CRITICAL'', PInt 50), (''FATAL'', PInt 50), (''ERROR'', PInt 40), (''WARNING'', PInt 30),
     (''WARN'', PInt 30), (''INFO'', PInt 20), (''DEBUG'', PInt 10), (''NOTSET'', PInt 0),
     (''BASIC_FORMAT'', PStr ''%(levelname)s:%(name)s:%(message)s'')]"

definition WARNING :: int where
  "WARNING = 30"

text \<open>\<open>Logger.setLevel\<close>: a string that is no level name is a \<open>ValueError\<close>.\<close>

definition setLevel :: "string \<Rightarrow> pyval \<Rightarrow> (log_state, exn, unit) eff" where
  "setLevel name level = (case level of
       PInt n \<Rightarrow> modifyM (\<lambda>st. st\<lparr>lg_level := (lg_level st)(name := n)\<rparr>)
     | PStr s \<Rightarrow> raiseM (ValueError (''Unknown level: '' @ s))
     | _ \<Rightarrow> raiseM (TypeError (BadOperand ''setLevel'')))"

definition shared_processors :: "processor list" where
  "shared_processors = [MergeContextvars, AddLogLevel, AddLoggerName, TimeStamper ''iso'', StackInfoRenderer,
     FormatExcInfo, UnicodeDecoder]"

definition renderer :: "bool \<Rightarrow> processor" where
  "renderer debug = (if debug then ConsoleRenderer True else JSONRenderer)"

definition silenced :: "string list" where
  "silenced = [''uvicorn.access'', ''httpx'', ''httpcore'']"

fun silence :: "string list \<Rightarrow> (log_state, exn, unit) eff" where
  "silence [] = returnM ()"
| "silence (name # names) = thenM (setLevel name (PInt WARNING)) (silence names)"

definition configure_logging :: "string \<Rightarrow> bool \<Rightarrow> (log_state, exn, unit) eff" where
  "configure_logging log_level debug =
     thenM (modifyM (\<lambda>st. st\<lparr>lg_structlog := shared_processors @ [WrapForFormatter], lg_cache_loggers := True\<rparr>))
     (let handler = \<lparr>hd_stream = ''stdout'', hd_processors = [RemoveProcessorsMeta, renderer debug]\<rparr>
      in thenM (modifyM (\<lambda>st. st\<lparr>lg_root_handlers := []\<rparr>))
        (thenM (modifyM (\<lambda>st. st\<lparr>lg_root_handlers := lg_root_handlers st @ [handler]\<rparr>))
        (thenM (setLevel ''root'' (case logging_attr (py_upper log_level) of Some v \<Rightarrow> v | None \<Rightarrow> PInt 20))
          (silence silenced))))"

subsection \<open>Which records are emitted\<close>

text \<open>
  The level of the nearest ancestor with a level, by the dots of the name, and the root's at the end; a record
  is emitted once per handler when its level reaches that.
\<close>

definition parents :: "string \<Rightarrow> string list" where
  "parents name = map (\<lambda>i. take i name) (rev (filter (\<lambda>i. name ! i = CHR ''.'') [0..<length name])) @ [''root'']"

definition effective_level :: "log_state \<Rightarrow> string \<Rightarrow> int" where
  "effective_level st name = (case filter (\<lambda>n. lg_level st n \<noteq> 0) (name # parents name) of
     [] \<Rightarrow> 0 | n # _ \<Rightarrow> lg_level st n)"

definition emitted :: "log_state \<Rightarrow> string \<Rightarrow> int \<Rightarrow> handler list" where
  "emitted st name level = (if effective_level st name \<le> level then lg_root_handlers st else [])"

subsection \<open>Lemmas\<close>

definition levels_of :: "int \<Rightarrow> (string \<Rightarrow> int) \<Rightarrow> string \<Rightarrow> int" where
  "levels_of level f = f(''root'' := level, ''uvicorn.access'' := WARNING, ''httpx'' := WARNING, ''httpcore'' := WARNING)"

lemma levels_of_twice: "levels_of l2 (levels_of l1 f) = levels_of l2 f"
  by (rule ext) (simp add: levels_of_def)

definition configured :: "int \<Rightarrow> bool \<Rightarrow> log_state \<Rightarrow> log_state" where
  "configured level debug st = st\<lparr>lg_structlog := shared_processors @ [WrapForFormatter], lg_cache_loggers := True,
     lg_root_handlers := [\<lparr>hd_stream = ''stdout'', hd_processors = [RemoveProcessorsMeta, renderer debug]\<rparr>],
     lg_level := levels_of level (lg_level st)\<rparr>"

lemma configure_logging_ok:
  assumes "logging_attr (py_upper log_level) = Some (PInt level) \<or> logging_attr (py_upper log_level) = None \<and> level = 20"
  shows "configure_logging log_level debug st = (Inr (), configured level debug st)"
  using assms
  by (auto simp: configure_logging_def thenM_def bindM_def modifyM_def setLevel_def silenced_def returnM_def configured_def levels_of_def Let_def)

lemma configured_twice: "configured l2 d2 (configured l1 d1 st) = configured l2 d2 st"
  by (simp add: configured_def levels_of_twice)

lemma silenced_level: "name \<in> set silenced \<Longrightarrow> effective_level (configured level debug st) name = WARNING"
  by (auto simp: silenced_def effective_level_def configured_def levels_of_def WARNING_def)

subsection \<open>Idempotence\<close>

text \<open>
  Configuring the logging is idempotent and leaves one handler: for a level name the library knows, or
  an unknown one, which counts as \<open>INFO\<close>, the call succeeds from any state; a later call with any level and
  mode gives the state it would give alone, so records are written once, as JSON outside debug mode; and
  the access log and the HTTP client loggers emit nothing below \<open>WARNING\<close> even at level \<open>DEBUG\<close>.
\<close>

lemma configure_logging_idempotent:
  assumes "logging_attr (py_upper l1) = Some (PInt n1) \<or> logging_attr (py_upper l1) = None \<and> n1 = 20"
    and "logging_attr (py_upper l2) = Some (PInt n2) \<or> logging_attr (py_upper l2) = None \<and> n2 = 20"
  shows "\<exists>st1 st2. configure_logging l1 d1 st = (Inr (), st1) \<and> configure_logging l2 d2 st1 = (Inr (), st2) \<and>
    configure_logging l2 d2 st = (Inr (), st2) \<and> length (lg_root_handlers st2) = 1 \<and>
    (\<forall>h \<in> set (lg_root_handlers st2). last (hd_processors h) = (if d2 then ConsoleRenderer True else JSONRenderer)) \<and>
    lg_level st2 ''root'' = n2 \<and>
    (\<forall>name level. name \<in> set silenced \<longrightarrow> level < WARNING \<longrightarrow> emitted st2 name level = [])"
proof (intro exI conjI)
  show "configure_logging l1 d1 st = (Inr (), configured n1 d1 st)" using assms(1) by (rule configure_logging_ok)
  show "configure_logging l2 d2 (configured n1 d1 st) = (Inr (), configured n2 d2 st)"
    using configure_logging_ok [OF assms(2)] by (simp add: configured_twice)
  show "configure_logging l2 d2 st = (Inr (), configured n2 d2 st)" using assms(2) by (rule configure_logging_ok)
  show "\<forall>name level. name \<in> set silenced \<longrightarrow> level < WARNING \<longrightarrow> emitted (configured n2 d2 st) name level = []"
    by (simp add: emitted_def silenced_level)
qed (auto simp: configured_def levels_of_def renderer_def)

end
