(* ===== verification/Server.thy ===== *)
theory Server
  imports Api Wiring
begin

section \<open>The served application\<close>

text \<open>
  The application that \<open>create_app\<close> of \<open>src/app/main.py\<close> returns, on the wired system: the router of
  \<open>src/app/api/routers/__init__.py\<close> with the health check, the endpoints on the use cases that the
  container builds, and the middlewares with the limiter on Redis. The framework's choice of a
  route is the parameter \<open>dp_dispatch\<close>; \<open>router_laws\<close> states the documented rule for exact matches and
  that an unmatched request (answered by the framework with 404, 405, a redirect or its own documentation
  pages) leaves the application's state alone. \<open>get_settings\<close> and the container read the same settings.

  \<open>incoming\<close> is a request with its body as the framework reads it for the three schemas, with the
  times, ids and disconnects met while it is served. A streamed answer is started by the response and runs when the
  middlewares have returned, so the body iterator waits in \<open>srv_stream\<close> until then.
\<close>

subsection \<open>State\<close>

type_synonym 's event_body = "(nat \<Rightarrow> bool) \<Rightarrow> nat \<Rightarrow> 's \<Rightarrow> (dict list \<times> exn option) \<times> 's"

record 's server =
  srv_system :: 's
  srv_stream :: "'s event_body option"

text \<open>The context variables of the logging library come first, as in \<open>Api\<close>.\<close>

type_synonym 's serving = "dict \<times> 's server"

definition on_system :: "('s, exn, 'a) eff \<Rightarrow> ('s serving, exn, 'a) eff" where
  "on_system = focus (\<lambda>(c, v). srv_system v) (\<lambda>y (c, v). (c, v\<lparr>srv_system := y\<rparr>))"


type_synonym field_errors = "(string list \<times> string) list"

record incoming =
  in_request :: http_request
  in_malformed :: "field_errors option"
  in_document :: "field_errors + ingest_request"
  in_search :: "field_errors + search_request"
  in_chat :: "field_errors + api_chat_request"
  in_request_id :: string
  in_time :: real
  in_time_after :: real
  in_now :: timestamp
  in_fresh :: ingest_ids
  in_uuids :: "nat \<Rightarrow> uuid"
  in_disconnected :: "nat \<Rightarrow> bool"
  in_turns :: nat

record ('enc, 'r, 'v, 'q, 'o) deployment =
  dp_services :: "('enc, 'r, 'v, 'q, 'o) services"
  dp_settings :: settings
  dp_async :: "bool list \<Rightarrow> bool"
  dp_zset :: "'r zset"
  dp_redis_ping :: "('r, exn, unit) eff"
  dp_qdrant_ping :: "('v, exn, unit) eff"
  dp_security :: "string option \<Rightarrow> string option"
  dp_msg :: "string \<Rightarrow> string"
  dp_starlette :: "('enc, 'r, 'v, 'q, 'o) system serving starlette"
  dp_dispatch :: "(string \<times> string \<times> ('enc, 'r, 'v, 'q, 'o) system serving app) list
    \<Rightarrow> ('enc, 'r, 'v, 'q, 'o) system serving app"

subsection \<open>Reading bodies\<close>

text \<open>
  A body that is not JSON is reported before any dependency is solved; fields of wrong types are reported
  where the schema is checked, after the key has been accepted.
\<close>

definition read_json :: "incoming \<Rightarrow> 's app \<Rightarrow> 's app" where
  "read_json inc endpoint rq =
     (case in_malformed inc of Some errors \<Rightarrow> raiseM (RequestValidationError errors) | None \<Rightarrow> endpoint rq)"

definition typed_body ::
  "string \<Rightarrow> (string option \<Rightarrow> string option) \<Rightarrow> field_errors + 'b \<Rightarrow> ('b \<Rightarrow> http_request \<Rightarrow> ('s, exn, 'a) eff)
   \<Rightarrow> http_request \<Rightarrow> ('s, exn, 'a) eff" where
  "typed_body key security body route rq =
     (case body of
        Inl errors \<Rightarrow> protected key security (raiseM (RequestValidationError errors)) rq
      | Inr b \<Rightarrow> route b rq)"

subsection \<open>Endpoints on the system\<close>

definition documents_app ::
  "('enc, 'r, 'v, 'q, 'o) deployment \<Rightarrow> incoming \<Rightarrow> ('enc, 'r, 'v, 'q, 'o) system serving app" where
  "documents_app dp inc = (let key = st_api_key (dp_settings dp); sv = dp_services dp in
     read_json inc (\<lambda>rq. on_system (typed_body key (dp_security dp) (in_document inc)
       (documents_route key (dp_security dp) (dp_msg dp) (get_ingest_use_case (dp_async dp))
          (ingest_execute (ingest_document_provider sv (in_now inc) (fresh_entity (in_fresh inc))) (in_now inc) (in_fresh inc)))
       rq)))"

definition search_app ::
  "('enc, 'r, 'v, 'q, 'o) deployment \<Rightarrow> incoming \<Rightarrow> ('enc, 'r, 'v, 'q, 'o) system serving app" where
  "search_app dp inc = (let key = st_api_key (dp_settings dp) in
     read_json inc (\<lambda>rq. on_system (typed_body key (dp_security dp) (in_search inc)
       (search_route key (dp_security dp) (dp_msg dp) (\<lambda>request. get_method (get_search_use_case (dp_async dp)) ''execute''
          (search_execute (search_documents_provider (dp_services dp) (dp_settings dp) (in_uuids inc)) request)))
       rq)))"

definition EventSourceResponse :: "'s event_body \<Rightarrow> ('s serving, exn, http_response) eff" where
  "EventSourceResponse body =
     thenM (modifyM (\<lambda>(c, v). (c, v\<lparr>srv_stream := Some body\<rparr>))) (returnM \<lparr>rs_status = 200, rs_headers = [], rs_body = PNone\<rparr>)"

definition chat_app ::
  "('enc, 'r, 'v, 'q, 'o) deployment \<Rightarrow> incoming \<Rightarrow> ('enc, 'r, 'v, 'q, 'o) system serving app" where
  "chat_app dp inc = (let key = st_api_key (dp_settings dp) in
     read_json inc (\<lambda>rq. bindM (on_system (typed_body key (dp_security dp) (in_chat inc)
       (chat_route key (dp_security dp) (dp_msg dp) (rag_chat_provider (dp_services dp) (dp_settings dp) (in_uuids inc))
          (fresh_entity (in_fresh inc))) rq))
       (\<lambda>reply. case reply of JsonReply r \<Rightarrow> returnM r | EventStream body \<Rightarrow> EventSourceResponse body)))"

definition health_app ::
  "('enc, 'r, 'v, 'q, 'o) deployment \<Rightarrow> ('enc, 'r, 'v, 'q, 'o) system serving app" where
  "health_app dp rq = on_system (health_check (sv_str_exc (dp_services dp)) (st_app_name (dp_settings dp))
     (on_redis (dp_redis_ping dp)) (on_qdrant (dp_qdrant_ping dp)) (on_db (pool_run (returnM ()))) rq)"

subsection \<open>The router\<close>

definition api_router ::
  "('enc, 'r, 'v, 'q, 'o) deployment \<Rightarrow> incoming \<Rightarrow> (string \<times> string \<times> ('enc, 'r, 'v, 'q, 'o) system serving app) list" where
  "api_router dp inc = map (\<lambda>(router, endpoint). (''POST'', ''/v1'' @ router, endpoint))
     [(''/documents'', documents_app dp inc), (''/search'', search_app dp inc), (''/chat'', chat_app dp inc)]"

definition app_routes ::
  "('enc, 'r, 'v, 'q, 'o) deployment \<Rightarrow> incoming \<Rightarrow> (string \<times> string \<times> ('enc, 'r, 'v, 'q, 'o) system serving app) list" where
  "app_routes dp inc = api_router dp inc @ [(''GET'', ''/health'', health_app dp)]"

definition route_of :: "(string \<times> string \<times> 's app) list \<Rightarrow> http_request \<Rightarrow> 's app option" where
  "route_of routes rq = map_of (map (\<lambda>(m, p, a). ((m, p), a)) routes) (rq_method rq, rq_path rq)"

definition router_laws :: "((string \<times> string \<times> 's app) list \<Rightarrow> 's app) \<Rightarrow> bool" where
  "router_laws dispatch \<longleftrightarrow> (\<forall>routes rq s. case route_of routes rq of
       Some endpoint \<Rightarrow> dispatch routes rq s = endpoint rq s
     | None \<Rightarrow> snd (dispatch routes rq s) = s)"

subsection \<open>Serving\<close>

text \<open>The limiter's client is the Redis client of the container.\<close>

definition limiter_zset :: "'r zset \<Rightarrow> ('enc, 'r, 'v, 'q, 'o) system serving zset" where
  "limiter_zset zs =
     \<lparr>zs_remrangebyscore = (\<lambda>k m. on_system (on_redis (zs_remrangebyscore zs k m))),
      zs_card = (\<lambda>k. on_system (on_redis (zs_card zs k))), zs_add = (\<lambda>k sc x. on_system (on_redis (zs_add zs k sc x))),
      zs_expire = (\<lambda>k n. on_system (on_redis (zs_expire zs k n))), zs_random = on_system (on_redis (zs_random zs)),
      zs_tostring = zs_tostring zs, zs_delete = (\<lambda>k. on_system (on_redis (zs_delete zs k)))\<rparr>"

definition respond ::
  "('enc, 'r, 'v, 'q, 'o) deployment \<Rightarrow> incoming
   \<Rightarrow> (('enc, 'r, 'v, 'q, 'o) system serving, exn, http_response) eff" where
  "respond dp inc =
     (let zs = limiter_zset (dp_zset dp); rpm = rl_requests_per_minute (st_rate_limit (dp_settings dp))
      in create_app (dp_starlette dp) (is_allowed zs rpm (in_time inc)) (get_remaining zs rpm (in_time_after inc)) rpm
           (in_request_id inc) (dp_dispatch dp (app_routes dp inc)) (in_request inc))"

definition run_stream :: "incoming \<Rightarrow> 's serving \<Rightarrow> (dict list \<times> exn option) \<times> 's serving" where
  "run_stream inc = (\<lambda>(c, v). case srv_stream v of
       None \<Rightarrow> (([], None), (c, v))
     | Some body \<Rightarrow> (case body (in_disconnected inc) (in_turns inc) (srv_system v) of
         (sent, y) \<Rightarrow> (sent, (c, v\<lparr>srv_system := y, srv_stream := None\<rparr>))))"

definition serve ::
  "('enc, 'r, 'v, 'q, 'o) deployment \<Rightarrow> incoming \<Rightarrow> ('enc, 'r, 'v, 'q, 'o) system serving
   \<Rightarrow> (exn + http_response) \<times> (dict list \<times> exn option) \<times> ('enc, 'r, 'v, 'q, 'o) system serving" where
  "serve dp inc s = (case respond dp inc s of (r, s1) \<Rightarrow> (r, run_stream inc s1))"

definition serve_next ::
  "('enc, 'r, 'v, 'q, 'o) deployment \<Rightarrow> incoming \<Rightarrow> ('enc, 'r, 'v, 'q, 'o) system serving
   \<Rightarrow> ('enc, 'r, 'v, 'q, 'o) system serving" where
  "serve_next dp inc s = snd (snd (serve dp inc s))"

subsection \<open>What the stack preserves\<close>

lemma preserves_exception_middleware:
  assumes "starlette_laws st" "preserves P (app rq)"
  shows "preserves P (exception_middleware st hs app rq)"
  unfolding preserves_def
proof (intro allI impI)
  fix s
  assume "P s"
  then have "P (snd (app rq s))" using assms(2) by (rule preservesD [rotated])
  with assms(1) show "P (snd (exception_middleware st hs app rq s))"
    by (cases "app rq s") (auto simp: starlette_laws_def split: sum.split option.split)
qed

lemma preserves_server_error_middleware:
  assumes "starlette_laws st" "preserves P (app rq)"
  shows "preserves P (server_error_middleware st hs app rq)"
  unfolding preserves_def
proof (intro allI impI)
  fix s
  assume "P s"
  then have "P (snd (app rq s))" using assms(2) by (rule preservesD [rotated])
  with assms(1) show "P (snd (server_error_middleware st hs app rq s))"
    by (cases "app rq s") (auto simp: starlette_laws_def split: sum.split option.split)
qed

lemma preserves_bool [preserving]:
  "preserves P m \<Longrightarrow> preserves P n \<Longrightarrow> preserves P (case b of True \<Rightarrow> m | False \<Rightarrow> n)"
  by (cases b) auto

lemma preserves_rate_limit_middleware:
  assumes "\<And>k. preserves P (allow k)" "\<And>k. preserves P (remain k)" "preserves P (next_app rq)"
  shows "preserves P (rate_limit_middleware allow remain rpm next_app rq)"
  unfolding rate_limit_middleware_def by (intro preserving assms)

lemma preserves_logging_middleware:
  assumes "preserves P (next_app rq)" "\<And>c c' v. P (c, v) = P (c', v)"
  shows "preserves P (request_logging_middleware rid next_app rq)"
  unfolding request_logging_middleware_def bind_request_context_def clear_request_context_def
  by (intro preserving assms(1)) (auto cong: assms(2))

lemma preserves_create_app:
  assumes "starlette_laws st" "\<And>k. preserves P (allow k)" "\<And>k. preserves P (remain k)" "preserves P (router rq)"
    and "\<And>c c' v. P (c, v) = P (c', v)"
  shows "preserves P (create_app st allow remain rpm rid router rq)"
  unfolding create_app_def
  by (intro preserves_server_error_middleware preserves_logging_middleware preserves_rate_limit_middleware
      preserves_exception_middleware assms)

lemma preserves_limiter:
  assumes "\<And>k m. preserves P (zs_remrangebyscore zs k m)" "\<And>k. preserves P (zs_card zs k)"
    and "\<And>k sc x. preserves P (zs_add zs k sc x)" "\<And>k n. preserves P (zs_expire zs k n)" "preserves P (zs_random zs)"
  shows "preserves P (is_allowed zs rpm now key)" "preserves P (get_remaining zs rpm now key)"
  unfolding is_allowed_def get_remaining_def rate_limit_lua_def by (intro preserving assms)+

subsection \<open>Predicates of the system\<close>

text \<open>
  \<open>serving_inv P\<close>: the system satisfies \<open>P\<close>, and the body of a started stream keeps it.
\<close>

definition serving_inv :: "('s \<Rightarrow> bool) \<Rightarrow> 's serving \<Rightarrow> bool" where
  "serving_inv P = (\<lambda>(c, v). P (srv_system v) \<and>
     (\<forall>body g n y. srv_stream v = Some body \<longrightarrow> P y \<longrightarrow> P (snd (body g n y))))"

lemma serving_inv_context: "serving_inv P (c, v) = serving_inv P (c', v)"
  by (simp add: serving_inv_def)

lemma serving_inv_system: "preserves P m \<Longrightarrow> preserves (serving_inv P) (on_system m)"
  by (auto simp: preserves_def serving_inv_def on_system_def focus_def split: prod.splits)

lemma serving_inv_stream:
  "(\<And>g n y. P y \<Longrightarrow> P (snd (body g n y))) \<Longrightarrow> preserves (serving_inv P) (EventSourceResponse body)"
  unfolding EventSourceResponse_def by (intro preserving) (auto simp: serving_inv_def)

lemma serving_inv_run: "serving_inv P s \<Longrightarrow> serving_inv P (snd (run_stream inc s))"
  by (cases s) (auto simp: serving_inv_def run_stream_def split: option.split prod.splits dest!: arg_cong [where f = snd])

lemma preserves_protected: "preserves P m \<Longrightarrow> preserves P (protected key security m rq)"
  unfolding protected_def by (intro preserving)

lemma preserves_typed_body:
  "(\<And>b. preserves P (route b rq)) \<Longrightarrow> preserves P (typed_body key security body route rq)"
  unfolding typed_body_def by (intro preserving preserves_protected)

lemma preserves_read_json: "preserves P (endpoint rq) \<Longrightarrow> preserves P (read_json inc endpoint rq)"
  unfolding read_json_def by (intro preserving)

lemma preserves_get_method: "preserves P m \<Longrightarrow> preserves P (get_method h name m)"
  by (auto simp: get_method_def preserves_raise split: option.split handle.split)

lemma preserves_ingest_document: "preserves P (ingest_document use_case execute body)"
  unfolding preserves_def by (metis ingest_document_raises snd_conv)

lemma dispatch_cases:
  assumes "router_laws dispatch"
  shows "case route_of routes rq of
      Some endpoint \<Rightarrow> dispatch routes rq s = endpoint rq s | None \<Rightarrow> snd (dispatch routes rq s) = s"
  using assms unfolding router_laws_def by (elim allE)

lemma preserves_dispatch:
  assumes "router_laws dispatch" "\<And>m p a. (m, p, a) \<in> set routes \<Longrightarrow> preserves P (a rq)"
  shows "preserves P (dispatch routes rq)"
proof -
  have "preserves P (a rq)" if "route_of routes rq = Some a" for a
    using that assms(2) unfolding route_of_def by (auto dest!: map_of_SomeD)
  then have "P (snd (dispatch routes rq s))" if "P s" for s
    using that dispatch_cases [OF assms(1), of routes rq s]
    by (cases "route_of routes rq") (auto intro: preservesD)
  then show ?thesis by (simp add: preserves_def)
qed

lemma preserves_bind_result:
  assumes "preserves P m" "\<And>s x s'. m s = (Inr x, s') \<Longrightarrow> preserves P (f x)"
  shows "preserves P (bindM m f)"
  unfolding preserves_def
proof (intro allI impI)
  fix s
  assume "P s"
  then have "P (snd (m s))" using assms(1) by (rule preservesD [rotated])
  then show "P (snd (bindM m f s))"
    by (cases "m s") (auto simp: bindM_def split: sum.split dest: assms(2) intro: preservesD)
qed

lemma chat_route_stream:
  assumes "typed_body key security body (chat_route key security msg deps fresh) rq s = (Inr (EventStream b), s')"
  shows "\<exists>dto. b = stream_generator deps fresh dto"
  using assms
  by (auto simp: typed_body_def chat_route_def chat_endpoint_def protected_def thenM_def bindM_Inr_iff returnM_def raiseM_def
      split: sum.splits if_splits)

lemma on_system_result: "on_system m s = (r, s') \<Longrightarrow> \<exists>y. m (srv_system (snd s)) = (r, y)"
  by (cases s) (auto simp: on_system_def focus_def split: prod.splits)

context query_invariant
begin

lemma inv_search_app:
  assumes "dp_services dp = sv"
  shows "preserves (serving_inv P) (search_app dp inc rq)"
  unfolding search_app_def Let_def search_route_def search_documents_def assms
  by (intro preserves_read_json serving_inv_system preserves_typed_body preserves_protected preserving
      preserves_get_method inv_search)

lemma inv_stream_generator: "P y \<Longrightarrow> P (snd (stream_generator (rag_chat_provider sv cfg uuids) fresh dto g n y))"
  using inv_rag_stream [of y cfg uuids fresh dto "stream_pulls g n"]
  by (auto simp: stream_generator_def split: prod.split)

lemma inv_chat_app:
  assumes "dp_services dp = sv"
  shows "preserves (serving_inv P) (chat_app dp inc rq)"
proof -
  let ?deps = "rag_chat_provider sv (dp_settings dp) (in_uuids inc)"
  have "preserves (serving_inv P) (bindM (on_system (typed_body key security body (chat_route key security msg ?deps fresh) rq))
      (\<lambda>reply. case reply of JsonReply r \<Rightarrow> returnM r | EventStream body \<Rightarrow> EventSourceResponse body))"
    for key security body msg fresh
  proof (rule preserves_bind_result)
    show "preserves (serving_inv P) (on_system (typed_body key security body (chat_route key security msg ?deps fresh) rq))"
      unfolding chat_route_def chat_endpoint_def
      by (intro serving_inv_system preserves_typed_body preserves_protected preserving inv_rag_execute)
  next
    fix s reply s'
    assume "on_system (typed_body key security body (chat_route key security msg ?deps fresh) rq) s = (Inr reply, s')"
    then obtain y where "typed_body key security body (chat_route key security msg ?deps fresh) rq (srv_system (snd s)) = (Inr reply, y)"
      by (blast dest: on_system_result)
    then show "preserves (serving_inv P) (case reply of JsonReply r \<Rightarrow> returnM r | EventStream body \<Rightarrow> EventSourceResponse body)"
      by (cases reply) (auto intro!: preserves_return serving_inv_stream inv_stream_generator dest!: chat_route_stream)
  qed
  then show ?thesis unfolding chat_app_def Let_def assms by (intro preserves_read_json)
qed

end

text \<open>
  A served request changes the system only through the two use cases and the limiter, and the health check
  runs a statement on the pool: \<open>P\<close> must not depend on what the pool consumes.
\<close>

locale served_invariant = query_invariant +
  assumes pool_probe: "P (s\<lparr>sys_db := sys_db s\<lparr>db_faults := fs\<rparr>\<rparr>) = P s"
begin

lemma inv_health_app: "preserves (serving_inv P) (health_app dp rq)"
proof -
  have "preserves P (on_db (pool_run (returnM ())))"
    by (auto simp: preserves_def on_defs pool_run_def returnM_def pool_probe split: list.split option.split)
  then show ?thesis
    unfolding health_app_def health_check_def probe_def Let_def
    by (intro serving_inv_system preserving query_externals)
qed

lemma inv_documents_app: "preserves (serving_inv P) (documents_app dp inc rq)"
  unfolding documents_app_def Let_def documents_route_def
  by (intro preserves_read_json serving_inv_system preserves_typed_body preserves_protected preserving preserves_ingest_document)

lemma inv_limiter:
  "preserves (serving_inv P) (is_allowed (limiter_zset zs) rpm now k)"
  "preserves (serving_inv P) (get_remaining (limiter_zset zs) rpm now k)"
  by (rule preserves_limiter; simp add: limiter_zset_def serving_inv_system query_externals)+

lemma inv_respond:
  assumes "dp_services dp = sv" "starlette_laws (dp_starlette dp)" "router_laws (dp_dispatch dp)"
  shows "preserves (serving_inv P) (respond dp inc)"
proof -
  have "preserves (serving_inv P) (dp_dispatch dp (app_routes dp inc) rq)" for rq
    by (rule preserves_dispatch [OF assms(3)])
      (auto simp: app_routes_def api_router_def inv_documents_app inv_search_app inv_chat_app inv_health_app assms(1))
  then show ?thesis
    unfolding respond_def Let_def by (intro preserves_create_app inv_limiter serving_inv_context assms(2))
qed

lemma inv_serve_next:
  assumes "dp_services dp = sv" "starlette_laws (dp_starlette dp)" "router_laws (dp_dispatch dp)" "serving_inv P s"
  shows "serving_inv P (serve_next dp inc s)"
  using preservesD [OF inv_respond [OF assms(1-3)] assms(4), of inc]
  by (auto simp: serve_next_def serve_def serving_inv_run split: prod.split)

lemma inv_serve_all:
  assumes "dp_services dp = sv" "starlette_laws (dp_starlette dp)" "router_laws (dp_dispatch dp)" "serving_inv P s"
  shows "serving_inv P (fold (serve_next dp) incs s)"
  using assms(4) by (induction incs arbitrary: s) (simp_all add: inv_serve_next assms(1-3))

end

text \<open>What the system has stored: the rows of the database, the chunks and the queue.\<close>

definition stored ::
  "('enc, 'r, 'v, 'q, 'o) system \<Rightarrow> doc_row list \<times> tenant_row list \<times> chunk_store \<times> 'q" where
  "stored y = (db_documents (sys_db y), db_tenants (sys_db y), sys_chunks y, sys_queue y)"

interpretation stored_invariant: served_invariant sv "\<lambda>y. stored y = z" for sv z
  by unfold_locales (simp_all add: stored_def preserves_def token_service_def on_defs)

interpretation consistent_invariant: served_invariant sv "system_ok sv" for sv
  by unfold_locales
    (simp_all add: system_ok_def system_inv_def rows_ok_faults rows_invariant.inv_token_service)

subsection \<open>Rejected requests\<close>






text \<open>\<open>only_redis y\<close>: no stream is started and the system is \<open>y\<close> but for its Redis part.\<close>

definition only_redis :: "('enc, 'r, 'v, 'q, 'o) system \<Rightarrow> ('enc, 'r, 'v, 'q, 'o) system serving \<Rightarrow> bool" where
  "only_redis y = (\<lambda>(c, v). srv_stream v = None \<and> (\<exists>r. srv_system v = y\<lparr>sys_redis := r\<rparr>))"

lemma only_redis_on_redis: "preserves (only_redis y) (on_system (on_redis m))"
  by (auto simp: preserves_def only_redis_def on_system_def on_redis_def focus_def split: prod.splits)

lemma only_redis_limiter:
  "preserves (only_redis y) (is_allowed (limiter_zset zs) rpm now k)"
  "preserves (only_redis y) (get_remaining (limiter_zset zs) rpm now k)"
  by (auto simp: limiter_zset_def intro!: preserves_limiter only_redis_on_redis)

lemma only_redis_remaining:
  assumes "srv_stream v = None"
  shows "\<exists>r v'. snd (snd (get_remaining (limiter_zset zs) rpm now k (c, v\<lparr>srv_system := y\<rparr>))) = v' \<and> srv_stream v' = None \<and>
    srv_system v' = y\<lparr>sys_redis := r\<rparr>"
proof -
  have "only_redis y (c, v\<lparr>srv_system := y\<rparr>)"
    using assms by (auto simp: only_redis_def intro: exI [of _ "sys_redis y"])
  from preservesD [OF only_redis_limiter(2) [where zs = zs and rpm = rpm and now = now and k = k] this]
  show ?thesis by (auto simp: only_redis_def split_beta)
qed






subsection \<open>Accepted searches\<close>

lemma search_app_runs:
  assumes am: "async_law (dp_async dp)"
    and key: "dp_security dp (rq_api_key rq) = Some (st_api_key (dp_settings dp))"
    and body: "in_malformed inc = None" "in_search inc = Inr query" "ApiSearchRequest (dp_msg dp) query = Inr query"
    and result: "search_execute (search_documents_provider (dp_services dp) (dp_settings dp) (in_uuids inc)) query
        (srv_system v) = (outcome, y)"
  shows "search_app dp inc rq (c, v) =
    (case outcome of Inl e \<Rightarrow> Inl e | Inr answer \<Rightarrow> Inr (JSONResponse 200 (search_json answer)), (c, v\<lparr>srv_system := y\<rparr>))"
proof -
  have "SearchRequest query = Inr query"
    using body(3) by (simp add: ApiSearchRequest_def SearchRequest_def schema_check_def Let_def split: if_splits)
  with assms show ?thesis
    by (auto simp: search_app_def Let_def read_json_def typed_body_def search_route_def protected_def get_api_key_def
        search_documents_def get_method_def get_search_use_case_def container_get_handles [OF am] on_system_def focus_def
        thenM_def bindM_def liftM_def returnM_def split: sum.split)
qed

lemma expected_outcome_answered:
  assumes st: "starlette_laws st"
    and app: "app rq s = (case outcome of Inl e \<Rightarrow> Inl e | Inr answer \<Rightarrow> Inr (JSONResponse 200 (search_json answer)), s2)"
    and expected: "\<And>e. outcome = Inl e \<Longrightarrow> \<exists>d. e = Domain d \<and> is_subclass (exc_cls d) DomainExceptionC"
  shows "\<exists>a. exception_middleware st register_exception_handlers app rq s = (Inr a, s2) \<and>
    (case outcome of
       Inr answer \<Rightarrow> rs_status a = 200 \<and> rs_body a = search_json answer
     | Inl (Domain d) \<Rightarrow> rs_status a = domain_status (exc_cls d) \<and> rs_body a = domain_body d
     | Inl e \<Rightarrow> False)"
proof (cases outcome)
  case (Inr answer)
  then show ?thesis using exception_passes [where app = app, OF st] app by (simp add: JSONResponse_def)
next
  case (Inl e)
  then obtain d where d: "e = Domain d" "is_subclass (exc_cls d) DomainExceptionC" using expected by blast
  from domain_handler_found [OF d(2)] exception_outcome [where app = app, OF st] app Inl d(1)
  show ?thesis by auto
qed

subsection \<open>Properties\<close>

text \<open>
  C14. Serving keeps the system consistent and stores nothing: whatever requests clients send, with whatever keys,
  bodies and disconnects, and whatever Redis, Qdrant, OpenAI and the database do, every document row,
  every tenant row, all chunks and the queue are as before; in particular nothing is ever ingested over HTTP.
\<close>

theorem http_requests_store_nothing:
  assumes st: "starlette_laws (dp_starlette dp)" and router: "router_laws (dp_dispatch dp)"
    and idle: "srv_stream (snd s) = None" and ok: "system_ok (dp_services dp) (srv_system (snd s))"
  shows "stored (srv_system (snd (fold (serve_next dp) incs s))) = stored (srv_system (snd s)) \<and>
    system_ok (dp_services dp) (srv_system (snd (fold (serve_next dp) incs s)))"
proof -
  have start: "serving_inv P s" if "P (srv_system (snd s))" for P
    using that idle by (cases s) (simp add: serving_inv_def)
  have sys: "P (srv_system (snd t))" if "serving_inv P t" for P t
    using that by (cases t) (simp add: serving_inv_def)
  show ?thesis
    using stored_invariant.inv_serve_all [OF refl st router start [of "\<lambda>y. stored y = stored (srv_system (snd s))"], of incs]
      consistent_invariant.inv_serve_all [OF refl st router start, of incs] ok
    by (blast dest: sys)
qed


text \<open>
  C15. An admitted search is answered: with the configured key, a body that the schema accepts and a free place
  in the limiter's window, \<open>POST /v1/search\<close> runs the wired use case on the system as the limiter left it
  and answers 200 with its results as JSON, or with the status and the message of the domain exception
  that it raised, and in both cases with the request's id; only Redis changes after the use case.
\<close>

theorem search_requests_are_answered:
  assumes st: "starlette_laws (dp_starlette dp)" and router: "router_laws (dp_dispatch dp)" and am: "async_law (dp_async dp)"
    and rq: "rq_method (in_request inc) = ''POST''" "rq_path (in_request inc) = ''/v1/search''"
    and key: "dp_security dp (rq_api_key (in_request inc)) = Some (st_api_key (dp_settings dp))"
    and body: "in_malformed inc = None" "in_search inc = Inr query" "ApiSearchRequest (dp_msg dp) query = Inr query"
    and allowed: "is_allowed (limiter_zset (dp_zset dp)) (rl_requests_per_minute (st_rate_limit (dp_settings dp))) (in_time inc)
        (client_key (in_request inc)) (log_context (in_request_id inc) (in_request inc), snd s) = (Inr True, s1)"
    and idle: "srv_stream (snd s) = None"
    and result: "search_execute (search_documents_provider (dp_services dp) (dp_settings dp) (in_uuids inc)) query
        (srv_system (snd s1)) = (outcome, y)"
    and expected: "\<And>e. outcome = Inl e \<Longrightarrow> \<exists>d. e = Domain d \<and> is_subclass (exc_cls d) DomainExceptionC"
  shows "\<exists>resp v r. serve dp inc s = (Inr resp, ([], None), ([], v)) \<and> srv_system v = y\<lparr>sys_redis := r\<rparr> \<and>
    map_of (rs_headers resp) ''X-Request-ID'' = Some (in_request_id inc) \<and>
    (case outcome of
       Inr answer \<Rightarrow> rs_status resp = 200 \<and> rs_body resp = search_json answer
     | Inl (Domain d) \<Rightarrow> rs_status resp = domain_status (exc_cls d) \<and> rs_body resp = domain_body d
     | Inl e \<Rightarrow> False)"
proof -
  let ?rq = "in_request inc" and ?router = "dp_dispatch dp (app_routes dp inc)"
  obtain c1 v1 where s1: "s1 = (c1, v1)" by (cases s1)
  have "only_redis (srv_system (snd s)) (log_context (in_request_id inc) ?rq, snd s)"
    using idle by (auto simp: only_redis_def intro: exI [of _ "sys_redis (srv_system (snd s))"])
  from preserves_result [OF only_redis_limiter(1) this allowed] have v1: "srv_stream v1 = None"
    by (simp add: only_redis_def s1)
  have "route_of (app_routes dp inc) ?rq = Some (search_app dp inc)"
    by (simp add: route_of_def app_routes_def api_router_def rq)
  then have "?router ?rq s1 = search_app dp inc ?rq s1"
    using dispatch_cases [OF router, of "app_routes dp inc" ?rq s1] by simp
  then have "?router ?rq s1 = (case outcome of Inl e \<Rightarrow> Inl e | Inr answer \<Rightarrow> Inr (JSONResponse 200 (search_json answer)),
      (c1, v1\<lparr>srv_system := y\<rparr>))"
    using search_app_runs [OF am key body, of v1 outcome y c1] result by (simp add: s1)
  from expected_outcome_answered [where app = ?router, OF st this expected] obtain a
    where inner: "exception_middleware (dp_starlette dp) register_exception_handlers ?router ?rq s1 =
        (Inr a, (c1, v1\<lparr>srv_system := y\<rparr>))"
      and a: "case outcome of Inr answer \<Rightarrow> rs_status a = 200 \<and> rs_body a = search_json answer
        | Inl (Domain d) \<Rightarrow> rs_status a = domain_status (exc_cls d) \<and> rs_body a = domain_body d | Inl e \<Rightarrow> False" by blast
  have path: "rq_path ?rq \<noteq> ''/health''" by (simp add: rq)
  from create_app_answers [where router = ?router, OF st path allowed inner, of "in_time_after inc"] obtain resp v
    where resp: "respond dp inc s = (Inr resp, ([], v))" "rs_status resp = rs_status a" "rs_body resp = rs_body a"
      "map_of (rs_headers resp) ''X-Request-ID'' = Some (in_request_id inc)"
      and v: "v = snd (snd (get_remaining (limiter_zset (dp_zset dp)) (rl_requests_per_minute (st_rate_limit (dp_settings dp)))
        (in_time_after inc) (client_key ?rq) (c1, v1\<lparr>srv_system := y\<rparr>)))"
    unfolding respond_def Let_def by blast
  from only_redis_remaining [OF v1] obtain r where "srv_stream v = None" "srv_system v = y\<lparr>sys_redis := r\<rparr>"
    unfolding v by metis
  with resp a show ?thesis by (auto simp: serve_def run_stream_def split: sum.splits exn.splits)
qed

subsection \<open>Witnesses\<close>

definition demo_dispatch :: "(string \<times> string \<times> 's app) list \<Rightarrow> 's app" where
  "demo_dispatch routes rq s = (case route_of routes rq of
     Some endpoint \<Rightarrow> endpoint rq s | None \<Rightarrow> (Inl (HTTPException 404 ''Not Found''), s))"

lemma demo_dispatch_laws: "router_laws demo_dispatch"
  by (simp add: router_laws_def demo_dispatch_def split: option.split)

definition demo_deployment ::
  "(unit, string \<Rightarrow> string list, (string \<times> real list \<times> dict) list, string list list, unit) deployment" where
  "demo_deployment = \<lparr>dp_services = demo_services, dp_settings = demo_config, dp_async = (\<lambda>flags. True \<in> set flags),
     dp_zset = \<lparr>zs_remrangebyscore = (\<lambda>k m s. (Inl (ClientError ''down''), s)), zs_card = (\<lambda>k s. (Inr 0, s)),
       zs_add = (\<lambda>k sc x s. (Inr (), s)), zs_expire = (\<lambda>k n s. (Inr (), s)), zs_random = (\<lambda>s. (Inr 1, s)),
       zs_tostring = (\<lambda>x. []), zs_delete = (\<lambda>k s. (Inr 0, s))\<rparr>,
     dp_redis_ping = returnM (), dp_qdrant_ping = returnM (), dp_security = (\<lambda>h. h), dp_msg = (\<lambda>f. ''bad''),
     dp_starlette = demo_starlette, dp_dispatch = demo_dispatch\<rparr>"

definition demo_incoming :: "string \<Rightarrow> string \<Rightarrow> incoming" where
  "demo_incoming path key = \<lparr>in_request = \<lparr>rq_method = ''POST'', rq_path = path, rq_api_key = Some key, rq_client = None\<rparr>,
     in_malformed = None, in_document = Inr demo_ingest,
     in_search = Inr \<lparr>sq_query = ''hi'', sq_collection_id = None, sq_top_k = 5, sq_filters = None\<rparr>,
     in_chat = Inr \<lparr>ac_message = ''hi'', ac_conversation_id = None, ac_user_id = None, ac_top_k = 5, ac_stream = True\<rparr>,
     in_request_id = ''id'', in_time = 0, in_time_after = 1, in_now = 5, in_fresh = demo_ids, in_uuids = of_nat,
     in_disconnected = (\<lambda>k. False), in_turns = 9\<rparr>"

definition demo_serving :: "(unit, string \<Rightarrow> string list, (string \<times> real list \<times> dict) list, string list list, unit) system serving" where
  "demo_serving = ([], \<lparr>srv_system = demo_system, srv_stream = None\<rparr>)"

lemma demo_deployment_laws:
  "starlette_laws (dp_starlette demo_deployment)" "router_laws (dp_dispatch demo_deployment)" "async_law (dp_async demo_deployment)"
  by (simp_all add: demo_deployment_def demo_starlette_laws demo_dispatch_laws async_law_def)

lemma demo_limiter_allows: "is_allowed (limiter_zset (dp_zset demo_deployment)) rpm now k (c, v) = (Inr True, (c, v))"
  by (simp add: is_allowed_def rate_limit_lua_def limiter_zset_def demo_deployment_def thenM_def bindM_def catchM_def returnM_def
      on_system_def on_redis_def focus_def)

theorem http_requests_store_nothing_witness:
  "stored (srv_system (snd (fold (serve_next demo_deployment)
      [demo_incoming ''/v1/documents'' ''change-me-in-production'', demo_incoming ''/v1/chat'' ''change-me-in-production''] demo_serving))) =
   stored (srv_system (snd demo_serving))"
proof -
  have "srv_stream (snd demo_serving) = None" "system_ok (dp_services demo_deployment) (srv_system (snd demo_serving))"
    by (simp_all add: demo_serving_def demo_deployment_def demo_system_ok)
  from http_requests_store_nothing [OF demo_deployment_laws(1,2) this] show ?thesis by (rule conjunct1)
qed


theorem search_requests_are_answered_witness:
  "\<exists>resp sent v. serve demo_deployment (demo_incoming ''/v1/search'' ''change-me-in-production'') demo_serving = (Inr resp, sent, ([], v)) \<and>
    rs_status resp = 200 \<and> rs_body resp = search_json \<lparr>sp_results = [], sp_total = 0, sp_query_tokens = 2\<rparr>"
proof -
  let ?inc = "demo_incoming ''/v1/search'' ''change-me-in-production''"
  let ?q = "\<lparr>sq_query = ''hi'', sq_collection_id = None, sq_top_k = 5, sq_filters = None\<rparr>"
  have rq: "rq_method (in_request ?inc) = ''POST''" "rq_path (in_request ?inc) = ''/v1/search''"
    and body: "in_malformed ?inc = None" "in_search ?inc = Inr ?q"
    by (simp_all add: demo_incoming_def)
  have key: "dp_security demo_deployment (rq_api_key (in_request ?inc)) = Some (st_api_key (dp_settings demo_deployment))"
    by (simp add: demo_incoming_def demo_deployment_def demo_config_def default_settings_def)
  have valid: "ApiSearchRequest (dp_msg demo_deployment) ?q = Inr ?q" by (simp add: ApiSearchRequest_def schema_check_def)
  obtain y where run: "search_execute (search_documents_provider (dp_services demo_deployment) (dp_settings demo_deployment) (in_uuids ?inc)) ?q
      (srv_system (snd (log_context (in_request_id ?inc) (in_request ?inc), snd demo_serving))) =
      (Inr \<lparr>sp_results = [], sp_total = 0, sp_query_tokens = 2\<rparr>, y)"
    using demo_wired_search by (auto simp: demo_deployment_def demo_incoming_def demo_serving_def)
  show ?thesis
    using search_requests_are_answered [OF demo_deployment_laws rq key body valid demo_limiter_allows _ run]
    by (auto simp: demo_serving_def)
qed

end
