(* ===== verification/Interfaces.thy ===== *)
theory Interfaces
  imports Container
begin

section \<open>Interfaces, implementations and the calls between components\<close>

text \<open>
  The abstract base classes of \<open>src/app/domain/repositories\<close>, \<open>src/app/domain/services\<close> and
  \<open>src/app/infrastructure/llm/base.py\<close>, the classes that implement them, and the calls that the components make
  on what the container injects. A method is its name, what a call of it gives (a value, a
  coroutine to await or an asynchronous generator to iterate over) and its parameters
  after \<open>self\<close>, each with whether it has a default; the pool's query methods also take \<open>*args\<close>. Calls are bound with
  \<^const>\<open>py_bind_call\<close>. The lists of calls are complete for the method calls of \<open>src/app\<close> whose receiver was
  injected into a constructor or returned by the container and is an object of a class of the repository; calls on
  \<open>self\<close>, on attributes of the receiver (the clients of the libraries) and on values that methods return are no
  part of them.
\<close>

subsection \<open>Signatures\<close>

datatype call_kind = Plain | Coro | AsyncGen

record signature =
  sg_kind :: call_kind
  sg_params :: params
  sg_varargs :: bool

definition mk_sig :: "call_kind \<Rightarrow> params \<Rightarrow> signature" where
  "mk_sig k ps = \<lparr>sg_kind = k, sg_params = ps, sg_varargs = False\<rparr>"

definition mk_var_sig :: "call_kind \<Rightarrow> params \<Rightarrow> signature" where
  "mk_var_sig k ps = \<lparr>sg_kind = k, sg_params = ps, sg_varargs = True\<rparr>"

text \<open>Positional arguments beyond the parameters go into \<open>*args\<close>.\<close>

definition bind_signature :: "string \<Rightarrow> signature \<Rightarrow> nat \<Rightarrow> string list \<Rightarrow> call_error option" where
  "bind_signature f sg n kws =
     py_bind_call f (sg_params sg) (if sg_varargs sg then min n (length (sg_params sg)) else n) kws"

type_synonym methods = "(string \<times> signature) list"

subsection \<open>The interfaces\<close>

text \<open>
  \<open>stream\<close> of \<open>ChatProvider\<close> is an \<open>async def\<close> without \<open>yield\<close>, so by its declaration a call gives a coroutine.
\<close>

definition ChatHistoryRepository :: methods where
  "ChatHistoryRepository =
     [(''save_message'', mk_sig Coro [(''user_id'', False), (''message'', False)]),
      (''get_history'', mk_sig Coro [(''user_id'', False), (''limit'', True)]),
      (''clear_history'', mk_sig Coro [(''user_id'', False)])]"

definition ChunkRepository :: methods where
  "ChunkRepository =
     [(''get_by_id'', mk_sig Coro [(''chunk_id'', False)]),
      (''get_by_document'', mk_sig Coro [(''document_id'', False)]),
      (''save_many'', mk_sig Coro [(''chunks'', False)]),
      (''delete_by_document'', mk_sig Coro [(''document_id'', False)]),
      (''count_by_document'', mk_sig Coro [(''document_id'', False)])]"

definition DocumentRepository :: methods where
  "DocumentRepository =
     [(''get_by_id'', mk_sig Coro [(''document_id'', False)]),
      (''get_by_collection'', mk_sig Coro [(''collection_id'', False), (''pagination'', False)]),
      (''save'', mk_sig Coro [(''document'', False)]),
      (''update'', mk_sig Coro [(''document'', False)]),
      (''delete'', mk_sig Coro [(''document_id'', False)]),
      (''count_by_collection'', mk_sig Coro [(''collection_id'', False)])]"

definition TenantRepository :: methods where
  "TenantRepository =
     [(''get_by_id'', mk_sig Coro [(''tenant_id'', False)]),
      (''get_by_api_key_hash'', mk_sig Coro [(''api_key_hash'', False)]),
      (''save'', mk_sig Coro [(''tenant'', False)]),
      (''update'', mk_sig Coro [(''tenant'', False)]),
      (''delete'', mk_sig Coro [(''tenant_id'', False)])]"

definition VectorRepository :: methods where
  "VectorRepository =
     [(''upsert'', mk_sig Coro [(''chunk_id'', False), (''embedding'', False), (''metadata'', False)]),
      (''upsert_many'', mk_sig Coro [(''entries'', False)]),
      (''search'', mk_sig Coro [(''query_embedding'', False), (''top_k'', True), (''filters'', True)]),
      (''delete'', mk_sig Coro [(''chunk_id'', False)]),
      (''delete_by_document'', mk_sig Coro [(''document_id'', False)]),
      (''ensure_collection'', mk_sig Coro [(''collection_name'', False), (''vector_size'', False)])]"

definition ChunkingStrategy :: methods where
  "ChunkingStrategy =
     [(''chunk'', mk_sig Plain [(''content'', False), (''chunk_size'', False), (''chunk_overlap'', False)])]"

definition TokenService :: methods where
  "TokenService =
     [(''count_tokens'', mk_sig Plain [(''text'', False), (''model'', False)]),
      (''estimate_cost'', mk_sig Plain [(''prompt_tokens'', False), (''completion_tokens'', False), (''model'', False)]),
      (''truncate_to_token_limit'', mk_sig Plain [(''text'', False), (''max_tokens'', False), (''model'', False)])]"

definition EmbeddingProvider :: methods where
  "EmbeddingProvider =
     [(''embed'', mk_sig Coro [(''text'', False)]),
      (''embed_batch'', mk_sig Coro [(''texts'', False)])]"

definition ChatProvider :: methods where
  "ChatProvider =
     [(''complete'', mk_sig Coro [(''messages'', False)]),
      (''stream'', mk_sig Coro [(''messages'', False)])]"

subsection \<open>The implementing classes\<close>

definition SimpleChunkingStrategy_methods :: methods where
  "SimpleChunkingStrategy_methods =
     [(''chunk'', mk_sig Plain [(''content'', False), (''chunk_size'', False), (''chunk_overlap'', False)])]"

definition TokenAwareChunkingStrategy_methods :: methods where
  "TokenAwareChunkingStrategy_methods =
     [(''chunk'', mk_sig Plain [(''content'', False), (''chunk_size'', False), (''chunk_overlap'', False)])]"

definition TiktokenService_methods :: methods where
  "TiktokenService_methods =
     [(''count_tokens'', mk_sig Plain [(''text'', False), (''model'', False)]),
      (''estimate_cost'', mk_sig Plain [(''prompt_tokens'', False), (''completion_tokens'', False), (''model'', False)]),
      (''truncate_to_token_limit'', mk_sig Plain [(''text'', False), (''max_tokens'', False), (''model'', False)])]"

definition InMemoryChunkRepository_methods :: methods where
  "InMemoryChunkRepository_methods =
     [(''get_by_id'', mk_sig Coro [(''chunk_id'', False)]),
      (''get_by_document'', mk_sig Coro [(''document_id'', False)]),
      (''save_many'', mk_sig Coro [(''chunks'', False)]),
      (''delete_by_document'', mk_sig Coro [(''document_id'', False)]),
      (''count_by_document'', mk_sig Coro [(''document_id'', False)])]"

definition InMemoryDocumentRepository_methods :: methods where
  "InMemoryDocumentRepository_methods =
     [(''get_by_id'', mk_sig Coro [(''document_id'', False)]),
      (''get_by_collection'', mk_sig Coro [(''collection_id'', False), (''pagination'', False)]),
      (''save'', mk_sig Coro [(''document'', False)]),
      (''update'', mk_sig Coro [(''document'', False)]),
      (''delete'', mk_sig Coro [(''document_id'', False)]),
      (''count_by_collection'', mk_sig Coro [(''collection_id'', False)])]"

definition PostgresDocumentRepository_methods :: methods where
  "PostgresDocumentRepository_methods =
     [(''get_by_id'', mk_sig Coro [(''document_id'', False)]),
      (''get_by_id_for_tenant'', mk_sig Coro [(''document_id'', False), (''tenant_id'', False)]),
      (''get_by_collection'', mk_sig Coro [(''collection_id'', False), (''pagination'', False)]),
      (''find_duplicate'', mk_sig Coro [(''tenant_id'', False), (''content'', False)]),
      (''save'', mk_sig Coro [(''document'', False)]),
      (''update'', mk_sig Coro [(''document'', False)]),
      (''delete'', mk_sig Coro [(''document_id'', False)]),
      (''count_by_collection'', mk_sig Coro [(''collection_id'', False)])]"

definition PostgresTenantRepository_methods :: methods where
  "PostgresTenantRepository_methods =
     [(''get_by_id'', mk_sig Coro [(''tenant_id'', False)]),
      (''get_by_api_key_hash'', mk_sig Coro [(''api_key_hash'', False)]),
      (''save'', mk_sig Coro [(''tenant'', False)]),
      (''update'', mk_sig Coro [(''tenant'', False)]),
      (''delete'', mk_sig Coro [(''tenant_id'', False)])]"

definition RedisChatHistoryRepository_methods :: methods where
  "RedisChatHistoryRepository_methods =
     [(''save_message'', mk_sig Coro [(''user_id'', False), (''message'', False)]),
      (''get_history'', mk_sig Coro [(''user_id'', False), (''limit'', True)]),
      (''clear_history'', mk_sig Coro [(''user_id'', False)])]"

definition QdrantVectorRepository_methods :: methods where
  "QdrantVectorRepository_methods =
     [(''upsert'', mk_sig Coro [(''chunk_id'', False), (''embedding'', False), (''metadata'', False)]),
      (''upsert_many'', mk_sig Coro [(''entries'', False)]),
      (''search'', mk_sig Coro [(''query_embedding'', False), (''top_k'', True), (''filters'', True), (''tenant_id'', True)]),
      (''delete'', mk_sig Coro [(''chunk_id'', False)]),
      (''delete_by_document'', mk_sig Coro [(''document_id'', False)]),
      (''ensure_collection'', mk_sig Coro [(''collection_name'', False), (''vector_size'', False)]),
      (''close'', mk_sig Coro [])]"

definition OpenAIEmbeddingService_methods :: methods where
  "OpenAIEmbeddingService_methods =
     [(''embed'', mk_sig Coro [(''text'', False)]),
      (''embed_batch'', mk_sig Coro [(''texts'', False)])]"

definition OpenAIChatService_methods :: methods where
  "OpenAIChatService_methods =
     [(''complete'', mk_sig Coro [(''messages'', False)]),
      (''stream'', mk_sig AsyncGen [(''messages'', False)])]"

subsection \<open>Other components\<close>

definition ContextService_methods :: methods where
  "ContextService_methods =
     [(''build_context'', mk_sig Plain [(''search_results'', False), (''model'', True)])]"

definition PromptService_methods :: methods where
  "PromptService_methods =
     [(''build_system_prompt'', mk_sig Plain []),
      (''build_rag_prompt'', mk_sig Plain [(''query'', False), (''context'', False), (''history'', True)])]"

definition IngestDocumentUseCase_methods :: methods where
  "IngestDocumentUseCase_methods =
     [(''execute'', mk_sig Coro [(''request'', False), (''tenant_id'', False)])]"

definition ProcessDocumentUseCase_methods :: methods where
  "ProcessDocumentUseCase_methods =
     [(''execute'', mk_sig Coro [(''document_id'', False), (''job'', False)])]"

definition SearchDocumentsUseCase_methods :: methods where
  "SearchDocumentsUseCase_methods =
     [(''execute'', mk_sig Coro [(''request'', False)])]"

definition RAGChatUseCase_methods :: methods where
  "RAGChatUseCase_methods =
     [(''execute'', mk_sig Coro [(''request'', False)]),
      (''stream'', mk_sig AsyncGen [(''request'', False)])]"

definition RedisRateLimiter_methods :: methods where
  "RedisRateLimiter_methods =
     [(''is_allowed'', mk_sig Coro [(''key'', False)]),
      (''get_remaining'', mk_sig Coro [(''key'', False)]),
      (''reset'', mk_sig Coro [(''key'', False)])]"

definition RedisCache_methods :: methods where
  "RedisCache_methods =
     [(''get'', mk_sig Coro [(''key'', False)]),
      (''set'', mk_sig Coro [(''key'', False), (''value'', False), (''ttl_seconds'', True)]),
      (''delete'', mk_sig Coro [(''key'', False)]),
      (''get_json'', mk_sig Coro [(''key'', False)]),
      (''set_json'', mk_sig Coro [(''key'', False), (''value'', False), (''ttl_seconds'', True)]),
      (''get_embedding'', mk_sig Coro [(''text'', False), (''model'', False)]),
      (''set_embedding'', mk_sig Coro [(''text'', False), (''model'', False), (''embedding'', False), (''ttl'', True)]),
      (''close'', mk_sig Coro [])]"

definition PostgresPool_methods :: methods where
  "PostgresPool_methods =
     [(''connect'', mk_sig Coro []),
      (''close'', mk_sig Coro []),
      (''execute'', mk_var_sig Coro [(''query'', False)]),
      (''fetch'', mk_var_sig Coro [(''query'', False)]),
      (''fetchrow'', mk_var_sig Coro [(''query'', False)]),
      (''fetchval'', mk_var_sig Coro [(''query'', False)])]"

subsection \<open>Tables\<close>

definition abstract_classes :: "(string \<times> methods) list" where
  "abstract_classes =
     [(''ChatHistoryRepository'', ChatHistoryRepository),
      (''ChunkRepository'', ChunkRepository),
      (''DocumentRepository'', DocumentRepository),
      (''TenantRepository'', TenantRepository),
      (''VectorRepository'', VectorRepository),
      (''ChunkingStrategy'', ChunkingStrategy),
      (''TokenService'', TokenService),
      (''EmbeddingProvider'', EmbeddingProvider),
      (''ChatProvider'', ChatProvider)]"

definition concrete_classes :: "(string \<times> methods) list" where
  "concrete_classes =
     [(''SimpleChunkingStrategy'', SimpleChunkingStrategy_methods),
      (''TokenAwareChunkingStrategy'', TokenAwareChunkingStrategy_methods),
      (''TiktokenService'', TiktokenService_methods),
      (''InMemoryChunkRepository'', InMemoryChunkRepository_methods),
      (''InMemoryDocumentRepository'', InMemoryDocumentRepository_methods),
      (''PostgresDocumentRepository'', PostgresDocumentRepository_methods),
      (''PostgresTenantRepository'', PostgresTenantRepository_methods),
      (''RedisChatHistoryRepository'', RedisChatHistoryRepository_methods),
      (''QdrantVectorRepository'', QdrantVectorRepository_methods),
      (''OpenAIEmbeddingService'', OpenAIEmbeddingService_methods),
      (''OpenAIChatService'', OpenAIChatService_methods),
      (''ContextService'', ContextService_methods),
      (''PromptService'', PromptService_methods),
      (''IngestDocumentUseCase'', IngestDocumentUseCase_methods),
      (''ProcessDocumentUseCase'', ProcessDocumentUseCase_methods),
      (''SearchDocumentsUseCase'', SearchDocumentsUseCase_methods),
      (''RAGChatUseCase'', RAGChatUseCase_methods),
      (''RedisRateLimiter'', RedisRateLimiter_methods),
      (''RedisCache'', RedisCache_methods),
      (''PostgresPool'', PostgresPool_methods)]"

text \<open>The base class in the header of each implementing class.\<close>

definition implementations :: "(string \<times> string) list" where
  "implementations =
     [(''SimpleChunkingStrategy'', ''ChunkingStrategy''),
      (''TokenAwareChunkingStrategy'', ''ChunkingStrategy''),
      (''TiktokenService'', ''TokenService''),
      (''InMemoryChunkRepository'', ''ChunkRepository''),
      (''InMemoryDocumentRepository'', ''DocumentRepository''),
      (''PostgresDocumentRepository'', ''DocumentRepository''),
      (''PostgresTenantRepository'', ''TenantRepository''),
      (''RedisChatHistoryRepository'', ''ChatHistoryRepository''),
      (''QdrantVectorRepository'', ''VectorRepository''),
      (''OpenAIEmbeddingService'', ''EmbeddingProvider''),
      (''OpenAIChatService'', ''ChatProvider'')]"

text \<open>The interfaces named by the annotations of the constructors.\<close>

definition ContextService_interfaces :: "(string \<times> string) list" where
  "ContextService_interfaces =
     [(''token_service'', ''TokenService'')]"

definition IngestDocumentUseCase_interfaces :: "(string \<times> string) list" where
  "IngestDocumentUseCase_interfaces =
     [(''document_repository'', ''DocumentRepository'')]"

definition ProcessDocumentUseCase_interfaces :: "(string \<times> string) list" where
  "ProcessDocumentUseCase_interfaces =
     [(''document_repository'', ''DocumentRepository''), (''chunk_repository'', ''ChunkRepository''),
      (''vector_repository'', ''VectorRepository''), (''embedding_provider'', ''EmbeddingProvider''),
      (''chunking_strategy'', ''ChunkingStrategy''), (''token_service'', ''TokenService'')]"

definition SearchDocumentsUseCase_interfaces :: "(string \<times> string) list" where
  "SearchDocumentsUseCase_interfaces =
     [(''embedding_provider'', ''EmbeddingProvider''), (''vector_repository'', ''VectorRepository''),
      (''token_service'', ''TokenService'')]"

definition RAGChatUseCase_interfaces :: "(string \<times> string) list" where
  "RAGChatUseCase_interfaces =
     [(''chat_provider'', ''ChatProvider''), (''chat_history_repository'', ''ChatHistoryRepository''),
      (''token_service'', ''TokenService'')]"

definition declared_interfaces :: "(string \<times> (string \<times> string) list) list" where
  "declared_interfaces =
     [(''ContextService'', ContextService_interfaces),
      (''IngestDocumentUseCase'', IngestDocumentUseCase_interfaces),
      (''ProcessDocumentUseCase'', ProcessDocumentUseCase_interfaces),
      (''SearchDocumentsUseCase'', SearchDocumentsUseCase_interfaces),
      (''RAGChatUseCase'', RAGChatUseCase_interfaces)]"

subsection \<open>Calls\<close>

text \<open>
  A call is made on what is injected for a parameter of a class, or on what \<open>container.<name>()\<close> returned;
  \<open>cs_use\<close> is what the caller does with the result.
\<close>

datatype receiver = Injected string string | Got string

record call_site =
  cs_receiver :: receiver
  cs_method :: string
  cs_positional :: nat
  cs_keywords :: "string list"
  cs_use :: call_kind

definition site :: "receiver \<Rightarrow> string \<Rightarrow> nat \<Rightarrow> string list \<Rightarrow> call_kind \<Rightarrow> call_site" where
  "site r m n kws u = \<lparr>cs_receiver = r, cs_method = m, cs_positional = n, cs_keywords = kws, cs_use = u\<rparr>"

definition rate_limit_calls :: "call_site list" where
  "rate_limit_calls =
     [site (Got ''rate_limiter'') ''is_allowed'' 1 [] Coro,
      site (Got ''rate_limiter'') ''get_remaining'' 1 [] Coro]"

definition chat_calls :: "call_site list" where
  "chat_calls =
     [site (Got ''rag_chat'') ''execute'' 1 [] Coro,
      site (Got ''rag_chat'') ''stream'' 1 [] AsyncGen]"

definition documents_calls :: "call_site list" where
  "documents_calls =
     [site (Got ''ingest_document'') ''execute'' 1 [] Coro]"

definition search_calls :: "call_site list" where
  "search_calls =
     [site (Got ''search_documents'') ''execute'' 1 [] Coro]"

definition ContextService_calls :: "call_site list" where
  "ContextService_calls =
     [site (Injected ''ContextService'' ''token_service'') ''count_tokens'' 2 [] Plain]"

definition IngestDocumentUseCase_calls :: "call_site list" where
  "IngestDocumentUseCase_calls =
     [site (Injected ''IngestDocumentUseCase'' ''document_repository'') ''find_duplicate'' 2 [] Coro,
      site (Injected ''IngestDocumentUseCase'' ''document_repository'') ''save'' 1 [] Coro,
      site (Injected ''IngestDocumentUseCase'' ''document_repository'') ''update'' 1 [] Coro]"

definition ProcessDocumentUseCase_calls :: "call_site list" where
  "ProcessDocumentUseCase_calls =
     [site (Injected ''ProcessDocumentUseCase'' ''document_repository'') ''get_by_id'' 1 [] Coro,
      site (Injected ''ProcessDocumentUseCase'' ''document_repository'') ''update'' 1 [] Coro,
      site (Injected ''ProcessDocumentUseCase'' ''chunking_strategy'') ''chunk'' 0 [''content'', ''chunk_size'', ''chunk_overlap''] Plain,
      site (Injected ''ProcessDocumentUseCase'' ''token_service'') ''count_tokens'' 2 [] Plain,
      site (Injected ''ProcessDocumentUseCase'' ''chunk_repository'') ''save_many'' 1 [] Coro,
      site (Injected ''ProcessDocumentUseCase'' ''embedding_provider'') ''embed_batch'' 1 [] Coro,
      site (Injected ''ProcessDocumentUseCase'' ''vector_repository'') ''upsert_many'' 1 [] Coro,
      site (Injected ''ProcessDocumentUseCase'' ''document_repository'') ''update'' 1 [] Coro,
      site (Injected ''ProcessDocumentUseCase'' ''document_repository'') ''get_by_id'' 1 [] Coro,
      site (Injected ''ProcessDocumentUseCase'' ''document_repository'') ''update'' 1 [] Coro]"

definition RAGChatUseCase_calls :: "call_site list" where
  "RAGChatUseCase_calls =
     [site (Injected ''RAGChatUseCase'' ''search_use_case'') ''execute'' 1 [] Coro,
      site (Injected ''RAGChatUseCase'' ''context_service'') ''build_context'' 1 [] Plain,
      site (Injected ''RAGChatUseCase'' ''chat_history_repository'') ''get_history'' 1 [''limit''] Coro,
      site (Injected ''RAGChatUseCase'' ''prompt_service'') ''build_rag_prompt'' 0 [''query'', ''context'', ''history''] Plain,
      site (Injected ''RAGChatUseCase'' ''chat_provider'') ''complete'' 1 [] Coro,
      site (Injected ''RAGChatUseCase'' ''chat_history_repository'') ''save_message'' 2 [] Coro,
      site (Injected ''RAGChatUseCase'' ''chat_history_repository'') ''save_message'' 2 [] Coro,
      site (Injected ''RAGChatUseCase'' ''search_use_case'') ''execute'' 1 [] Coro,
      site (Injected ''RAGChatUseCase'' ''context_service'') ''build_context'' 1 [] Plain,
      site (Injected ''RAGChatUseCase'' ''chat_history_repository'') ''get_history'' 1 [''limit''] Coro,
      site (Injected ''RAGChatUseCase'' ''prompt_service'') ''build_rag_prompt'' 0 [''query'', ''context'', ''history''] Plain,
      site (Injected ''RAGChatUseCase'' ''chat_provider'') ''stream'' 1 [] AsyncGen,
      site (Injected ''RAGChatUseCase'' ''token_service'') ''count_tokens'' 2 [] Plain,
      site (Injected ''RAGChatUseCase'' ''token_service'') ''count_tokens'' 2 [] Plain,
      site (Injected ''RAGChatUseCase'' ''chat_history_repository'') ''save_message'' 2 [] Coro,
      site (Injected ''RAGChatUseCase'' ''chat_history_repository'') ''save_message'' 2 [] Coro]"

definition SearchDocumentsUseCase_calls :: "call_site list" where
  "SearchDocumentsUseCase_calls =
     [site (Injected ''SearchDocumentsUseCase'' ''token_service'') ''count_tokens'' 2 [] Plain,
      site (Injected ''SearchDocumentsUseCase'' ''embedding_provider'') ''embed'' 1 [] Coro,
      site (Injected ''SearchDocumentsUseCase'' ''vector_repository'') ''search'' 0 [''query_embedding'', ''top_k'', ''filters''] Coro]"

definition RedisRateLimiter_calls :: "call_site list" where
  "RedisRateLimiter_calls =
     [site (Injected ''RedisRateLimiter'' ''redis_cache'') ''delete'' 1 [] Coro]"

definition OpenAIEmbeddingService_calls :: "call_site list" where
  "OpenAIEmbeddingService_calls =
     [site (Injected ''OpenAIEmbeddingService'' ''cache'') ''get_embedding'' 2 [] Coro,
      site (Injected ''OpenAIEmbeddingService'' ''cache'') ''set_embedding'' 3 [] Coro]"

definition PostgresDocumentRepository_calls :: "call_site list" where
  "PostgresDocumentRepository_calls =
     [site (Injected ''PostgresDocumentRepository'' ''pool'') ''fetchrow'' 2 [] Coro,
      site (Injected ''PostgresDocumentRepository'' ''pool'') ''fetchrow'' 3 [] Coro,
      site (Injected ''PostgresDocumentRepository'' ''pool'') ''fetch'' 4 [] Coro,
      site (Injected ''PostgresDocumentRepository'' ''pool'') ''fetchrow'' 3 [] Coro,
      site (Injected ''PostgresDocumentRepository'' ''pool'') ''execute'' 15 [] Coro,
      site (Injected ''PostgresDocumentRepository'' ''pool'') ''execute'' 7 [] Coro,
      site (Injected ''PostgresDocumentRepository'' ''pool'') ''execute'' 2 [] Coro,
      site (Injected ''PostgresDocumentRepository'' ''pool'') ''fetchval'' 2 [] Coro]"

definition PostgresTenantRepository_calls :: "call_site list" where
  "PostgresTenantRepository_calls =
     [site (Injected ''PostgresTenantRepository'' ''pool'') ''fetchrow'' 2 [] Coro,
      site (Injected ''PostgresTenantRepository'' ''cache'') ''get_json'' 1 [] Coro,
      site (Injected ''PostgresTenantRepository'' ''pool'') ''fetchrow'' 2 [] Coro,
      site (Injected ''PostgresTenantRepository'' ''cache'') ''set_json'' 2 [''ttl_seconds''] Coro,
      site (Injected ''PostgresTenantRepository'' ''pool'') ''execute'' 11 [] Coro,
      site (Injected ''PostgresTenantRepository'' ''pool'') ''execute'' 7 [] Coro,
      site (Injected ''PostgresTenantRepository'' ''cache'') ''delete'' 1 [] Coro,
      site (Injected ''PostgresTenantRepository'' ''pool'') ''execute'' 2 [] Coro]"

definition arq_worker_calls :: "call_site list" where
  "arq_worker_calls =
     [site (Got ''process_document'') ''execute'' 2 [''tenant_id''] Coro,
      site (Got ''postgres_pool'') ''connect'' 0 [] Coro,
      site (Got ''postgres_pool'') ''close'' 0 [] Coro,
      site (Got ''redis_cache'') ''close'' 0 [] Coro,
      site (Got ''vector_repository'') ''close'' 0 [] Coro]"

definition RedisChatHistoryRepository_calls :: "call_site list" where
  "RedisChatHistoryRepository_calls =
     [site (Injected ''RedisChatHistoryRepository'' ''redis_cache'') ''delete'' 1 [] Coro]"

definition lifespan_calls :: "call_site list" where
  "lifespan_calls =
     [site (Got ''postgres_pool'') ''connect'' 0 [] Coro,
      site (Got ''vector_repository'') ''ensure_collection'' 0 [''collection_name'', ''vector_size''] Coro,
      site (Got ''postgres_pool'') ''close'' 0 [] Coro,
      site (Got ''redis_cache'') ''close'' 0 [] Coro,
      site (Got ''vector_repository'') ''close'' 0 [] Coro,
      site (Got ''arq_pool'') ''aclose'' 0 [] Coro]"

definition health_calls :: "call_site list" where
  "health_calls =
     [site (Got ''postgres_pool'') ''fetchval'' 1 [] Coro]"

definition call_sites :: "call_site list" where
  "call_sites = rate_limit_calls @ chat_calls @ documents_calls @
     search_calls @ ContextService_calls @ IngestDocumentUseCase_calls @
     ProcessDocumentUseCase_calls @ RAGChatUseCase_calls @ SearchDocumentsUseCase_calls @
     RedisRateLimiter_calls @ OpenAIEmbeddingService_calls @ PostgresDocumentRepository_calls @
     PostgresTenantRepository_calls @ arq_worker_calls @ RedisChatHistoryRepository_calls @
     lifespan_calls @ health_calls"

subsection \<open>Construction of exceptions\<close>

text \<open>
  The constructors of the domain exceptions, the calls of \<open>super().__init__\<close> in them, each with the class it
  reaches, and the exceptions that the two services of \<open>src/app/infrastructure/llm\<close> build, the only ones of \<open>src/app\<close>
  that build any: class, number of positional arguments, keywords. \<open>DomainException\<close> itself calls the language's
  \<open>Exception\<close>, which takes any positional arguments.
\<close>

definition base_exception_inits :: "(string \<times> params) list" where
  "base_exception_inits =
     [(''DomainException'', [(''message'', False), (''code'', True)]),
      (''EntityNotFoundException'', [(''entity_type'', False), (''entity_id'', False)]),
      (''ValidationException'', [(''field'', False), (''detail'', False)]),
      (''BusinessRuleViolation'', [(''rule'', False)])]"

definition base_super_calls :: "(string \<times> nat \<times> string list) list" where
  "base_super_calls =
     [(''DomainException'', 0, [''message'', ''code'']),
      (''DomainException'', 0, [''message'', ''code'']),
      (''DomainException'', 0, [''message'', ''code''])]"

definition document_exception_inits :: "(string \<times> params) list" where
  "document_exception_inits =
     [(''DocumentNotFoundException'', [(''document_id'', False)]),
      (''DocumentAlreadyExistsException'', [(''document_id'', False)]),
      (''InvalidDocumentContentException'', [(''detail'', False)]),
      (''ChunkingException'', [(''document_id'', False), (''detail'', False)])]"

definition document_super_calls :: "(string \<times> nat \<times> string list) list" where
  "document_super_calls =
     [(''EntityNotFoundException'', 0, [''entity_type'', ''entity_id'']),
      (''DomainException'', 0, [''message'', ''code'']),
      (''ValidationException'', 0, [''field'', ''detail'']),
      (''DomainException'', 0, [''message'', ''code''])]"

definition llm_exception_inits :: "(string \<times> params) list" where
  "llm_exception_inits =
     [(''LLMException'', [(''message'', False), (''code'', True)]),
      (''LLMConnectionException'', [(''detail'', False)]),
      (''LLMRateLimitException'', [(''retry_after'', True)]),
      (''TokenLimitExceededException'', [(''token_count'', False), (''max_tokens'', False)]),
      (''EmbeddingException'', [(''detail'', False)])]"

definition llm_super_calls :: "(string \<times> nat \<times> string list) list" where
  "llm_super_calls =
     [(''DomainException'', 0, [''message'', ''code'']),
      (''LLMException'', 0, [''message'', ''code'']),
      (''LLMException'', 0, [''message'', ''code'']),
      (''LLMException'', 0, [''message'', ''code'']),
      (''LLMException'', 0, [''message'', ''code''])]"

definition search_exception_inits :: "(string \<times> params) list" where
  "search_exception_inits =
     [(''SearchException'', [(''message'', False)]),
      (''EmptyQueryException'', []),
      (''CollectionNotFoundException'', [(''collection_id'', False)])]"

definition search_super_calls :: "(string \<times> nat \<times> string list) list" where
  "search_super_calls =
     [(''DomainException'', 0, [''message'', ''code'']),
      (''ValidationException'', 0, [''field'', ''detail'']),
      (''EntityNotFoundException'', 0, [''entity_type'', ''entity_id''])]"

definition chat_errors_raised :: "(string \<times> nat \<times> string list) list" where
  "chat_errors_raised =
     [(''LLMRateLimitException'', 0, [''provider'', ''retry_after'']),
      (''LLMConnectionException'', 0, [''detail'']),
      (''TokenLimitExceededException'', 0, [''token_count'', ''max_tokens'']),
      (''LLMException'', 0, [''message'']),
      (''LLMException'', 0, [''message'']),
      (''LLMRateLimitException'', 0, [''provider'', ''retry_after'']),
      (''LLMConnectionException'', 0, [''detail'']),
      (''LLMException'', 0, [''message'']),
      (''LLMException'', 0, [''message''])]"

definition embedding_errors_raised :: "(string \<times> nat \<times> string list) list" where
  "embedding_errors_raised =
     [(''LLMRateLimitException'', 0, [''provider'', ''retry_after'']),
      (''LLMConnectionException'', 0, [''detail'']),
      (''EmbeddingException'', 0, [''detail''])]"

definition exception_inits :: "(string \<times> params) list" where
  "exception_inits = base_exception_inits @ document_exception_inits @ llm_exception_inits @ search_exception_inits"

definition constructions :: "(string \<times> nat \<times> string list) list" where
  "constructions = base_super_calls @ document_super_calls @ llm_super_calls @ search_super_calls @
     chat_errors_raised @ embedding_errors_raised"

subsection \<open>Typing calls\<close>

text \<open>
  What an injected receiver is, by the container's graph, which awaits an awaitable before injecting it; the tenant
  repository is not in the container, its receivers are what the annotations of its constructor say.
\<close>

definition PostgresTenantRepository_annotations :: "(string \<times> string) list" where
  "PostgresTenantRepository_annotations = [(''pool'', ''PostgresPool''), (''cache'', ''RedisCache'')]"

definition provided_class :: "string \<Rightarrow> string option" where
  "provided_class n = map_option pv_calls (map_of Container n)"

definition injected_class :: "string \<Rightarrow> string \<Rightarrow> string option" where
  "injected_class c p = (if c = ''PostgresTenantRepository'' then map_of PostgresTenantRepository_annotations p
     else case find (\<lambda>(n, pv). pv_calls pv = c) Container of
         None \<Rightarrow> None
       | Some (n, pv) \<Rightarrow> (case map_of (pv_inject pv) p of Some (Provided m) \<Rightarrow> provided_class m | _ \<Rightarrow> None))"

text \<open>
  The methods of a receiver. A provider call that gives an awaitable gives no object of the class: with the handles
  \<open>hs\<close> of the container, a receiver taken from it that is an awaitable only has the method of awaitables.
\<close>

definition awaitable_methods :: methods where
  "awaitable_methods = [(''__await__'', mk_sig Plain [])]"

definition receiver_methods :: "(string \<times> handle) list \<Rightarrow> receiver \<Rightarrow> methods" where
  "receiver_methods hs r = (let class_methods = (\<lambda>c. case map_of concrete_classes c of None \<Rightarrow> [] | Some ms \<Rightarrow> ms) in
     case r of
       Got n \<Rightarrow> (case map_of hs n of
           Some Instance \<Rightarrow> (case provided_class n of None \<Rightarrow> [] | Some c \<Rightarrow> class_methods c)
         | Some Awaitable \<Rightarrow> awaitable_methods
         | None \<Rightarrow> [])
     | Injected c p \<Rightarrow> (case injected_class c p of None \<Rightarrow> [] | Some c' \<Rightarrow> class_methods c'))"

text \<open>The interface that the constructor's annotation promises for an injected receiver.\<close>

definition receiver_interface :: "receiver \<Rightarrow> string option" where
  "receiver_interface r = (case r of
       Got n \<Rightarrow> None
     | Injected c p \<Rightarrow> (case map_of declared_interfaces c of None \<Rightarrow> None | Some ps \<Rightarrow> map_of ps p))"

text \<open>What is wrong with a call: no such method, arguments that do not bind, a result used as something else.\<close>

datatype call_fault = NoMethod | BadArguments call_error | WrongUse call_kind

definition call_fault_of :: "methods \<Rightarrow> call_site \<Rightarrow> call_fault option" where
  "call_fault_of ms cs = (case map_of ms (cs_method cs) of
       None \<Rightarrow> Some NoMethod
     | Some sg \<Rightarrow> (case bind_signature (cs_method cs) sg (cs_positional cs) (cs_keywords cs) of
           Some e \<Rightarrow> Some (BadArguments e)
         | None \<Rightarrow> if sg_kind sg \<noteq> cs_use cs then Some (WrongUse (sg_kind sg)) else None))"

definition class_fault :: "(string \<times> handle) list \<Rightarrow> call_site \<Rightarrow> call_fault option" where
  "class_fault hs cs = call_fault_of (receiver_methods hs (cs_receiver cs)) cs"

definition interface_fault :: "call_site \<Rightarrow> call_fault option" where
  "interface_fault cs = (case receiver_interface (cs_receiver cs) of
       None \<Rightarrow> None
     | Some i \<Rightarrow> (case map_of abstract_classes i of None \<Rightarrow> Some NoMethod | Some ms \<Rightarrow> call_fault_of ms cs))"

definition faults :: "(call_site \<Rightarrow> call_fault option) \<Rightarrow> (string \<times> call_fault) list" where
  "faults f = List.map_filter (\<lambda>cs. map_option (Pair (cs_method cs)) (f cs)) call_sites"

definition construction_faults :: "call_fault list" where
  "construction_faults = List.map_filter (\<lambda>(c, n, kws). case map_of exception_inits c of
       None \<Rightarrow> Some NoMethod | Some ps \<Rightarrow> map_option BadArguments (py_bind_call c ps n kws)) constructions"

subsection \<open>Widening\<close>

text \<open>
  A signature is wider than another if it has its parameters at the same places under the same names, keeps
  their defaults, and gives every further parameter a default.
\<close>

definition widens :: "params \<Rightarrow> params \<Rightarrow> bool" where
  "widens ps qs \<longleftrightarrow> length ps \<le> length qs \<and>
     list_all2 (\<lambda>(n, d) (m, e). n = m \<and> (d \<longrightarrow> e)) ps (take (length ps) qs) \<and> list_all snd (drop (length ps) qs)"

definition conforms :: "methods \<Rightarrow> methods \<Rightarrow> bool" where
  "conforms abs_ms ms \<longleftrightarrow> list_all (\<lambda>(m, sg). case map_of ms m of
     None \<Rightarrow> False | Some sg' \<Rightarrow> widens (sg_params sg) (sg_params sg')) abs_ms"

definition implementation_ok :: "string \<times> string \<Rightarrow> bool" where
  "implementation_ok = (\<lambda>(c, i). case (map_of concrete_classes c, map_of abstract_classes i) of
     (Some ms, Some abs_ms) \<Rightarrow> conforms abs_ms ms | _ \<Rightarrow> False)"

lemma bind_call_None_iff:
  "py_bind_call f ps n kws = None \<longleftrightarrow> set kws \<subseteq> set (map fst ps) \<and> set kws \<inter> set (take n (map fst ps)) = {} \<and>
     n \<le> length ps \<and> (\<forall>(p, dflt) \<in> set (drop n ps). dflt \<or> p \<in> set kws)"
  by (auto simp: py_bind_call_def Let_def filter_empty_conv not_le)

lemma widens_split:
  assumes "widens ps qs"
  obtains qs1 qs2 where "qs = qs1 @ qs2" "list_all2 (\<lambda>(n, d) (m, e). n = m \<and> (d \<longrightarrow> e)) ps qs1" "\<forall>q \<in> set qs2. snd q"
proof
  show "qs = take (length ps) qs @ drop (length ps) qs" by simp
qed (use assms in \<open>simp_all add: widens_def list_all_iff\<close>)

lemma widened_names: "list_all2 (\<lambda>(n, d) (m, e). n = m \<and> (d \<longrightarrow> e)) ps qs \<Longrightarrow> map fst qs = map fst ps"
  by (induction rule: list_all2_induct) auto

lemma widened_required:
  assumes "list_all2 (\<lambda>(n, d) (m, e). n = m \<and> (d \<longrightarrow> e)) ps qs" "\<forall>(p, dflt) \<in> set ps. dflt \<or> p \<in> K"
  shows "\<forall>(p, dflt) \<in> set qs. dflt \<or> p \<in> K"
  using assms by (induction rule: list_all2_induct) auto

lemma widens_binds:
  assumes "widens ps qs" "py_bind_call f ps n kws = None"
  shows "py_bind_call g qs n kws = None"
proof -
  obtain qs1 qs2 where qs: "qs = qs1 @ qs2" and w: "list_all2 (\<lambda>(n, d) (m, e). n = m \<and> (d \<longrightarrow> e)) ps qs1"
    and opt: "\<forall>q \<in> set qs2. snd q"
    using assms(1) by (rule widens_split)
  have names: "map fst qs1 = map fst ps" and len: "length qs1 = length ps"
    using widened_names [OF w] w by (auto dest: list_all2_lengthD)
  have kws: "set kws \<subseteq> set (map fst ps)" "set kws \<inter> set (take n (map fst ps)) = {}" "n \<le> length ps"
    and req: "\<forall>(p, dflt) \<in> set (drop n ps). dflt \<or> p \<in> set kws"
    using assms(2) by (auto simp: bind_call_None_iff)
  have "take n (map fst qs) = take n (map fst ps)" using kws(3) len names by (simp add: qs)
  moreover have "\<forall>(p, dflt) \<in> set (drop n qs1). dflt \<or> p \<in> set kws"
    using list_all2_dropI [OF w] req by (rule widened_required)
  ultimately show ?thesis using kws names len opt by (auto simp: bind_call_None_iff qs)
qed

lemma conforms_method:
  assumes "conforms abs_ms ms" "map_of abs_ms m = Some sg"
  shows "\<exists>sg'. map_of ms m = Some sg' \<and> widens (sg_params sg) (sg_params sg')"
  using assms map_of_SomeD [OF assms(2)] by (fastforce simp: conforms_def list_all_iff split: option.splits)

text \<open>The kinds of an implementation's methods.\<close>

definition kinds_ok :: "string \<times> string \<Rightarrow> bool" where
  "kinds_ok = (\<lambda>(c, i). case (map_of concrete_classes c, map_of abstract_classes i) of
     (Some ms, Some abs_ms) \<Rightarrow> list_all (\<lambda>(m, sg). case map_of ms m of
         None \<Rightarrow> False
       | Some sg' \<Rightarrow> if (c, m) = (''OpenAIChatService'', ''stream'') then sg_kind sg = Coro \<and> sg_kind sg' = AsyncGen
           else sg_kind sg' = sg_kind sg) abs_ms
   | _ \<Rightarrow> False)"

lemma implementations_ok: "list_all implementation_ok implementations"
  by code_simp

lemma implementation_kinds: "list_all kinds_ok implementations"
  by code_simp

lemma class_faults:
  assumes "async_law am"
  shows "faults (class_fault (resolve am [] Container)) =
     [(''execute'', NoMethod), (''execute'', BadArguments (UnexpectedKeyword ''execute'' ''tenant_id'')), (''aclose'', NoMethod)]"
  unfolding assms [unfolded async_law_iff] by code_simp

lemma ingest_class_faults:
  "map (call_fault_of IngestDocumentUseCase_methods) documents_calls =
     [Some (BadArguments (MissingArguments ''execute'' [''tenant_id'']))]"
  by code_simp

lemma interface_faults: "faults interface_fault = [(''find_duplicate'', NoMethod), (''stream'', WrongUse Coro)]"
  by code_simp

lemma construction_faults_found:
  "construction_faults = replicate 3 (BadArguments (UnexpectedKeyword ''LLMRateLimitException'' ''provider''))"
  by code_simp

subsection \<open>Properties\<close>

text \<open>
  C22. Implementations are substitutable: every class that names an interface as its base has each of its
  methods, so it can be instantiated, and accepts every call that the interface accepts, whatever the
  numbers of positional arguments and the keywords; a call gives what the interface declares, except that
  \<open>stream\<close> of the chat service is an asynchronous generator where the interface declares a coroutine.
\<close>

theorem implementations_are_substitutable:
  assumes impl: "(c, i) \<in> set implementations" and abs_ms: "map_of abstract_classes i = Some abs_ms"
    and m: "map_of abs_ms m = Some sg"
  shows "\<exists>ms sg'. map_of concrete_classes c = Some ms \<and> map_of ms m = Some sg' \<and>
    (\<forall>n kws. py_bind_call m (sg_params sg) n kws = None \<longrightarrow> py_bind_call m (sg_params sg') n kws = None) \<and>
    (if (c, m) = (''OpenAIChatService'', ''stream'') then sg_kind sg = Coro \<and> sg_kind sg' = AsyncGen
     else sg_kind sg' = sg_kind sg)"
proof -
  have "implementation_ok (c, i)" using implementations_ok impl by (auto simp: list_all_iff)
  then obtain ms where ms: "map_of concrete_classes c = Some ms" "conforms abs_ms ms"
    using abs_ms by (auto simp: implementation_ok_def split: option.splits)
  from conforms_method [OF ms(2) m] obtain sg' where sg': "map_of ms m = Some sg'" "widens (sg_params sg) (sg_params sg')"
    by blast
  have "kinds_ok (c, i)" using implementation_kinds impl by (auto simp: list_all_iff)
  then have "(if (c, m) = (''OpenAIChatService'', ''stream'') then sg_kind sg = Coro \<and> sg_kind sg' = AsyncGen
     else sg_kind sg' = sg_kind sg)"
    using map_of_SomeD [OF m] sg'(1) ms(1) abs_ms by (fastforce simp: kinds_ok_def list_all_iff split: if_splits)
  with ms sg' show ?thesis using widens_binds [OF sg'(2)] by blast
qed

text \<open>
  C23. The calls between components are well typed. Of all method calls of the program whose receiver the container
  injects or returns (but for the queue library's pool that is injected into the ingestion), and of the
  tenant repository's calls on its pool and cache, each finds its method, binds its
  arguments and uses the result as what it is, except three: the documents endpoint calls \<open>execute\<close> on an
  awaitable (on the use case itself that call would still lack \<open>tenant_id\<close>), the queue's task passes a
  \<open>tenant_id\<close> that the pipeline does not take, and the shutdown calls \<open>aclose\<close> on the awaitable of
  the queue's pool. Against the interfaces that the constructors declare, two calls go beyond the contract:
  \<open>find_duplicate\<close> is no method of a document repository, and the chat provider's \<open>stream\<close> is iterated over
  although it is declared as a coroutine. Every construction of a domain exception has the arguments that the
  constructor takes, except that of the rate limit exception at its three places.
\<close>

theorem calls_are_well_typed:
  assumes "async_law am"
  shows "faults (class_fault (resolve am [] Container)) =
     [(''execute'', NoMethod), (''execute'', BadArguments (UnexpectedKeyword ''execute'' ''tenant_id'')), (''aclose'', NoMethod)] \<and>
   map (call_fault_of IngestDocumentUseCase_methods) documents_calls =
     [Some (BadArguments (MissingArguments ''execute'' [''tenant_id'']))] \<and>
   faults interface_fault = [(''find_duplicate'', NoMethod), (''stream'', WrongUse Coro)] \<and>
   construction_faults = replicate 3 (BadArguments (UnexpectedKeyword ''LLMRateLimitException'' ''provider''))"
  using class_faults [OF assms] ingest_class_faults interface_faults construction_faults_found by blast

theorem calls_are_well_typed_witness:
  "class_fault (resolve (\<lambda>flags. True \<in> set flags) [] Container) (site (Got ''arq_pool'') ''aclose'' 0 [] Coro) = Some NoMethod \<and>
   length (faults (class_fault (resolve (\<lambda>flags. True \<in> set flags) [] Container))) = 3 \<and>
   faults interface_fault = [(''find_duplicate'', NoMethod), (''stream'', WrongUse Coro)]"
proof -
  have law: "async_law (\<lambda>flags. True \<in> set flags)" by (simp add: async_law_def)
  have "class_fault (resolve (\<lambda>flags. True \<in> set flags) [] Container) (site (Got ''arq_pool'') ''aclose'' 0 [] Coro) = Some NoMethod"
    by code_simp
  with calls_are_well_typed [OF law] show ?thesis by simp
qed

theorem implementations_are_substitutable_witness:
  "py_bind_call ''search'' (sg_params (mk_sig Coro [(''query_embedding'', False), (''top_k'', True), (''filters'', True),
     (''tenant_id'', True)])) 1 [''filters''] = None"
proof -
  have "(''QdrantVectorRepository'', ''VectorRepository'') \<in> set implementations"
    "map_of abstract_classes ''VectorRepository'' = Some VectorRepository"
    "map_of VectorRepository ''search'' = Some (mk_sig Coro [(''query_embedding'', False), (''top_k'', True), (''filters'', True)])"
    by (simp_all add: implementations_def abstract_classes_def VectorRepository_def)
  moreover have "map_of concrete_classes ''QdrantVectorRepository'' = Some QdrantVectorRepository_methods"
    by (simp add: concrete_classes_def)
  ultimately show ?thesis
    using implementations_are_substitutable
      [of "''QdrantVectorRepository''" "''VectorRepository''" VectorRepository "''search''"]
    by (auto simp: QdrantVectorRepository_methods_def mk_sig_def py_bind_call_def)
qed

end
