(* ===== verification/Request_Log.thy ===== *)
theory Request_Log
  imports Server Logging
begin

section \<open>The log lines of a request\<close>

text \<open>
  \<open>src/app/api/middleware/request_logging.py\<close> with the lines it writes, which \<open>Http\<close> leaves out, together with the
  lines of the limiter, of its middleware and of the exception handlers. The state gets the lines written so far
  next to the application's state. A call of a logger (\<open>say\<close>) writes a line for each handler that the configured
  logging emits the record to (\<open>Logging\<close>), so none below the root logger's level. The logging library's
  processor \<open>merge_contextvars\<close>, the first of the configured chain, is the parameter \<open>le_merge\<close>: by \<open>merge_law\<close> a line has
  its own keys and, for the others, the context variables bound at that moment; \<open>le_attr\<close> reads an attribute
  of an exception object and \<open>le_str\<close> is \<open>str(exc)\<close>. The two readings of the monotonic clock are the arguments \<open>t0\<close> and
  \<open>t1\<close>.

  The endpoints' own lines are a list of calls, an argument: which of them a request makes is not modelled, only
  that they are among the calls of loggers in the modules the endpoints run (\<open>endpoint_log\<close>, with every level, event
  and keyword of these modules). The lines of libraries are left out.
\<close>

subsection \<open>Writing a line\<close>

record log_call =
  lc_logger :: string
  lc_level :: int
  lc_event :: string
  lc_kvs :: dict

record log_line =
  ln_logger :: string
  ln_level :: int
  ln_keys :: dict

type_synonym 's logged = "dict \<times> log_line list \<times> 's"

record log_env =
  le_merge :: "dict \<Rightarrow> dict \<Rightarrow> dict"
  le_logging :: log_state
  le_attr :: "exn \<Rightarrow> string \<Rightarrow> pyval"
  le_str :: "exn \<Rightarrow> string"

definition merge_law :: "(dict \<Rightarrow> dict \<Rightarrow> dict) \<Rightarrow> bool" where
  "merge_law merge \<longleftrightarrow> (\<forall>ctx ev k. map_of (merge ctx ev) k = (case map_of ev k of Some v \<Rightarrow> Some v | None \<Rightarrow> map_of ctx k))"

definition mk_call :: "string \<Rightarrow> int \<Rightarrow> string \<Rightarrow> dict \<Rightarrow> log_call" where
  "mk_call logger level event kvs = \<lparr>lc_logger = logger, lc_level = level, lc_event = event, lc_kvs = kvs\<rparr>"

definition make_line :: "log_env \<Rightarrow> dict \<Rightarrow> log_call \<Rightarrow> log_line" where
  "make_line env ctx c = \<lparr>ln_logger = lc_logger c, ln_level = lc_level c,
     ln_keys = le_merge env ctx ((''event'', PStr (lc_event c)) # lc_kvs c)\<rparr>"

definition say :: "log_env \<Rightarrow> log_call \<Rightarrow> ('s logged, exn, unit) eff" where
  "say env c = modifyM (\<lambda>(ctx, lines, s). (ctx, lines @
     map (\<lambda>_. make_line env ctx c) (emitted (le_logging env) (lc_logger c) (lc_level c)), s))"

fun say_all :: "log_env \<Rightarrow> log_call list \<Rightarrow> ('s logged, exn, unit) eff" where
  "say_all env [] = returnM ()"
| "say_all env (c # cs) = thenM (say env c) (say_all env cs)"

text \<open>An effect whose own lines are written elsewhere.\<close>

definition quiet :: "(dict \<times> 's, exn, 'a) eff \<Rightarrow> ('s logged, exn, 'a) eff" where
  "quiet m = (\<lambda>(ctx, lines, s). case m (ctx, s) of (r, (ctx', s')) \<Rightarrow> (r, (ctx', lines, s')))"

subsection \<open>The middleware\<close>

definition request_logger :: string where
  "request_logger = ''app.api.middleware.request_logging''"

definition duration_ms :: "real \<Rightarrow> real \<Rightarrow> real" where
  "duration_ms t0 t1 = of_int (round_half_even (100 * ((t1 - t0) * 1000))) / 100"

text \<open>\<open>finally\<close>: the outcome of \<open>call_next\<close> is kept, the line is written, the context is cleared, the outcome goes on.\<close>

definition attempt :: "('s, exn, 'a) eff \<Rightarrow> ('s, exn, exn + 'a) eff" where
  "attempt m = (\<lambda>s. case m s of (r, s') \<Rightarrow> (Inr r, s'))"

definition outcome_status :: "exn + http_response \<Rightarrow> int" where
  "outcome_status r = (case r of Inr response \<Rightarrow> rs_status response | Inl _ \<Rightarrow> 500)"

definition logged_request_middleware ::
  "log_env \<Rightarrow> real \<Rightarrow> real \<Rightarrow> string \<Rightarrow> 's logged app \<Rightarrow> 's logged app" where
  "logged_request_middleware env t0 t1 request_id call_next rq =
     (if rq_path rq = ''/health'' then call_next rq
      else thenM (bind_request_context \<lparr>ctx_request_id = request_id, ctx_method = rq_method rq, ctx_path = rq_path rq,
               ctx_user_id = None, ctx_client_ip = rq_client rq\<rparr>)
          (thenM (say env (mk_call request_logger 20 ''request_started'' [(''method'', PStr (rq_method rq)),
               (''path'', PStr (rq_path rq)), (''request_id'', PStr request_id)]))
          (bindM (attempt (call_next rq)) (\<lambda>r.
           thenM (say env (mk_call request_logger 20 ''request_completed'' [(''status_code'', PInt (outcome_status r)),
               (''duration_ms'', PFloat (duration_ms t0 t1))]))
          (thenM clear_request_context
          (bindM (liftM r) (\<lambda>response. returnM (set_header ''X-Request-ID'' request_id response))))))))"

subsection \<open>The limiter and its middleware\<close>

definition logged_is_allowed ::
  "log_env \<Rightarrow> (dict \<times> 's) zset \<Rightarrow> int \<Rightarrow> real \<Rightarrow> string \<Rightarrow> ('s logged, exn, bool) eff" where
  "logged_is_allowed env zs requests_per_minute now key =
     bindM (catchM (bindM (quiet (rate_limit_lua zs (rate_key key) now 60 requests_per_minute)) (\<lambda>r. returnM (Some (r \<noteq> 0))))
         (\<lambda>exc. thenM (say env (mk_call ''app.infrastructure.cache.rate_limiter'' 30 ''rate_limiter_lua_error''
              [(''key'', PStr key), (''error'', PStr (le_str env exc))])) (returnM None)))
       (\<lambda>allowed. case allowed of
           None \<Rightarrow> returnM True
         | Some True \<Rightarrow> returnM True
         | Some False \<Rightarrow> thenM (say env (mk_call ''app.infrastructure.cache.rate_limiter'' 30 ''rate_limit_exceeded''
              [(''key'', PStr key), (''limit'', PInt requests_per_minute)])) (returnM False))"

definition logged_rate_limit_middleware ::
  "log_env \<Rightarrow> (string \<Rightarrow> ('s logged, exn, bool) eff) \<Rightarrow> (string \<Rightarrow> ('s logged, exn, int) eff) \<Rightarrow> int
   \<Rightarrow> 's logged app \<Rightarrow> 's logged app" where
  "logged_rate_limit_middleware env allow remain rate_limit call_next rq =
     (if rq_path rq = ''/health'' then call_next rq
      else bindM (catchM (bindM (allow (client_key rq)) (\<lambda>b. returnM (Some b)))
                    (\<lambda>_. thenM (say env (mk_call ''app.api.middleware.rate_limit'' 30 ''rate_limiter_unavailable''
                          [(''key'', PStr (client_key rq))])) (returnM None))) (\<lambda>allowed. case allowed of
           None \<Rightarrow> call_next rq
         | Some False \<Rightarrow> returnM too_many_requests
         | Some True \<Rightarrow> bindM (call_next rq) (\<lambda>response.
             catchM (bindM (remain (client_key rq)) (\<lambda>remaining.
                 returnM (set_header ''X-RateLimit-Limit'' (py_str_int rate_limit)
                   (set_header ''X-RateLimit-Remaining'' (py_str_int remaining) response))))
               (\<lambda>_. returnM response))))"

subsection \<open>The exception handlers\<close>

text \<open>The line that the handler of a class writes before it builds its response.\<close>

definition handler_call :: "log_env \<Rightarrow> exc_class \<Rightarrow> exn \<Rightarrow> log_call" where
  "handler_call env c exc =
     (let call = mk_call ''app.api.middleware.error_handler''; attrs = map (\<lambda>k. (k, le_attr env exc k));
          err = (''error'', PStr (le_str env exc))
      in case c of
           EntityNotFoundExceptionC \<Rightarrow> call 30 ''entity_not_found'' (attrs [''entity_type'', ''entity_id''])
         | ValidationExceptionC \<Rightarrow> call 30 ''validation_error'' (attrs [''field'', ''detail''])
         | BusinessRuleViolationC \<Rightarrow> call 30 ''business_rule_violation'' (attrs [''rule''])
         | LLMRateLimitExceptionC \<Rightarrow> call 30 ''llm_rate_limit'' (attrs [''retry_after''])
         | LLMConnectionExceptionC \<Rightarrow> call 40 ''llm_connection_error'' [err]
         | TokenLimitExceededExceptionC \<Rightarrow> call 30 ''token_limit_exceeded'' (attrs [''token_count'', ''max_tokens''])
         | DomainExceptionC \<Rightarrow> call 30 ''domain_error'' (attrs [''code'', ''message''])
         | RequestValidationErrorC \<Rightarrow>
             (let (loc, detail) = (case exc of RequestValidationError (e # es) \<Rightarrow> e | _ \<Rightarrow> ([], ''Validation error''))
              in call 30 ''request_validation_error'' [(''field'', PStr (py_join loc_arrow loc)), (''detail'', PStr detail)])
         | _ \<Rightarrow> call 40 ''unhandled_exception'' [err])"

text \<open>The framework with handlers that have effects; the rule for choosing one is that of \<open>starlette_laws\<close>.\<close>

type_synonym 's io_handlers = "(exc_class \<times> (exn \<Rightarrow> ('s, exn, http_response) eff)) list"

record 's io_starlette =
  io_exception_middleware :: "'s io_handlers \<Rightarrow> 's app \<Rightarrow> 's app"
  io_server_error_middleware :: "'s io_handlers \<Rightarrow> 's app \<Rightarrow> 's app"

fun first_io_handler :: "'s io_handlers \<Rightarrow> exc_class list \<Rightarrow> (exn \<Rightarrow> ('s, exn, http_response) eff) option" where
  "first_io_handler hs [] = None"
| "first_io_handler hs (c # cs) =
     (if c = ExceptionC then first_io_handler hs cs
      else case map_of hs c of Some h \<Rightarrow> Some h | None \<Rightarrow> first_io_handler hs cs)"

definition io_starlette_laws :: "'s io_starlette \<Rightarrow> bool" where
  "io_starlette_laws st \<longleftrightarrow>
     (\<forall>hs app rq s. io_exception_middleware st hs app rq s =
        (case app rq s of
           (Inr r, s') \<Rightarrow> (Inr r, s')
         | (Inl e, s') \<Rightarrow> (case first_io_handler hs (mro (class_of e)) of
               Some h \<Rightarrow> h e s'
             | None \<Rightarrow> (case default_handler e of Some r \<Rightarrow> (Inr r, s') | None \<Rightarrow> (Inl e, s'))))) \<and>
     (\<forall>hs app rq s. io_server_error_middleware st hs app rq s =
        (case app rq s of
           (Inr r, s') \<Rightarrow> (Inr r, s')
         | (Inl e, s') \<Rightarrow> (case map_of hs ExceptionC of Some h \<Rightarrow> h e s' | None \<Rightarrow> (Inl e, s'))))"

definition logged_handlers :: "log_env \<Rightarrow> 's logged io_handlers" where
  "logged_handlers env = map (\<lambda>(c, h). (c, \<lambda>exc. thenM (say env (handler_call env c exc)) (returnM (h exc))))
     register_exception_handlers"

subsection \<open>The lines of the endpoints\<close>

text \<open>Level, event and keywords of each call of a logger in the modules that the endpoints run.\<close>

definition chat_log :: "(int \<times> string \<times> string list) list" where
  "chat_log =
     [(20, ''client_disconnected_during_stream'', []),
      (20, ''stream_cancelled_by_client'', [])]"

definition ingest_document_log :: "(int \<times> string \<times> string list) list" where
  "ingest_document_log =
     [(20, ''document_duplicate_detected'', [''tenant_id'', ''existing_document_id'']),
      (20, ''document_ingested'', [''tenant_id'', ''document_id'', ''job_id'', ''arq_job_id'', ''title'', ''content_length''])]"

definition search_documents_log :: "(int \<times> string \<times> string list) list" where
  "search_documents_log =
     [(20, ''search_completed'', [''query_length'', ''query_tokens'', ''top_k'', ''results_count'', ''has_filters'', ''elapsed_seconds''])]"

definition rag_chat_log :: "(int \<times> string \<times> string list) list" where
  "rag_chat_log =
     [(20, ''rag_chat_completed'', [''query_length'', ''context_results'', ''prompt_tokens'', ''completion_tokens'', ''elapsed_seconds'']),
      (20, ''rag_stream_completed'', [''query_length'', ''context_results'', ''completion_tokens'', ''elapsed_seconds''])]"

definition redis_cache_log :: "(int \<times> string \<times> string list) list" where
  "redis_cache_log =
     [(10, ''embedding_cache_miss'', [''model'']),
      (10, ''embedding_cache_hit'', [''model'']),
      (20, ''redis_cache_closed'', [])]"

definition openai_chat_log :: "(int \<times> string \<times> string list) list" where
  "openai_chat_log =
     [(30, ''openai_chat_rate_limit'', [''model'']),
      (40, ''openai_chat_connection_error'', [''model'', ''error'']),
      (40, ''openai_chat_error'', [''model'', ''status_code'', ''error'']),
      (20, ''openai_chat_complete'', [''model'', ''prompt_tokens'', ''completion_tokens'', ''total_tokens'', ''elapsed_seconds'']),
      (30, ''openai_stream_rate_limit'', [''model'']),
      (40, ''openai_stream_connection_error'', [''model'', ''error'']),
      (40, ''openai_stream_error'', [''model'', ''error'']),
      (40, ''openai_stream_interrupted'', [''model'', ''error'']),
      (20, ''openai_stream_complete'', [''model'', ''chunks_yielded'', ''elapsed_seconds''])]"

definition openai_embedding_log :: "(int \<times> string \<times> string list) list" where
  "openai_embedding_log =
     [(10, ''embedding_cache_stats'', [''total'', ''cache_hits'', ''api_calls_needed'']),
      (30, ''embedding_cache_write_failed'', [''error'']),
      (30, ''openai_rate_limit'', [''model'', ''text_count'']),
      (40, ''openai_connection_error'', [''model'', ''error'']),
      (40, ''openai_embedding_error'', [''model'', ''status_code'', ''error'']),
      (20, ''openai_embedding_complete'', [''model'', ''text_count'', ''dimensions'', ''prompt_tokens'', ''total_tokens'', ''elapsed_seconds''])]"

definition redis_chat_repo_log :: "(int \<times> string \<times> string list) list" where
  "redis_chat_repo_log =
     [(30, ''invalid_chat_history_entry'', [''user_id'']),
      (20, ''chat_history_cleared'', [''user_id''])]"

definition postgres_pool_log :: "(int \<times> string \<times> string list) list" where
  "postgres_pool_log =
     [(20, ''postgres_pool_connected'', [''host'', ''db'', ''min_size'', ''max_size'']),
      (20, ''postgres_pool_closed'', [])]"

definition qdrant_adapter_log :: "(int \<times> string \<times> string list) list" where
  "qdrant_adapter_log =
     [(20, ''qdrant_upsert'', [''collection'', ''point_count'', ''elapsed_seconds'']),
      (30, ''qdrant_result_parse_error'', [''point_id'', ''error'']),
      (20, ''qdrant_search'', [''collection'', ''top_k'', ''results_count'', ''has_tenant_filter'', ''elapsed_seconds'']),
      (20, ''qdrant_delete'', [''chunk_id'']),
      (20, ''qdrant_delete_by_document'', [''document_id'', ''elapsed_seconds'']),
      (20, ''qdrant_collection_created'', [''collection'', ''vector_size'', ''distance'', ''quantization'']),
      (20, ''qdrant_payload_index_created'', [''collection'', ''field'', ''schema'']),
      (20, ''qdrant_collection_exists'', [''collection'']),
      (20, ''qdrant_client_closed'', [])]"

definition endpoint_log :: "(string \<times> (int \<times> string \<times> string list) list) list" where
  "endpoint_log =
     [(''app.api.routers.chat'', chat_log),
      (''app.application.use_cases.ingest_document'', ingest_document_log),
      (''app.application.use_cases.search_documents'', search_documents_log),
      (''app.application.use_cases.rag_chat'', rag_chat_log),
      (''app.infrastructure.cache.redis_cache'', redis_cache_log),
      (''app.infrastructure.llm.openai_chat'', openai_chat_log),
      (''app.infrastructure.llm.openai_embedding'', openai_embedding_log),
      (''app.infrastructure.repositories.redis_chat_repo'', redis_chat_repo_log),
      (''app.infrastructure.db.postgres_pool'', postgres_pool_log),
      (''app.infrastructure.vector_db.qdrant_adapter'', qdrant_adapter_log)]"

definition endpoint_call :: "log_call \<Rightarrow> bool" where
  "endpoint_call c \<longleftrightarrow> (\<exists>calls. (lc_logger c, calls) \<in> set endpoint_log \<and>
     (lc_level c, lc_event c, map fst (lc_kvs c)) \<in> set calls)"

definition endpoint_logged ::
  "log_env \<Rightarrow> log_call list \<Rightarrow> (dict \<times> 's) app \<Rightarrow> 's logged app" where
  "endpoint_logged env spoken router rq =
     bindM (attempt (quiet (router rq))) (\<lambda>r. thenM (say_all env spoken) (liftM r))"

subsection \<open>The served application with its log\<close>

definition respond_logged ::
  "log_env \<Rightarrow> ('enc, 'r, 'v, 'q, 'o) system server logged io_starlette \<Rightarrow> real \<Rightarrow> real \<Rightarrow> log_call list
   \<Rightarrow> ('enc, 'r, 'v, 'q, 'o) deployment \<Rightarrow> incoming \<Rightarrow> (('enc, 'r, 'v, 'q, 'o) system server logged, exn, http_response) eff" where
  "respond_logged env st t0 t1 spoken dp inc =
     (let zs = limiter_zset (dp_zset dp); rpm = rl_requests_per_minute (st_rate_limit (dp_settings dp))
      in io_server_error_middleware st (logged_handlers env)
           (logged_request_middleware env t0 t1 (in_request_id inc)
             (logged_rate_limit_middleware env (logged_is_allowed env zs rpm (in_time inc))
                (\<lambda>k. quiet (get_remaining zs rpm (in_time_after inc) k)) rpm
                (io_exception_middleware st (logged_handlers env)
                  (endpoint_logged env spoken (dp_dispatch dp (app_routes dp inc))))))
           (in_request inc))"

subsection \<open>Effects with lines refine effects without\<close>

text \<open>
  \<open>tells env K m m'\<close>: \<open>m'\<close> does what \<open>m\<close> does, which leaves the context variables alone, and only adds lines of
  calls from \<open>K\<close>, with the context variables it started with.
\<close>

definition tells ::
  "log_env \<Rightarrow> log_call set \<Rightarrow> (dict \<times> 's, exn, 'a) eff \<Rightarrow> ('s logged, exn, 'a) eff \<Rightarrow> bool" where
  "tells env K m m' \<longleftrightarrow> (\<forall>ctx lines s r ctx' s'. m (ctx, s) = (r, (ctx', s')) \<longrightarrow> ctx' = ctx \<and>
     (\<exists>new. m' (ctx, lines, s) = (r, (ctx, lines @ new, s')) \<and> set new \<subseteq> make_line env ctx ` K))"

named_theorems telling \<open>refinement rules for effects with lines\<close>

lemma tellsI:
  assumes "\<And>ctx lines s r ctx' s'. m (ctx, s) = (r, (ctx', s')) \<Longrightarrow> ctx' = ctx \<and>
    (\<exists>new. m' (ctx, lines, s) = (r, (ctx, lines @ new, s')) \<and> set new \<subseteq> make_line env ctx ` K)"
  shows "tells env K m m'"
  unfolding tells_def using assms by blast

lemma tellsD:
  assumes "tells env K m m'" "m (ctx, s) = (r, (ctx', s'))"
  obtains new where "ctx' = ctx" "m' (ctx, lines, s) = (r, (ctx, lines @ new, s'))" "set new \<subseteq> make_line env ctx ` K"
  using assms unfolding tells_def by metis

lemma tells_return [telling]: "tells env K (returnM x) (returnM x)"
  by (simp add: tells_def returnM_def)

lemma tells_quiet:
  assumes "\<And>c. preserves (\<lambda>(c', v). c' = c) m"
  shows "tells env K m (quiet m)"
proof (rule tellsI)
  fix ctx lines s r ctx' s'
  assume run: "m (ctx, s) = (r, (ctx', s'))"
  then have "ctx' = ctx" using preserves_result [OF assms [of ctx] _ run] by simp
  with run show "ctx' = ctx \<and> (\<exists>new. quiet m (ctx, lines, s) = (r, (ctx, lines @ new, s')) \<and> set new \<subseteq> make_line env ctx ` K)"
    by (simp add: quiet_def)
qed

lemma tells_bind [telling]:
  assumes "tells env K m m'" "\<And>x. tells env K (f x) (f' x)"
  shows "tells env K (bindM m f) (bindM m' f')"
proof (rule tellsI)
  fix ctx lines s r ctx' s'
  assume run: "bindM m f (ctx, s) = (r, (ctx', s'))"
  obtain r1 c1 s1 where m: "m (ctx, s) = (r1, (c1, s1))" by (metis prod.collapse)
  obtain new where n: "c1 = ctx" "m' (ctx, lines, s) = (r1, (ctx, lines @ new, s1))" "set new \<subseteq> make_line env ctx ` K"
    using assms(1) m by (rule tellsD)
  show "ctx' = ctx \<and> (\<exists>new. bindM m' f' (ctx, lines, s) = (r, (ctx, lines @ new, s')) \<and> set new \<subseteq> make_line env ctx ` K)"
  proof (cases r1)
    case Inl
    with run m n show ?thesis by (auto simp: bindM_def)
  next
    case (Inr x)
    with run m n(1) have "f x (ctx, s1) = (r, (ctx', s'))" by (simp add: bindM_def)
    with assms(2) obtain new2 where "ctx' = ctx" "f' x (ctx, lines @ new, s1) = (r, (ctx, (lines @ new) @ new2, s'))"
      "set new2 \<subseteq> make_line env ctx ` K" by (rule tellsD)
    with Inr n show ?thesis by (auto simp: bindM_def intro!: exI [of _ "new @ new2"])
  qed
qed

lemma tells_catch [telling]:
  assumes "tells env K m m'" "\<And>e. tells env K (h e) (h' e)"
  shows "tells env K (catchM m h) (catchM m' h')"
proof (rule tellsI)
  fix ctx lines s r ctx' s'
  assume run: "catchM m h (ctx, s) = (r, (ctx', s'))"
  obtain r1 c1 s1 where m: "m (ctx, s) = (r1, (c1, s1))" by (metis prod.collapse)
  obtain new where n: "c1 = ctx" "m' (ctx, lines, s) = (r1, (ctx, lines @ new, s1))" "set new \<subseteq> make_line env ctx ` K"
    using assms(1) m by (rule tellsD)
  show "ctx' = ctx \<and> (\<exists>new. catchM m' h' (ctx, lines, s) = (r, (ctx, lines @ new, s')) \<and> set new \<subseteq> make_line env ctx ` K)"
  proof (cases r1)
    case Inr
    with run m n show ?thesis by (auto simp: catchM_def)
  next
    case (Inl e)
    with run m n(1) have "h e (ctx, s1) = (r, (ctx', s'))" by (simp add: catchM_def)
    with assms(2) obtain new2 where "ctx' = ctx" "h' e (ctx, lines @ new, s1) = (r, (ctx, (lines @ new) @ new2, s'))"
      "set new2 \<subseteq> make_line env ctx ` K" by (rule tellsD)
    with Inl n show ?thesis by (auto simp: catchM_def intro!: exI [of _ "new @ new2"])
  qed
qed

lemma say_run: "say env c (ctx, lines, s) =
    (Inr (), (ctx, lines @ map (\<lambda>_. make_line env ctx c) (emitted (le_logging env) (lc_logger c) (lc_level c)), s))"
  by (simp add: say_def modifyM_def)

lemma tells_say [telling]:
  assumes "c \<in> K" "tells env K m m'"
  shows "tells env K m (thenM (say env c) m')"
proof (rule tellsI)
  fix ctx lines s r ctx' s'
  let ?new = "map (\<lambda>_. make_line env ctx c) (emitted (le_logging env) (lc_logger c) (lc_level c))"
  assume "m (ctx, s) = (r, (ctx', s'))"
  with assms(2) obtain new where "ctx' = ctx" "m' (ctx, lines @ ?new, s) = (r, (ctx, (lines @ ?new) @ new, s'))"
    "set new \<subseteq> make_line env ctx ` K" by (rule tellsD)
  with assms(1) show "ctx' = ctx \<and> (\<exists>new. thenM (say env c) m' (ctx, lines, s) = (r, (ctx, lines @ new, s')) \<and>
      set new \<subseteq> make_line env ctx ` K)"
    by (auto simp: thenM_def bindM_def say_run intro!: exI [of _ "?new @ new"])
qed

lemma tells_say_all: "set cs \<subseteq> K \<Longrightarrow> tells env K (returnM ()) (say_all env cs)"
  by (induction cs) (auto intro: telling)

lemma tells_allowed [telling]:
  assumes "tells env K m1 m1'" "tells env K m2 m2'" "tells env K m3 m3'"
  shows "tells env K (case b of None \<Rightarrow> m1 | Some True \<Rightarrow> m2 | Some False \<Rightarrow> m3)
    (case b of None \<Rightarrow> m1' | Some True \<Rightarrow> m2' | Some False \<Rightarrow> m3')"
  using assms by (auto split: option.split bool.split)

subsection \<open>The parts of the stack\<close>

text \<open>The calls inside the logging middleware: no line of its logger, none of an unhandled exception, no key \<open>request_id\<close>.\<close>

definition inner_calls :: "log_call set" where
  "inner_calls = {c. lc_logger c \<noteq> request_logger \<and> lc_event c \<noteq> ''unhandled_exception'' \<and>
     ''request_id'' \<notin> fst ` set (lc_kvs c)}"

lemma mk_call_simps [simp]:
  "lc_logger (mk_call a l ev kvs) = a" "lc_level (mk_call a l ev kvs) = l" "lc_event (mk_call a l ev kvs) = ev"
  "lc_kvs (mk_call a l ev kvs) = kvs"
  by (simp_all add: mk_call_def)

lemma endpoint_log_inner:
  "list_all (\<lambda>(a, calls). a \<noteq> request_logger \<and>
     list_all (\<lambda>(l, ev, ks). ev \<noteq> ''unhandled_exception'' \<and> ''request_id'' \<notin> set ks) calls) endpoint_log"
  by code_simp

lemma endpoint_call_inner:
  assumes "endpoint_call c"
  shows "c \<in> inner_calls"
proof -
  obtain calls where calls: "(lc_logger c, calls) \<in> set endpoint_log" "(lc_level c, lc_event c, map fst (lc_kvs c)) \<in> set calls"
    using assms unfolding endpoint_call_def by blast
  have ok: "lc_logger c \<noteq> request_logger \<and> (\<forall>x \<in> set calls. case x of (l, ev, ks) \<Rightarrow> ev \<noteq> ''unhandled_exception'' \<and> ''request_id'' \<notin> set ks)"
    using bspec [OF endpoint_log_inner [unfolded list_all_iff] calls(1)] unfolding prod.case .
  from bspec [OF conjunct2 [OF ok] calls(2)] have "lc_event c \<noteq> ''unhandled_exception'' \<and> ''request_id'' \<notin> set (map fst (lc_kvs c))"
    unfolding prod.case .
  with ok show ?thesis unfolding inner_calls_def set_map by blast
qed

lemma handler_call_inner:
  assumes "c \<in> fst ` set register_exception_handlers" "c \<noteq> ExceptionC"
  shows "handler_call env c exc \<in> inner_calls"
  using assms by (auto simp: register_exception_handlers_def handler_call_def inner_calls_def request_logger_def Let_def
      split: prod.splits)

lemma map_of_map_keyed: "map_of (map (\<lambda>(c, h). (c, f c h)) xs) k = map_option (f k) (map_of xs k)"
  by (induction xs) auto

lemma logged_handler:
  fixes env and lh :: "'s logged io_handlers"
  defines "lh \<equiv> logged_handlers env"
  shows "first_io_handler lh cs = None \<and> first_handler register_exception_handlers cs = None \<or>
   (\<exists>c h. first_handler register_exception_handlers cs = Some h \<and> c \<in> fst ` set register_exception_handlers \<and> c \<noteq> ExceptionC \<and>
     first_io_handler lh cs = Some (\<lambda>exc. thenM (say env (handler_call env c exc)) (returnM (h exc))))"
proof (induction cs)
  case (Cons c cs)
  have keyed: "map_of lh c =
      map_option (\<lambda>h exc. thenM (say env (handler_call env c exc)) (returnM (h exc))) (map_of register_exception_handlers c)"
    unfolding lh_def logged_handlers_def by (rule map_of_map_keyed)
  show ?case
  proof (cases "c = ExceptionC \<or> map_of register_exception_handlers c = None")
    case True
    then have "first_io_handler lh (c # cs) = first_io_handler lh cs"
      "first_handler register_exception_handlers (c # cs) = first_handler register_exception_handlers cs"
      using keyed by auto
    with Cons.IH show ?thesis by presburger
  next
    case False
    then obtain h where h: "map_of register_exception_handlers c = Some h" by blast
    then have "c \<in> fst ` set register_exception_handlers" by (metis map_of_eq_None_iff option.distinct(1))
    moreover have "first_handler register_exception_handlers (c # cs) = Some h"
      "first_io_handler lh (c # cs) =
        Some (\<lambda>exc. thenM (say env (handler_call env c exc)) (returnM (h exc)))"
      using False h keyed by simp_all
    ultimately show ?thesis using False by blast
  qed
qed simp

lemma tells_exception:
  fixes st' :: "'s logged io_starlette"
  assumes "starlette_laws st" "io_starlette_laws st'" "tells env inner_calls (app rq) (app' rq)"
  shows "tells env inner_calls (exception_middleware st register_exception_handlers app rq)
    (io_exception_middleware st' (logged_handlers env) app' rq)"
proof (rule tellsI)
  fix ctx lines s r ctx' s'
  let ?lh = "logged_handlers env :: 's logged io_handlers"
  assume run: "exception_middleware st register_exception_handlers app rq (ctx, s) = (r, (ctx', s'))"
  obtain r1 c1 s1 where m: "app rq (ctx, s) = (r1, (c1, s1))" by (metis prod.collapse)
  obtain new where n: "c1 = ctx" "app' rq (ctx, lines, s) = (r1, (ctx, lines @ new, s1))" "set new \<subseteq> make_line env ctx ` inner_calls"
    using assms(3) m by (rule tellsD)
  have io: "io_exception_middleware st' (logged_handlers env) app' rq (ctx, lines, s) = (case r1 of
      Inr a \<Rightarrow> (Inr a, (ctx, lines @ new, s1))
    | Inl e \<Rightarrow> (case first_io_handler ?lh (mro (class_of e)) of
        Some h \<Rightarrow> h e (ctx, lines @ new, s1)
      | None \<Rightarrow> (case default_handler e of Some a \<Rightarrow> (Inr a, (ctx, lines @ new, s1)) | None \<Rightarrow> (Inl e, (ctx, lines @ new, s1)))))"
    using assms(2) n(2) by (simp add: io_starlette_laws_def split: sum.split)
  show "ctx' = ctx \<and> (\<exists>new. io_exception_middleware st' (logged_handlers env) app' rq (ctx, lines, s) = (r, (ctx, lines @ new, s')) \<and>
      set new \<subseteq> make_line env ctx ` inner_calls)"
  proof (cases r1)
    case (Inr a)
    with run m n io exception_passes [OF assms(1), of app rq "(ctx, s)"] show ?thesis by auto
  next
    case (Inl e)
    note plain = exception_outcome [where app = app, OF assms(1), of rq "(ctx, s)" e "(c1, s1)"]
    from logged_handler [of env "mro (class_of e)"] show ?thesis
    proof (elim disjE exE conjE)
      assume "first_io_handler ?lh (mro (class_of e)) = None"
        "first_handler register_exception_handlers (mro (class_of e)) = None"
      with Inl plain run m n io show ?thesis by (cases "default_handler e") auto
    next
      fix c h
      assume h: "first_handler register_exception_handlers (mro (class_of e)) = Some h"
        "c \<in> fst ` set register_exception_handlers" "c \<noteq> ExceptionC"
        "first_io_handler ?lh (mro (class_of e)) =
           Some (\<lambda>exc. thenM (say env (handler_call env c exc)) (returnM (h exc)))"
      let ?new = "map (\<lambda>_. make_line env ctx (handler_call env c e))
        (emitted (le_logging env) (lc_logger (handler_call env c e)) (lc_level (handler_call env c e)))"
      have "set ?new \<subseteq> make_line env ctx ` inner_calls" using handler_call_inner [OF h(2,3)] by auto
      with h(1,4) Inl plain run m n io show ?thesis
        by (auto simp: thenM_def bindM_def say_run returnM_def intro!: exI [of _ "new @ ?new"])
    qed
  qed
qed

lemma preserves_lua:
  assumes "\<And>k m. preserves P (zs_remrangebyscore zs k m)" "\<And>k. preserves P (zs_card zs k)"
    and "\<And>k sc x. preserves P (zs_add zs k sc x)" "\<And>k n. preserves P (zs_expire zs k n)" "preserves P (zs_random zs)"
  shows "preserves P (rate_limit_lua zs key now window limit)"
  unfolding rate_limit_lua_def by (intro preserving assms)

lemma tells_is_allowed:
  assumes lua: "\<And>c. preserves (\<lambda>(c', v). c' = c) (rate_limit_lua zs (rate_key key) now 60 rpm)"
  shows "tells env inner_calls (is_allowed zs rpm now key) (logged_is_allowed env zs rpm now key)"
proof -
  let ?lua = "rate_limit_lua zs (rate_key key) now 60 rpm"
  have plain: "is_allowed zs rpm now key = bindM (catchM (bindM ?lua (\<lambda>r. returnM (Some (r \<noteq> 0)))) (\<lambda>_. returnM None))
      (\<lambda>allowed. case allowed of None \<Rightarrow> returnM True | Some True \<Rightarrow> returnM True | Some False \<Rightarrow> returnM False)"
    by (auto simp: is_allowed_def bindM_def catchM_def returnM_def fun_eq_iff split: prod.split sum.split bool.split)
  show ?thesis
    unfolding plain logged_is_allowed_def
    by (intro telling tells_quiet lua) (simp_all add: inner_calls_def request_logger_def)
qed

lemma tells_rate_limit:
  assumes "\<And>k. tells env inner_calls (allow k) (allow' k)" "\<And>k. tells env inner_calls (remain k) (remain' k)"
    and "tells env inner_calls (next_app rq) (next_app' rq)"
  shows "tells env inner_calls (rate_limit_middleware allow remain rpm next_app rq)
    (logged_rate_limit_middleware env allow' remain' rpm next_app' rq)"
proof (cases "rq_path rq = ''/health''")
  case True
  with assms(3) show ?thesis by (simp add: rate_limit_middleware_def logged_rate_limit_middleware_def)
next
  case False
  show ?thesis
    unfolding rate_limit_middleware_def logged_rate_limit_middleware_def if_not_P [OF False]
    by (intro telling assms) (simp add: inner_calls_def request_logger_def)
qed

lemma tells_endpoint:
  assumes "\<And>c. preserves (\<lambda>(c', v). c' = c) (router rq)" "\<forall>c \<in> set spoken. endpoint_call c"
  shows "tells env inner_calls (router rq) (endpoint_logged env spoken router rq)"
proof (rule tellsI)
  fix ctx lines s r ctx' s'
  assume run: "router rq (ctx, s) = (r, (ctx', s'))"
  then have ctx: "ctx' = ctx" using preserves_result [OF assms(1) [of ctx] _ run] by simp
  have "set spoken \<subseteq> inner_calls" using assms(2) endpoint_call_inner by blast
  then have "tells env inner_calls (returnM ()) (say_all env spoken)" by (rule tells_say_all)
  then obtain new where "say_all env spoken (ctx, lines, s') = (Inr (), (ctx, lines @ new, s'))"
    "set new \<subseteq> make_line env ctx ` inner_calls"
    by (rule tellsD [where m = "returnM ()" and s = s' and ctx = ctx and lines = lines]) (auto simp: returnM_def)
  with run ctx show "ctx' = ctx \<and> (\<exists>new. endpoint_logged env spoken router rq (ctx, lines, s) = (r, (ctx, lines @ new, s')) \<and>
      set new \<subseteq> make_line env ctx ` inner_calls)"
    by (simp add: endpoint_logged_def attempt_def quiet_def bindM_def thenM_def liftM_def)
qed

text \<open>Serving keeps the context variables: only the logging middleware binds and clears them.\<close>

lemma keeps_context_system: "preserves (\<lambda>(c, v). c = c0) (on_system m)"
  by (auto simp: preserves_def on_system_def focus_def split: prod.splits)

lemma keeps_context_chat: "preserves (\<lambda>(c, v). c = c0) (chat_app dp inc rq)"
proof -
  have "preserves (\<lambda>(c, v). c = c0) (EventSourceResponse body)" for body
    unfolding EventSourceResponse_def by (intro preserving) auto
  then have "preserves (\<lambda>(c, v). c = c0) (case reply of JsonReply r \<Rightarrow> returnM r | EventStream body \<Rightarrow> EventSourceResponse body)" for reply
    by (cases reply) (simp_all add: preserves_return)
  then show ?thesis
    unfolding chat_app_def Let_def by (intro preserves_read_json preserves_bind keeps_context_system)
qed

lemma keeps_context_router:
  assumes "router_laws (dp_dispatch dp)"
  shows "preserves (\<lambda>(c, v). c = c0) (dp_dispatch dp (app_routes dp inc) rq)"
  by (rule preserves_dispatch [OF assms])
    (auto simp: app_routes_def api_router_def documents_app_def search_app_def health_app_def Let_def keeps_context_chat
      intro!: preserves_read_json keeps_context_system)

lemma keeps_context_limiter:
  "preserves (\<lambda>(c, v). c = c0) (rate_limit_lua (limiter_zset zs) k now window rpm)"
  "preserves (\<lambda>(c, v). c = c0) (get_remaining (limiter_zset zs) rpm now k)"
  by (rule preserves_lua preserves_limiter(2); simp add: limiter_zset_def keeps_context_system)+

text \<open>The application inside the logging middleware.\<close>

definition inner_app ::
  "('enc, 'r, 'v, 'q, 'o) deployment \<Rightarrow> incoming \<Rightarrow> ('enc, 'r, 'v, 'q, 'o) system serving app" where
  "inner_app dp inc = (let rpm = rl_requests_per_minute (st_rate_limit (dp_settings dp)) in
     rate_limit_middleware (is_allowed (limiter_zset (dp_zset dp)) rpm (in_time inc))
       (get_remaining (limiter_zset (dp_zset dp)) rpm (in_time_after inc)) rpm
       (exception_middleware (dp_starlette dp) register_exception_handlers (dp_dispatch dp (app_routes dp inc))))"

definition inner_app_logged ::
  "log_env \<Rightarrow> ('enc, 'r, 'v, 'q, 'o) system server logged io_starlette \<Rightarrow> log_call list
   \<Rightarrow> ('enc, 'r, 'v, 'q, 'o) deployment \<Rightarrow> incoming \<Rightarrow> ('enc, 'r, 'v, 'q, 'o) system server logged app" where
  "inner_app_logged env st spoken dp inc =
     (let zs = limiter_zset (dp_zset dp); rpm = rl_requests_per_minute (st_rate_limit (dp_settings dp)) in
     logged_rate_limit_middleware env (logged_is_allowed env zs rpm (in_time inc))
       (\<lambda>k. quiet (get_remaining zs rpm (in_time_after inc) k)) rpm
       (io_exception_middleware st (logged_handlers env) (endpoint_logged env spoken (dp_dispatch dp (app_routes dp inc)))))"

lemma respond_inner:
  "respond dp inc = server_error_middleware (dp_starlette dp) register_exception_handlers
     (request_logging_middleware (in_request_id inc) (inner_app dp inc)) (in_request inc)"
  "respond_logged env st t0 t1 spoken dp inc = io_server_error_middleware st (logged_handlers env)
     (logged_request_middleware env t0 t1 (in_request_id inc) (inner_app_logged env st spoken dp inc)) (in_request inc)"
  by (simp_all add: respond_def respond_logged_def create_app_def inner_app_def inner_app_logged_def Let_def)

lemma tells_inner:
  assumes "starlette_laws (dp_starlette dp)" "io_starlette_laws st" "router_laws (dp_dispatch dp)"
    and "\<forall>c \<in> set spoken. endpoint_call c"
  shows "tells env inner_calls (inner_app dp inc rq) (inner_app_logged env st spoken dp inc rq)"
  unfolding inner_app_def inner_app_logged_def Let_def
  by (intro tells_rate_limit tells_is_allowed tells_quiet tells_exception tells_endpoint keeps_context_limiter
      keeps_context_router assms)

lemma io_server_error_outcome:
  fixes st :: "'s logged io_starlette"
  assumes "io_starlette_laws st"
  shows "io_server_error_middleware st (logged_handlers env) app rq s =
    (case app rq s of (Inr r, s') \<Rightarrow> (Inr r, s')
     | (Inl e, s') \<Rightarrow> thenM (say env (handler_call env ExceptionC e)) (returnM (global_exception_handler e)) s')"
proof -
  have "map_of (logged_handlers env :: 's logged io_handlers) ExceptionC =
      Some (\<lambda>exc. thenM (say env (handler_call env ExceptionC exc)) (returnM (global_exception_handler exc)))"
    by (simp add: logged_handlers_def register_exception_handlers_def)
  with assms show ?thesis by (cases s) (simp add: io_starlette_laws_def split: prod.split sum.split)
qed

text \<open>What the outermost middleware makes of an outcome, and the line it adds.\<close>

definition client_response :: "string \<Rightarrow> exn + http_response \<Rightarrow> http_response" where
  "client_response rid r = (case r of Inr a \<Rightarrow> set_header ''X-Request-ID'' rid a | Inl e \<Rightarrow> global_exception_handler e)"

definition outer_lines :: "log_env \<Rightarrow> dict \<Rightarrow> exn + http_response \<Rightarrow> log_line list" where
  "outer_lines env ctx r = (case r of Inr _ \<Rightarrow> []
     | Inl e \<Rightarrow> (let c = handler_call env ExceptionC e
         in map (\<lambda>_. make_line env ctx c) (emitted (le_logging env) (lc_logger c) (lc_level c))))"

definition own_lines :: "log_env \<Rightarrow> dict \<Rightarrow> string \<Rightarrow> dict \<Rightarrow> log_line list" where
  "own_lines env ctx event kvs =
     map (\<lambda>_. make_line env ctx (mk_call request_logger 20 event kvs)) (emitted (le_logging env) request_logger 20)"

lemma logged_outcome:
  assumes path: "rq_path rq \<noteq> ''/health''"
    and inner: "tells env inner_calls (app rq) (app' rq)" and run: "app rq (log_context rid rq, v) = (r, (c1, v'))"
  obtains new where "set new \<subseteq> make_line env (log_context rid rq) ` inner_calls"
    "logged_request_middleware env t0 t1 rid app' rq (c, lines, v) =
      (map_sum id (set_header ''X-Request-ID'' rid) r, ([], lines @
         own_lines env (log_context rid rq) ''request_started'' [(''method'', PStr (rq_method rq)), (''path'', PStr (rq_path rq)),
           (''request_id'', PStr rid)] @ new @
         own_lines env (log_context rid rq) ''request_completed'' [(''status_code'', PInt (outcome_status r)),
           (''duration_ms'', PFloat (duration_ms t0 t1))], v'))"
proof -
  let ?ctx = "log_context rid rq"
  let ?started = "own_lines env ?ctx ''request_started'' [(''method'', PStr (rq_method rq)), (''path'', PStr (rq_path rq)),
           (''request_id'', PStr rid)]"
  obtain new where n: "app' rq (?ctx, lines @ ?started, v) = (r, (?ctx, (lines @ ?started) @ new, v'))"
    "set new \<subseteq> make_line env ?ctx ` inner_calls"
    using inner run by (rule tellsD)
  from path n(1) have "logged_request_middleware env t0 t1 rid app' rq (c, lines, v) =
      (map_sum id (set_header ''X-Request-ID'' rid) r, ([], lines @ ?started @ new @
         own_lines env ?ctx ''request_completed'' [(''status_code'', PInt (outcome_status r)),
           (''duration_ms'', PFloat (duration_ms t0 t1))], v'))"
    by (cases r) (simp_all add: logged_request_middleware_def bind_request_context_def clear_request_context_def say_run
      attempt_def thenM_def bindM_def modifyM_def liftM_def returnM_def log_context_def dump_opt_def own_lines_def)
  with n(2) show thesis by (rule that)
qed

subsection \<open>Keys and levels of lines\<close>

lemma merge_law_lines:
  assumes "merge_law merge"
  shows "map_of (merge ctx ev) k = (case map_of ev k of Some w \<Rightarrow> Some w | None \<Rightarrow> map_of ctx k)"
  using assms unfolding merge_law_def by blast

lemma request_id_bound: "map_of (log_context rid rq) ''request_id'' = Some (PStr rid)"
  by (simp add: log_context_def)

text \<open>Which request id a line must carry.\<close>

definition id_ok :: "string \<Rightarrow> log_line \<Rightarrow> bool" where
  "id_ok rid l \<longleftrightarrow> map_of (ln_keys l) ''request_id'' =
     (if map_of (ln_keys l) ''event'' = Some (PStr ''unhandled_exception'') then None else Some (PStr rid))"

lemma id_ok_bound:
  assumes "merge_law (le_merge env)" "lc_event c \<noteq> ''unhandled_exception''"
    and "map_of (lc_kvs c) ''request_id'' = None \<or> map_of (lc_kvs c) ''request_id'' = Some (PStr rid)"
  shows "id_ok rid (make_line env (log_context rid rq) c)"
  using assms(2,3) by (auto simp: id_ok_def make_line_def merge_law_lines [OF assms(1)] request_id_bound)

lemma id_ok_inner:
  assumes "merge_law (le_merge env)" "set new \<subseteq> make_line env (log_context rid rq) ` inner_calls" "l \<in> set new"
  shows "id_ok rid l" "ln_logger l \<noteq> request_logger"
proof -
  obtain c where c: "c \<in> inner_calls" "l = make_line env (log_context rid rq) c" using assms(2,3) by blast
  then have "map_of (lc_kvs c) ''request_id'' = None" by (simp add: inner_calls_def map_of_eq_None_iff)
  with c assms(1) show "id_ok rid l" by (auto simp: inner_calls_def intro: id_ok_bound)
  from c show "ln_logger l \<noteq> request_logger" by (simp add: inner_calls_def make_line_def)
qed

lemma id_ok_outer:
  assumes "merge_law (le_merge env)" "l \<in> set (outer_lines env [] r)"
  shows "id_ok rid l" "ln_logger l \<noteq> request_logger"
  using assms(2)
  by (auto simp: outer_lines_def handler_call_def id_ok_def make_line_def merge_law_lines [OF assms(1)] request_logger_def
      split: sum.splits)

text \<open>The level of the program's loggers is the root logger's when nothing else has set one.\<close>

definition app_levels_unset :: "log_state \<Rightarrow> bool" where
  "app_levels_unset lg \<longleftrightarrow> (\<forall>name. take 3 name = ''app'' \<longrightarrow> lg_level lg name = 0)"

lemma configured_state:
  assumes "configure_logging log_level debug st = (Inr (), st')"
  obtains level where "st' = configured level debug st"
proof (cases "logging_attr (py_upper log_level)")
  case None
  with assms that [of 20] show thesis by (simp add: configure_logging_ok [of log_level 20])
next
  case (Some v)
  show thesis
  proof (cases v)
    case (PInt n)
    with Some assms that [of n] show thesis by (simp add: configure_logging_ok [of log_level n])
  qed (use Some assms in \<open>auto simp: configure_logging_def thenM_def bindM_def modifyM_def setLevel_def raiseM_def\<close>)
qed

lemma app_level:
  assumes "app_levels_unset st" "take 3 name = ''app''"
  shows "effective_level (configured level debug st) name = level"
proof -
  have unset: "lg_level (configured level debug st) n = 0" if "take 3 n = ''app''" for n
  proof -
    have "n \<noteq> ''root''" "n \<noteq> ''uvicorn.access''" "n \<noteq> ''httpx''" "n \<noteq> ''httpcore''" using that by auto
    moreover have "lg_level st n = 0" using assms(1) that unfolding app_levels_unset_def by blast
    ultimately show ?thesis by (simp add: configured_def levels_of_def)
  qed
  have "take 3 (take i name) = ''app''" if "i < length name" "name ! i = CHR ''.''" for i
  proof -
    have "i \<ge> 3"
    proof (rule ccontr)
      assume "\<not> i \<ge> 3"
      then have "name ! i = ''app'' ! i" using assms(2) by (metis not_le nth_take)
      with \<open>\<not> i \<ge> 3\<close> that(2) show False by (auto simp: not_le less_Suc_eq numeral_3_eq_3)
    qed
    then show ?thesis using assms(2) by (simp add: min_def)
  qed
  then have "filter (\<lambda>n. lg_level (configured level debug st) n \<noteq> 0) (map (\<lambda>i. take i name) (rev (filter (\<lambda>i. name ! i = CHR ''.'') [0..<length name]))) = []"
    using unset by (auto simp: filter_empty_conv)
  then show ?thesis
    using unset [OF assms(2)] by (simp add: effective_level_def parents_def) (simp add: configured_def levels_of_def)
qed

lemma own_lines_configured:
  assumes "configure_logging log_level debug lg0 = (Inr (), le_logging env)" "app_levels_unset lg0"
  shows "own_lines env ctx event kvs =
    (if lg_level (le_logging env) ''root'' \<le> 20 then [make_line env ctx (mk_call request_logger 20 event kvs)] else [])"
proof -
  obtain level where lg: "le_logging env = configured level debug lg0" using assms(1) by (rule configured_state)
  have "effective_level (le_logging env) request_logger = lg_level (le_logging env) ''root''"
    unfolding lg by (subst app_level [OF assms(2)]) (simp_all add: request_logger_def configured_def levels_of_def)
  then show ?thesis by (simp add: own_lines_def emitted_def) (simp add: lg configured_def)
qed

subsection \<open>Property\<close>

text \<open>
  C16. The access log is truthful. With the lines of the middlewares, the limiter, the exception handlers and
  the endpoints, a served request gets the response and leaves the state that it has without them. If the
  configured level of the root logger is at most \<open>INFO\<close>, the request middleware's logger writes exactly two lines
  for every request but the health check, \<open>request_started\<close> with its method and path and \<open>request_completed\<close> with
  the status of the response that the client gets, also when that is the 500 of an unexpected exception; at
  a higher level, and for the health check, it writes none. Every line of such a request, whatever its
  logger and level, carries the request's id, except \<open>unhandled_exception\<close>: that is written after the
  context has been cleared and has no request id.
\<close>

theorem access_log_is_truthful:
  fixes dp :: "('enc, 'r, 'v, 'q, 'o) deployment"
  assumes st: "starlette_laws (dp_starlette dp)" "io_starlette_laws st" and router: "router_laws (dp_dispatch dp)"
    and merge: "merge_law (le_merge env)"
    and lg: "configure_logging (st_log_level (dp_settings dp)) (st_debug (dp_settings dp)) lg0 = (Inr (), le_logging env)"
      "app_levels_unset lg0"
    and spoken: "\<forall>c \<in> set spoken. endpoint_call c"
  shows "\<exists>resp c' v' new. respond dp inc (c, v) = (Inr resp, (c', v')) \<and>
    respond_logged env st t0 t1 spoken dp inc (c, lines, v) = (Inr resp, (c', lines @ new, v')) \<and>
    (let own = filter (\<lambda>l. ln_logger l = request_logger) new in
     if rq_path (in_request inc) = ''/health'' \<or> lg_level (le_logging env) ''root'' > 20 then own = []
     else \<exists>started completed. map ln_keys own = [started, completed] \<and>
       map_of started ''event'' = Some (PStr ''request_started'') \<and>
       map_of started ''method'' = Some (PStr (rq_method (in_request inc))) \<and>
       map_of started ''path'' = Some (PStr (rq_path (in_request inc))) \<and>
       map_of completed ''event'' = Some (PStr ''request_completed'') \<and>
       map_of completed ''status_code'' = Some (PInt (rs_status resp))) \<and>
    (rq_path (in_request inc) \<noteq> ''/health'' \<longrightarrow> (\<forall>l \<in> set new. map_of (ln_keys l) ''request_id'' =
       (if map_of (ln_keys l) ''event'' = Some (PStr ''unhandled_exception'') then None else Some (PStr (in_request_id inc)))))"
proof -
  let ?rq = "in_request inc" and ?rid = "in_request_id inc"
  let ?app = "inner_app dp inc" and ?app' = "inner_app_logged env st spoken dp inc"
  note tells = tells_inner [OF st router spoken, of env inc ?rq]
  note plain = respond_inner(1) [of dp inc] and logged = respond_inner(2) [of env st t0 t1 spoken dp inc]
  note own = own_lines_configured [OF lg]
  show ?thesis
  proof (cases "rq_path ?rq = ''/health''")
    case True
    obtain r c' v' where run: "?app ?rq (c, v) = (r, (c', v'))" by (metis prod.collapse)
    with tells obtain new where new: "c' = c" "?app' ?rq (c, lines, v) = (r, (c, lines @ new, v'))"
      "set new \<subseteq> make_line env c ` inner_calls" by (rule tellsD)
    have "respond dp inc (c, v) = (Inr (case r of Inr a \<Rightarrow> a | Inl e \<Rightarrow> global_exception_handler e), (c', v'))"
      "respond_logged env st t0 t1 spoken dp inc (c, lines, v) =
        (Inr (case r of Inr a \<Rightarrow> a | Inl e \<Rightarrow> global_exception_handler e), (c', lines @ new @ outer_lines env c r, v'))"
      using True run new by (cases r; simp add: plain logged server_error_outcome st io_server_error_outcome request_logging_middleware_def
          logged_request_middleware_def thenM_def bindM_def say_run returnM_def outer_lines_def Let_def)+
    moreover have "filter (\<lambda>l. ln_logger l = request_logger) (new @ outer_lines env c r) = []"
      using new(3) by (auto simp: filter_empty_conv inner_calls_def make_line_def outer_lines_def handler_call_def
          request_logger_def split: sum.splits)
    ultimately show ?thesis using True by (metis (no_types, lifting))
  next
    case False
    let ?ctx = "log_context ?rid ?rq"
    obtain r c1 v' where run: "?app ?rq (?ctx, v) = (r, (c1, v'))" by (metis prod.collapse)
    obtain inner where inner: "set inner \<subseteq> make_line env ?ctx ` inner_calls"
      "logged_request_middleware env t0 t1 ?rid ?app' ?rq (c, lines, v) =
        (map_sum id (set_header ''X-Request-ID'' ?rid) r, ([], lines @
         own_lines env ?ctx ''request_started'' [(''method'', PStr (rq_method ?rq)), (''path'', PStr (rq_path ?rq)),
           (''request_id'', PStr ?rid)] @ inner @
         own_lines env ?ctx ''request_completed'' [(''status_code'', PInt (outcome_status r)),
           (''duration_ms'', PFloat (duration_ms t0 t1))], v'))"
      using False tells run by (rule logged_outcome)
    let ?started = "mk_call request_logger 20 ''request_started'' [(''method'', PStr (rq_method ?rq)),
         (''path'', PStr (rq_path ?rq)), (''request_id'', PStr ?rid)]"
      and ?completed = "mk_call request_logger 20 ''request_completed'' [(''status_code'', PInt (outcome_status r)),
         (''duration_ms'', PFloat (duration_ms t0 t1))]"
    define own1 where "own1 c = (if lg_level (le_logging env) ''root'' \<le> 20 then [make_line env ?ctx c] else [])" for c
    define new where "new = own1 ?started @ inner @ own1 ?completed @ outer_lines env [] r"
    have "respond dp inc (c, v) = (Inr (client_response ?rid r), ([], v'))"
      "respond_logged env st t0 t1 spoken dp inc (c, lines, v) = (Inr (client_response ?rid r), ([], lines @ new, v'))"
      using run inner(2) unfolding own new_def own1_def
      by (cases r; simp add: plain logged server_error_outcome st io_server_error_outcome logging_outcome [OF False]
          client_response_def outer_lines_def thenM_def bindM_def say_run returnM_def Let_def)+
    moreover have status: "rs_status (client_response ?rid r) = outcome_status r"
      by (cases r) (simp_all add: client_response_def outcome_status_def global_exception_handler_def)
    have "filter (\<lambda>l. ln_logger l = request_logger) inner = []"
      "filter (\<lambda>l. ln_logger l = request_logger) (outer_lines env [] r) = []"
      using id_ok_inner(2) [OF merge inner(1)] id_ok_outer(2) [OF merge] by (auto simp: filter_empty_conv)
    then have filtered: "filter (\<lambda>l. ln_logger l = request_logger) new = own1 ?started @ own1 ?completed"
      unfolding new_def by (simp add: own1_def make_line_def)
    have ids: "id_ok ?rid l" if "l \<in> set new" for l
      using that id_ok_inner(1) [OF merge inner(1)] id_ok_outer(1) [OF merge, of l r ?rid]
        id_ok_bound [OF merge, of ?started ?rid ?rq] id_ok_bound [OF merge, of ?completed ?rid ?rq]
      by (auto simp: new_def own1_def split: if_splits)
    show ?thesis
      using calculation False filtered ids status
      by (auto simp: own1_def id_ok_def make_line_def merge_law_lines [OF merge] Let_def
          intro!: exI [of _ "client_response ?rid r"] exI [of _ new])
  qed
qed

definition demo_io_starlette :: "'s io_starlette" where
  "demo_io_starlette =
     \<lparr>io_exception_middleware = (\<lambda>hs app rq s. case app rq s of
        (Inr r, s') \<Rightarrow> (Inr r, s')
      | (Inl e, s') \<Rightarrow> (case first_io_handler hs (mro (class_of e)) of
            Some h \<Rightarrow> h e s'
          | None \<Rightarrow> (case default_handler e of Some r \<Rightarrow> (Inr r, s') | None \<Rightarrow> (Inl e, s')))),
      io_server_error_middleware = (\<lambda>hs app rq s. case app rq s of
        (Inr r, s') \<Rightarrow> (Inr r, s')
      | (Inl e, s') \<Rightarrow> (case map_of hs ExceptionC of Some h \<Rightarrow> h e s' | None \<Rightarrow> (Inl e, s')))\<rparr>"

lemma demo_io_starlette_laws: "io_starlette_laws demo_io_starlette"
  by (simp add: io_starlette_laws_def demo_io_starlette_def)

definition demo_logging :: log_state where
  "demo_logging = \<lparr>lg_structlog = [], lg_cache_loggers = False, lg_root_handlers = [], lg_level = (\<lambda>name. if name = ''root'' then 30 else 0)\<rparr>"

definition demo_log_env :: log_env where
  "demo_log_env = \<lparr>le_merge = (\<lambda>ctx ev. ev @ ctx), le_logging = configured 20 False demo_logging,
     le_attr = (\<lambda>e a. PNone), le_str = (\<lambda>e. [])\<rparr>"

theorem access_log_is_truthful_witness:
  "\<exists>resp c' v' new started completed.
    respond_logged demo_log_env demo_io_starlette 0 1 [mk_call ''app.infrastructure.cache.redis_cache'' 10 ''embedding_cache_hit'' [(''model'', PNone)]]
      demo_deployment (demo_incoming ''/v1/documents'' ''guess'') (fst demo_serving, [], snd demo_serving) = (Inr resp, (c', new, v')) \<and>
    map ln_keys (filter (\<lambda>l. ln_logger l = request_logger) new) = [started, completed] \<and>
    map_of completed ''status_code'' = Some (PInt (rs_status resp))"
proof -
  have "merge_law (le_merge demo_log_env)"
    by (simp add: merge_law_def demo_log_env_def map_add_def split: option.split)
  moreover have "configure_logging (st_log_level (dp_settings demo_deployment)) (st_debug (dp_settings demo_deployment)) demo_logging =
      (Inr (), le_logging demo_log_env)"
    using configure_logging_ok [of "''INFO''" 20 False demo_logging]
    by (simp add: demo_deployment_def demo_config_def default_settings_def demo_log_env_def logging_attr_def py_upper_def)
  moreover have "app_levels_unset demo_logging" by (auto simp: app_levels_unset_def demo_logging_def)
  moreover have "\<forall>c \<in> set [mk_call ''app.infrastructure.cache.redis_cache'' 10 ''embedding_cache_hit'' [(''model'', PNone)]]. endpoint_call c"
    by (auto simp: endpoint_call_def endpoint_log_def redis_cache_log_def)
  ultimately show ?thesis
    using access_log_is_truthful [OF demo_deployment_laws(1) demo_io_starlette_laws demo_deployment_laws(2),
        of demo_log_env demo_logging _ "demo_incoming ''/v1/documents'' ''guess''" "fst demo_serving" "snd demo_serving" 0 1 "[]"]
    by (fastforce simp: demo_incoming_def demo_log_env_def configured_def levels_of_def Let_def)
qed

end
