(* ===== verification/Concurrent_Chat.thy ===== *)
theory Concurrent_Chat
  imports RAG_Chat Chat_History "HOL-Library.Sublist"
begin

section \<open>Concurrent chats on one history\<close>

text \<open>
  The API serves chats concurrently, and several of them may belong to one user. \<open>save_exchange\<close> of
  \<open>src/app/application/use_cases/rag_chat.py\<close> awaits between its two saves, each of which is one Redis
  transaction (\<open>src/app/infrastructure/repositories/redis_chat_repo.py\<close>), so what the server executes is an interleaving
  of the saves of all exchanges.
\<close>

subsection \<open>Saves and their interleavings\<close>

type_synonym save_step = "user_id \<times> chat_message"

definition exchange_steps :: "user_id \<Rightarrow> chat_request \<Rightarrow> chat_message \<Rightarrow> save_step list" where
  "exchange_steps uid request answer = [(uid, ChatMessage USER (cq_message request)), (uid, answer)]"

fun run_saves :: "(user_id \<Rightarrow> chat_message \<Rightarrow> ('s, exn, unit) eff) \<Rightarrow> save_step list \<Rightarrow> ('s, exn, unit) eff" where
  "run_saves save [] = returnM ()"
| "run_saves save ((uid, m) # steps) = thenM (save uid m) (run_saves save steps)"

inductive interleaves :: "'a list list \<Rightarrow> 'a list \<Rightarrow> bool" where
  finished: "\<forall>c \<in> set chats. c = [] \<Longrightarrow> interleaves chats []"
| turn: "i < length chats \<Longrightarrow> chats ! i = x # xs \<Longrightarrow> interleaves (chats[i := xs]) zs \<Longrightarrow> interleaves chats (x # zs)"

inductive_cases interleaves_NilE: "interleaves chats []"

definition messages_of :: "user_id \<Rightarrow> save_step list \<Rightarrow> chat_message list" where
  "messages_of uid steps = map snd (filter (\<lambda>(u, m). u = uid) steps)"

lemma messages_of_simps [simp]:
  "messages_of uid [] = []"
  "messages_of uid ((u, m) # steps) = (if u = uid then [m] else []) @ messages_of uid steps"
  "messages_of uid (steps @ steps') = messages_of uid steps @ messages_of uid steps'"
  by (simp_all add: messages_of_def)

text \<open>Without interference the two saves are what the use case does.\<close>

lemma exchange_is_two_saves:
  assumes "cq_user_id request = Some u" "u \<noteq> []" "UserId_from_str u = Inr uid"
  shows "save_exchange deps request answer = run_saves (rg_save_message deps) (exchange_steps uid request answer)"
proof -
  have "thenM m (returnM ()) = m" for m :: "('a, exn, unit) eff"
    by (auto simp: thenM_def bindM_def returnM_def fun_eq_iff split: prod.split sum.split)
  moreover obtain c cs where "u = c # cs" using assms(2) by (cases u) auto
  ultimately show ?thesis
    using assms by (simp add: save_exchange_def exchange_steps_def bindM_def liftM_def)
qed

lemma interleaves_subseq:
  assumes "interleaves chats zs" "j < length chats"
  shows "subseq (chats ! j) zs"
  using assms
proof (induction arbitrary: j rule: interleaves.induct)
  case (turn i chats x xs zs)
  from turn.IH [of j] turn.prems turn.hyps(1,2) show ?case
    by (cases "j = i") (auto intro: subseq_Cons')
qed (metis list_emb_Nil nth_mem)

lemma mset_Cons_middle: "mset (ys @ (x # xs) @ zs) = add_mset x (mset (ys @ xs @ zs))"
  by simp

lemma interleaves_mset:
  assumes "interleaves chats zs"
  shows "mset zs = mset (concat chats)"
  using assms
proof (induction rule: interleaves.induct)
  case (finished chats)
  then show ?case by simp
next
  case (turn i chats x xs zs)
  have "chats = take i chats @ (x # xs) # drop (Suc i) chats"
    using id_take_nth_drop [OF turn.hyps(1)] turn.hyps(2) by simp
  then have "mset (concat chats) = add_mset x (mset (concat (chats[i := xs])))"
    using upd_conv_take_nth_drop [OF turn.hyps(1), of xs] by (metis concat_append concat.simps(2) mset_Cons_middle)
  with turn.IH show ?case by simp
qed

lemma subseq_messages: "subseq xs ys \<Longrightarrow> subseq (messages_of uid xs) (messages_of uid ys)"
  unfolding messages_of_def by (intro subseq_map subseq_filter)

lemma mset_messages: "mset xs = mset ys \<Longrightarrow> mset (messages_of uid xs) = mset (messages_of uid ys)"
  unfolding messages_of_def by (simp add: mset_filter)

lemma messages_of_chats:
  "messages_of u (concat (map (\<lambda>(uid, rq, ans). exchange_steps uid rq ans) chats)) =
     concat (map (\<lambda>(uid, rq, ans). [ChatMessage USER (cq_message rq), ans]) (filter (\<lambda>(uid, rq, ans). uid = u) chats))"
  by (induction chats) (auto simp: exchange_steps_def)

subsection \<open>On any history\<close>

context chat_history
begin

lemma run_saves_holds:
  assumes "\<forall>(u, m) \<in> set steps. storable m \<and> (\<exists>ms. holds s u ms)"
  shows "\<exists>s'. run_saves save steps s = (Inr (), s') \<and>
    (\<forall>u old. holds s u (last_n cap old) \<longrightarrow> holds s' u (last_n cap (old @ messages_of u steps)))"
  using assms
proof (induction steps arbitrary: s)
  case Nil
  then show ?case by (simp add: returnM_def)
next
  case (Cons st steps)
  obtain v m where st: "st = (v, m)" by (cases st)
  obtain ns where ns: "holds s v ns" "storable m" using Cons.prems st by auto
  obtain s1 where s1: "save v m s = (Inr (), s1)" using save_appends [OF ns] by blast
  have own: "holds s1 v (last_n cap (ms @ [m]))" if "holds s v ms" for ms
    using save_appends [OF that ns(2)] s1 by auto
  have other: "holds s1 u ms" if "holds s u ms" "u \<noteq> v" for u ms
    using save_appends [OF ns] s1 that by auto
  have "\<forall>(u, m) \<in> set steps. storable m \<and> (\<exists>ms. holds s1 u ms)"
    using Cons.prems own other by (fastforce simp: st)
  from Cons.IH [OF this] obtain s2 where s2: "run_saves save steps s1 = (Inr (), s2)"
    "\<forall>u old. holds s1 u (last_n cap old) \<longrightarrow> holds s2 u (last_n cap (old @ messages_of u steps))" by blast
  have "holds s2 u (last_n cap (old @ messages_of u (st # steps)))" if "holds s u (last_n cap old)" for u old
  proof (cases "u = v")
    case True
    then have "holds s1 u (last_n cap (old @ [m]))"
      using own [of "last_n cap old"] that last_n_snoc [OF cap_pos, of old m] by simp
    with s2(2) True show ?thesis by (fastforce simp: st)
  qed (use s2(2) other that st in auto)
  with s1 s2(1) show ?case by (auto simp: st thenM_def bindM_def)
qed

end

subsection \<open>Property\<close>

text \<open>
  C9. Concurrent chats lose nothing: however the saves of any number of exchanges, of any users, interleave,
  all succeed, and the history of a user is the last hundred of the messages it held followed by a list that
  consists of exactly the questions and answers of that user's exchanges, with every question before its answer.
\<close>

theorem concurrent_chats_keep_every_message:
  assumes inter: "interleaves (map (\<lambda>(uid, rq, ans). exchange_steps uid rq ans) chats) zs"
    and known: "\<forall>(uid, rq, ans) \<in> set chats. ChatMessage USER (cq_message rq) \<in> S \<and> ans \<in> S \<and>
      (\<exists>ms. redis_holds rd lib pyd lview S s uid ms)"
    and held: "redis_holds rd lib pyd lview S s u (last_n 100 old)"
  shows "\<exists>s' new. run_saves (save_message rd lib) zs s = (Inr (), s') \<and>
    redis_holds rd lib pyd lview S s' u (last_n 100 (old @ new)) \<and>
    mset new = mset (concat (map (\<lambda>(uid, rq, ans). [ChatMessage USER (cq_message rq), ans]) (filter (\<lambda>(uid, rq, ans). uid = u) chats))) \<and>
    (\<forall>(uid, rq, ans) \<in> set chats. uid = u \<longrightarrow> subseq [ChatMessage USER (cq_message rq), ans] new)"
proof -
  let ?steps = "\<lambda>(uid, rq, ans). exchange_steps uid rq ans"
  have all: "set zs = set (concat (map ?steps chats))"
    using interleaves_mset [OF inter] by (rule mset_eq_setD)
  have "\<forall>(v, m) \<in> set zs. m \<in> S \<and> (\<exists>ms. redis_holds rd lib pyd lview S s v ms)"
    using known unfolding all by (auto simp: exchange_steps_def)
  from redis_history.run_saves_holds [OF this] held obtain s' where
    s': "run_saves (save_message rd lib) zs s = (Inr (), s')" "redis_holds rd lib pyd lview S s' u (last_n 100 (old @ messages_of u zs))"
    by blast
  moreover have "mset (messages_of u zs) = mset (concat (map (\<lambda>(uid, rq, ans). [ChatMessage USER (cq_message rq), ans])
      (filter (\<lambda>(uid, rq, ans). uid = u) chats)))"
    using mset_messages [OF interleaves_mset [OF inter], of u] messages_of_chats [of u chats] by simp
  moreover have "subseq [ChatMessage USER (cq_message rq), ans] (messages_of u zs)" if mem: "(u, rq, ans) \<in> set chats" for rq ans
  proof -
    obtain j where "j < length chats" "chats ! j = (u, rq, ans)" using mem by (metis in_set_conv_nth)
    with interleaves_subseq [OF inter, of j] have "subseq (exchange_steps u rq ans) zs" by simp
    from subseq_messages [OF this, of u] show ?thesis by (simp add: exchange_steps_def)
  qed
  ultimately show ?thesis by blast
qed

text \<open>Two exchanges of one user whose saves alternate: the history holds both questions before both answers.\<close>

theorem concurrent_chats_keep_every_message_witness:
  "\<exists>s' new. run_saves (save_message demo_list_redis demo_chat_lib)
      [(UserId 1, ChatMessage USER ''hi''), (UserId 1, ChatMessage USER ''hi''), (UserId 1, ChatMessage ASSISTANT ''hello''),
       (UserId 1, ChatMessage ASSISTANT ''hello'')] (\<lambda>_. []) = (Inr (), s') \<and>
    redis_holds demo_list_redis demo_chat_lib demo_chat_pydantic (\<lambda>r. r) {ChatMessage USER ''hi'', ChatMessage ASSISTANT ''hello''}
      s' (UserId 1) (last_n 100 new) \<and> length new = 4"
proof -
  let ?q = "ChatMessage USER ''hi''" and ?a = "ChatMessage ASSISTANT ''hello''"
  let ?rq = "\<lparr>cq_message = ''hi'', cq_conversation_id = None, cq_user_id = Some (uuid_str 1), cq_top_k = 5\<rparr>"
  let ?chats = "[(UserId 1, ?rq, ?a), (UserId 1, ?rq, ?a)]"
  have "interleaves [[(UserId 1, ?q), (UserId 1, ?a)], [(UserId 1, ?q), (UserId 1, ?a)]]
      [(UserId 1, ?q), (UserId 1, ?q), (UserId 1, ?a), (UserId 1, ?a)]"
    by (rule interleaves.turn [of 0], simp, simp, rule interleaves.turn [of 1], simp, simp, rule interleaves.turn [of 0], simp, simp,
        rule interleaves.turn [of 1], simp, simp, rule interleaves.finished, simp)
  then have inter: "interleaves (map (\<lambda>(uid, rq, ans). exchange_steps uid rq ans) ?chats)
      [(UserId 1, ?q), (UserId 1, ?q), (UserId 1, ?a), (UserId 1, ?a)]"
    by (simp add: exchange_steps_def)
  have held: "redis_holds demo_list_redis demo_chat_lib demo_chat_pydantic (\<lambda>r. r) {?q, ?a} (\<lambda>_. []) (UserId 1) (last_n 100 [])"
    by (simp add: redis_holds_def list_laws_def demo_list_redis_def pydantic_laws_def demo_chat_pydantic_def o_def
        json_laws_def demo_chat_lib_def message_json_def ChatMessage_def last_n_def)
  then obtain s' new where s': "run_saves (save_message demo_list_redis demo_chat_lib)
      [(UserId 1, ?q), (UserId 1, ?q), (UserId 1, ?a), (UserId 1, ?a)] (\<lambda>_. []) = (Inr (), s')"
    "redis_holds demo_list_redis demo_chat_lib demo_chat_pydantic (\<lambda>r. r) {?q, ?a} s' (UserId 1) (last_n 100 new)"
    and new: "mset new = mset [?q, ?a, ?q, ?a]"
    using concurrent_chats_keep_every_message [OF inter _ held] held by fastforce
  have "length new = 4" using mset_eq_length [OF new] by simp
  with s' show ?thesis by blast
qed

end
