(* ===== verification/Tenant_Staleness.thy ===== *)
theory Tenant_Staleness
  imports Tenant_Repository
begin

section \<open>How old a cached tenant can be\<close>

text \<open>
  The tenant repository (\<open>src/app/infrastructure/repositories/postgres_tenant_repo.py\<close>) over time. \<open>Tenant_Repository\<close>
  models one operation at a time and lets entries vanish at any moment; here a Redis entry has a deadline, operations
  and the passing of time alternate, and the history of the run, the times with the database at each, is kept to
  say from when an answer is. Each operation runs at one instant of the server's clock.

  \<open>ttl_laws\<close> states what is relied on: an entry is returned only before its deadline, a set gives the
  deadline by its time to live (a set that raises may or may not have taken effect), and nothing else creates or
  prolongs an entry; entries may be evicted at any time.
\<close>

record 's timed_redis =
  tr_redis :: "'s redis"
  tr_view :: "'s \<Rightarrow> string \<Rightarrow> (string \<times> int) option"
  tr_clock :: "'s \<Rightarrow> int"
  tr_tick :: "nat \<Rightarrow> 's \<Rightarrow> 's"

definition only_evicts :: "'s timed_redis \<Rightarrow> 's \<Rightarrow> 's \<Rightarrow> bool" where
  "only_evicts tr s s' \<longleftrightarrow> (\<forall>k e. tr_view tr s' k = Some e \<longrightarrow> tr_view tr s k = Some e)"

definition ttl_laws :: "'s timed_redis \<Rightarrow> bool" where
  "ttl_laws tr \<longleftrightarrow>
     (\<forall>k s r s'. rd_get (tr_redis tr) k s = (r, s') \<longrightarrow> tr_clock tr s' = tr_clock tr s \<and> only_evicts tr s s' \<and>
        (\<forall>raw. r = Inr (Some raw) \<longrightarrow> (\<exists>d. tr_view tr s k = Some (raw, d) \<and> tr_clock tr s < d))) \<and>
     (\<forall>k raw ttl s r s'. rd_set (tr_redis tr) k raw ttl s = (r, s') \<longrightarrow> tr_clock tr s' = tr_clock tr s \<and>
        (\<forall>k' e. tr_view tr s' k' = Some e \<longrightarrow>
           tr_view tr s k' = Some e \<or> k' = k \<and> e = (raw, tr_clock tr s + ttl))) \<and>
     (\<forall>k s r s'. rd_delete (tr_redis tr) k s = (r, s') \<longrightarrow> tr_clock tr s' = tr_clock tr s \<and> only_evicts tr s s') \<and>
     (\<forall>n s. tr_clock tr (tr_tick tr n s) = tr_clock tr s + int n \<and> only_evicts tr s (tr_tick tr n s))"

subsection \<open>Runs\<close>

datatype tenant_event =
    Lookup uuid string
  | SaveTenant tenant
  | UpdateTenant timestamp tenant
  | DeleteTenant timestamp tenant_id
  | Pass nat

text \<open>An operation that raises leaves the state it reached.\<close>

fun run_tenant_event ::
  "'s timed_redis \<Rightarrow> pylib \<Rightarrow> (tenant \<Rightarrow> pyval) \<Rightarrow> (pyval \<Rightarrow> tenant result) \<Rightarrow> tenant_event
   \<Rightarrow> 's \<times> database \<Rightarrow> 's \<times> database" where
  "run_tenant_event tr lib dump load (Lookup eid h) st = snd (get_by_api_key_hash (tr_redis tr) lib dump load eid h st)"
| "run_tenant_event tr lib dump load (SaveTenant t) st = snd (tenant_save lib t st)"
| "run_tenant_event tr lib dump load (UpdateTenant now t) st = snd (tenant_update (tr_redis tr) lib now t st)"
| "run_tenant_event tr lib dump load (DeleteTenant now tid) st = snd (tenant_delete now tid st)"
| "run_tenant_event tr lib dump load (Pass n) (s, db) = (tr_tick tr n s, db)"

type_synonym history = "(int \<times> database) list"

fun tenant_run ::
  "'s timed_redis \<Rightarrow> pylib \<Rightarrow> (tenant \<Rightarrow> pyval) \<Rightarrow> (pyval \<Rightarrow> tenant result) \<Rightarrow> tenant_event list
   \<Rightarrow> history \<times> 's \<times> database \<Rightarrow> history \<times> 's \<times> database" where
  "tenant_run tr lib dump load [] run = run"
| "tenant_run tr lib dump load (e # es) (hist, st) =
     (case run_tenant_event tr lib dump load e st of
        (s, db) \<Rightarrow> tenant_run tr lib dump load es (hist @ [(tr_clock tr s, db)], (s, db)))"

definition new_run :: "'s timed_redis \<Rightarrow> 's \<times> database \<Rightarrow> history \<times> 's \<times> database" where
  "new_run tr st = ([(tr_clock tr (fst st), snd st)], st)"

subsection \<open>The invariant\<close>

text \<open>The tenant that the database holds under a key hash.\<close>

definition tenant_in :: "pylib \<Rightarrow> database \<Rightarrow> string \<Rightarrow> tenant \<Rightarrow> bool" where
  "tenant_in lib db h t \<longleftrightarrow> (\<exists>row eid. row \<in> set (db_tenants db) \<and> tr_api_key_hash row = h \<and> row_to_tenant lib eid row = Inr t)"

definition cache_recent :: "'s timed_redis \<Rightarrow> pylib \<Rightarrow> (tenant \<Rightarrow> pyval) \<Rightarrow> history \<times> 's \<times> database \<Rightarrow> bool" where
  "cache_recent tr lib dump = (\<lambda>(hist, s, db). (tr_clock tr s, db) \<in> set hist \<and>
     (\<forall>(\<tau>, db') \<in> set hist. \<tau> \<le> tr_clock tr s) \<and>
     (\<forall>h raw d. tr_view tr s (tenant_cache_key h) = Some (raw, d) \<longrightarrow>
        (\<exists>\<tau> db' t. (\<tau>, db') \<in> set hist \<and> d \<le> \<tau> + CACHE_TTL \<and> tenant_in lib db' h t \<and> raw = json_dumps lib (dump t))))"

lemma tenant_cache_key_inj: "tenant_cache_key h = tenant_cache_key h' \<longleftrightarrow> h = h'"
  by (simp add: tenant_cache_key_def)

lemma ttl_lawsD:
  assumes "ttl_laws tr"
  shows "rd_get (tr_redis tr) k s = (r, s') \<Longrightarrow> tr_clock tr s' = tr_clock tr s \<and> only_evicts tr s s' \<and>
      (\<forall>raw. r = Inr (Some raw) \<longrightarrow> (\<exists>d. tr_view tr s k = Some (raw, d) \<and> tr_clock tr s < d))"
    and "rd_set (tr_redis tr) k raw ttl s = (r1, s') \<Longrightarrow> tr_clock tr s' = tr_clock tr s \<and>
      (\<forall>k' e. tr_view tr s' k' = Some e \<longrightarrow> tr_view tr s k' = Some e \<or> k' = k \<and> e = (raw, tr_clock tr s + ttl))"
    and "rd_delete (tr_redis tr) k s = (r2, s') \<Longrightarrow> tr_clock tr s' = tr_clock tr s \<and> only_evicts tr s s'"
    and "tr_clock tr (tr_tick tr n s) = tr_clock tr s + int n \<and> only_evicts tr s (tr_tick tr n s)"
  using assms unfolding ttl_laws_def by blast+


lemma only_evictsD: "only_evicts tr s s' \<Longrightarrow> tr_view tr s' k = Some e \<Longrightarrow> tr_view tr s k = Some e"
  unfolding only_evicts_def by blast

subsection \<open>What one event does to the cache\<close>

text \<open>Every entry is an old one or the copy, fresh for \<open>CACHE_TTL\<close> seconds, of a tenant the database holds.\<close>

definition caches_current :: "'s timed_redis \<Rightarrow> pylib \<Rightarrow> (tenant \<Rightarrow> pyval) \<Rightarrow> 's \<Rightarrow> 's \<times> database \<Rightarrow> bool" where
  "caches_current tr lib dump s st \<longleftrightarrow> tr_clock tr s \<le> tr_clock tr (fst st) \<and>
     (\<forall>k e. tr_view tr (fst st) k = Some e \<longrightarrow> tr_view tr s k = Some e \<or>
        (\<exists>h t. k = tenant_cache_key h \<and> tenant_in lib (snd st) h t \<and>
           e = (json_dumps lib (dump t), tr_clock tr (fst st) + CACHE_TTL)))"

lemma evicts_caches_current:
  "tr_clock tr s \<le> tr_clock tr s' \<Longrightarrow> only_evicts tr s s' \<Longrightarrow> caches_current tr lib dump s (s', db)"
  by (simp add: caches_current_def only_evicts_def)

lemma first_tenant_in:
  assumes "first_tenant lib eid P db = (r, db')"
  shows "db_tenants db' = db_tenants db"
    and "r = Inr (Some t) \<Longrightarrow> \<exists>row \<in> set (db_tenants db). P row \<and> row_to_tenant lib eid row = Inr t"
proof -
  show "db_tenants db' = db_tenants db"
    using assms by (auto simp: first_tenant_def pool_run_def bindM_def liftM_def returnM_def
        split: if_splits list.splits option.splits)
  assume r: "r = Inr (Some t)"
  obtain row rows where "filter P (db_tenants db) = row # rows" "bindE (row_to_tenant lib eid row) (\<lambda>t. Inr (Some t)) = r"
    using assms r by (auto simp: first_tenant_def pool_run_def bindM_def liftM_def returnM_def
        split: if_splits list.splits option.splits)
  then have "filter P (db_tenants db) = row # rows" "row_to_tenant lib eid row = Inr t"
    using r by (cases "row_to_tenant lib eid row"; simp)+
  then show "\<exists>row \<in> set (db_tenants db). P row \<and> row_to_tenant lib eid row = Inr t"
    using filter_eq_ConsD [of P "db_tenants db" row rows] by force
qed

lemma db_lookup_caches_current:
  assumes laws: "ttl_laws tr" and run: "tenant_db_lookup (tr_redis tr) lib dump eid h (s, db) = (r, st)"
  shows "caches_current tr lib dump s st"
    and "r = Inr (Some t) \<Longrightarrow> tenant_in lib db h t \<and> tr_clock tr (fst st) = tr_clock tr s"
proof -
  obtain r1 db1 where first: "first_tenant lib eid (\<lambda>row. tr_api_key_hash row = h) db = (r1, db1)" by fastforce
  note rows = first_tenant_in(1) [OF first] and in_db = first_tenant_in(2) [OF first]
  have "caches_current tr lib dump s st \<and>
      (\<forall>t. r = Inr (Some t) \<longrightarrow> tenant_in lib db h t \<and> tr_clock tr (fst st) = tr_clock tr s)"
  proof (cases "\<exists>u. r1 = Inr (Some u)")
    case False
    then have "st = (s, db1)" "r = Inr None \<or> (\<exists>e. r = Inl e)"
      using run first by (auto simp: tenant_db_lookup_def bindM_def onR_def returnM_def split: sum.splits option.splits)
    then show ?thesis by (auto simp: caches_current_def)
  next
    case True
    then obtain u where u: "r1 = Inr (Some u)" by blast
    then have db: "tenant_in lib db h u" using in_db by (auto simp: tenant_in_def)
    then have db1: "tenant_in lib db1 h u" using rows by (simp add: tenant_in_def)
    obtain r2 s2 where set: "rd_set (tr_redis tr) (tenant_cache_key h) (json_dumps lib (dump u)) CACHE_TTL s = (r2, s2)"
      by fastforce
    have res: "st = (s2, db1)" "r = Inr (Some u)"
      using run first u set by (cases r2; auto simp: tenant_db_lookup_def bindM_def onR_def onL_def returnM_def
          thenM_def catchM_def set_json_def cache_set_def)+
    note eff = ttl_lawsD(2) [OF laws set]
    then have "caches_current tr lib dump s (s2, db1)" using db1 unfolding caches_current_def by fastforce
    with db res eff show ?thesis by simp
  qed
  then show "caches_current tr lib dump s st"
    and "r = Inr (Some t) \<Longrightarrow> tenant_in lib db h t \<and> tr_clock tr (fst st) = tr_clock tr s" by auto
qed

lemma caches_current_trans:
  assumes "tr_clock tr s1 = tr_clock tr s" "only_evicts tr s s1" "caches_current tr lib dump s1 st"
  shows "caches_current tr lib dump s st"
  using assms unfolding caches_current_def only_evicts_def by metis

text \<open>A lookup answers with a tenant the database holds now, or with the readable copy in the cache.\<close>

lemma lookup_caches_current:
  assumes laws: "ttl_laws tr" and run: "get_by_api_key_hash (tr_redis tr) lib dump load eid h (s, db) = (r, st)"
  shows "caches_current tr lib dump s st"
    and "r = Inr (Some t) \<Longrightarrow> tenant_in lib db h t \<or>
      (\<exists>raw d v. tr_view tr s (tenant_cache_key h) = Some (raw, d) \<and> tr_clock tr s < d \<and>
         json_loads lib raw = Inr v \<and> load v = Inr t)"
proof -
  obtain g s1 where get: "rd_get (tr_redis tr) (tenant_cache_key h) s = (g, s1)" by fastforce
  note got = ttl_lawsD(1) [OF laws get]
  consider "tenant_db_lookup (tr_redis tr) lib dump eid h (s1, db) = (r, st)"
    | "st = (s1, db)" "\<forall>t. r = Inr (Some t) \<longrightarrow>
        (\<exists>raw v. g = Inr (Some raw) \<and> json_loads lib raw = Inr v \<and> load v = Inr t)"
    using run get by (auto simp: get_by_api_key_hash_def get_json_def cache_get_def bindM_def onL_def returnM_def
        raiseM_def split: sum.splits option.splits if_splits)
  then show "caches_current tr lib dump s st"
    using got by (metis caches_current_trans db_lookup_caches_current(1) [OF laws] evicts_caches_current order_refl)
  assume r: "r = Inr (Some t)"
  consider "tenant_db_lookup (tr_redis tr) lib dump eid h (s1, db) = (r, st)"
    | raw v where "g = Inr (Some raw)" "json_loads lib raw = Inr v" "load v = Inr t"
    using run get r by (auto simp: get_by_api_key_hash_def get_json_def cache_get_def bindM_def onL_def returnM_def
        raiseM_def split: sum.splits option.splits if_splits)
  then show "tenant_in lib db h t \<or>
      (\<exists>raw d v. tr_view tr s (tenant_cache_key h) = Some (raw, d) \<and> tr_clock tr s < d \<and>
         json_loads lib raw = Inr v \<and> load v = Inr t)"
  proof cases
    case 1
    then show ?thesis using db_lookup_caches_current(2) [OF laws 1] r by blast
  next
    case 2
    then show ?thesis using got by blast
  qed
qed

lemma event_caches_current:
  assumes "ttl_laws tr" "run_tenant_event tr lib dump load e (s, db) = st"
  shows "caches_current tr lib dump s st"
proof (cases e)
  case (Lookup eid h)
  then show ?thesis using assms
    by (metis lookup_caches_current(1) run_tenant_event.simps(1) snd_conv surj_pair)
next
  case (SaveTenant t)
  then have "fst st = s" using assms(2) by (auto simp: tenant_save_def bindM_def thenM_def onR_def returnM_def split: prod.splits sum.splits)
  then show ?thesis by (simp add: caches_current_def)
next
  case (DeleteTenant now tid)
  then have "fst st = s" using assms(2) by (auto simp: tenant_delete_def onR_def split: prod.splits)
  then show ?thesis by (simp add: caches_current_def)
next
  case (Pass n)
  then show ?thesis using assms(2) ttl_lawsD(4) [OF assms(1), of n s] by (auto intro!: evicts_caches_current)
next
  case (UpdateTenant now t)
  obtain r1 db1 where upd: "pool_run (update_tenants now (tenant_to_row lib t)) db = (r1, db1)" by fastforce
  obtain r2 s2 where del: "rd_delete (tr_redis tr) (tenant_cache_key (t_api_key_hash t)) s = (r2, s2)" by fastforce
  have "st = (s, db1) \<or> st = (s2, db1)"
    using UpdateTenant assms(2) upd del by (cases r1; cases r2) (auto simp: tenant_update_def bindM_def thenM_def
        onR_def onL_def returnM_def cache_delete_def)
  then show ?thesis using ttl_lawsD(3) [OF assms(1) del] by (auto intro!: evicts_caches_current simp: only_evicts_def)
qed

subsection \<open>The invariant holds in every run\<close>

lemma cache_recent_new_run:
  "(\<forall>k. tr_view tr (fst st) k = None) \<Longrightarrow> cache_recent tr lib dump (new_run tr st)"
  by (cases st) (simp add: cache_recent_def new_run_def)

lemma caches_currentD:
  assumes "caches_current tr lib dump s (s', db')" "tr_view tr s' (tenant_cache_key h) = Some (raw, d)"
  shows "tr_view tr s (tenant_cache_key h) = Some (raw, d) \<or>
    (\<exists>t. tenant_in lib db' h t \<and> raw = json_dumps lib (dump t) \<and> d = tr_clock tr s' + CACHE_TTL)"
proof -
  have "tr_view tr s (tenant_cache_key h) = Some (raw, d) \<or>
      (\<exists>h' t. tenant_cache_key h = tenant_cache_key h' \<and> tenant_in lib db' h' t \<and>
         (raw, d) = (json_dumps lib (dump t), tr_clock tr s' + CACHE_TTL))"
    using assms unfolding caches_current_def fst_conv snd_conv by blast
  then show ?thesis by (auto simp: tenant_cache_key_inj)
qed

lemma cache_recent_step:
  assumes inv: "cache_recent tr lib dump (hist, s, db)" and step: "caches_current tr lib dump s (s', db')"
  shows "cache_recent tr lib dump (hist @ [(tr_clock tr s', db')], s', db')"
proof -
  have "\<exists>\<tau> db'' t. (\<tau>, db'') \<in> set (hist @ [(tr_clock tr s', db')]) \<and> d \<le> \<tau> + CACHE_TTL \<and>
      tenant_in lib db'' h t \<and> raw = json_dumps lib (dump t)"
    if entry: "tr_view tr s' (tenant_cache_key h) = Some (raw, d)" for h raw d
  proof -
    consider "tr_view tr s (tenant_cache_key h) = Some (raw, d)"
      | t where "tenant_in lib db' h t" "raw = json_dumps lib (dump t)" "d = tr_clock tr s' + CACHE_TTL"
      using caches_currentD [OF step entry] by blast
    then show ?thesis
    proof cases
      case 1
      then show ?thesis using inv by (fastforce simp: cache_recent_def)
    next
      case 2
      then show ?thesis by auto
    qed
  qed
  moreover have "\<tau> \<le> tr_clock tr s'" if "(\<tau>, db'') \<in> set hist" for \<tau> db''
    using inv step that by (fastforce simp: cache_recent_def caches_current_def)
  ultimately show ?thesis by (auto simp: cache_recent_def)
qed

lemma cache_recent_run:
  assumes "ttl_laws tr" "cache_recent tr lib dump (hist, s, db)"
  shows "cache_recent tr lib dump (tenant_run tr lib dump load es (hist, s, db))"
  using assms(2)
proof (induction es arbitrary: hist s db)
  case (Cons e es)
  obtain s' db' where e: "run_tenant_event tr lib dump load e (s, db) = (s', db')" by fastforce
  then have "cache_recent tr lib dump (hist @ [(tr_clock tr s', db')], s', db')"
    using cache_recent_step [OF Cons.prems] event_caches_current [OF assms(1)] by blast
  then show ?case using Cons.IH e by simp
qed simp

subsection \<open>Properties\<close>

text \<open>
  C19. The tenant that a lookup by API key returns is never older than the cache's time to live: starting from an
  empty cache, after any sequence of lookups, saves, updates, soft deletes and passing of time, it is the tenant
  that the database held under that key hash at a moment less than \<open>CACHE_TTL\<close> (300) seconds ago. So a
  soft delete, which leaves the cache alone, takes effect for every lookup at most 300 seconds later. (\<open>json\<close> and
  Pydantic are relied on for one thing: text written for a tenant, when it parses and validates, gives that tenant.)
\<close>

theorem cached_tenant_is_recent:
  assumes laws: "ttl_laws tr" and trip: "\<And>t v u. json_loads lib (json_dumps lib (dump t)) = Inr v \<Longrightarrow> load v = Inr u \<Longrightarrow> u = t"
    and empty: "\<And>k. tr_view tr s0 k = None"
    and run: "tenant_run tr lib dump load es (new_run tr (s0, db0)) = (hist, s, db)"
    and found: "get_by_api_key_hash (tr_redis tr) lib dump load eid h (s, db) = (Inr (Some t), st)"
  shows "\<exists>\<tau> db'. (\<tau>, db') \<in> set hist \<and> tr_clock tr s - 300 < \<tau> \<and> \<tau> \<le> tr_clock tr s \<and> tenant_in lib db' h t"
proof -
  have "cache_recent tr lib dump (new_run tr (s0, db0))" using empty by (simp add: cache_recent_new_run)
  then have inv: "cache_recent tr lib dump (hist, s, db)"
    using cache_recent_run [OF laws] run unfolding new_run_def by (metis fst_conv snd_conv)
  have now: "(tr_clock tr s, db) \<in> set hist" and past: "\<And>\<tau> db'. (\<tau>, db') \<in> set hist \<Longrightarrow> \<tau> \<le> tr_clock tr s"
    and entry: "\<And>raw d. tr_view tr s (tenant_cache_key h) = Some (raw, d) \<Longrightarrow> \<exists>\<tau> db' u. (\<tau>, db') \<in> set hist \<and>
      d \<le> \<tau> + CACHE_TTL \<and> tenant_in lib db' h u \<and> raw = json_dumps lib (dump u)"
    using inv unfolding cache_recent_def by auto
  consider "tenant_in lib db h t"
    | raw d v where "tr_view tr s (tenant_cache_key h) = Some (raw, d)" "tr_clock tr s < d"
        "json_loads lib raw = Inr v" "load v = Inr t"
    using lookup_caches_current(2) [OF laws found refl] by blast
  then show ?thesis
  proof cases
    case 1
    then show ?thesis using now by (intro exI [of _ "tr_clock tr s"] exI [of _ db]) simp
  next
    case 2
    then obtain \<tau> db' u where hist: "(\<tau>, db') \<in> set hist" and d: "d \<le> \<tau> + CACHE_TTL"
        and u: "tenant_in lib db' h u" "raw = json_dumps lib (dump u)"
      using entry by blast
    have "t = u" using trip [of u v t] 2(3,4) u(2) by simp
    then show ?thesis using 2(2) d hist past [OF hist] u(1)
      by (intro exI [of _ \<tau>] exI [of _ db']) (simp add: CACHE_TTL_def)
  qed
qed

definition timed_demo :: "((string \<times> string \<times> int) list \<times> int) timed_redis" where
  "timed_demo = \<lparr>tr_redis = \<lparr>
       rd_get = (\<lambda>k (es, now). (Inr (case map_of es k of Some (raw, d) \<Rightarrow> if now < d then Some raw else None
                                                      | None \<Rightarrow> None), (es, now))),
       rd_set = (\<lambda>k raw ttl (es, now). (Inr (), (AList.update k (raw, now + ttl) es, now))),
       rd_delete = (\<lambda>k (es, now). (Inr 1, (AList.delete k es, now))),
       rd_transaction = (\<lambda>_ s. (Inr (), s)), rd_lrange = (\<lambda>_ _ _ s. (Inr [], s))\<rparr>,
     tr_view = (\<lambda>(es, now) k. map_of es k), tr_clock = snd,
     tr_tick = (\<lambda>n (es, now). (es, now + int n))\<rparr>"

lemma timed_demo_laws: "ttl_laws timed_demo"
  by (auto simp: ttl_laws_def timed_demo_def only_evicts_def update_conv' delete_conv' split: option.splits if_splits)

lemma timed_demo_sel:
  "tr_clock timed_demo = snd" "tr_tick timed_demo n (es, now) = (es, now + int n)"
  "tr_view timed_demo (es, now) = map_of es"
  by (simp_all add: timed_demo_def)

definition cached_demo :: tenant where
  "cached_demo = \<lparr>ent_id = 3, created_at = 0, updated_at = 0, t_tenant_id = TenantId 1, t_name = ''acme'',
     t_api_key_hash = ''h'', t_plan = FREE, t_is_active = True, t_tokens_used_this_month = 0,
     t_total_tokens_used = 0, t_metadata = [(''a'', PNone)]\<rparr>"

theorem cached_tenant_is_recent_witness:
  "\<exists>\<tau> db'. (\<tau>, db') \<in> set (fst (tenant_run timed_demo
        (demo_lib\<lparr>json_dumps := \<lambda>v. if v = PNone then ''null'' else ''{}'',
           json_loads := \<lambda>s. Inr (if s = ''null'' then PNone else PDict [(''a'', PNone)])\<rparr>)
        (\<lambda>t. if t = cached_demo then PDict [] else PNone)
        (\<lambda>v. if v = PNone then Inl JSONDecodeError else Inr cached_demo)
        [Lookup 3 ''h'', DeleteTenant 9 (TenantId 1), Pass 100] (new_run timed_demo (([], 0), demo_db)))) \<and>
     100 - 300 < \<tau> \<and> \<tau> \<le> 100 \<and>
     tenant_in (demo_lib\<lparr>json_dumps := \<lambda>v. if v = PNone then ''null'' else ''{}'',
           json_loads := \<lambda>s. Inr (if s = ''null'' then PNone else PDict [(''a'', PNone)])\<rparr>) db' ''h'' cached_demo"
proof -
  let ?lib = "demo_lib\<lparr>json_dumps := \<lambda>v. if v = PNone then ''null'' else ''{}'',
    json_loads := \<lambda>s. Inr (if s = ''null'' then PNone else PDict [(''a'', PNone)])\<rparr>"
  let ?dump = "\<lambda>t. if t = cached_demo then PDict [] else PNone"
  let ?load = "\<lambda>v. if v = PNone then Inl JSONDecodeError else Inr cached_demo"
  let ?s = "[(tenant_cache_key ''h'', ''{}'', 300 :: int)]"
  have row: "row_to_tenant ?lib 3 (hd (db_tenants demo_db)) = Inr cached_demo"
    by (simp add: row_to_tenant_def TenantPlan_def load_metadata_def demo_db_def cached_demo_def)
  have look: "get_by_api_key_hash (tr_redis timed_demo) ?lib ?dump ?load 3 ''h'' (([], 0), demo_db) =
      (Inr (Some cached_demo), ((?s, 0), demo_db))"
    using row by (simp add: get_by_api_key_hash_def get_json_def cache_get_def tenant_db_lookup_def timed_demo_def
        first_tenant_def pool_run_def bindM_def onL_def onR_def returnM_def liftM_def thenM_def catchM_def
        set_json_def cache_set_def CACHE_TTL_def demo_db_def)
  obtain db2 where del: "tenant_delete 9 (TenantId 1) ((?s, 0 :: int), demo_db) = (Inr True, ((?s, 0), db2))"
    by (simp add: tenant_delete_def pool_run_def onR_def demo_db_def)
  have run: "tenant_run timed_demo ?lib ?dump ?load [Lookup 3 ''h'', DeleteTenant 9 (TenantId 1), Pass 100]
      (new_run timed_demo (([], 0), demo_db)) =
      ([(0, demo_db), (0, demo_db), (0, db2), (100, db2)], (?s, 100), db2)"
    using look del by (simp add: new_run_def timed_demo_sel)
  have found: "get_by_api_key_hash (tr_redis timed_demo) ?lib ?dump ?load 4 ''h'' ((?s, 100), db2) =
      (Inr (Some cached_demo), ((?s, 100), db2))"
    by (simp add: get_by_api_key_hash_def get_json_def cache_get_def timed_demo_def bindM_def onL_def returnM_def)
  have trip: "u = t" if "json_loads ?lib (json_dumps ?lib (?dump t)) = Inr v" "?load v = Inr u" for t v u
    using that by (auto split: if_splits)
  have "snd ((?s, 100 :: int)) = 100" "\<And>k. tr_view timed_demo (([], 0)) k = None" by (simp_all add: timed_demo_sel)
  with cached_tenant_is_recent [OF timed_demo_laws trip _ run found] show ?thesis
    unfolding run fst_conv timed_demo_sel(1) by simp
qed

end
