(* ===== verification/Spec2Isabelle.thy ===== *)
theory Spec2Isabelle
  imports
    Ingestion_Job Tenant Chunking Token_Service Context_Prompt Document_Repository Chunk_Repository
    Redis_Cache Chat_History Tenant_Repository Embedding_Service Process_Document Ingestion
    Vector_Search Chat_Service RAG_Chat Rate_Limiter Background_Worker Api Settings Container Lifecycle
    State_Parts Wiring Concurrent_Ingestion Arq_Queue Logging Server
    Interfaces Request_Log Concurrent_Chat Tenant_Staleness
begin

text \<open>
  A verification library for the multi-tenant backend for retrieval-augmented generation
  under \<open>src/app\<close>. Documents come in over HTTP, are checked for duplicates, stored and queued;
  a worker chunks them, embeds the chunks through a cache and stores the vectors; searches
  and chats embed the query, look up vectors, select context within a token budget, prompt
  a language model and keep a history per user. Around this stand tenants with quotas, a
  rate limiter, API keys, error handlers and request logging.

  \<^bold>\<open>How code becomes definitions.\<close> An \<open>async\<close> method is a function of type \<open>('s, exn, 'a) eff\<close>:
  from the state to a result or an exception, and the state. \<open>bindM\<close> sequences, \<open>catchM\<close> is
  \<open>try/except\<close>, \<open>raiseM\<close> is \<open>raise\<close>. Classes are records, enums are datatypes, dicts are association
  lists (or maps where order does not matter), JSON-like values are \<open>pyval\<close>, Python integers are
  \<open>int\<close>, UUIDs are 128-bit words, floats are reals. Calls with wrong arguments are modelled by
  \<open>py_bind_call\<close>, which gives the \<open>TypeError\<close> that Python gives. Clients of services and third-party
  libraries are parameter records (\<open>redis\<close>, \<open>qdrant\<close>, \<open>zset\<close>, \<open>database\<close> rows, \<open>tiktoken\<close>, \<open>pydantic\<close>, \<open>pylib\<close>,
  \<open>starlette\<close>, \<open>io\<close>); what the code relies on of them is a named predicate (\<open>kv_laws\<close>, \<open>list_laws\<close>,
  \<open>zset_laws\<close>, \<open>filter_law\<close>, \<open>store_laws\<close>, \<open>json_laws\<close>, \<open>starlette_laws\<close>, \<open>router_laws\<close>, \<open>merge_law\<close>, \<open>\<dots>\<close>), and each
  property that uses one has a witness on a concrete instance. Lua's random numbers are the same in every run of
  a script and its numbers are rendered with 14 digits (\<open>seeded_alike\<close>, \<open>renders_14_digits\<close>). Where the code relies on
  what is not true of all inputs, a property says of which it holds: texts whose shortened digests differ
  (\<open>digests_differ\<close>), windows cut between characters (\<open>cut_between_characters\<close>). Time and fresh UUIDs are arguments.

  \<^bold>\<open>Theories.\<close>
  \<^item> \<open>Prelude\<close>: the effect type, Python strings, slices, calls, shared lemmas. \<open>Exceptions\<close>:
    \<open>domain/exceptions\<close> and the class tree.
  \<^item> \<open>Value_Objects\<close>, \<open>Entities\<close>, \<open>Ingestion_Job\<close>, \<open>Tenant\<close>: \<open>domain/value_objects\<close> and \<open>domain/entities\<close>;
    round trip of identifiers, the job's state machine, quotas.
  \<^item> \<open>Chunking\<close>: \<open>domain/services\<close>; the loops are \<open>partial_function (option)\<close>, so that not returning is
    \<open>None\<close>: the token chunker always returns and covers the document, the character chunker
    returns under a condition and diverges on some inputs.
  \<^item> \<open>Token_Service\<close>, \<open>Context_Prompt\<close>: \<open>infrastructure/token\<close>, \<open>application/services\<close>; the locale
    \<open>token_counter\<close> says that counts do not depend on the cache of encodings.
  \<^item> \<open>Document_Repository\<close>, \<open>Chunk_Repository\<close>, \<open>Tenant_Repository\<close>, \<open>Redis_Cache\<close>, \<open>Chat_History\<close>:
    \<open>infrastructure/repositories\<close>, \<open>infrastructure/cache\<close>, \<open>infrastructure/db\<close>; the locale \<open>document_repository\<close>
    is a finite map of documents, interpreted on the in-memory and on the PostgreSQL
    repository; the locale \<open>chat_history\<close> is the contract that the chat use case relies on.
  \<^item> \<open>Embedding_Service\<close>, \<open>Chat_Service\<close>: \<open>infrastructure/llm\<close>; the locale \<open>embedding_cache\<close> makes
    batch embedding of a set of texts independent of which of them are cached.
  \<^item> \<open>Vector_Search\<close>, \<open>RAG_Chat\<close>, \<open>Ingestion\<close>, \<open>Process_Document\<close>: the vector repository, the four use
    cases with their DTOs, and the ARQ task.
  \<^item> \<open>Background_Worker\<close>: \<open>infrastructure/queue/worker.py\<close> as the interleavings of its atomic steps, with
    an invariant by rule induction.
  \<^item> \<open>Http\<close>, \<open>Rate_Limiter\<close>, \<open>Api\<close>: error handlers, keys, logging context, the limiter with its Lua
    script, schemas, routers, middleware stack, health check; the locale \<open>limiter\<close> is what the
    middleware relies on, interpreted on the Redis limiter.
  \<^item> \<open>Settings\<close>, \<open>Logging\<close>: \<open>core/config/settings.py\<close>, \<open>core/logging/setup.py\<close>.
  \<^item> \<open>Container\<close>, \<open>Lifecycle\<close>: \<open>container.py\<close> as the graph of its providers, with the constructors' parameters
    and which providers hand out awaitables; opening and closing of the clients.
  \<^item> \<open>State_Parts\<close>, \<open>Wiring\<close>: the use cases on their concrete components and one system state. The
    locale \<open>state_part\<close> gives the laws of a part of a state, interpreted on every field of the system;
    the locale \<open>query_invariant\<close> carries a predicate that the services preserve to searches and chats, and its
    extension \<open>database_invariant\<close> a predicate of the database that the repository preserves to every
    sequence of use cases.
  \<^item> \<open>Server\<close>: the application that \<open>main.py\<close> serves: the router on the wired system behind the middlewares, with
    streamed bodies; the locale \<open>served_invariant\<close> carries a predicate to every sequence of HTTP requests.
  \<^item> \<open>Request_Log\<close>: the lines that a request writes, those of the logging middleware, the limiter, the exception
    handlers and the endpoints, under the levels that \<open>Logging\<close> configures, and the served application with them.
  \<^item> \<open>Concurrent_Ingestion\<close>: the ingestion use case cut at its awaits, and all interleavings of requests.
  \<^item> \<open>Concurrent_Chat\<close>: the saves of concurrent chats, interleaved, on any history (in the locale \<open>chat_history\<close>).
  \<^item> \<open>Tenant_Staleness\<close>: the tenant repository in time, with deadlines on the cached entries.
  \<^item> \<open>Interfaces\<close>: the abstract base classes with their implementations, and every method call on what the container
    injects or returns, as signatures against which calls are bound.
  \<^item> \<open>Arq_Queue\<close>: the worker's settings, the tries of a task and the dead letter queue.
  \<^item> This theory: properties across components.

  \<^bold>\<open>What the lemmas show.\<close> Functional behaviour on every branch of the operations, error paths
  included; invariants of the entities, of the repositories and of the worker; round trips of
  identifiers, rows, messages and vectors through their encodings; equivalence of the limiter
  with a sliding window for requests that are not simultaneous, of batch embedding with embedding one by one, of the token loop
  with its windows; termination of the chunkers or its failure; isolation between tenants
  and users where the code has it; an invariant of the wired system over any sequence of use
  cases and failures, and of all interleavings of ingestions and of chats on one history; how old a
  cached tenant can be; that the container's wiring, the implementations of the interfaces and the calls
  between components are well typed; that the access log tells what the client got; over the whole served application, that requests without the key reach nothing, that
  searches are answered, and what HTTP requests can change. Where the code does not do what it means to do, a
  property says what it does instead (a pipeline that fails for every chunk, a task and an
  endpoint that call with wrong arguments, a cache that outlives a deletion, a search that is
  not scoped to a tenant, simultaneous requests that the limiter counts once, a \<open>stop\<close> that does not wait, a use case handed out as an awaitable, a
  shutdown that raises, failed jobs that reach no dead letter queue, a duplicate check that races).

  \<^bold>\<open>Bounds.\<close> The event stream generator takes a bound on the turns of its loop; two more than
  there are deltas is enough, which its property shows. No other definition uses fuel. The
  ancestor chain of a class is cut at depth 3, the depth of the class tree. Floats are
  reals: rounding, infinities and NaN are outside the model. Characters are 8-bit; the
  text functions that depend on Unicode classes cover this range.

  \<^bold>\<open>Not modelled.\<close> The empty base class of value objects; which lines of its list an endpoint logs, and the lines
  of the workers, of start and shutdown and of libraries; the cancellation of tasks, which is no \<open>Exception\<close> and which
  handlers do not catch; the pulling of a stream's deltas one by one from the provider, which has them all at
  once here; NUL characters in the error messages of a document; the construction of the libraries' clients; reading of the environment; the title, version and
  response descriptions of the FastAPI objects, which only feed its documentation; expiry of Redis keys
  but those of the limiter and of the tenant cache (the properties speak about the time before it);
  concurrency other than that of the background worker, of ingestion and of chats on one history, since each
  other request handler is one sequence of effects here.
\<close>

section \<open>Properties that span components\<close>

text \<open>
  What the store holds after a command, whether it succeeds or raises: after an upsert nothing but its points
  and points that were there, after any other command nothing but points that were there.
\<close>

definition store_laws :: "'s qdrant \<Rightarrow> ('s \<Rightarrow> (string \<times> real list \<times> dict) list) \<Rightarrow> bool" where
  "store_laws qd points \<longleftrightarrow>
     (\<forall>coll pts s. set (points (snd (qd_upsert qd coll pts s))) \<subseteq> set pts \<union> set (points s)) \<and>
     (\<forall>coll v k flt s. set (points (snd (qd_query_points qd coll v k flt s))) \<subseteq> set (points s)) \<and>
     (\<forall>coll ids s. set (points (snd (qd_delete_ids qd coll ids s))) \<subseteq> set (points s)) \<and>
     (\<forall>coll flt s. set (points (snd (qd_delete_filter qd coll flt s))) \<subseteq> set (points s))"

text \<open>
  The stores that the application's operations lead to from an empty one: the pipeline's upserts, of any chunks
  of any documents, searches and both deletions, in any order and with any outcome.
\<close>

inductive pipeline_store :: "'s qdrant \<Rightarrow> ('s \<Rightarrow> (string \<times> real list \<times> dict) list) \<Rightarrow> string \<Rightarrow> 's \<Rightarrow> bool"
  for qd points coll where
  created: "points s = [] \<Longrightarrow> pipeline_store qd points coll s"
| indexed: "pipeline_store qd points coll s \<Longrightarrow>
    pipeline_store qd points coll (snd (upsert_many qd coll (vector_entries doc chunks) s))"
| searched: "pipeline_store qd points coll s \<Longrightarrow>
    pipeline_store qd points coll (snd (vector_search qd pyd fresh coll e top_k filters tenant s))"
| chunk_deleted: "pipeline_store qd points coll s \<Longrightarrow> pipeline_store qd points coll (snd (vector_delete qd coll cid s))"
| document_deleted: "pipeline_store qd points coll s \<Longrightarrow>
    pipeline_store qd points coll (snd (vector_delete_by_document qd coll did s))"

lemma payload_has_no_tenant: "map_of (payload doc c) ''tenant_id'' = None"
  by (simp add: payload_def)

lemma upserted_entries:
  assumes "store_laws qd points"
    and "(i, vec, pl) \<in> set (points (snd (upsert_many qd coll (vector_entries doc chunks) s)))"
  shows "(\<exists>c. pl = payload doc c) \<or> (i, vec, pl) \<in> set (points s)"
proof (cases "vector_entries doc chunks = []")
  case True
  then show ?thesis using assms(2) by (simp add: upsert_many_def returnM_def)
next
  case False
  let ?pts = "map (\<lambda>(cid, e, meta). (ChunkId_str cid, ev_values e, meta)) (vector_entries doc chunks)"
  have "set (points (snd (qd_upsert qd coll ?pts s))) \<subseteq> set ?pts \<union> set (points s)"
    using assms(1) unfolding store_laws_def by blast
  moreover have "\<exists>c. meta = payload doc c" if "(cid, e, meta) \<in> set (vector_entries doc chunks)" for cid e meta
    using that by (auto simp: vector_entries_def map_filter_def split: option.splits)
  ultimately show ?thesis using assms(2) False by (fastforce simp: upsert_many_def)
qed

lemma snd_bind_return: "snd (bindM m (\<lambda>x. returnM (f x)) s) = snd (m s)"
  by (cases "m s"; cases "fst (m s)") (auto simp: bindM_def returnM_def)

lemma snd_bind_lift: "snd (bindM (liftM r) f s) = (case r of Inl e \<Rightarrow> s | Inr x \<Rightarrow> snd (f x s))"
  by (cases r) (auto simp: bindM_def liftM_def)

lemma other_operations_add_nothing:
  assumes "store_laws qd points"
  shows "set (points (snd (vector_search qd pyd fresh coll e top_k filters tenant s))) \<subseteq> set (points s)"
    and "set (points (snd (vector_delete qd coll cid s))) \<subseteq> set (points s)"
    and "set (points (snd (vector_delete_by_document qd coll did s))) \<subseteq> set (points s)"
proof -
  have laws: "\<forall>coll v k flt s. set (points (snd (qd_query_points qd coll v k flt s))) \<subseteq> set (points s)"
    "\<forall>coll ids s. set (points (snd (qd_delete_ids qd coll ids s))) \<subseteq> set (points s)"
    "\<forall>coll flt s. set (points (snd (qd_delete_filter qd coll flt s))) \<subseteq> set (points s)"
    using assms unfolding store_laws_def by simp_all
  show "set (points (snd (vector_search qd pyd fresh coll e top_k filters tenant s))) \<subseteq> set (points s)"
    unfolding vector_search_def snd_bind_lift snd_bind_return using laws(1) by (simp split: sum.split)
  show "set (points (snd (vector_delete qd coll cid s))) \<subseteq> set (points s)"
    unfolding vector_delete_def using laws(2) by simp
  show "set (points (snd (vector_delete_by_document qd coll did s))) \<subseteq> set (points s)"
    unfolding vector_delete_by_document_def thenM_def snd_bind_lift snd_bind_return using laws(3) by (simp split: sum.split)
qed

lemma pipeline_store_has_no_tenant:
  assumes laws: "store_laws qd points" and "pipeline_store qd points coll s"
  shows "\<forall>(i, vec, pl) \<in> set (points s). map_of pl ''tenant_id'' = None"
  using assms(2)
proof (induction rule: pipeline_store.induct)
  case (indexed s doc chunks)
  have "map_of pl ''tenant_id'' = None"
    if "(i, vec, pl) \<in> set (points (snd (upsert_many qd coll (vector_entries doc chunks) s)))" for i vec pl
    using upserted_entries [OF laws that] indexed.IH by (auto simp: payload_has_no_tenant)
  then show ?case by blast
next
  case (searched s pyd fresh e top_k filters tenant)
  then show ?case using other_operations_add_nothing(1) [OF laws] by blast
next
  case (chunk_deleted s cid)
  then show ?case using other_operations_add_nothing(2) [OF laws] by blast
next
  case (document_deleted s did)
  then show ?case using other_operations_add_nothing(3) [OF laws] by blast
qed simp

text \<open>
  C39. Stored vectors carry no tenant: however many documents the processing pipeline has indexed in a store that
  was empty, and whatever searches and deletions came between, a search that is scoped to a tenant returns nothing,
  because the payload that the pipeline stores has no \<open>tenant_id\<close>.
\<close>

theorem tenant_search_misses_pipeline_vectors:
  assumes laws: "filter_law qd points" "match_keeps qd" "store_laws qd points"
    and store: "pipeline_store qd points coll s"
    and run: "vector_search qd pyd fresh coll e top_k filters (Some tid) s = (Inr results, s')"
  shows "results = []"
proof (rule ccontr)
  assume "results \<noteq> []"
  then obtain r where "r \<in> set results" by (cases results) auto
  then obtain i vec pl where "(i, vec, pl) \<in> set (points s)" "map_of pl ''tenant_id'' = Some (PStr (TenantId_str tid))"
    using tenant_search_origin [OF laws(1,2) run] by fastforce
  with pipeline_store_has_no_tenant [OF laws(3) store] show False by fastforce
qed

text \<open>
  C40. Accepted settings keep the services live: whatever passes validation, the production key is not the sentinel,
  the token chunker returns on every document that can be encoded, and the rate limiter, on a healthy server,
  admits a client that has no request in the last minute, counting that request and no other.
\<close>

theorem accepted_settings_keep_services_live:
  assumes ok: "make_settings cfg = Inr cfg'" and enc: "encode content = Inr ids"
    and laws: "zset_laws zs zv" "seeded_alike zs zv r"
    and idle: "\<forall>(x, t) \<in> set (zv s (rate_key key)). t \<le> now - 60"
  shows "(st_debug cfg' \<or> st_api_key cfg' \<noteq> ''change-me-in-production'') \<and>
    (\<exists>cs. token_chunk encode decode content (ck_chunk_size (st_chunking cfg')) (ck_chunk_overlap (st_chunking cfg')) = Some (Inr cs)) \<and>
    (\<exists>s'. is_allowed zs (rl_requests_per_minute (st_rate_limit cfg')) now key s = (Inr True, s') \<and>
       map snd (zv s' (rate_key key)) = [now])"
proof -
  note st = make_settings_ok [OF ok]
  have "1 \<le> ck_chunk_size (st_chunking cfg)" using st(2) by simp
  note chunks = token_chunk_windows [where encode = encode and content = content, OF this enc]
  have "[] = filter (\<lambda>(x, sc). sc > now - 60) (zv s (rate_key key))"
    using idle by (intro sym [OF filter_False]) auto
  from is_allowed_step [OF laws this, of "rl_requests_per_minute (st_rate_limit cfg)"] st chunks show ?thesis
    by (auto simp: sentinel_def)
qed

definition demo_settings :: settings where
  "demo_settings = (default_settings (Some ''k'') ''sk'')\<lparr>st_chunking := \<lparr>ck_chunk_size = 100, ck_chunk_overlap = 512\<rparr>\<rparr>"

theorem accepted_settings_keep_services_live_witness:
  "(\<exists>cs. token_chunk (\<lambda>s. Inr (map of_char s)) (map char_of) ''abc'' (ck_chunk_size (st_chunking demo_settings))
     (ck_chunk_overlap (st_chunking demo_settings)) = Some (Inr cs)) \<and>
   (\<exists>s'. is_allowed demo_zset 60 1700000060 ''k'' (\<lambda>k. [(''old'', 1700000000)]) = (Inr True, s') \<and> length (s' ''rate:k'') = 1)"
proof -
  have "make_settings demo_settings = Inr demo_settings" and rpm: "rl_requests_per_minute (st_rate_limit demo_settings) = 60"
    by (simp_all add: make_settings_def demo_settings_def default_defs ChunkingSettings_def RateLimitSettings_def
        RAGSettings_def validate_secrets_def sentinel_def)
  from accepted_settings_keep_services_live [where encode = "\<lambda>s. Inr (map of_char s)" and decode = "map char_of" and content = "''abc''"
      and s = "\<lambda>k. [(''old'', 1700000000)]" and key = "''k''" and now = 1700000060, OF this(1) refl demo_zset_laws(1,2)]
  show ?thesis by (auto simp: rate_key_def rpm dest!: arg_cong [where f = length])
qed

text \<open>
  C11. Conversations are remembered: once an exchange is saved for a user, the next request of
  that user is prompted with the last five messages of the history, of which the question
  and the answer are the most recent.
\<close>

theorem exchange_is_remembered:
  assumes deps: "rg_save_message deps = save_message rd lib" "rg_get_history deps = get_history rd lib pyd"
    and user: "cq_user_id request = Some u" "cq_user_id later = Some u" "u \<noteq> []" "UserId_from_str u = Inr uid"
    and held: "redis_holds rd lib pyd lview S s uid ms"
    and storable: "ChatMessage USER (cq_message request) \<in> S" "answer \<in> S"
  shows "\<exists>s1 s2. save_exchange deps request answer s = (Inr (), s1) \<and>
    rag_history deps later s1 = (Inr (last_n 5 (ms @ [ChatMessage USER (cq_message request), answer])), s2)"
proof -
  obtain c cs where u: "u = c # cs" using user(3) by (cases u) auto
  obtain s1 s2 where "thenM (save_message rd lib uid (ChatMessage USER (cq_message request))) (save_message rd lib uid answer) s =
      (Inr (), s1)" "get_history rd lib pyd uid 5 s1 = (Inr (last_n 5 (ms @ [ChatMessage USER (cq_message request), answer])), s2)"
    using redis_history.recall_after_save [OF held storable, of 5] by auto
  then show ?thesis
    using deps user u by (auto simp: save_exchange_def rag_history_def bindM_def liftM_def)
qed

definition demo_memory :: "(string \<Rightarrow> string list) rag_deps" where
  "demo_memory = \<lparr>rg_search = (\<lambda>r s. (Inr \<lparr>sp_results = [], sp_total = 0, sp_query_tokens = 0\<rparr>, s)),
     rg_complete = (\<lambda>ms s. (Inl IndexError, s)), rg_stream = (\<lambda>ms s. (Inr ([], None), s)),
     rg_get_history = get_history demo_list_redis demo_chat_lib demo_chat_pydantic,
     rg_save_message = save_message demo_list_redis demo_chat_lib, rg_count = (\<lambda>t m s. (Inr 1, s)),
     rg_max_context_tokens = 20000, rg_score_threshold = 72 / 100\<rparr>"

theorem exchange_is_remembered_witness:
  "\<exists>s1 s2. save_exchange demo_memory \<lparr>cq_message = ''hi'', cq_conversation_id = None, cq_user_id = Some (uuid_str 1), cq_top_k = 5\<rparr>
      (ChatMessage ASSISTANT ''hello'') (\<lambda>k. []) = (Inr (), s1) \<and>
    rag_history demo_memory \<lparr>cq_message = ''more'', cq_conversation_id = None, cq_user_id = Some (uuid_str 1), cq_top_k = 5\<rparr> s1 =
      (Inr [ChatMessage USER ''hi'', ChatMessage ASSISTANT ''hello''], s2)"
proof -
  let ?S = "{ChatMessage USER ''hi'', ChatMessage ASSISTANT ''hello''}"
  have held: "redis_holds demo_list_redis demo_chat_lib demo_chat_pydantic (\<lambda>s. s) ?S (\<lambda>k. []) (UserId 1) []"
    by (simp add: redis_holds_def list_laws_def demo_list_redis_def pydantic_laws_def demo_chat_pydantic_def o_def
        json_laws_def demo_chat_lib_def message_json_def ChatMessage_def)
  have uid: "UserId_from_str (uuid_str 1) = Inr (UserId 1)" by (simp add: UserId_from_str_def)
  moreover have "uuid_str 1 \<noteq> []" by (simp add: uuid_str_def Let_def)
  ultimately show ?thesis
    using exchange_is_remembered [of demo_memory demo_list_redis demo_chat_lib demo_chat_pydantic
        "\<lparr>cq_message = ''hi'', cq_conversation_id = None, cq_user_id = Some (uuid_str 1), cq_top_k = 5\<rparr>" "uuid_str 1"
        "\<lparr>cq_message = ''more'', cq_conversation_id = None, cq_user_id = Some (uuid_str 1), cq_top_k = 5\<rparr>" "UserId 1"
        "\<lambda>s. s" ?S "\<lambda>k. []" "[]" "ChatMessage ASSISTANT ''hello''"] uid held
    by (simp add: demo_memory_def last_n_def)
qed

definition demo_embedded :: chunk where
  "demo_embedded = (demo_chunk 1 0)\<lparr>c_embedding := Some demo_query\<rparr>"

theorem tenant_search_misses_pipeline_vectors_witness:
  "\<exists>s1. upsert_many demo_qdrant ''documents'' (vector_entries demo_document [demo_embedded])
      (snd (upsert_many demo_qdrant ''documents'' (vector_entries demo_document [demo_embedded]) [])) = (Inr (), s1) \<and>
     length s1 = 2 \<and>
     vector_search demo_qdrant demo_pydantic of_nat ''documents'' demo_query 10 None (Some (TenantId 5)) s1 = (Inr [], s1)"
proof -
  let ?up = "upsert_many demo_qdrant ''documents'' (vector_entries demo_document [demo_embedded])"
  obtain s1 where s1: "?up (snd (?up [])) = (Inr (), s1)" "length s1 = 2"
    by (simp add: upsert_many_def vector_entries_def demo_embedded_def demo_qdrant_def map_filter_def)
  obtain rs where run: "vector_search demo_qdrant demo_pydantic of_nat ''documents'' demo_query 10 None (Some (TenantId 5)) s1 = (Inr rs, s1)"
    by (simp add: vector_search_def filter_conditions_def field_condition_def demo_qdrant_def bindM_def liftM_def returnM_def)
  have laws: "store_laws demo_qdrant (\<lambda>s. s)" by (auto simp: store_laws_def demo_qdrant_def)
  have "pipeline_store demo_qdrant (\<lambda>s. s) ''documents'' (snd (?up (snd (?up []))))"
    by (intro pipeline_store.intros) simp
  with s1(1) have "pipeline_store demo_qdrant (\<lambda>s. s) ''documents'' s1" by simp
  from tenant_search_misses_pipeline_vectors [OF demo_qdrant_laws laws this run] s1 run show ?thesis by auto
qed

end
